(* ===== verification/ZKA_Prelude.thy ===== *)
theory ZKA_Prelude
  imports Main "HOL-Library.Word"
begin

text \<open>
  Shared vocabulary of the development: the machine integers of
  \<^verbatim>\<open>NewKit/Defines.h\<close> as words, the flat byte-addressed memory every kernel pointer
  refers to, little-endian multi-byte access to it, the ways a kernel routine can fail to return
  (a bug check, an access through a null pointer, an access outside an array), and the generic
  lemmas on those that the component theories share.
\<close>

unbundle bit_operations_syntax

section \<open>Machine types\<close>

type_synonym u8 = "8 word"
type_synonym u16 = "16 word"
type_synonym u32 = "32 word"
type_synonym u64 = "64 word"

text \<open>Pointers are 64-bit; \<open>null\<close> is the null pointer.\<close>

type_synonym addr = "64 word"

abbreviation (input) null :: addr where
  "null \<equiv> 0"

text \<open>
  Rules on memory reads after writes, rules that relate little-endian byte lists to numbers, and
  rules that evaluate both on numerals are collected so that proofs can name them together.
\<close>

named_theorems mem_simps
named_theorems le_simps
named_theorems eval_simps

section \<open>Abnormal ends of a kernel routine\<close>

text \<open>
  The identifiers of \<^verbatim>\<open>enum RUNTIME_CHECK\<close> in \<^verbatim>\<open>NewKit/Stop.h\<close>.
\<close>

datatype RUNTIME_CHECK =
    RUNTIME_CHECK_FAILED
  | RUNTIME_CHECK_POINTER
  | RUNTIME_CHECK_EXPRESSION
  | RUNTIME_CHECK_FILE
  | RUNTIME_CHECK_IPC
  | RUNTIME_CHECK_TLS
  | RUNTIME_CHECK_HANDSHAKE
  | RUNTIME_CHECK_ACPI
  | RUNTIME_CHECK_INVALID_PRIVILEGE
  | RUNTIME_CHECK_PROCESS
  | RUNTIME_CHECK_BAD_BEHAVIOR
  | RUNTIME_CHECK_BOOTSTRAP
  | RUNTIME_CHECK_UNEXCPECTED
  | RUNTIME_CHECK_FILESYSTEM
  | RUNTIME_CHECK_VIRTUAL_OUT_OF_MEM
  | RUNTIME_CHECK_PAGE

text \<open>
  A routine that does not return normally either stops the machine through \<open>ke_stop\<close>, or performs
  an operation the C++ standard leaves undefined: an access through a null pointer, outside the
  bounds of an array, or to an object that was deleted, the overflow of a signed integer, or a division
  by zero.
\<close>

datatype abort =
    Stop RUNTIME_CHECK
  | NullAccess
  | OutOfBounds
  | DanglingAccess
  | SignedOverflow
  | DivisionByZero

section \<open>Sequencing\<close>

text \<open>
  Results of code that may not return (\<open>None\<close>) or abort (\<open>Inl\<close>), in sequence.
\<close>

definition ebind :: "(abort + 'a) option \<Rightarrow> ('a \<Rightarrow> (abort + 'b) option) \<Rightarrow> (abort + 'b) option" where
  "ebind x f = Option.bind x (\<lambda>r. case r of Inl e \<Rightarrow> Some (Inl e) | Inr a \<Rightarrow> f a)"

lemma ebind_simps [simp]:
  "ebind None f = None"
  "ebind (Some (Inl e)) f = Some (Inl e)"
  "ebind (Some (Inr a)) f = f a"
  by (simp_all add: ebind_def)

lemma ebind_mono [partial_function_mono]:
  assumes "mono_option B" and "\<And>y. mono_option (\<lambda>f. C y f)"
  shows "mono_option (\<lambda>f. ebind (B f) (\<lambda>y. C y f))"
  unfolding ebind_def
proof (rule bind_mono [OF assms(1)])
  fix r
  show "mono_option (\<lambda>f. case r of Inl e \<Rightarrow> Some (Inl e) | Inr a \<Rightarrow> C a f)"
    by (cases r) (simp_all add: assms(2) option.const_mono)
qed

lemma ebind_eq_Some:
  "ebind x f = Some r \<longleftrightarrow>
   (\<exists>e. x = Some (Inl e) \<and> r = Inl e) \<or> (\<exists>a. x = Some (Inr a) \<and> f a = Some r)"
  by (cases x; cases "the x") (auto simp: ebind_def)

section \<open>Little-endian byte lists\<close>

fun le_bytes :: "nat \<Rightarrow> nat \<Rightarrow> u8 list" where
  "le_bytes 0 x = []"
| "le_bytes (Suc n) x = of_nat (x mod 256) # le_bytes n (x div 256)"

lemma le_bytes_numeral [eval_simps]:
  "le_bytes (numeral n) x = of_nat (x mod 256) # le_bytes (pred_numeral n) (x div 256)"
  by (simp only: numeral_eq_Suc le_bytes.simps)

fun le_val :: "u8 list \<Rightarrow> nat" where
  "le_val [] = 0"
| "le_val (b # bs) = unat b + 256 * le_val bs"

lemma length_le_bytes [simp, le_simps]: "length (le_bytes n x) = n"
  by (induction n arbitrary: x) simp_all

lemma unat_u8_lt: "unat (b :: u8) < 256"
  using unsigned_less [of b] by simp

lemma unat_u64_lt: "unat (v :: u64) < 2 ^ 64"
  using unsigned_less [of v] by simp

lemma unat_u32_lt: "unat (v :: u32) < 2 ^ 32"
  using unsigned_less [of v] by simp

lemma unat_uminus_u64: "v \<noteq> 0 \<Longrightarrow> unat (- v) = 2 ^ 64 - unat (v :: u64)"
  using unat_sub_if' [of 0 v] by (simp add: unat_eq_0)

lemma unat_of_nat_u8 [simp]: "unat (of_nat x :: u8) = x mod 256"
  by (simp add: unat_of_nat)

lemma le_val_le_bytes [le_simps]: "le_val (le_bytes n x) = x mod 256 ^ n"
proof (induction n arbitrary: x)
  case 0
  show ?case by simp
next
  case (Suc n)
  have "le_val (le_bytes (Suc n) x) = x mod 256 + 256 * (x div 256 mod 256 ^ n)"
    by (simp add: Suc.IH)
  also have "\<dots> = x mod (256 * 256 ^ n)"
    by (simp add: mod_mult2_eq)
  finally show ?case by simp
qed

lemma le_bytes_le_val [le_simps]: "le_bytes (length bs) (le_val bs) = bs"
proof (induction bs)
  case Nil
  show ?case by simp
next
  case (Cons b bs)
  have "unat b mod 256 = unat b" and "unat b div 256 = 0"
    using unat_u8_lt [of b] by simp_all
  with Cons show ?case by simp
qed

lemma le_val_bound: "le_val bs < 256 ^ length bs"
proof (induction bs)
  case Nil
  show ?case by simp
next
  case (Cons b bs)
  define p :: nat where "p = 256 ^ length bs"
  have "unat b < 256" by (rule unat_u8_lt)
  moreover have "le_val bs < p" using Cons by (simp add: p_def)
  ultimately have "unat b + 256 * le_val bs < 256 * p" by linarith
  then show ?case by (simp add: p_def)
qed

lemma le_val_bound64: "length bs = 8 \<Longrightarrow> le_val bs < 2 ^ 64"
  using le_val_bound [of bs] by simp

lemma le_val_bound32: "length bs = 4 \<Longrightarrow> le_val bs < 2 ^ 32"
  using le_val_bound [of bs] by simp

section \<open>Flat memory\<close>

text \<open>
  Kernel memory maps every 64-bit address to a byte. Addresses wrap, as pointer arithmetic on
  \<open>UIntPtr\<close> does.
\<close>

type_synonym mem = "addr \<Rightarrow> u8"

primrec store_bytes :: "mem \<Rightarrow> addr \<Rightarrow> u8 list \<Rightarrow> mem" where
  "store_bytes m a [] = m"
| "store_bytes m a (b # bs) = store_bytes (m(a := b)) (a + 1) bs"

primrec load_bytes :: "mem \<Rightarrow> addr \<Rightarrow> nat \<Rightarrow> u8 list" where
  "load_bytes m a 0 = []"
| "load_bytes m a (Suc n) = m a # load_bytes m (a + 1) n"

lemma load_bytes_numeral [eval_simps]:
  "load_bytes m a (numeral n) = m a # load_bytes m (a + 1) (pred_numeral n)"
  by (simp only: numeral_eq_Suc load_bytes.simps)

definition load64 :: "mem \<Rightarrow> addr \<Rightarrow> u64" where
  "load64 m a = of_nat (le_val (load_bytes m a 8))"

definition store64 :: "mem \<Rightarrow> addr \<Rightarrow> u64 \<Rightarrow> mem" where
  "store64 m a v = store_bytes m a (le_bytes 8 (unat v))"

definition load32 :: "mem \<Rightarrow> addr \<Rightarrow> u32" where
  "load32 m a = of_nat (le_val (load_bytes m a 4))"

definition store32 :: "mem \<Rightarrow> addr \<Rightarrow> u32 \<Rightarrow> mem" where
  "store32 m a v = store_bytes m a (le_bytes 4 (unat v))"

definition load16 :: "mem \<Rightarrow> addr \<Rightarrow> u16" where
  "load16 m a = of_nat (le_val (load_bytes m a 2))"

definition store16 :: "mem \<Rightarrow> addr \<Rightarrow> u16 \<Rightarrow> mem" where
  "store16 m a v = store_bytes m a (le_bytes 2 (unat v))"

text \<open>
  The distance from \<open>a\<close> to \<open>x\<close> going upwards, wrapping at the end of the address space, decides
  whether a store of \<open>n\<close> bytes at \<open>a\<close> touches \<open>x\<close>.
\<close>

definition in_range :: "addr \<Rightarrow> addr \<Rightarrow> nat \<Rightarrow> bool" where
  "in_range x a n \<longleftrightarrow> unat (x - a) < n"

lemma unat_diff_Suc: "x \<noteq> (a :: addr) \<Longrightarrow> unat (x - a) = Suc (unat (x - (a + 1)))"
proof -
  assume "x \<noteq> a"
  then have "x - a \<noteq> 0" by simp
  then have "unat (x - a - 1) = unat (x - a) - 1" and "0 < unat (x - a)"
    by (simp_all add: unat_minus_one unat_gt_0)
  then have "unat (x - a) = Suc (unat (x - a - 1))" by linarith
  also have "x - a - 1 = x - (a + 1)" by simp
  finally show ?thesis .
qed

lemma store_bytes_apply [mem_simps]:
  "length bs \<le> 2 ^ 64 \<Longrightarrow>
   store_bytes m a bs x = (if in_range x a (length bs) then bs ! unat (x - a) else m x)"
proof (induction bs arbitrary: m a)
  case Nil
  show ?case by (simp add: in_range_def)
next
  case (Cons b bs)
  show ?case
  proof (cases "x = a")
    case True
    have "a - (a + 1) = - 1" by simp
    then have "unat (a - (a + 1)) = 2 ^ 64 - 1" by (simp add: unat_uminus_u64)
    with Cons.prems have "\<not> unat (a - (a + 1)) < length bs" by simp
    with Cons True show ?thesis by (simp add: in_range_def)
  next
    case False
    with Cons show ?thesis by (simp add: in_range_def unat_diff_Suc)
  qed
qed

lemma load_bytes_nth: "load_bytes m a n = map (\<lambda>i. m (a + of_nat i)) [0..<n]"
proof (induction n arbitrary: a)
  case 0
  show ?case by simp
next
  case (Suc n)
  have "map (\<lambda>i. m (a + of_nat i)) [0..<Suc n] = m a # map (\<lambda>i. m (a + 1 + of_nat i)) [0..<n]"
    by (simp add: map_upt_Suc add.assoc del: upt_Suc)
  with Suc show ?case by simp
qed

lemma length_load_bytes [simp]: "length (load_bytes m a n) = n"
  by (simp add: load_bytes_nth)

lemma nth_load_bytes [simp]: "i < n \<Longrightarrow> load_bytes m a n ! i = m (a + of_nat i)"
  by (simp add: load_bytes_nth)

lemma load_bytes_cong:
  "(\<And>i. i < n \<Longrightarrow> m (a + of_nat i) = m' (a + of_nat i)) \<Longrightarrow> load_bytes m a n = load_bytes m' a n"
  by (simp add: load_bytes_nth)

lemma unat_of_nat_addr: "i < 2 ^ 64 \<Longrightarrow> unat (of_nat i :: addr) = i"
  by (simp add: unat_of_nat)

lemma load_store_bytes_same [mem_simps]:
  "length bs \<le> 2 ^ 64 \<Longrightarrow> load_bytes (store_bytes m a bs) a (length bs) = bs"
  by (rule nth_equalityI) (simp_all add: store_bytes_apply in_range_def unat_of_nat_addr)

lemma of_nat_addr_inj:
  "i < 2 ^ 64 \<Longrightarrow> j < 2 ^ 64 \<Longrightarrow> (of_nat i :: addr) = of_nat j \<longleftrightarrow> i = j"
  by (metis unat_of_nat_addr)

lemma load_bytes_update:
  assumes "i < n" and "n \<le> 2 ^ 64"
  shows "load_bytes (m(a + of_nat i := b)) a n = (load_bytes m a n)[i := b]"
  using assms by (intro nth_equalityI) (auto simp: nth_list_update of_nat_addr_inj)

text \<open>Two byte ranges that share no address.\<close>

definition disjoint_ranges :: "addr \<Rightarrow> nat \<Rightarrow> addr \<Rightarrow> nat \<Rightarrow> bool" where
  "disjoint_ranges a n b k \<longleftrightarrow> n \<le> unat (b - a) \<and> k \<le> unat (a - b)"

lemma disjoint_ranges_sym: "disjoint_ranges a n b k = disjoint_ranges b k a n"
  by (auto simp: disjoint_ranges_def)

lemma disjoint_ranges_not_in:
  assumes "disjoint_ranges a n b k" and "i < n"
  shows "\<not> in_range (a + of_nat i) b k"
proof -
  define d where "d = unat (a - b)"
  have i64: "i < 2 ^ 64"
    using assms unat_u64_lt [of "b - a"] by (auto simp: disjoint_ranges_def)
  have k: "k \<le> d" and n: "n \<le> unat (b - a)"
    using assms by (simp_all add: disjoint_ranges_def d_def)
  have ba: "b - a = - (a - b)" by simp
  have "unat (a + of_nat i - b) = (d + i) mod 2 ^ 64"
  proof -
    have "a + of_nat i - b = (a - b) + of_nat i" by simp
    then show ?thesis using i64
      by (simp only: unat_word_ariths(1) d_def unat_of_nat_addr) simp
  qed
  moreover have "d + i < 2 ^ 64"
  proof (cases "a - b = 0")
    case True
    then have "unat (b - a) = 0" by simp
    with n assms(2) show ?thesis by simp
  next
    case False
    then have "unat (b - a) = 2 ^ 64 - d"
      unfolding ba d_def by (rule unat_uminus_u64)
    with n assms(2) show ?thesis by linarith
  qed
  ultimately show ?thesis using k by (simp add: in_range_def)
qed

lemma load_store_bytes_disjoint [mem_simps]:
  assumes "disjoint_ranges a n b (length bs)" and "length bs \<le> 2 ^ 64"
  shows "load_bytes (store_bytes m b bs) a n = load_bytes m a n"
  using assms by (intro load_bytes_cong) (simp add: store_bytes_apply disjoint_ranges_not_in)

lemma of_nat_unat_mod64: "(of_nat (unat (v :: u64) mod 256 ^ 8) :: u64) = v"
  using unat_u64_lt [of v] by simp

lemma of_nat_unat_mod32: "(of_nat (unat (v :: u32) mod 256 ^ 4) :: u32) = v"
  using unat_u32_lt [of v] by simp

lemma load64_store64_same [mem_simps]: "load64 (store64 m a v) a = v"
proof -
  have "load_bytes (store64 m a v) a 8 = le_bytes 8 (unat v)"
    using load_store_bytes_same [of "le_bytes 8 (unat v)" m a] by (simp add: store64_def)
  then show ?thesis
    by (simp only: load64_def le_val_le_bytes of_nat_unat_mod64)
qed

lemma load64_store64_other [mem_simps]:
  "disjoint_ranges a 8 b 8 \<Longrightarrow> load64 (store64 m b v) a = load64 m a"
  by (simp add: load64_def store64_def load_store_bytes_disjoint)

lemma load32_store32_same [mem_simps]: "load32 (store32 m a v) a = v"
proof -
  have "load_bytes (store32 m a v) a 4 = le_bytes 4 (unat v)"
    using load_store_bytes_same [of "le_bytes 4 (unat v)" m a] by (simp add: store32_def)
  then show ?thesis
    by (simp only: load32_def le_val_le_bytes of_nat_unat_mod32)
qed

lemma load16_store16_same [mem_simps]: "load16 (store16 m a v) a = v"
proof -
  have "load_bytes (store16 m a v) a 2 = le_bytes 2 (unat v)"
    using load_store_bytes_same [of "le_bytes 2 (unat v)" m a] by (simp add: store16_def)
  moreover have "unat v < 2 ^ 16" using unsigned_less [of v] by simp
  then have "(of_nat (unat v mod 256 ^ 2) :: u16) = v" by simp
  ultimately show ?thesis by (simp only: load16_def le_val_le_bytes)
qed

lemma store16_apply_other:
  "\<not> in_range x a 2 \<Longrightarrow> store16 m a v x = m x"
  by (simp add: store16_def store_bytes_apply)

text \<open>Reading depends on the bytes read only.\<close>

lemma load_frame:
  "(\<And>i. i < 2 \<Longrightarrow> m (a + of_nat i) = m' (a + of_nat i)) \<Longrightarrow> load16 m a = load16 m' a"
  "(\<And>i. i < 4 \<Longrightarrow> m (a + of_nat i) = m' (a + of_nat i)) \<Longrightarrow> load32 m a = load32 m' a"
  by (simp_all only: load16_def load32_def cong: load_bytes_cong)

lemma store64_apply_other:
  "\<not> in_range x a 8 \<Longrightarrow> store64 m a v x = m x"
  by (simp add: store64_def store_bytes_apply)

lemma store32_apply_other:
  "\<not> in_range x a 4 \<Longrightarrow> store32 m a v x = m x"
  by (simp add: store32_def store_bytes_apply)

text \<open>Offsets from a common base: within 32 bits they compare as numbers.\<close>

lemma in_range_off:
  assumes "a < 2 ^ 32" "b < 2 ^ 32" "n \<le> 2 ^ 32"
  shows "in_range (t + of_nat a) (t + of_nat b) n \<longleftrightarrow> b \<le> a \<and> a < b + n"
proof (cases "b \<le> a")
  case True
  then have "(t + of_nat a) - (t + of_nat b) = of_nat (a - b)" by (simp add: of_nat_diff)
  moreover have "unat (of_nat (a - b) :: addr) = a - b" using assms by (intro unat_of_nat_addr) simp
  ultimately show ?thesis using True by (simp add: in_range_def less_diff_conv2 add.commute)
next
  case False
  then have d: "(t + of_nat a) - (t + of_nat b) = - of_nat (b - a)" by (simp add: of_nat_diff)
  have u: "unat (of_nat (b - a) :: addr) = b - a" using assms by (intro unat_of_nat_addr) simp
  then have "(of_nat (b - a) :: addr) \<noteq> 0" using False by (metis unat_0 zero_less_diff not_le less_irrefl)
  then have "unat (- of_nat (b - a) :: addr) = 2 ^ 64 - (b - a)" using u by (simp add: unat_uminus_u64)
  then show ?thesis using False assms unfolding in_range_def d by simp
qed

lemma load32_store32_off:
  assumes "a < 2 ^ 31" "b < 2 ^ 31" "a + 4 \<le> b \<or> b + 4 \<le> a"
  shows "load32 (store32 m (t + of_nat b) v) (t + of_nat a) = load32 m (t + of_nat a)"
proof (rule load_frame(2))
  fix i :: nat
  assume "i < 4"
  then have "\<not> in_range (t + of_nat (a + i)) (t + of_nat b) 4" using assms by (subst in_range_off) auto
  then show "store32 m (t + of_nat b) v (t + of_nat a + of_nat i) = m (t + of_nat a + of_nat i)"
    by (simp add: store32_apply_other add.assoc)
qed

section \<open>Structures laid out in memory\<close>

text \<open>
  A structure of \<open>width\<close> bytes accessed field by field: writing a field and reading it back gives
  the value truncated to the field, writing one field keeps the others, reads depend on the bytes
  of the structure only, and writes touch no other byte. The page-table entry, the bitmap header
  and the heap information block are instances.
\<close>

locale field_layout =
  fixes getf :: "mem \<Rightarrow> addr \<Rightarrow> 'f \<Rightarrow> 'v"
    and setf :: "mem \<Rightarrow> addr \<Rightarrow> 'f \<Rightarrow> 'v \<Rightarrow> mem"
    and trunc :: "'f \<Rightarrow> 'v \<Rightarrow> 'v"
    and width :: nat
  assumes get_set: "getf (setf m a f v) a g = (if f = g then trunc f v else getf m a g)"
    and set_frame: "\<not> in_range x a width \<Longrightarrow> setf m a f v x = m x"
    and get_cong: "(\<And>i. i < width \<Longrightarrow> m (a + of_nat i) = m' (a + of_nat i)) \<Longrightarrow> getf m a f = getf m' a f"
begin

definition setfs :: "mem \<Rightarrow> addr \<Rightarrow> ('f \<times> 'v) list \<Rightarrow> mem" where
  "setfs m a fvs = fold (\<lambda>(f, v) m. setf m a f v) fvs m"

lemma setfs_Nil [simp]: "setfs m a [] = m"
  by (simp add: setfs_def)

lemma setfs_Cons [simp]: "setfs m a ((f, v) # fvs) = setfs (setf m a f v) a fvs"
  by (simp add: setfs_def)

lemma setfs_frame: "\<not> in_range x a width \<Longrightarrow> setfs m a fvs x = m x"
  by (induction fvs arbitrary: m) (auto simp: set_frame)

lemma get_setfs:
  "distinct (map fst fvs) \<Longrightarrow>
   getf (setfs m a fvs) a f = (case map_of fvs f of None \<Rightarrow> getf m a f | Some v \<Rightarrow> trunc f v)"
proof (induction fvs arbitrary: m)
  case Nil
  show ?case by simp
next
  case (Cons fv fvs)
  obtain g v where fv: "fv = (g, v)" by (cases fv)
  show ?case
  proof (cases "f = g")
    case True
    with Cons.prems fv have "map_of fvs f = None" by (simp add: map_of_eq_None_iff)
    with Cons True fv show ?thesis by (simp add: get_set)
  next
    case False
    with Cons fv show ?thesis by (simp add: get_set split: option.split)
  qed
qed

lemma get_unchanged:
  "(\<And>x. in_range x a width \<Longrightarrow> m' x = m x) \<Longrightarrow> width \<le> 2 ^ 64 \<Longrightarrow> getf m' a f = getf m a f"
  by (rule get_cong) (simp add: in_range_def unat_of_nat_addr)

lemma get_store_disjoint:
  assumes "disjoint_ranges a width b (length bs)" and "length bs \<le> 2 ^ 64"
  shows "getf (store_bytes m b bs) a f = getf m a f"
  using assms by (intro get_cong) (simp add: store_bytes_apply disjoint_ranges_not_in)

end

end
