(* ===== verification/Paging.thy ===== *)
theory Paging
  imports ZKA_Prelude
begin

text \<open>
  The AMD64 page mapper of \<^verbatim>\<open>dev/ZKAKit/HALKit/AMD64/HalPagingMgrAMD64.cc\<close>. Its state
  is the machine memory, the page-table base register \<open>CR3\<close> and the static
  \<open>ZKA_PAGE_STORE\<close> that remembers the last mapping. Page-table entries are 64-bit words of
  memory with the bit layout of \<open>ZKA_PTE\<close> (\<^verbatim>\<open>Paging.h\<close>). Flushing the TLB has no
  effect on this state.
\<close>

section \<open>State\<close>

record page_store =
  fPde :: addr
  fPte :: addr
  fVAddr :: addr
  fStoreOp :: bool

text \<open>
  The state of the memory manager: the flat memory, \<open>CR3\<close>, the page store, the start of the
  bitmap area (\<open>kKernelBitMpStart\<close>), the size of that area from the boot handover
  (\<open>f_BitMapSize\<close>), and whether the kernel was built with \<open>__DEBUG__\<close>, which decides if
  \<open>MUST_PASS\<close> stops the machine.
\<close>

record mm_state =
  memory :: mem
  cr3 :: u64
  pstore :: page_store
  kKernelBitMpStart :: addr
  f_BitMapSize :: u64
  debug_build :: bool

section \<open>Flags and page-table entries\<close>

definition kMMFlagsPresent :: u32 where "kMMFlagsPresent = 1"
definition kMMFlagsWr :: u32 where "kMMFlagsWr = 2"
definition kMMFlagsUser :: u32 where "kMMFlagsUser = 4"
definition kMMFlagsNX :: u32 where "kMMFlagsNX = 8"

lemmas mm_flags_defs = kMMFlagsPresent_def kMMFlagsWr_def kMMFlagsUser_def kMMFlagsNX_def

text \<open>The bit-fields of \<open>ZKA_PTE\<close> the mapper writes, by their bit position.\<close>

datatype pte_field = Present | Wr | User | ExecDisable

primrec pte_bit :: "pte_field \<Rightarrow> nat" where
  "pte_bit Present = 0"
| "pte_bit Wr = 1"
| "pte_bit User = 2"
| "pte_bit ExecDisable = 63"

definition set_pte_field :: "mem \<Rightarrow> addr \<Rightarrow> pte_field \<Rightarrow> bool \<Rightarrow> mem" where
  "set_pte_field m pte f v =
     store64 m pte (if v then set_bit (pte_bit f) (load64 m pte)
                    else unset_bit (pte_bit f) (load64 m pte))"

definition get_pte_field :: "mem \<Rightarrow> addr \<Rightarrow> pte_field \<Rightarrow> bool" where
  "get_pte_field m pte f = bit (load64 m pte) (pte_bit f)"

definition IsValidPage :: "mem \<Rightarrow> addr \<Rightarrow> bool" where
  "IsValidPage m pte \<longleftrightarrow> pte \<noteq> null \<and> get_pte_field m pte Present"

definition IsWRPage :: "mem \<Rightarrow> addr \<Rightarrow> bool" where
  "IsWRPage m pte \<longleftrightarrow> pte \<noteq> null \<and> get_pte_field m pte Wr"

definition IsUserPage :: "mem \<Rightarrow> addr \<Rightarrow> bool" where
  "IsUserPage m pte \<longleftrightarrow> pte \<noteq> null \<and> get_pte_field m pte User"

section \<open>Mapping\<close>

text \<open>
  The three \<open>if ... else if\<close> chains of \<open>mmi_map_page_table_entry\<close> on the memory that holds the
  entry.
\<close>

definition pte_apply_flag :: "u32 \<Rightarrow> u32 \<Rightarrow> pte_field \<Rightarrow> addr \<Rightarrow> mem \<Rightarrow> mem" where
  "pte_apply_flag flags msk f pte m =
     (if flags AND msk \<noteq> 0 then set_pte_field m pte f True
      else if flags AND NOT msk \<noteq> 0 then set_pte_field m pte f False
      else m)"

definition mmi_map_page_table_entry ::
    "addr \<Rightarrow> u32 \<Rightarrow> addr \<Rightarrow> addr \<Rightarrow> mm_state \<Rightarrow> mm_state \<times> u32" where
  "mmi_map_page_table_entry virtual_address flags pt_entry pd_entry st =
     (if pt_entry = null then (st, 1)
      else
        let m1 = set_pte_field (memory st) pt_entry Present True;
            m2 = pte_apply_flag flags kMMFlagsWr Wr pt_entry m1;
            m3 = pte_apply_flag flags kMMFlagsNX ExecDisable pt_entry m2;
            m4 = pte_apply_flag flags kMMFlagsUser User pt_entry m3
        in (st\<lparr>memory := m4,
               pstore := \<lparr>fPde = pd_entry, fPte = pt_entry, fVAddr = virtual_address,
                          fStoreOp = False\<rparr>\<rparr>, 0))"

text \<open>
  The table walk of \<open>mm_map_page\<close>. As in the code, each \<open>..._entry\<close> is the address of a table
  slot, not its contents, and the final array subscript is such an address. The walk yields the
  page-directory pointer and the page-table-entry pointer it loads.
\<close>

definition page_walk :: "u64 \<Rightarrow> mem \<Rightarrow> addr \<Rightarrow> addr \<times> addr" where
  "page_walk cr3v m virtual_address =
     (let cPmlIndexMask = 0x1FF;
          cPtIndexMask = 0xFFF;
          pml4_index = drop_bit 39 virtual_address AND cPmlIndexMask;
          pdpt_index = drop_bit 30 virtual_address AND cPmlIndexMask;
          pd_index = drop_bit 21 virtual_address AND cPmlIndexMask;
          pt_index = drop_bit 12 virtual_address AND cPmlIndexMask;
          cPmlEntrySize = 8;
          pml4_base = cr3v AND NOT cPtIndexMask;
          pml4_entry = pml4_base + pml4_index * cPmlEntrySize;
          pdpt_base = pml4_entry AND NOT cPtIndexMask;
          pdpt_entry = pdpt_base + pdpt_index * cPmlEntrySize;
          pd_base = pdpt_entry AND NOT cPtIndexMask;
          pd_entry = pd_base + pd_index * cPmlEntrySize;
          pt_base = pd_entry AND NOT cPtIndexMask;
          pt_entry = pt_base + pt_index * cPmlEntrySize
      in (pt_base, load64 m (pt_base + 8 * pt_entry)))"

definition mm_map_page :: "addr \<Rightarrow> u32 \<Rightarrow> mm_state \<Rightarrow> mm_state \<times> u32" where
  "mm_map_page virtual_address flags st =
     (if virtual_address = null \<or> flags = 0 then (st, 0)
      else
        let st1 = st\<lparr>pstore := (pstore st)\<lparr>fStoreOp := True\<rparr>\<rparr>
        in if fVAddr (pstore st1) = virtual_address
           then let st2 = st1\<lparr>pstore := (pstore st1)\<lparr>fStoreOp := False\<rparr>\<rparr>
                in mmi_map_page_table_entry (fVAddr (pstore st2)) flags
                     (fPte (pstore st2)) (fPde (pstore st2)) st2
           else let (pde_struct, pte) = page_walk (cr3 st1) (memory st1) virtual_address
                in mmi_map_page_table_entry virtual_address flags pte pde_struct st1)"

section \<open>What a mapping does to the entry\<close>

lemma load64_set_pte_field [simp]:
  "load64 (set_pte_field m pte f v) pte =
     (if v then set_bit (pte_bit f) (load64 m pte) else unset_bit (pte_bit f) (load64 m pte))"
  by (simp add: set_pte_field_def load64_store64_same)

lemma set_pte_field_other [simp]:
  "\<not> in_range x pte 8 \<Longrightarrow> set_pte_field m pte f v x = m x"
  by (simp add: set_pte_field_def store64_apply_other)

lemma pte_bit_lt [simp]: "pte_bit f < 64"
  by (cases f) simp_all

lemma pte_bit_inj [simp]: "pte_bit f = pte_bit g \<longleftrightarrow> f = g"
  by (cases f; cases g) simp_all

lemma get_set_pte_field [simp]:
  "get_pte_field (set_pte_field m pte f v) pte g = (if f = g then v else get_pte_field m pte g)"
  by (auto simp: get_pte_field_def bit_set_bit_iff bit_unset_bit_iff possible_bit_def)

lemma load64_cong:
  "(\<And>i. i < 8 \<Longrightarrow> m (a + of_nat i) = m' (a + of_nat i)) \<Longrightarrow> load64 m a = load64 m' a"
  unfolding load64_def by (metis load_bytes_cong)

interpretation pte: field_layout get_pte_field set_pte_field "\<lambda>f v. v" 8
proof unfold_locales
  fix m m' :: mem and a :: addr and f :: pte_field
  assume "\<And>i. i < 8 \<Longrightarrow> m (a + of_nat i) = m' (a + of_nat i)"
  then have "load64 m a = load64 m' a" by (rule load64_cong)
  then show "get_pte_field m a f = get_pte_field m' a f" by (simp add: get_pte_field_def)
qed simp_all

lemma pte_apply_flag_other [simp]:
  "\<not> in_range x pte 8 \<Longrightarrow> pte_apply_flag flags msk f pte m x = m x"
  by (simp add: pte_apply_flag_def)

lemma flags_rest_nonzero: "flags \<noteq> 0 \<Longrightarrow> (flags :: u32) AND msk = 0 \<Longrightarrow> flags AND NOT msk \<noteq> 0"
  by (auto simp: bit_eq_iff bit_and_iff bit_not_iff)

lemma get_pte_apply_flag [simp]:
  assumes "flags \<noteq> 0"
  shows "get_pte_field (pte_apply_flag flags msk f pte m) pte g =
         (if f = g then flags AND msk \<noteq> 0 else get_pte_field m pte g)"
  using flags_rest_nonzero [OF assms, of msk] by (auto simp: pte_apply_flag_def)

lemma mmi_map_page_table_entry_memory_other:
  assumes "\<not> in_range x pte 8"
  shows "memory (fst (mmi_map_page_table_entry va flags pte pde st)) x = memory st x"
  using assms by (simp add: mmi_map_page_table_entry_def Let_def)

lemma mmi_map_page_table_entry_frame [simp]:
  "cr3 (fst (mmi_map_page_table_entry va flags pte pde st)) = cr3 st"
  "kKernelBitMpStart (fst (mmi_map_page_table_entry va flags pte pde st)) = kKernelBitMpStart st"
  "f_BitMapSize (fst (mmi_map_page_table_entry va flags pte pde st)) = f_BitMapSize st"
  "debug_build (fst (mmi_map_page_table_entry va flags pte pde st)) = debug_build st"
  by (simp_all add: mmi_map_page_table_entry_def Let_def)

text \<open>The entry a call works on, and the frame of the whole mapper.\<close>

definition pte_of :: "mm_state \<Rightarrow> addr \<Rightarrow> addr" where
  "pte_of st va = (if fVAddr (pstore st) = va then fPte (pstore st)
                   else snd (page_walk (cr3 st) (memory st) va))"

lemma mm_map_page_frame [simp]:
  "cr3 (fst (mm_map_page va flags st)) = cr3 st"
  "kKernelBitMpStart (fst (mm_map_page va flags st)) = kKernelBitMpStart st"
  "f_BitMapSize (fst (mm_map_page va flags st)) = f_BitMapSize st"
  "debug_build (fst (mm_map_page va flags st)) = debug_build st"
  by (simp_all add: mm_map_page_def Let_def split: prod.splits)

lemma mm_map_page_memory_other:
  "\<not> in_range x (pte_of st va) 8 \<Longrightarrow> memory (fst (mm_map_page va flags st)) x = memory st x"
  by (auto simp: mm_map_page_def pte_of_def Let_def mmi_map_page_table_entry_memory_other
      split: prod.splits)

lemma mm_map_page_null_pte:
  "pte_of st va = null \<Longrightarrow> memory (fst (mm_map_page va flags st)) = memory st"
  by (auto simp: mm_map_page_def pte_of_def Let_def mmi_map_page_table_entry_def split: prod.splits)

section \<open>The walk never leaves the page of \<open>CR3\<close>\<close>

lemma page_base_absorb:
  assumes "idx AND 0x1FF = idx"
  shows "((base AND NOT 0xFFF) + idx * 8) AND NOT 0xFFF = (base AND NOT (0xFFF :: u64))"
proof -
  have m: "(0xFFF :: u64) = mask 12" "(0x1FF :: u64) = mask 9" by (simp_all add: mask_eq_exp_minus_1)
  have idx9: "bit idx n \<Longrightarrow> n < 9" for n
    using assms unfolding m by (metis bit_and_iff bit_mask_iff)
  have idx12: "\<not> bit idx (n - 3)" if "\<not> n < 12" for n
    using idx9 [of "n - 3"] that by linarith
  have "idx * 8 = push_bit 3 idx" by (simp add: push_bit_eq_mult)
  moreover have "(base AND NOT 0xFFF) + push_bit 3 idx = (base AND NOT 0xFFF) OR push_bit 3 idx"
    unfolding m
    by (rule disjunctive_add) (auto simp: bit_and_iff bit_not_iff bit_mask_iff bit_push_bit_iff dest: idx9)
  ultimately show ?thesis
    unfolding m by (auto intro!: bit_word_eqI
        simp: bit_and_iff bit_or_iff bit_not_iff bit_mask_iff bit_push_bit_iff idx12)
qed

lemma index_mask_idem: "(x AND 0x1FF) AND 0x1FF = x AND (0x1FF :: u64)"
  by (simp add: and.assoc)

lemma page_walk_eq:
  "page_walk c m va =
     (c AND NOT 0xFFF,
      load64 m ((c AND NOT 0xFFF) + 8 * ((c AND NOT 0xFFF) + (drop_bit 12 va AND 0x1FF) * 8)))"
  unfolding page_walk_def Let_def
  by (simp only: page_base_absorb [OF index_mask_idem])


section \<open>Properties\<close>

text \<open>
  Remark. When the walk finds an entry, \<open>mm_map_page\<close> returns 0, makes the entry present,
  and sets its write, user and no-execute bits exactly as the flags ask; the page store then
  remembers the address and its entry, and no memory outside the eight bytes of the entry changes.
\<close>

theorem mm_map_page_sets_entry:
  assumes "va \<noteq> null" and "flags \<noteq> 0" and "pte_of st va \<noteq> null"
    and "mm_map_page va flags st = (st', code)"
  shows "code = 0
    \<and> (\<forall>f. get_pte_field (memory st') (pte_of st va) f =
          (case f of Present \<Rightarrow> True
           | Wr \<Rightarrow> flags AND kMMFlagsWr \<noteq> 0
           | User \<Rightarrow> flags AND kMMFlagsUser \<noteq> 0
           | ExecDisable \<Rightarrow> flags AND kMMFlagsNX \<noteq> 0))
    \<and> pstore st' = \<lparr>fPde = fPde (pstore st'), fPte = pte_of st va, fVAddr = va, fStoreOp = False\<rparr>
    \<and> (\<forall>x. \<not> in_range x (pte_of st va) 8 \<longrightarrow> memory st' x = memory st x)"
  using assms
  by (auto simp: mm_map_page_def pte_of_def Let_def mmi_map_page_table_entry_def
      split: prod.splits pte_field.splits if_splits)

definition paging_example :: mm_state where
  "paging_example = \<lparr>memory = (\<lambda>_. 1), cr3 = 0x1000,
     pstore = \<lparr>fPde = 0, fPte = 0, fVAddr = 0, fStoreOp = False\<rparr>,
     kKernelBitMpStart = 0x100000, f_BitMapSize = 0x1000, debug_build = False\<rparr>"

theorem mm_map_page_sets_entry_witness:
  "get_pte_field (memory (fst (mm_map_page 0x200000 3 paging_example))) (pte_of paging_example 0x200000) Wr"
proof -
  have h: "pte_of paging_example 0x200000 \<noteq> null"
    by (simp add: pte_of_def paging_example_def page_walk_eq load64_def eval_simps)
  obtain st' code where r: "mm_map_page 0x200000 3 paging_example = (st', code)" by fastforce
  show ?thesis
    using mm_map_page_sets_entry [OF _ _ h r] by (simp add: r mm_flags_defs)
qed

text \<open>
  Remark. The walk of \<open>mm_map_page\<close> collapses: because every level uses the address of a slot
  instead of its contents, the page directory is always the page \<open>CR3\<close> points to, and the entry
  depends on bits 12 to 20 of the virtual address alone. Two addresses that agree on those bits
  share one entry, whatever their upper 43 bits.
\<close>

theorem page_walk_ignores_upper_levels:
  assumes "drop_bit 12 va AND 0x1FF = drop_bit 12 va' AND (0x1FF :: u64)"
  shows "page_walk c m va = page_walk c m va' \<and> fst (page_walk c m va) = c AND NOT 0xFFF"
  using assms by (simp add: page_walk_eq)

theorem page_walk_ignores_upper_levels_witness:
  "\<forall>m. page_walk 0x1000 m 0x203000 = page_walk 0x1000 m 0xFFFF800000003000"
proof
  fix m
  show "page_walk 0x1000 m 0x203000 = page_walk 0x1000 m 0xFFFF800000003000"
    using page_walk_ignores_upper_levels [of "0x203000" "0xFFFF800000003000" "0x1000" m] by simp
qed

text \<open>
  Remark. When no entry is found (the loaded pointer is null), \<open>mm_map_page\<close> returns 1 and
  leaves memory alone; on the path that walked the tables the page store is left marked as busy.
\<close>

theorem mm_map_page_missing_entry:
  assumes "va \<noteq> null" and "flags \<noteq> 0" and "pte_of st va = null"
  shows "snd (mm_map_page va flags st) = 1
       \<and> memory (fst (mm_map_page va flags st)) = memory st
       \<and> fStoreOp (pstore (fst (mm_map_page va flags st))) = (fVAddr (pstore st) \<noteq> va)"
  using assms
  by (auto simp: mm_map_page_def pte_of_def Let_def mmi_map_page_table_entry_def
      split: prod.splits if_splits)

theorem mm_map_page_missing_entry_witness:
  "fStoreOp (pstore (fst (mm_map_page 0x200000 3 (paging_example\<lparr>memory := (\<lambda>_. 0)\<rparr>))))"
proof -
  have h: "pte_of (paging_example\<lparr>memory := (\<lambda>_. 0)\<rparr>) 0x200000 = null"
    by (simp add: pte_of_def paging_example_def page_walk_eq load64_def eval_simps)
  show ?thesis
    using mm_map_page_missing_entry [OF _ _ h, of 3] by (simp add: paging_example_def)
qed

end
