(* ===== verification/Page_Memory.thy ===== *)
theory Page_Memory
  imports Paging
begin

text \<open>
  The physical page layer: the bitmap allocator of \<^verbatim>\<open>dev/ZKAKit/src/BitMapMgr.cc\<close>,
  the page manager of \<^verbatim>\<open>PageMgr.cc\<close> and the physical memory manager of
  \<^verbatim>\<open>Pmm.cc\<close>. A bitmap is a block of memory that starts with three 64-bit words:
  magic, size and use mark. \<open>FindBitMap\<close> is a loop over memory, so it is a
  \<^theory_text>\<open>partial_function (option)\<close>; \<open>None\<close> would be a search that never ends.
\<close>

section \<open>Bitmap headers\<close>

definition kPageSize :: u64 where "kPageSize = 0x100"

definition kBitMapMagic :: u64 where "kBitMapMagic = 0x10210"

text \<open>The indices \<open>kBitMapMagIdx\<close>, \<open>kBitMapSizeIdx\<close> and \<open>kBitMapUsedIdx\<close>.\<close>

datatype bitmap_idx = kBitMapMagIdx | kBitMapSizeIdx | kBitMapUsedIdx

primrec bitmap_off :: "bitmap_idx \<Rightarrow> u64" where
  "bitmap_off kBitMapMagIdx = 0"
| "bitmap_off kBitMapSizeIdx = 8"
| "bitmap_off kBitMapUsedIdx = 16"

definition get_bitmap :: "mem \<Rightarrow> addr \<Rightarrow> bitmap_idx \<Rightarrow> u64" where
  "get_bitmap m p i = load64 m (p + bitmap_off i)"

definition set_bitmap :: "mem \<Rightarrow> addr \<Rightarrow> bitmap_idx \<Rightarrow> u64 \<Rightarrow> mem" where
  "set_bitmap m p i v = store64 m (p + bitmap_off i) v"

lemma bitmap_off_disjoint:
  "i \<noteq> j \<Longrightarrow> disjoint_ranges (p + bitmap_off i) 8 (p + bitmap_off j) 8"
  by (cases i; cases j) (simp_all add: disjoint_ranges_def)

lemma add_of_nat_addr: "(p :: addr) + numeral n + of_nat i = p + of_nat (numeral n + i)"
  by simp

lemma load64_range_cong:
  assumes "\<And>i. i < w \<Longrightarrow> m (p + of_nat i) = m' (p + of_nat i)" and "o8 + 8 \<le> w"
  shows "load64 m (p + of_nat o8) = load64 m' (p + of_nat o8)"
proof (rule load64_cong)
  fix i :: nat
  assume "i < 8"
  with assms(1) [of "o8 + i"] assms(2)
  show "m (p + of_nat o8 + of_nat i) = m' (p + of_nat o8 + of_nat i)" by (simp add: add.assoc)
qed

lemma in_range_sub:
  assumes "in_range x (p + of_nat o8) n" and "o8 + n \<le> w" and "w \<le> 2 ^ 64"
  shows "in_range x p w"
proof -
  have "x - p = (x - (p + of_nat o8)) + of_nat o8" by simp
  then have "unat (x - p) = (unat (x - (p + of_nat o8)) + unat (of_nat o8 :: addr)) mod 2 ^ 64"
    using unat_word_ariths(1) [of "x - (p + of_nat o8)" "of_nat o8"] by simp
  also have "\<dots> = unat (x - (p + of_nat o8)) + o8"
    using assms by (simp add: in_range_def unat_of_nat_addr)
  finally show ?thesis using assms by (simp add: in_range_def)
qed

interpretation bm: field_layout get_bitmap set_bitmap "\<lambda>i v. v" 24
proof unfold_locales
  fix m :: mem and a :: addr and f g :: bitmap_idx and v
  show "get_bitmap (set_bitmap m a f v) a g = (if f = g then v else get_bitmap m a g)"
    by (simp add: get_bitmap_def set_bitmap_def load64_store64_same load64_store64_other
        bitmap_off_disjoint)
next
  fix x a :: addr and m :: mem and f :: bitmap_idx and v
  assume "\<not> in_range x a 24"
  then have "\<not> in_range x (a + bitmap_off f) 8"
    using in_range_sub [of x a "unat (bitmap_off f)" 8 24] by (cases f) auto
  then show "set_bitmap m a f v x = m x" by (simp add: set_bitmap_def store64_apply_other)
next
  fix m m' :: mem and a :: addr and f :: bitmap_idx
  assume "\<And>i. i < 24 \<Longrightarrow> m (a + of_nat i) = m' (a + of_nat i)"
  then show "get_bitmap m a f = get_bitmap m' a f"
    using load64_range_cong [of 24 m a m' "unat (bitmap_off f)"]
    by (cases f) (simp_all add: get_bitmap_def)
qed

section \<open>The bitmap allocator\<close>

definition IsBitMap :: "mem \<Rightarrow> addr \<Rightarrow> bool" where
  "IsBitMap m page_ptr =
     (if page_ptr = null then False
      else if get_bitmap m page_ptr kBitMapMagIdx = 0
              \<or> get_bitmap m page_ptr kBitMapMagIdx \<noteq> kBitMapMagic then False
      else True)"

definition FreeBitMap :: "mm_state \<Rightarrow> addr \<Rightarrow> mm_state \<times> bool" where
  "FreeBitMap st page_ptr =
     (if IsBitMap (memory st) page_ptr = False then (st, False)
      else let m1 = set_bitmap (memory st) page_ptr kBitMapMagIdx kBitMapMagic;
               m2 = set_bitmap m1 page_ptr kBitMapUsedIdx 0
           in (st\<lparr>memory := m2\<rparr>, True))"

definition MakeMMFlags :: "bool \<Rightarrow> bool \<Rightarrow> u32" where
  "MakeMMFlags wr user =
     (let flags = kMMFlagsPresent;
          flags = (if wr then flags OR kMMFlagsWr else flags);
          flags = (if user then flags OR kMMFlagsUser else flags)
      in flags)"

text \<open>The two ways \<open>FindBitMap\<close> hands out a block: reuse a free bitmap, or mark a new one.\<close>

definition bitmap_reuse :: "mm_state \<Rightarrow> addr \<Rightarrow> u64 \<Rightarrow> bool \<Rightarrow> bool \<Rightarrow> mm_state \<times> addr" where
  "bitmap_reuse st ptr_bit_set sz wr user =
     (let m1 = set_bitmap (memory st) ptr_bit_set kBitMapSizeIdx sz;
          m2 = set_bitmap m1 ptr_bit_set kBitMapUsedIdx 1;
          st1 = st\<lparr>memory := m2\<rparr>
      in (fst (mm_map_page ptr_bit_set (MakeMMFlags wr user) st1), ptr_bit_set))"

definition bitmap_mark :: "mm_state \<Rightarrow> addr \<Rightarrow> u64 \<Rightarrow> bool \<Rightarrow> bool \<Rightarrow> mm_state \<times> addr" where
  "bitmap_mark st ptr_bit_set sz wr user =
     (let m1 = set_bitmap (memory st) ptr_bit_set kBitMapMagIdx kBitMapMagic;
          m2 = set_bitmap m1 ptr_bit_set kBitMapSizeIdx sz;
          m3 = set_bitmap m2 ptr_bit_set kBitMapUsedIdx 1;
          st1 = st\<lparr>memory := m3\<rparr>
      in (fst (mm_map_page ptr_bit_set (MakeMMFlags wr user) st1), ptr_bit_set))"

text \<open>
  The search loop. A header with the magic, a recorded size of at most \<open>sz\<close> and no use mark is
  reused; a header without the magic makes the loop mark \<open>base_ptr\<close> itself; any other header is
  skipped: the next candidate is \<open>base_ptr\<close> plus the recorded size, and the search gives up as
  soon as \<open>base_ptr\<close> lies below the candidate plus the size of the bitmap area.
\<close>

partial_function (option) FindBitMap_loop ::
    "mm_state \<Rightarrow> addr \<Rightarrow> u64 \<Rightarrow> bool \<Rightarrow> bool \<Rightarrow> addr \<Rightarrow> (mm_state \<times> addr) option" where
  "FindBitMap_loop st base_ptr sz wr user base =
     (if base \<noteq> null \<and> sz \<noteq> 0 then
        (let m = memory st
         in if get_bitmap m base kBitMapMagIdx = kBitMapMagic
               \<and> get_bitmap m base kBitMapSizeIdx \<le> sz
               \<and> get_bitmap m base kBitMapUsedIdx = 0
            then Some (bitmap_reuse st base sz wr user)
            else if get_bitmap m base kBitMapMagIdx \<noteq> kBitMapMagic
            then Some (bitmap_mark st base_ptr sz wr user)
            else (let base' = base_ptr +
                        (if get_bitmap m base kBitMapMagIdx \<noteq> kBitMapMagic then sz
                         else get_bitmap m base kBitMapSizeIdx)
                  in if base_ptr < base' + f_BitMapSize st then Some (st, null)
                     else FindBitMap_loop st base_ptr sz wr user base'))
      else Some (st, null))"

definition FindBitMap :: "mm_state \<Rightarrow> addr \<Rightarrow> u64 \<Rightarrow> bool \<Rightarrow> bool \<Rightarrow> (mm_state \<times> addr) option" where
  "FindBitMap st base_ptr sz wr user =
     FindBitMap_loop st base_ptr sz wr user (base_ptr + kPageSize)"

definition mm_is_bitmap :: "mm_state \<Rightarrow> addr \<Rightarrow> bool" where
  "mm_is_bitmap st ptr = IsBitMap (memory st) ptr"

definition mm_alloc_bitmap ::
    "bool \<Rightarrow> bool \<Rightarrow> u64 \<Rightarrow> bool \<Rightarrow> mm_state \<Rightarrow> (mm_state \<times> addr) option" where
  "mm_alloc_bitmap wr user sz is_page st = FindBitMap st (kKernelBitMpStart st) sz wr user"

definition mm_free_bitmap :: "mm_state \<Rightarrow> addr \<Rightarrow> mm_state \<times> bool" where
  "mm_free_bitmap st page_ptr =
     (if page_ptr = null then (st, False) else FreeBitMap st page_ptr)"

section \<open>The page manager\<close>

record PTEWrapper =
  fRw :: bool
  fUser :: bool
  fExecDisable :: bool
  fVirtAddr :: addr
  fCache :: bool
  fShareable :: bool
  fWt :: bool
  fPresent :: bool
  fAccessed :: bool

definition PTEWrapper_new :: "bool \<Rightarrow> bool \<Rightarrow> bool \<Rightarrow> addr \<Rightarrow> PTEWrapper" where
  "PTEWrapper_new Rw Usr NoExec VirtAddr =
     \<lparr>fRw = Rw, fUser = Usr, fExecDisable = NoExec, fVirtAddr = VirtAddr,
      fCache = False, fShareable = False, fWt = False, fPresent = True, fAccessed = False\<rparr>"

definition Reclaim :: "PTEWrapper \<Rightarrow> PTEWrapper \<times> bool" where
  "Reclaim w = (if \<not> fPresent w then (w\<lparr>fPresent := True\<rparr>, True) else (w, False))"

definition PageMgr_Request ::
    "bool \<Rightarrow> bool \<Rightarrow> bool \<Rightarrow> u64 \<Rightarrow> mm_state \<Rightarrow> (mm_state \<times> PTEWrapper) option" where
  "PageMgr_Request Rw Usr NoExec Sz st =
     (case mm_alloc_bitmap Rw Usr Sz False st of
        None \<Rightarrow> None
      | Some (st', ptr) \<Rightarrow> Some (st', PTEWrapper_new Rw Usr NoExec ptr))"

definition PageMgr_Free :: "mm_state \<Rightarrow> PTEWrapper \<Rightarrow> mm_state \<times> bool" where
  "PageMgr_Free st wrapper =
     (let (st', ok) = mm_free_bitmap st (fVirtAddr wrapper)
      in if \<not> ok then (st', False) else (st', True))"

definition NoExecute_set :: "bool \<Rightarrow> PTEWrapper \<Rightarrow> PTEWrapper" where
  "NoExecute_set enable w = w\<lparr>fExecDisable := enable\<rparr>"

section \<open>The physical memory manager\<close>

text \<open>
  A \<open>Ref<PTEWrapper>\<close> is \<open>None\<close> when it holds the null pointer; the operations update the
  wrapper it refers to. \<open>RequestPage\<close> passes \<open>user\<close> and \<open>readWrite\<close> in the order of the code.
\<close>

definition RequestPage :: "bool \<Rightarrow> bool \<Rightarrow> mm_state \<Rightarrow> (mm_state \<times> PTEWrapper option) option" where
  "RequestPage user readWrite st =
     (case PageMgr_Request user readWrite False kPageSize st of
        None \<Rightarrow> None
      | Some (st', pt) \<Rightarrow> if fPresent pt then Some (st', None) else Some (st', Some pt))"

definition FreePage :: "PTEWrapper option \<Rightarrow> PTEWrapper option \<times> bool" where
  "FreePage PageRef =
     (case PageRef of None \<Rightarrow> (None, False) | Some w \<Rightarrow> (Some (w\<lparr>fPresent := False\<rparr>), True))"

definition TogglePresent :: "PTEWrapper option \<Rightarrow> bool \<Rightarrow> PTEWrapper option \<times> bool" where
  "TogglePresent PageRef Enable =
     (case PageRef of None \<Rightarrow> (None, False) | Some w \<Rightarrow> (Some (w\<lparr>fPresent := Enable\<rparr>), True))"

definition ToggleUser :: "PTEWrapper option \<Rightarrow> bool \<Rightarrow> PTEWrapper option \<times> bool" where
  "ToggleUser PageRef Enable =
     (case PageRef of None \<Rightarrow> (None, False) | Some w \<Rightarrow> (Some (w\<lparr>fRw := Enable\<rparr>), True))"

definition ToggleRw :: "PTEWrapper option \<Rightarrow> bool \<Rightarrow> PTEWrapper option \<times> bool" where
  "ToggleRw PageRef Enable =
     (case PageRef of None \<Rightarrow> (None, False) | Some w \<Rightarrow> (Some (w\<lparr>fRw := Enable\<rparr>), True))"

definition ToggleShare :: "PTEWrapper option \<Rightarrow> bool \<Rightarrow> PTEWrapper option \<times> bool" where
  "ToggleShare PageRef Enable =
     (case PageRef of None \<Rightarrow> (None, False) | Some w \<Rightarrow> (Some (w\<lparr>fShareable := Enable\<rparr>), True))"


section \<open>Headers after an allocation and a release\<close>

lemma IsBitMap_iff: "IsBitMap m p \<longleftrightarrow> p \<noteq> null \<and> get_bitmap m p kBitMapMagIdx = kBitMapMagic"
  by (simp add: IsBitMap_def kBitMapMagic_def)

lemma bitmap_reuse_snd [simp]: "snd (bitmap_reuse st p sz wr user) = p"
  by (simp add: bitmap_reuse_def Let_def)

lemma bitmap_mark_snd [simp]: "snd (bitmap_mark st p sz wr user) = p"
  by (simp add: bitmap_mark_def Let_def)

lemma bitmap_mark_frame [simp]:
  "cr3 (fst (bitmap_mark st p sz wr user)) = cr3 st"
  "kKernelBitMpStart (fst (bitmap_mark st p sz wr user)) = kKernelBitMpStart st"
  "f_BitMapSize (fst (bitmap_mark st p sz wr user)) = f_BitMapSize st"
  "debug_build (fst (bitmap_mark st p sz wr user)) = debug_build st"
  by (simp_all add: bitmap_mark_def Let_def)

text \<open>The memory a fresh mark writes before the page is mapped.\<close>

definition marked :: "mem \<Rightarrow> addr \<Rightarrow> u64 \<Rightarrow> mem" where
  "marked m p sz = bm.setfs m p
     [(kBitMapMagIdx, kBitMapMagic), (kBitMapSizeIdx, sz), (kBitMapUsedIdx, 1)]"

lemma bitmap_mark_eq:
  "bitmap_mark st p sz wr user =
     (fst (mm_map_page p (MakeMMFlags wr user) (st\<lparr>memory := marked (memory st) p sz\<rparr>)), p)"
  by (simp add: bitmap_mark_def marked_def Let_def)

lemma get_marked:
  "get_bitmap (marked m p sz) p i =
     (case i of kBitMapMagIdx \<Rightarrow> kBitMapMagic | kBitMapSizeIdx \<Rightarrow> sz | kBitMapUsedIdx \<Rightarrow> 1)"
  unfolding marked_def by (subst bm.get_setfs) (cases i; simp)+

lemma marked_frame: "\<not> in_range x p 24 \<Longrightarrow> marked m p sz x = m x"
  unfolding marked_def by (rule bm.setfs_frame)

lemma get_marked_other:
  "disjoint_ranges q 24 p 24 \<Longrightarrow> get_bitmap (marked m p sz) q i = get_bitmap m q i"
  by (rule bm.get_cong) (simp add: marked_frame disjoint_ranges_not_in)

lemma load64_marked_other:
  "disjoint_ranges a 8 p 24 \<Longrightarrow> load64 (marked m p sz) a = load64 m a"
  by (rule load64_cong) (simp add: marked_frame disjoint_ranges_not_in)

lemma MakeMMFlags_nonzero [simp]: "MakeMMFlags wr user \<noteq> 0"
  by (cases wr; cases user) (simp_all add: MakeMMFlags_def mm_flags_defs)

text \<open>A mapping whose entry lies elsewhere (or is missing) does not disturb a header.\<close>

definition pte_clear :: "mm_state \<Rightarrow> addr \<Rightarrow> addr \<Rightarrow> nat \<Rightarrow> bool" where
  "pte_clear st va p w \<longleftrightarrow> pte_of st va = null \<or> disjoint_ranges p w (pte_of st va) 8"

lemma mm_map_page_keeps:
  assumes "pte_clear st va p w" and "i < w"
  shows "memory (fst (mm_map_page va flags st)) (p + of_nat i) = memory st (p + of_nat i)"
  using assms
  by (auto simp: pte_clear_def mm_map_page_null_pte mm_map_page_memory_other disjoint_ranges_not_in)

lemma mm_map_page_keeps_bitmap:
  "pte_clear st va p 24 \<Longrightarrow>
   get_bitmap (memory (fst (mm_map_page va flags st))) p i = get_bitmap (memory st) p i"
  by (rule bm.get_cong) (rule mm_map_page_keeps)

section \<open>The search\<close>

lemma FindBitMap_fresh:
  assumes "sz \<noteq> 0" and "base_ptr + kPageSize \<noteq> null"
    and "get_bitmap (memory st) (base_ptr + kPageSize) kBitMapMagIdx \<noteq> kBitMapMagic"
  shows "FindBitMap st base_ptr sz wr user = Some (bitmap_mark st base_ptr sz wr user)"
  unfolding FindBitMap_def using assms by (subst FindBitMap_loop.simps) (simp add: Let_def)

lemma FindBitMap_reuse:
  assumes "sz \<noteq> 0" and "base_ptr + kPageSize \<noteq> null"
    and "get_bitmap (memory st) (base_ptr + kPageSize) kBitMapMagIdx = kBitMapMagic"
    and "get_bitmap (memory st) (base_ptr + kPageSize) kBitMapSizeIdx \<le> sz"
    and "get_bitmap (memory st) (base_ptr + kPageSize) kBitMapUsedIdx = 0"
  shows "FindBitMap st base_ptr sz wr user =
         Some (bitmap_reuse st (base_ptr + kPageSize) sz wr user)"
  unfolding FindBitMap_def using assms by (subst FindBitMap_loop.simps) (simp add: Let_def)

lemma FindBitMap_full:
  assumes "get_bitmap (memory st) (base_ptr + kPageSize) kBitMapMagIdx = kBitMapMagic"
    and "\<not> (get_bitmap (memory st) (base_ptr + kPageSize) kBitMapSizeIdx \<le> sz
            \<and> get_bitmap (memory st) (base_ptr + kPageSize) kBitMapUsedIdx = 0)"
    and "base_ptr < base_ptr + get_bitmap (memory st) (base_ptr + kPageSize) kBitMapSizeIdx
                    + f_BitMapSize st"
  shows "FindBitMap st base_ptr sz wr user = Some (st, null)"
  unfolding FindBitMap_def using assms by (subst FindBitMap_loop.simps) (auto simp: Let_def)


text \<open>Every search that returns did one of three things.\<close>

definition bitmap_outcome ::
    "mm_state \<Rightarrow> addr \<Rightarrow> u64 \<Rightarrow> bool \<Rightarrow> bool \<Rightarrow> mm_state \<times> addr \<Rightarrow> bool" where
  "bitmap_outcome st base_ptr sz wr user r \<longleftrightarrow>
     r = (st, null)
     \<or> (sz \<noteq> 0 \<and> r = bitmap_mark st base_ptr sz wr user)
     \<or> (\<exists>q. q \<noteq> null \<and> sz \<noteq> 0 \<and> IsBitMap (memory st) q
            \<and> get_bitmap (memory st) q kBitMapSizeIdx \<le> sz
            \<and> get_bitmap (memory st) q kBitMapUsedIdx = 0
            \<and> r = bitmap_reuse st q sz wr user)"

lemma bitmap_outcome_intros:
  "bitmap_outcome st base_ptr sz wr user (st, null)"
  "sz \<noteq> 0 \<Longrightarrow> bitmap_outcome st base_ptr sz wr user (bitmap_mark st base_ptr sz wr user)"
  "q \<noteq> null \<Longrightarrow> sz \<noteq> 0 \<Longrightarrow> get_bitmap (memory st) q kBitMapMagIdx = kBitMapMagic \<Longrightarrow>
   get_bitmap (memory st) q kBitMapSizeIdx \<le> sz \<Longrightarrow> get_bitmap (memory st) q kBitMapUsedIdx = 0 \<Longrightarrow>
   bitmap_outcome st base_ptr sz wr user (bitmap_reuse st q sz wr user)"
  by (auto simp: bitmap_outcome_def IsBitMap_iff)

lemma FindBitMap_loop_outcome:
  assumes "FindBitMap_loop st base_ptr sz wr user base = Some r"
  shows "bitmap_outcome st base_ptr sz wr user r"
proof (rule FindBitMap_loop.raw_induct
    [where P = "\<lambda>st base_ptr sz wr user base r. bitmap_outcome st base_ptr sz wr user r", OF _ assms],
    goal_cases)
  case (1 f st base_ptr sz wr user base r)
  from 1(2) show ?case
    by (auto simp: Let_def split: if_splits intro: bitmap_outcome_intros 1(1))
qed

lemma FindBitMap_terminates:
  assumes "f_BitMapSize st \<noteq> 0"
    and "unat base_ptr + unat (get_bitmap (memory st) (base_ptr + kPageSize) kBitMapSizeIdx)
         + unat (f_BitMapSize st) < 2 ^ 64"
  shows "\<exists>r. FindBitMap st base_ptr sz wr user = Some r"
proof -
  let ?s = "get_bitmap (memory st) (base_ptr + kPageSize) kBitMapSizeIdx"
  have "unat (base_ptr + ?s + f_BitMapSize st) = unat base_ptr + unat ?s + unat (f_BitMapSize st)"
    using assms(2) by (simp add: unat_word_ariths)
  moreover have "0 < unat (f_BitMapSize st)" using assms(1) by (simp add: unat_gt_0)
  ultimately have "base_ptr < base_ptr + ?s + f_BitMapSize st" by (simp add: word_less_nat_alt)
  then show ?thesis
    unfolding FindBitMap_def by (subst FindBitMap_loop.simps) (simp add: Let_def)
qed

section \<open>Properties\<close>

definition page_example :: mm_state where
  "page_example = \<lparr>memory = (\<lambda>_. 0), cr3 = 0x1000,
     pstore = \<lparr>fPde = 0, fPte = 0, fVAddr = 0, fStoreOp = False\<rparr>,
     kKernelBitMpStart = 0x100000, f_BitMapSize = 0x1000, debug_build = False\<rparr>"

text \<open>
  Property C31. Two allocations in a row return the same block: while the header one page above
  the start of the bitmap area does not carry the magic, \<open>mm_alloc_bitmap\<close> marks and returns the
  start of the area itself, and that mark does not change what the next call sees. Both callers
  own the same memory, whatever sizes they asked for.
\<close>

theorem mm_alloc_bitmap_aliases:
  assumes "sz \<noteq> 0" and "sz' \<noteq> 0" and "kKernelBitMpStart st + kPageSize \<noteq> null"
    and "get_bitmap (memory st) (kKernelBitMpStart st + kPageSize) kBitMapMagIdx \<noteq> kBitMapMagic"
    and "pte_clear (st\<lparr>memory := marked (memory st) (kKernelBitMpStart st) sz\<rparr>)
           (kKernelBitMpStart st) (kKernelBitMpStart st + kPageSize) 24"
  shows "\<exists>st1 st2. mm_alloc_bitmap wr user sz pg st = Some (st1, kKernelBitMpStart st)
           \<and> mm_alloc_bitmap wr' user' sz' pg' st1 = Some (st2, kKernelBitMpStart st)"
proof -
  let ?s = "kKernelBitMpStart st"
  define st1 where "st1 = fst (bitmap_mark st ?s sz wr user)"
  have first: "mm_alloc_bitmap wr user sz pg st = Some (st1, ?s)"
    unfolding mm_alloc_bitmap_def FindBitMap_fresh [OF assms(1,3,4)]
    by (simp add: st1_def prod_eq_iff)
  have start: "kKernelBitMpStart st1 = ?s" by (simp add: st1_def)
  have "disjoint_ranges (?s + kPageSize) 24 ?s 24"
    by (simp add: disjoint_ranges_def kPageSize_def)
  then have "get_bitmap (memory st1) (?s + kPageSize) kBitMapMagIdx =
        get_bitmap (memory st) (?s + kPageSize) kBitMapMagIdx"
    using assms(5) by (simp add: st1_def bitmap_mark_eq mm_map_page_keeps_bitmap get_marked_other)
  then have "mm_alloc_bitmap wr' user' sz' pg' st1 = Some (bitmap_mark st1 ?s sz' wr' user')"
    unfolding mm_alloc_bitmap_def start using assms(2-4) by (intro FindBitMap_fresh) simp_all
  then have "mm_alloc_bitmap wr' user' sz' pg' st1 = Some (fst (bitmap_mark st1 ?s sz' wr' user'), ?s)"
    by (simp add: prod_eq_iff)
  with first show ?thesis by blast
qed

theorem mm_alloc_bitmap_aliases_witness:
  "\<exists>st1 st2. mm_alloc_bitmap True False 64 False page_example = Some (st1, 0x100000)
           \<and> mm_alloc_bitmap True True 4096 False st1 = Some (st2, 0x100000)"
proof -
  have clear: "pte_clear (page_example\<lparr>memory := marked (memory page_example) (kKernelBitMpStart page_example) 64\<rparr>)
      (kKernelBitMpStart page_example) (kKernelBitMpStart page_example + kPageSize) 24"
  proof -
    have "load64 (marked (\<lambda>_. 0) 0x100000 64) 0xD000 = load64 (\<lambda>_. 0) 0xD000"
      by (rule load64_marked_other) (simp add: disjoint_ranges_def)
    also have "load64 (\<lambda>_. 0) 0xD000 = 0" by (simp add: load64_def eval_simps)
    finally show ?thesis
      by (simp add: pte_clear_def pte_of_def page_walk_eq page_example_def disjoint_ranges_def
          kPageSize_def)
  qed
  have magic: "get_bitmap (memory page_example) (kKernelBitMpStart page_example + kPageSize) kBitMapMagIdx
            \<noteq> kBitMapMagic"
    by (simp add: page_example_def get_bitmap_def load64_def eval_simps kBitMapMagic_def)
  show ?thesis
    using mm_alloc_bitmap_aliases [OF _ _ _ magic clear, of 4096 True False False True True False]
    by (simp add: page_example_def kPageSize_def)
qed





text \<open>
  Remark. \<open>mm_free_bitmap\<close> accepts exactly the non-null addresses that carry the magic; it
  then clears the use mark, keeps magic and size, and changes no byte outside the header. On any
  other address it returns false and changes nothing.
\<close>

theorem mm_free_bitmap_spec:
  "(if mm_is_bitmap st p
    then snd (mm_free_bitmap st p) = True
       \<and> get_bitmap (memory (fst (mm_free_bitmap st p))) p kBitMapMagIdx = kBitMapMagic
       \<and> get_bitmap (memory (fst (mm_free_bitmap st p))) p kBitMapSizeIdx =
           get_bitmap (memory st) p kBitMapSizeIdx
       \<and> get_bitmap (memory (fst (mm_free_bitmap st p))) p kBitMapUsedIdx = 0
       \<and> {x. memory (fst (mm_free_bitmap st p)) x \<noteq> memory st x} \<subseteq> {x. in_range x p 24}
    else mm_free_bitmap st p = (st, False))"
proof -
  have frame: "in_range x p 24"
    if "set_bitmap (set_bitmap (memory st) p kBitMapMagIdx kBitMapMagic) p kBitMapUsedIdx 0 x
        \<noteq> memory st x" for x
    using that bm.set_frame [of x p] by (metis (no_types))
  show ?thesis
    by (auto simp: mm_free_bitmap_def FreeBitMap_def mm_is_bitmap_def Let_def bm.get_set
        IsBitMap_def dest: frame)
qed

text \<open>
  Remark. \<open>Pmm::RequestPage\<close> never hands out a page: the wrapper it receives is always
  marked present, and present is taken to mean that the allocation failed.
\<close>

theorem RequestPage_never_succeeds:
  "RequestPage user readWrite st = Some (st', page) \<Longrightarrow> page = None"
  by (auto simp: RequestPage_def PageMgr_Request_def PTEWrapper_new_def split: option.splits)

theorem RequestPage_never_succeeds_witness:
  "\<exists>st'. RequestPage True True page_example = Some (st', None)"
proof -
  have "\<exists>r. mm_alloc_bitmap True True kPageSize False page_example = Some r"
    unfolding mm_alloc_bitmap_def
    by (rule FindBitMap_terminates) (simp_all add: page_example_def get_bitmap_def load64_def eval_simps)
  then obtain r where "mm_alloc_bitmap True True kPageSize False page_example = Some r" by blast
  then obtain st' page where r: "RequestPage True True page_example = Some (st', page)"
    by (cases r) (simp add: RequestPage_def PageMgr_Request_def PTEWrapper_new_def)
  then have "page = None" by (rule RequestPage_never_succeeds)
  with r show ?thesis by blast
qed

end
