(* ===== verification/Rt_Utils.thy ===== *)
theory Rt_Utils
  imports ZKA_Prelude "HOL-Library.Signed_Division"
begin

text \<open>
  The runtime helpers of \<^verbatim>\<open>dev/ZKAKit/src/Utils.cc\<close>: C strings, block copies and
  fills, character classes, searching. Every routine works on the flat memory of the prelude, so
  that overlapping arguments and reads past a buffer behave as in the kernel. A loop whose exit
  depends on memory contents is a \<^theory_text>\<open>partial_function (option)\<close>: \<open>None\<close> is a loop that never
  ends.
\<close>

section \<open>Strings\<close>

text \<open>\<open>rt_string_cmp\<close> counts differing positions in an \<open>Int32\<close>.\<close>

primrec rt_string_cmp_loop :: "mem \<Rightarrow> addr \<Rightarrow> addr \<Rightarrow> u64 \<Rightarrow> nat \<Rightarrow> u32 \<Rightarrow> u32" where
  "rt_string_cmp_loop m src cmp index 0 counter = counter"
| "rt_string_cmp_loop m src cmp index (Suc k) counter =
     rt_string_cmp_loop m src cmp (index + 1) k
       (if m (src + index) \<noteq> m (cmp + index) then counter + 1 else counter)"

definition rt_string_cmp :: "mem \<Rightarrow> addr \<Rightarrow> addr \<Rightarrow> u64 \<Rightarrow> u32" where
  "rt_string_cmp m src cmp sz =
     (if cmp = null \<or> src = null then 1
      else rt_string_cmp_loop m src cmp 0 (unat sz) 0)"

text \<open>The unbounded length: the first character is never inspected.\<close>

partial_function (option) rt_string_len_loop :: "mem \<Rightarrow> addr \<Rightarrow> u64 \<Rightarrow> u64 option" where
  "rt_string_len_loop m ptr cnt =
     (let cnt' = cnt + 1
      in if m (ptr + cnt') \<noteq> 0 then rt_string_len_loop m ptr cnt' else Some cnt')"

definition rt_string_len :: "mem \<Rightarrow> addr \<Rightarrow> u64 option" where
  "rt_string_len m ptr = rt_string_len_loop m ptr 0"

text \<open>The length with a limit, \<open>rt_string_len(str, _len)\<close>.\<close>

partial_function (option) rt_string_len_max_loop :: "mem \<Rightarrow> addr \<Rightarrow> u64 \<Rightarrow> u64 \<Rightarrow> u64 option" where
  "rt_string_len_max_loop m str limit len =
     (if len > limit then Some limit
      else let len' = len + 1
           in if m (str + len') \<noteq> 0 then rt_string_len_max_loop m str limit len' else Some len')"

definition rt_string_len_max :: "mem \<Rightarrow> addr \<Rightarrow> u64 \<Rightarrow> u64 option" where
  "rt_string_len_max m str limit = rt_string_len_max_loop m str limit 0"

section \<open>Fills and copies\<close>

text \<open>\<open>rt_set_memory\<close> stores a whole \<open>UInt32\<close> for every unit of \<open>len\<close>.\<close>

primrec rt_set_memory_loop :: "mem \<Rightarrow> addr \<Rightarrow> u32 \<Rightarrow> nat \<Rightarrow> mem \<times> addr" where
  "rt_set_memory_loop m start val 0 = (m, start)"
| "rt_set_memory_loop m start val (Suc k) =
     rt_set_memory_loop (store32 m start val) (start + 4) val k"

definition rt_set_memory :: "mem \<Rightarrow> addr \<Rightarrow> u32 \<Rightarrow> u64 \<Rightarrow> mem \<times> addr" where
  "rt_set_memory m src val len =
     (if src = null \<or> len < 1 then (m, null)
      else rt_set_memory_loop m src val (unat len))"

definition rt_zero_memory :: "mem \<Rightarrow> addr \<Rightarrow> u64 \<Rightarrow> mem" where
  "rt_zero_memory m pointer len = fst (rt_set_memory m pointer 0 len)"

primrec rt_move_memory_loop :: "mem \<Rightarrow> addr \<Rightarrow> addr \<Rightarrow> u64 \<Rightarrow> nat \<Rightarrow> mem" where
  "rt_move_memory_loop m src dst index 0 = m"
| "rt_move_memory_loop m src dst index (Suc k) =
     (let m1 = m(dst + index := m (src + index));
          m2 = m1(src + index := 0)
      in rt_move_memory_loop m2 src dst (index + 1) k)"

definition rt_move_memory :: "mem \<Rightarrow> addr \<Rightarrow> addr \<Rightarrow> u64 \<Rightarrow> mem \<times> u32" where
  "rt_move_memory m src dst len =
     (if len < 1 then (m, 2)
      else if src = null \<or> dst = null then (m, 1)
      else (rt_move_memory_loop m src dst 0 (unat len), 0))"

primrec rt_copy_memory_loop :: "mem \<Rightarrow> addr \<Rightarrow> addr \<Rightarrow> u64 \<Rightarrow> nat \<Rightarrow> mem" where
  "rt_copy_memory_loop m src dst index 0 = m"
| "rt_copy_memory_loop m src dst index (Suc k) =
     rt_copy_memory_loop (m(dst + index := m (src + index))) src dst (index + 1) k"

text \<open>The returned index is truncated to \<open>Int\<close>.\<close>

definition rt_copy_memory :: "mem \<Rightarrow> addr \<Rightarrow> addr \<Rightarrow> u64 \<Rightarrow> mem \<times> u32" where
  "rt_copy_memory m src dst len =
     (if len < 1 then (m, 0)
      else (rt_copy_memory_loop m src dst 0 (unat len), ucast len))"

definition c_memset :: "mem \<Rightarrow> addr \<Rightarrow> u32 \<Rightarrow> u64 \<Rightarrow> mem \<times> addr" where
  "c_memset m dst c len = rt_set_memory m dst c len"

definition c_memcpy :: "mem \<Rightarrow> addr \<Rightarrow> addr \<Rightarrow> u64 \<Rightarrow> mem \<times> addr" where
  "c_memcpy m dst src len = (fst (rt_copy_memory m src dst len), dst)"

section \<open>Characters and numbers\<close>

definition rt_to_uppercase :: "u32 \<Rightarrow> u32" where
  "rt_to_uppercase character =
     (if sint character \<ge> 97 \<and> sint character \<le> 122 then character - 0x20 else character)"

definition rt_to_lower :: "u32 \<Rightarrow> u32" where
  "rt_to_lower character =
     (if sint character \<ge> 65 \<and> sint character \<le> 90 then character + 0x20 else character)"

text \<open>
  \<open>rt_to_string\<close>: \<open>limit\<close> counts down to 1 at 32 bits, so the loop ends for every non-zero
  \<open>limit\<close>. \<open>%\<close> truncates towards zero, and the array index \<open>cnt\<close> is a sign-extended \<open>Int\<close>.
\<close>

function rt_to_string_loop :: "mem \<Rightarrow> addr \<Rightarrow> u32 \<Rightarrow> u32 \<Rightarrow> u32 \<Rightarrow> mem" where
  "rt_to_string_loop m str limit cnt ret =
     (if limit \<noteq> 1 then
        let ret' = word_of_int (sint ret smod 10);
            m' = m(str + scast cnt := ucast ret')
        in rt_to_string_loop m' str (limit - 1) (cnt + 1) (ret' - 1)
      else m)"
  by pat_completeness auto
termination
proof (relation "measure (\<lambda>(m, str, limit, cnt, ret). unat (limit - 1))", goal_cases)
  case 1
  show ?case by simp
next
  case (2 m str limit cnt ret ret' m')
  then have "limit - 1 \<noteq> 0" by simp
  then have "unat (limit - 1 - 1) = unat (limit - 1) - 1" and "0 < unat (limit - 1)"
    by (rule unat_minus_one, simp only: unat_gt_0 not_False_eq_True)
  then show ?case unfolding in_measure prod.case by linarith
qed

declare rt_to_string_loop.simps [simp del]

definition rt_to_string :: "mem \<Rightarrow> addr \<Rightarrow> u32 \<Rightarrow> u32 \<Rightarrow> mem \<times> bool" where
  "rt_to_string m str limit base =
     (if limit = 0 then (m, False)
      else ((rt_to_string_loop m str limit 0 base)(str + scast limit := 0), True))"

definition is_space :: "u8 \<Rightarrow> bool" where
  "is_space chr \<longleftrightarrow> chr = 0x20"

definition is_newln :: "u8 \<Rightarrow> bool" where
  "is_newln chr \<longleftrightarrow> chr = 0x0A"

section \<open>Searching\<close>

text \<open>
  \<open>rt_string_in_string\<close> recomputes both lengths on every iteration; memory is only read, so they
  do not change.
\<close>

primrec rt_string_in_string_loop :: "mem \<Rightarrow> addr \<Rightarrow> addr \<Rightarrow> u64 \<Rightarrow> u64 \<Rightarrow> nat \<Rightarrow> addr" where
  "rt_string_in_string_loop m hay needle nlen i 0 = null"
| "rt_string_in_string_loop m hay needle nlen i (Suc k) =
     (if rt_string_cmp m (hay + i) needle nlen = 0 then hay + i
      else rt_string_in_string_loop m hay needle nlen (i + 1) k)"

definition rt_string_in_string :: "mem \<Rightarrow> addr \<Rightarrow> addr \<Rightarrow> addr option" where
  "rt_string_in_string m hay needle =
     (case rt_string_len m hay of
        None \<Rightarrow> None
      | Some hlen \<Rightarrow>
          (case rt_string_len m needle of
             None \<Rightarrow> None
           | Some nlen \<Rightarrow> Some (rt_string_in_string_loop m hay needle nlen 0 (unat hlen))))"

partial_function (option) rt_string_has_char :: "mem \<Rightarrow> addr \<Rightarrow> u8 \<Rightarrow> addr option" where
  "rt_string_has_char m str chr =
     (if m str \<noteq> chr then
        let str' = str + 1
        in if m str' = 0 then Some null else rt_string_has_char m str' chr
      else Some str)"


section \<open>Facts about stores and loads used by the copies\<close>

lemma store_bytes_append:
  "store_bytes m a (xs @ ys) = store_bytes (store_bytes m a xs) (a + of_nat (length xs)) ys"
  by (induction xs arbitrary: m a) (simp_all add: add.assoc)

lemma addr_offset_neq:
  assumes "i < k" and "k < 2 ^ 64" and "unat (dst - src) = 0 \<or> k < unat (dst - src)"
  shows "(src :: addr) + (1 + of_nat i) \<noteq> dst"
proof
  assume "src + (1 + of_nat i) = dst"
  then have "dst - src = of_nat (Suc i)" by (metis add_diff_cancel_left' of_nat_Suc)
  moreover have "unat (of_nat (Suc i) :: addr) = Suc i"
    using assms(1,2) by (intro unat_of_nat_addr) linarith
  ultimately have "unat (dst - src) = Suc i" by simp
  with assms show False by simp
qed

section \<open>Lengths and comparison\<close>

definition mismatches :: "mem \<Rightarrow> addr \<Rightarrow> addr \<Rightarrow> nat \<Rightarrow> nat" where
  "mismatches m src cmp k =
     length (filter (\<lambda>i. m (src + of_nat i) \<noteq> m (cmp + of_nat i)) [0..<k])"

lemma mismatches_Suc:
  "mismatches m src cmp (Suc k) =
     (if m src \<noteq> m cmp then 1 else 0) + mismatches m (src + 1) (cmp + 1) k"
proof -
  have "[0..<Suc k] = 0 # map Suc [0..<k]" by (simp add: map_Suc_upt upt_conv_Cons)
  then show ?thesis
    by (simp add: mismatches_def filter_map comp_def add.assoc del: upt_Suc)
qed

lemma rt_string_cmp_loop_eq:
  "rt_string_cmp_loop m src cmp index k counter =
     counter + of_nat (mismatches m (src + index) (cmp + index) k)"
proof (induction k arbitrary: index counter)
  case 0
  show ?case by (simp add: mismatches_def)
next
  case (Suc k)
  show ?case by (simp add: Suc.IH mismatches_Suc add.assoc)
qed

lemma mismatches_le: "mismatches m src cmp k \<le> k"
  unfolding mismatches_def by (rule order_trans [OF length_filter_le]) simp

lemma mismatches_zero: "mismatches m src cmp k = 0 \<longleftrightarrow> load_bytes m src k = load_bytes m cmp k"
  by (auto simp: mismatches_def load_bytes_nth filter_empty_conv)

lemma rt_string_cmp_eq:
  "src \<noteq> null \<Longrightarrow> cmp \<noteq> null \<Longrightarrow>
   rt_string_cmp m src cmp sz = of_nat (mismatches m src cmp (unat sz))"
  by (simp add: rt_string_cmp_def rt_string_cmp_loop_eq)

lemma rt_string_cmp_zero_iff:
  assumes "src \<noteq> null" and "cmp \<noteq> null" and "unat sz < 2 ^ 32"
  shows "rt_string_cmp m src cmp sz = 0 \<longleftrightarrow>
         load_bytes m src (unat sz) = load_bytes m cmp (unat sz)"
proof -
  have "mismatches m src cmp (unat sz) < 2 ^ 32"
    using mismatches_le assms(3) by (rule le_less_trans)
  then have "(of_nat (mismatches m src cmp (unat sz)) :: u32) = 0
             \<longleftrightarrow> mismatches m src cmp (unat sz) = 0"
    by (simp add: word_of_nat_eq_0_iff nat_dvd_not_less dvd_eq_mod_eq_0)
  with assms show ?thesis by (simp add: rt_string_cmp_eq mismatches_zero)
qed

text \<open>The first NUL at or after position \<open>c + 1\<close>.\<close>

definition first_nul_after :: "mem \<Rightarrow> addr \<Rightarrow> nat \<Rightarrow> nat \<Rightarrow> bool" where
  "first_nul_after m p c n \<longleftrightarrow>
     c < n \<and> n < 2 ^ 64 \<and> m (p + of_nat n) = 0 \<and> (\<forall>i. c < i \<and> i < n \<longrightarrow> m (p + of_nat i) \<noteq> 0)"

lemma rt_string_len_loop_finds:
  "first_nul_after m p c n \<Longrightarrow> rt_string_len_loop m p (of_nat c) = Some (of_nat n)"
proof (induction "n - c" arbitrary: c)
  case 0
  then show ?case by (simp add: first_nul_after_def)
next
  case (Suc d)
  have step: "(of_nat c :: u64) + 1 = of_nat (Suc c)" by simp
  show ?case
  proof (cases "Suc c = n")
    case True
    with Suc.prems show ?thesis
      by (subst rt_string_len_loop.simps) (simp add: first_nul_after_def step del: of_nat_Suc)
  next
    case False
    with Suc.prems have "m (p + of_nat (Suc c)) \<noteq> 0" and "first_nul_after m p (Suc c) n"
      by (auto simp: first_nul_after_def simp del: of_nat_Suc)
    with Suc show ?thesis
      by (subst rt_string_len_loop.simps) (simp add: step del: of_nat_Suc)
  qed
qed

lemma rt_string_len_finds:
  "first_nul_after m p 0 n \<Longrightarrow> rt_string_len m p = Some (of_nat n)"
  using rt_string_len_loop_finds [of m p 0 n] by (simp add: rt_string_len_def)


section \<open>Bounded length\<close>

text \<open>
  With a limit below the largest 64-bit value the loop always ends, and never returns more than
  one past the limit.
\<close>

lemma rt_string_len_max_loop_total:
  assumes "unat limit < 2 ^ 64 - 1" and "unat len \<le> Suc (unat limit)"
  shows "\<exists>r. rt_string_len_max_loop m str limit len = Some r \<and> unat r \<le> Suc (unat limit)"
  using assms(2)
proof (induction "Suc (unat limit) - unat len" arbitrary: len)
  case 0
  then have "limit < len" by (simp add: word_less_nat_alt)
  then show ?case by (subst rt_string_len_max_loop.simps) simp
next
  case (Suc d)
  then have le: "\<not> limit < len" by (simp add: word_less_nat_alt)
  have "unat (len + 1) = Suc (unat len)"
    using Suc.hyps(2) assms(1) by (simp add: unat_word_ariths)
  with Suc show ?case
    by (subst rt_string_len_max_loop.simps) (auto simp: le Let_def)
qed

lemma rt_string_len_max_total:
  assumes "unat limit < 2 ^ 64 - 1"
  shows "\<exists>r. rt_string_len_max m str limit = Some r \<and> unat r \<le> Suc (unat limit)"
  unfolding rt_string_len_max_def using assms by (rule rt_string_len_max_loop_total) simp

section \<open>Fills\<close>

lemma rt_set_memory_loop_eq:
  "rt_set_memory_loop m a v k =
     (store_bytes m a (concat (replicate k (le_bytes 4 (unat v)))), a + of_nat (4 * k))"
proof (induction k arbitrary: m a)
  case 0
  show ?case by simp
next
  case (Suc k)
  show ?case by (simp add: Suc.IH store_bytes_append store32_def add.assoc)
qed

lemma length_fill [simp]: "length (concat (replicate k (le_bytes 4 x))) = 4 * k"
  by (induction k) simp_all

lemma nth_fill:
  "i < 4 * k \<Longrightarrow> concat (replicate k (le_bytes 4 x)) ! i = le_bytes 4 x ! (i mod 4)"
proof (induction k arbitrary: i)
  case 0
  then show ?case by simp
next
  case (Suc k)
  show ?case
  proof (cases "i < 4")
    case True
    then show ?thesis by (simp add: nth_append)
  next
    case False
    then have "(i - 4) mod 4 = i mod 4" by (simp add: mod_if)
    with False Suc show ?thesis by (simp add: nth_append)
  qed
qed

section \<open>Copies\<close>

text \<open>
  The byte-by-byte copy reads every source byte before it can be overwritten unless the
  destination starts strictly inside the source range.
\<close>

lemma rt_copy_memory_loop_eq:
  assumes "k < 2 ^ 64" and "unat (dst - src) = 0 \<or> k \<le> unat (dst - src)"
  shows "rt_copy_memory_loop m src dst index k =
         store_bytes m (dst + index) (load_bytes m (src + index) k)"
  using assms
proof (induction k arbitrary: m index)
  case 0
  show ?case by simp
next
  case (Suc k)
  let ?m = "m(dst + index := m (src + index))"
  have "load_bytes ?m (src + index + 1) k = load_bytes m (src + index + 1) k"
  proof (rule load_bytes_cong)
    fix i
    assume "i < k"
    with Suc.prems have "src + (1 + of_nat i) \<noteq> dst"
      by (intro addr_offset_neq [of i k]) auto
    then have "src + index + 1 + of_nat i \<noteq> dst + index"
      by (simp add: algebra_simps)
    then show "?m (src + index + 1 + of_nat i) = m (src + index + 1 + of_nat i)" by simp
  qed
  with Suc show ?case by (auto simp: add.assoc)
qed

lemma rt_copy_memory_eq:
  assumes "unat (dst - src) = 0 \<or> unat len \<le> unat (dst - src)"
  shows "fst (rt_copy_memory m src dst len) = store_bytes m dst (load_bytes m src (unat len))"
proof (cases "len = 0")
  case True
  then show ?thesis by (simp add: rt_copy_memory_def)
next
  case False
  with rt_copy_memory_loop_eq [OF unat_u64_lt assms, of m 0] show ?thesis
    by (simp add: rt_copy_memory_def word_less_1)
qed

text \<open>
  When the destination starts \<open>d\<close> bytes inside the source, the first \<open>d\<close> source bytes are
  repeated through the whole destination.
\<close>

lemma rt_copy_memory_loop_snoc:
  "rt_copy_memory_loop m src dst index (Suc k) =
     (let m' = rt_copy_memory_loop m src dst index k
      in m'(dst + index + of_nat k := m' (src + index + of_nat k)))"
proof (induction k arbitrary: m index)
  case 0
  show ?case by (simp add: Let_def)
next
  case (Suc k)
  have "rt_copy_memory_loop m src dst index (Suc (Suc k)) =
        rt_copy_memory_loop (m(dst + index := m (src + index))) src dst (index + 1) (Suc k)"
    by (rule rt_copy_memory_loop.simps(2))
  also have "\<dots> = (let m' = rt_copy_memory_loop m src dst index (Suc k)
      in m'(dst + index + of_nat (Suc k) := m' (src + index + of_nat (Suc k))))"
    by (subst Suc.IH) (simp add: Let_def add.assoc)
  finally show ?case .
qed

lemma rt_copy_memory_loop_overlap:
  assumes "k < 2 ^ 64" and d: "dst = src + of_nat d" and "0 < d" and "d + k \<le> 2 ^ 64"
  shows "\<forall>i < d + k. rt_copy_memory_loop m src dst 0 k (src + of_nat i) = m (src + of_nat (i mod d))"
  using assms(1,4)
proof (induction k)
  case 0
  show ?case by simp
next
  case (Suc k)
  let ?m = "rt_copy_memory_loop m src dst 0 k"
  have IH: "\<forall>i < d + k. ?m (src + of_nat i) = m (src + of_nat (i mod d))"
    using Suc by simp
  have dk: "dst + of_nat k = src + of_nat (d + k)" using d by (simp add: add.assoc)
  show ?case
  proof (intro allI impI)
    fix i
    assume i: "i < d + Suc k"
    have eq: "src + of_nat i = dst + of_nat k \<longleftrightarrow> i = d + k"
    proof -
      have "(of_nat i :: addr) = of_nat (d + k) \<longleftrightarrow> i = d + k"
        using i Suc.prems(2) unat_of_nat_addr [of i] unat_of_nat_addr [of "d + k"]
        by (metis add_Suc_right less_Suc_eq_le not_less_eq order_less_le_trans)
      then show ?thesis by (simp only: dk add_left_cancel)
    qed
    show "rt_copy_memory_loop m src dst 0 (Suc k) (src + of_nat i) = m (src + of_nat (i mod d))"
    proof (cases "i = d + k")
      case True
      have "k < d + k" using assms(3) by simp
      with IH have "?m (src + of_nat k) = m (src + of_nat (k mod d))" by blast
      then show ?thesis
        using True eq by (simp add: rt_copy_memory_loop_snoc Let_def del: rt_copy_memory_loop.simps)
    next
      case False
      with i IH have "?m (src + of_nat i) = m (src + of_nat (i mod d))" by simp
      then show ?thesis
        using False eq by (simp add: rt_copy_memory_loop_snoc Let_def del: rt_copy_memory_loop.simps)
    qed
  qed
qed

section \<open>Moves\<close>

text \<open>A move between disjoint ranges transfers the bytes and leaves zeros behind.\<close>

lemma in_range_Suc:
  "in_range x a (Suc k) \<longleftrightarrow> x = a \<or> (in_range x (a + 1) k \<and> x \<noteq> a)"
  by (cases "x = a") (simp_all add: in_range_def unat_diff_Suc)

lemma disjoint_ranges_Suc:
  assumes "disjoint_ranges a (Suc k) b (Suc k)"
  shows "disjoint_ranges (a + 1) k (b + 1) k"
    and "\<not> in_range b (a + 1) k" and "\<not> in_range a (b + 1) k" and "a \<noteq> b"
proof -
  have n: "Suc k \<le> unat (b - a)" "Suc k \<le> unat (a - b)"
    using assms by (simp_all add: disjoint_ranges_def)
  show ab: "a \<noteq> b" using n by auto
  show "disjoint_ranges (a + 1) k (b + 1) k" using n by (simp add: disjoint_ranges_def)
  show "\<not> in_range b (a + 1) k" "\<not> in_range a (b + 1) k"
    using n ab by (simp_all add: in_range_def unat_diff_Suc)
qed

lemma not_in_range_self: "k < 2 ^ 64 \<Longrightarrow> \<not> in_range a (a + 1) k"
proof -
  assume k: "k < 2 ^ 64"
  have "a - (a + 1) = - 1" by simp
  then have "unat (a - (a + 1)) = 2 ^ 64 - 1" by (simp add: unat_uminus_u64)
  with k show ?thesis by (simp add: in_range_def)
qed

lemma rt_move_memory_loop_eq:
  "k < 2 ^ 64 \<Longrightarrow> disjoint_ranges (src + index) k (dst + index) k \<Longrightarrow>
   rt_move_memory_loop m src dst index k x =
     (if in_range x (dst + index) k then m (x - dst + src)
      else if in_range x (src + index) k then 0 else m x)"
proof (induction k arbitrary: m index)
  case 0
  show ?case by (simp add: in_range_def)
next
  case (Suc k)
  define a b where "a = src + index" and "b = dst + index"
  have dj: "disjoint_ranges (a + 1) k (b + 1) k" "\<not> in_range b (a + 1) k"
      "\<not> in_range a (b + 1) k" "a \<noteq> b"
    using disjoint_ranges_Suc [of a k b] Suc.prems(2) by (simp_all add: a_def b_def)
  have self: "\<not> in_range a (a + 1) k" "\<not> in_range b (b + 1) k"
    using Suc.prems(1) by (simp_all add: not_in_range_self)
  let ?m = "(m(b := m a))(a := 0)"
  have step: "rt_move_memory_loop m src dst index (Suc k) x =
              rt_move_memory_loop ?m src dst (index + 1) k x"
    using dj(4) by (simp add: a_def b_def Let_def)
  have IH: "rt_move_memory_loop ?m src dst (index + 1) k x =
      (if in_range x (b + 1) k then ?m (x - dst + src)
       else if in_range x (a + 1) k then 0 else ?m x)"
  proof -
    have ab: "src + (index + 1) = a + 1" "dst + (index + 1) = b + 1"
      by (simp_all add: a_def b_def)
    have "k < 2 ^ 64" using Suc.prems(1) by simp
    from Suc.IH [OF this, of "index + 1" ?m, unfolded ab, OF dj(1)] show ?thesis .
  qed
  have src_b: "b - dst + src = a" by (simp add: a_def b_def)
  have read: "?m (x - dst + src) = m (x - dst + src)" if "in_range x (b + 1) k"
  proof -
    have "x - dst + src \<noteq> a"
    proof
      assume "x - dst + src = a"
      then have "x = b" by (simp add: a_def b_def algebra_simps)
      with that self show False by simp
    qed
    moreover have "x - dst + src \<noteq> b"
    proof
      assume "x - dst + src = b"
      moreover have "in_range (x - dst + src) (a + 1) k"
        using that by (simp add: in_range_def a_def b_def algebra_simps)
      ultimately show False using dj(2) by simp
    qed
    ultimately show ?thesis by simp
  qed
  have "(if in_range x (b + 1) k then ?m (x - dst + src)
         else if in_range x (a + 1) k then 0 else ?m x) =
        (if in_range x b (Suc k) then m (x - dst + src)
         else if in_range x a (Suc k) then 0 else m x)"
    using dj(2-4) self src_b read by (auto simp: in_range_Suc)
  then have "rt_move_memory_loop m src dst index (Suc k) x =
        (if in_range x b (Suc k) then m (x - dst + src)
         else if in_range x a (Suc k) then 0 else m x)"
    by (simp only: step IH)
  then show ?case by (simp only: a_def b_def)
qed

section \<open>Searching\<close>

text \<open>The search returns the first match, or null when no position matches.\<close>

lemma rt_string_in_string_loop_first:
  assumes "n = i + k" and "n < 2 ^ 64"
  shows "rt_string_in_string_loop m hay needle nlen (of_nat i) k =
     (case find (\<lambda>j. rt_string_cmp m (hay + of_nat j) needle nlen = 0) [i..<n] of
        None \<Rightarrow> null | Some j \<Rightarrow> hay + of_nat j)"
  using assms
proof (induction k arbitrary: i)
  case 0
  then show ?case by simp
next
  case (Suc k)
  have "[i..<n] = i # [Suc i..<n]" using Suc.prems(1) by (simp add: upt_conv_Cons)
  moreover have "(of_nat i :: u64) + 1 = of_nat (Suc i)" by simp
  ultimately show ?case using Suc by (simp del: of_nat_Suc)
qed

section \<open>Properties\<close>

text \<open>
  Remark. \<open>rt_copy_memory\<close> copies like \<open>memmove\<close> whenever the destination does not start
  strictly inside the source: afterwards the destination holds the bytes the source held before
  the call, and no other byte of memory changed.
\<close>

theorem rt_copy_memory_copies:
  assumes "unat (dst - src) = 0 \<or> unat len \<le> unat (dst - src)"
  shows "load_bytes (fst (rt_copy_memory m src dst len)) dst (unat len) = load_bytes m src (unat len)
       \<and> (\<forall>x. \<not> in_range x dst (unat len) \<longrightarrow> fst (rt_copy_memory m src dst len) x = m x)"
proof -
  have len: "unat len \<le> 2 ^ 64" using unat_u64_lt [of len] by simp
  have "load_bytes (store_bytes m dst (load_bytes m src (unat len))) dst (unat len) =
        load_bytes m src (unat len)"
    using load_store_bytes_same [of "load_bytes m src (unat len)" m dst] len by simp
  moreover have "store_bytes m dst (load_bytes m src (unat len)) x = m x"
    if "\<not> in_range x dst (unat len)" for x
    using that len by (simp add: store_bytes_apply)
  ultimately show ?thesis unfolding rt_copy_memory_eq [OF assms] by blast
qed

theorem rt_copy_memory_copies_witness:
  "load_bytes (fst (rt_copy_memory (\<lambda>a. ucast a) 0x1002 0x1000 4)) 0x1000 (unat (4 :: u64)) = [2, 3, 4, 5]"
proof -
  have h: "unat ((0x1000 :: addr) - 0x1002) = 0 \<or> unat (4 :: u64) \<le> unat ((0x1000 :: addr) - 0x1002)"
    by simp
  have "load_bytes (\<lambda>a. ucast a) 0x1002 (unat (4 :: u64)) = [2, 3, 4, 5]"
    by (simp add: load_bytes_nth upt_conv_Cons)
  with rt_copy_memory_copies [OF h, of "\<lambda>a. ucast a"] show ?thesis by simp
qed

text \<open>
  Remark. When the destination starts \<open>d\<close> bytes inside the source, \<open>rt_copy_memory\<close> (and so
  the kernel's \<open>memcpy\<close>) fills the destination with the first \<open>d\<close> source bytes over and over: the
  original contents of the rest of the source are lost.
\<close>

theorem rt_copy_memory_overlap_repeats:
  assumes "0 < d" and "d + unat len \<le> 2 ^ 64" and "i < unat len"
  shows "fst (rt_copy_memory m src (src + of_nat d) len) (src + of_nat d + of_nat i) =
         m (src + of_nat (i mod d))"
proof -
  have "len \<noteq> 0" using assms(3) by auto
  then have "fst (rt_copy_memory m src (src + of_nat d) len) =
             rt_copy_memory_loop m src (src + of_nat d) 0 (unat len)"
    by (simp add: rt_copy_memory_def word_less_1)
  moreover have "d + i < d + unat len" using assms(3) by simp
  then have "rt_copy_memory_loop m src (src + of_nat d) 0 (unat len) (src + of_nat (d + i)) =
             m (src + of_nat ((d + i) mod d))"
    using rt_copy_memory_loop_overlap [OF unat_u64_lt refl assms(1,2)] by blast
  ultimately show ?thesis by (simp add: add.assoc)
qed

theorem rt_copy_memory_overlap_repeats_witness:
  "fst (rt_copy_memory (\<lambda>a. ucast a) 0x1000 (0x1000 + of_nat 2) 8) (0x1000 + of_nat 2 + of_nat 5) = 1"
  using rt_copy_memory_overlap_repeats [where d = 2 and len = 8 and i = 5
    and m = "\<lambda>a. ucast a" and src = "0x1000"] by simp

text \<open>
  Property C40. \<open>rt_set_memory\<close> with a byte count \<open>len\<close> writes \<open>4 * len\<close> bytes: the little-endian
  bytes of the 32-bit value repeated \<open>len\<close> times from \<open>src\<close>, nothing outside that range, and it
  returns the address one past it. The kernel's \<open>memset\<close> and \<open>rt_zero_memory\<close> inherit the
  fourfold footprint.
\<close>

theorem rt_set_memory_footprint:
  assumes "src \<noteq> null" and "len \<noteq> 0" and "4 * unat len \<le> 2 ^ 64"
  shows "fst (rt_set_memory m src val len) x =
           (if in_range x src (4 * unat len) then le_bytes 4 (unat val) ! (unat (x - src) mod 4) else m x)
       \<and> snd (rt_set_memory m src val len) = src + of_nat (4 * unat len)"
  using assms
  by (simp add: rt_set_memory_def word_less_1 rt_set_memory_loop_eq store_bytes_apply nth_fill in_range_def)

theorem rt_set_memory_footprint_witness:
  "fst (rt_set_memory (\<lambda>_. 7) 0x1000 0 2) 0x1007 = 0 \<and> fst (rt_set_memory (\<lambda>_. 7) 0x1000 0 2) 0x1008 = 7"
  using rt_set_memory_footprint [where src = "0x1000" and len = 2 and m = "\<lambda>_. 7" and val = 0]
  by (simp add: in_range_def eval_simps)

text \<open>
  Remark. \<open>rt_string_len\<close> returns the position of the first NUL among the positions from 1
  on, whatever the first character is; in particular it never measures the empty string as 0
  but counts through the memory behind it.
\<close>

theorem rt_string_len_skips_first:
  assumes "0 < n" and "n < 2 ^ 64" and "m (ptr + of_nat n) = 0"
    and "\<And>i. 0 < i \<Longrightarrow> i < n \<Longrightarrow> m (ptr + of_nat i) \<noteq> 0"
  shows "rt_string_len m ptr = Some (of_nat n)"
  using assms by (intro rt_string_len_finds) (simp add: first_nul_after_def)

theorem rt_string_len_skips_first_witness:
  "rt_string_len (\<lambda>a. if a = 0x1000 \<or> a = 0x1003 then 0 else 65) 0x1000 = Some (of_nat 3)"
proof (rule rt_string_len_skips_first)
  fix i :: nat
  assume "0 < i" and "i < 3"
  then have "i = 1 \<or> i = 2" by linarith
  then show "(if (0x1000 :: addr) + of_nat i = 0x1000 \<or> (0x1000 :: addr) + of_nat i = 0x1003 then 0 else 65)
             \<noteq> (0 :: u8)" by auto
qed simp_all

text \<open>
  Remark. \<open>rt_string_in_string\<close> returns the first position of the haystack, below its length,
  at which the needle's \<open>rt_string_len\<close> bytes match, and null when there is none.
\<close>

theorem rt_string_in_string_first_match:
  assumes "rt_string_len m hay = Some hlen" and "rt_string_len m needle = Some nlen"
  shows "rt_string_in_string m hay needle =
     Some (case find (\<lambda>j. rt_string_cmp m (hay + of_nat j) needle nlen = 0) [0..<unat hlen] of
             None \<Rightarrow> null | Some j \<Rightarrow> hay + of_nat j)"
  using assms rt_string_in_string_loop_first [OF _ unat_u64_lt, of hlen 0 "unat hlen"]
  by (simp add: rt_string_in_string_def)

theorem rt_string_in_string_first_match_witness:
  "rt_string_in_string (\<lambda>a. if a = 0x1003 \<or> a = 0x2001 then 0 else ucast a) 0x1000 0x2000 = Some 0x1000"
proof -
  let ?m = "(\<lambda>a. if a = 0x1003 \<or> a = 0x2001 then 0 else ucast a) :: mem"
  have h: "rt_string_len ?m 0x1000 = Some 3"
    by (simp add: rt_string_len_def rt_string_len_loop.simps)
  have n: "rt_string_len ?m 0x2000 = Some 1"
    by (simp add: rt_string_len_def rt_string_len_loop.simps)
  have "find (\<lambda>j. rt_string_cmp ?m (0x1000 + of_nat j) 0x2000 1 = 0) [0..<unat (3 :: u64)] = Some 0"
    by (simp add: upt_conv_Cons rt_string_cmp_def)
  with rt_string_in_string_first_match [OF h n] show ?thesis by simp
qed

text \<open>
  Remark. \<open>rt_move_memory\<close> between disjoint ranges puts the source bytes in the destination
  and zeros in the source, returns 0, and leaves the rest of memory alone.
\<close>

theorem rt_move_memory_moves:
  assumes "len \<noteq> 0" and "src \<noteq> null" and "dst \<noteq> null"
    and "disjoint_ranges src (unat len) dst (unat len)"
  shows "rt_move_memory m src dst len =
    ((\<lambda>x. if in_range x dst (unat len) then m (x - dst + src)
          else if in_range x src (unat len) then 0 else m x), 0)"
proof -
  have "rt_move_memory_loop m src dst 0 (unat len) =
    (\<lambda>x. if in_range x dst (unat len) then m (x - dst + src)
          else if in_range x src (unat len) then 0 else m x)"
  proof
    fix x
    show "rt_move_memory_loop m src dst 0 (unat len) x =
      (if in_range x dst (unat len) then m (x - dst + src)
       else if in_range x src (unat len) then 0 else m x)"
      using rt_move_memory_loop_eq [OF unat_u64_lt, of src 0 len dst m x] assms(4)
      by (simp only: add_0_right)
  qed
  with assms show ?thesis by (simp add: rt_move_memory_def word_less_1)
qed

theorem rt_move_memory_moves_witness:
  "fst (rt_move_memory (\<lambda>a. ucast a) 0x1010 0x2000 4) 0x2003 = 0x13
   \<and> fst (rt_move_memory (\<lambda>a. ucast a) 0x1010 0x2000 4) 0x1013 = 0"
proof -
  have d: "disjoint_ranges 0x1010 (unat (4 :: u64)) 0x2000 (unat (4 :: u64))"
    by (simp add: disjoint_ranges_def)
  show ?thesis
    using rt_move_memory_moves [OF _ _ _ d, of "\<lambda>a. ucast a"] by (simp add: in_range_def)
qed

text \<open>
  Remark. The bounded \<open>rt_string_len(str, _len)\<close> always returns when the limit is below the
  largest \<open>SizeT\<close>, and its result exceeds the limit by at most one.
\<close>

theorem rt_string_len_max_bounded:
  assumes "limit < - 1"
  shows "\<exists>r. rt_string_len_max m str limit = Some r \<and> unat r \<le> Suc (unat limit)"
proof -
  have "unat limit < unat (- 1 :: u64)" using assms by (simp add: word_less_nat_alt)
  then show ?thesis by (intro rt_string_len_max_total) (simp add: unat_uminus_u64)
qed

theorem rt_string_len_max_bounded_witness:
  "\<exists>r. rt_string_len_max (\<lambda>_. 65) 0x1000 16 = Some r \<and> unat r \<le> Suc (unat (16 :: u64))"
  by (rule rt_string_len_max_bounded) simp

end
