(* ===== verification/Crc32.thy ===== *)
theory Crc32
  imports ZKA_Prelude
begin

text \<open>
  The check sequence of \<^verbatim>\<open>dev/ZKAKit/src/Crc32.cc\<close>: the 256-entry table and the
  table-driven loop of \<open>ke_calculate_crc32\<close>, compared with the bit-at-a-time CRC of the reflected
  Castagnoli polynomial. \<open>Char\<close> is signed on the AMD64 target, so a byte from \<open>0x80\<close> on makes the
  table index negative: an out-of-bounds access in the model.
\<close>

section \<open>The code\<close>

definition kCrcTbl :: "u32 list" where
  "kCrcTbl =
    [
     0x00000000, 0xF26B8303, 0xE13B70F7, 0x1350F3F4, 0xC79A971F, 0x35F1141C,
     0x26A1E7E8, 0xD4CA64EB, 0x8AD958CF, 0x78B2DBCC, 0x6BE22838, 0x9989AB3B,
     0x4D43CFD0, 0xBF284CD3, 0xAC78BF27, 0x5E133C24, 0x105EC76F, 0xE235446C,
     0xF165B798, 0x030E349B, 0xD7C45070, 0x25AFD373, 0x36FF2087, 0xC494A384,
     0x9A879FA0, 0x68EC1CA3, 0x7BBCEF57, 0x89D76C54, 0x5D1D08BF, 0xAF768BBC,
     0xBC267848, 0x4E4DFB4B, 0x20BD8EDE, 0xD2D60DDD, 0xC186FE29, 0x33ED7D2A,
     0xE72719C1, 0x154C9AC2, 0x061C6936, 0xF477EA35, 0xAA64D611, 0x580F5512,
     0x4B5FA6E6, 0xB93425E5, 0x6DFE410E, 0x9F95C20D, 0x8CC531F9, 0x7EAEB2FA,
     0x30E349B1, 0xC288CAB2, 0xD1D83946, 0x23B3BA45, 0xF779DEAE, 0x05125DAD,
     0x1642AE59, 0xE4292D5A, 0xBA3A117E, 0x4851927D, 0x5B016189, 0xA96AE28A,
     0x7DA08661, 0x8FCB0562, 0x9C9BF696, 0x6EF07595, 0x417B1DBC, 0xB3109EBF,
     0xA0406D4B, 0x522BEE48, 0x86E18AA3, 0x748A09A0, 0x67DAFA54, 0x95B17957,
     0xCBA24573, 0x39C9C670, 0x2A993584, 0xD8F2B687, 0x0C38D26C, 0xFE53516F,
     0xED03A29B, 0x1F682198, 0x5125DAD3, 0xA34E59D0, 0xB01EAA24, 0x42752927,
     0x96BF4DCC, 0x64D4CECF, 0x77843D3B, 0x85EFBE38, 0xDBFC821C, 0x2997011F,
     0x3AC7F2EB, 0xC8AC71E8, 0x1C661503, 0xEE0D9600, 0xFD5D65F4, 0x0F36E6F7,
     0x61C69362, 0x93AD1061, 0x80FDE395, 0x72966096, 0xA65C047D, 0x5437877E,
     0x4767748A, 0xB50CF789, 0xEB1FCBAD, 0x197448AE, 0x0A24BB5A, 0xF84F3859,
     0x2C855CB2, 0xDEEEDFB1, 0xCDBE2C45, 0x3FD5AF46, 0x7198540D, 0x83F3D70E,
     0x90A324FA, 0x62C8A7F9, 0xB602C312, 0x44694011, 0x5739B3E5, 0xA55230E6,
     0xFB410CC2, 0x092A8FC1, 0x1A7A7C35, 0xE811FF36, 0x3CDB9BDD, 0xCEB018DE,
     0xDDE0EB2A, 0x2F8B6829, 0x82F63B78, 0x709DB87B, 0x63CD4B8F, 0x91A6C88C,
     0x456CAC67, 0xB7072F64, 0xA457DC90, 0x563C5F93, 0x082F63B7, 0xFA44E0B4,
     0xE9141340, 0x1B7F9043, 0xCFB5F4A8, 0x3DDE77AB, 0x2E8E845F, 0xDCE5075C,
     0x92A8FC17, 0x60C37F14, 0x73938CE0, 0x81F80FE3, 0x55326B08, 0xA759E80B,
     0xB4091BFF, 0x466298FC, 0x1871A4D8, 0xEA1A27DB, 0xF94AD42F, 0x0B21572C,
     0xDFEB33C7, 0x2D80B0C4, 0x3ED04330, 0xCCBBC033, 0xA24BB5A6, 0x502036A5,
     0x4370C551, 0xB11B4652, 0x65D122B9, 0x97BAA1BA, 0x84EA524E, 0x7681D14D,
     0x2892ED69, 0xDAF96E6A, 0xC9A99D9E, 0x3BC21E9D, 0xEF087A76, 0x1D63F975,
     0x0E330A81, 0xFC588982, 0xB21572C9, 0x407EF1CA, 0x532E023E, 0xA145813D,
     0x758FE5D6, 0x87E466D5, 0x94B49521, 0x66DF1622, 0x38CC2A06, 0xCAA7A905,
     0xD9F75AF1, 0x2B9CD9F2, 0xFF56BD19, 0x0D3D3E1A, 0x1E6DCDEE, 0xEC064EED,
     0xC38D26C4, 0x31E6A5C7, 0x22B65633, 0xD0DDD530, 0x0417B1DB, 0xF67C32D8,
     0xE52CC12C, 0x1747422F, 0x49547E0B, 0xBB3FFD08, 0xA86F0EFC, 0x5A048DFF,
     0x8ECEE914, 0x7CA56A17, 0x6FF599E3, 0x9D9E1AE0, 0xD3D3E1AB, 0x21B862A8,
     0x32E8915C, 0xC083125F, 0x144976B4, 0xE622F5B7, 0xF5720643, 0x07198540,
     0x590AB964, 0xAB613A67, 0xB831C993, 0x4A5A4A90, 0x9E902E7B, 0x6CFBAD78,
     0x7FAB5E8C, 0x8DC0DD8F, 0xE330A81A, 0x115B2B19, 0x020BD8ED, 0xF0605BEE,
     0x24AA3F05, 0xD6C1BC06, 0xC5914FF2, 0x37FACCF1, 0x69E9F0D5, 0x9B8273D6,
     0x88D28022, 0x7AB90321, 0xAE7367CA, 0x5C18E4C9, 0x4F48173D, 0xBD23943E,
     0xF36E6F75, 0x0105EC76, 0x12551F82, 0xE03E9C81, 0x34F4F86A, 0xC69F7B69,
     0xD5CF889D, 0x27A40B9E, 0x79B737BA, 0x8BDCB4B9, 0x988C474D, 0x6AE7C44E,
     0xBE2DA0A5, 0x4C4623A6, 0x5F16D052, 0xAD7D5351]"

text \<open>The subscript \<open>(UInt8)crc ^ *(p++)\<close>, computed on promoted \<open>int\<close>s.\<close>

definition crc_index :: "u32 \<Rightarrow> u8 \<Rightarrow> int" where
  "crc_index crc chr = uint (ucast crc :: u8) XOR sint chr"

primrec ke_calculate_crc32_loop :: "mem \<Rightarrow> addr \<Rightarrow> nat \<Rightarrow> u32 \<Rightarrow> abort + u32" where
  "ke_calculate_crc32_loop m p 0 crc = Inr crc"
| "ke_calculate_crc32_loop m p (Suc len) crc =
     (let i = crc_index crc (m p)
      in if 0 \<le> i \<and> i < int (length kCrcTbl)
         then ke_calculate_crc32_loop m (p + 1) len (kCrcTbl ! nat i XOR drop_bit 8 crc)
         else Inl OutOfBounds)"

definition ke_calculate_crc32 :: "mem \<Rightarrow> addr \<Rightarrow> u32 \<Rightarrow> abort + u32" where
  "ke_calculate_crc32 m p len =
     (case ke_calculate_crc32_loop m p (unat len) 0xffffffff of
        Inl e \<Rightarrow> Inl e
      | Inr crc \<Rightarrow> Inr (crc XOR 0xffffffff))"

section \<open>The reference: one bit at a time\<close>

definition crc_bit :: "u32 \<Rightarrow> u32" where
  "crc_bit c = (if bit c 0 then drop_bit 1 c XOR 0x82F63B78 else drop_bit 1 c)"

definition crc_byte :: "u32 \<Rightarrow> u8 \<Rightarrow> u32" where
  "crc_byte c b = (crc_bit ^^ 8) (c XOR ucast b)"

definition crc32c :: "u8 list \<Rightarrow> u32" where
  "crc32c bs = foldl crc_byte 0xffffffff bs XOR 0xffffffff"

section \<open>The table holds the reduced bytes\<close>

lemma length_kCrcTbl [simp]: "length kCrcTbl = 256"
  by (simp add: kCrcTbl_def)

text \<open>The entries at even and at odd positions.\<close>

fun evens :: "'a list \<Rightarrow> 'a list" where
  "evens (x # y # xs) = x # evens xs"
| "evens _ = []"

fun odds :: "'a list \<Rightarrow> 'a list" where
  "odds (x # y # xs) = y # odds xs"
| "odds _ = []"

lemma nth_evens: "2 * i + 1 < length xs \<Longrightarrow> evens xs ! i = xs ! (2 * i)"
proof (induction xs arbitrary: i rule: evens.induct)
  case (1 x y xs)
  then show ?case by (cases i) simp_all
qed simp_all

lemma nth_odds: "2 * i + 1 < length xs \<Longrightarrow> odds xs ! i = xs ! (2 * i + 1)"
proof (induction xs arbitrary: i rule: odds.induct)
  case (1 x y xs)
  then show ?case by (cases i) simp_all
qed simp_all

lemma length_evens: "length (evens xs) = length xs div 2"
  by (induction xs rule: evens.induct) simp_all

text \<open>Evaluated on the literal table: one reduction step, and one exclusive-or, per entry.\<close>

lemma kCrcTbl_evens: "map crc_bit (evens kCrcTbl) = take 128 kCrcTbl"
  by (simp add: crc_bit_def kCrcTbl_def)

lemma kCrcTbl_odds: "odds kCrcTbl = map (\<lambda>x. x XOR kCrcTbl ! 1) (evens kCrcTbl)"
  by (simp add: kCrcTbl_def)

lemma kCrcTbl_even: "j < 128 \<Longrightarrow> crc_bit (kCrcTbl ! (2 * j)) = kCrcTbl ! j"
proof -
  assume "j < 128"
  then have "map crc_bit (evens kCrcTbl) ! j = crc_bit (kCrcTbl ! (2 * j))"
    by (simp add: nth_evens length_evens)
  with \<open>j < 128\<close> show ?thesis by (simp add: kCrcTbl_evens)
qed

lemma kCrcTbl_odd: "j < 128 \<Longrightarrow> kCrcTbl ! (2 * j + 1) = kCrcTbl ! (2 * j) XOR kCrcTbl ! 1"
proof -
  assume "j < 128"
  then have "odds kCrcTbl ! j = kCrcTbl ! (2 * j) XOR kCrcTbl ! 1"
    by (simp add: kCrcTbl_odds nth_evens length_evens)
  with \<open>j < 128\<close> show ?thesis by (simp add: nth_odds)
qed

text \<open>One reduction step is linear over exclusive-or, and injective.\<close>

lemma crc_bit_xor: "crc_bit (a XOR b) = crc_bit a XOR crc_bit b"
proof -
  have "a XOR (b XOR (a XOR c)) = b XOR c" for a b c :: u32
    by (simp add: xor.assoc xor.left_commute)
  then show ?thesis
    by (auto simp: crc_bit_def bit_xor_iff drop_bit_xor ac_simps)
qed

lemma crc_bit_top: "bit (crc_bit c) 31 = bit c 0"
  by (auto simp: crc_bit_def bit_xor_iff bit_drop_bit_eq bit_numeral_rec dest: bit_imp_le_length)

lemma xor_right_cancel: "(a :: u32) XOR c = b XOR c \<longleftrightarrow> a = b"
  by (metis xor.assoc xor_self_eq xor.right_neutral)

lemma crc_bit_inj: "crc_bit a = crc_bit b \<longleftrightarrow> a = b"
proof
  assume eq: "crc_bit a = crc_bit b"
  then have b0: "bit a 0 = bit b 0" by (metis crc_bit_top)
  with eq have "drop_bit 1 a = drop_bit 1 b"
    by (simp add: crc_bit_def xor_right_cancel split: if_splits)
  then have bSuc: "bit a (Suc n) = bit b (Suc n)" for n
    by (metis add.commute bit_drop_bit_eq comp_apply plus_1_eq_Suc)
  show "a = b"
  proof (rule bit_word_eqI)
    fix n
    show "bit a n = bit b n" using b0 bSuc by (cases n) simp_all
  qed
qed simp

lemma crc_bits_xor: "(crc_bit ^^ n) (a XOR b) = (crc_bit ^^ n) a XOR (crc_bit ^^ n) b"
  by (induction n) (simp_all add: crc_bit_xor)

lemma crc_bits_inj: "(crc_bit ^^ n) a = (crc_bit ^^ n) b \<longleftrightarrow> a = b"
  by (induction n) (simp_all add: crc_bit_inj)

text \<open>A step on a number whose low bits are clear only shifts.\<close>

lemma crc_bits_shift:
  "(\<And>i. i < n \<Longrightarrow> \<not> bit c i) \<Longrightarrow> (crc_bit ^^ n) c = drop_bit n c"
proof (induction n)
  case 0
  show ?case by simp
next
  case (Suc n)
  then have "(crc_bit ^^ n) c = drop_bit n c" by simp
  moreover have "\<not> bit (drop_bit n c) 0" using Suc.prems [of n] by (simp add: bit_drop_bit_eq)
  moreover from this have "crc_bit (drop_bit n c) = drop_bit 1 (drop_bit n c)"
    by (simp only: crc_bit_def if_False)
  ultimately show ?case by (simp add: drop_bit_drop_bit)
qed

lemma crc_bits_double:
  assumes "j < 128"
  shows "(crc_bit ^^ 8) (of_nat j) = crc_bit ((crc_bit ^^ 8) (of_nat (2 * j)))"
proof -
  have u: "unat (of_nat (2 * j) :: u32) = 2 * j"
    using assms by (simp add: unat_of_nat del: of_nat_mult)
  have "\<not> bit (of_nat (2 * j) :: u32) 0" by (simp add: bit_0)
  then have "crc_bit (of_nat (2 * j)) = of_nat (2 * j) div 2"
    by (simp only: crc_bit_def if_False drop_bit_eq_div power_one_right)
  also have "\<dots> = of_nat j"
    using u assms by (simp add: word_unat_eq_iff unat_div_distrib unat_of_nat del: of_nat_mult)
  finally have "crc_bit (of_nat (2 * j)) = of_nat j" .
  then show ?thesis by (metis funpow_swap1)
qed

lemma kCrcTbl_1: "kCrcTbl ! 1 = (crc_bit ^^ 8) 1"
proof -
  have "(crc_bit ^^ 8) 1 =
        crc_bit (crc_bit (crc_bit (crc_bit (crc_bit (crc_bit (crc_bit (crc_bit 1)))))))"
    by (simp add: numeral_eq_Suc)
  also have "\<dots> = 0xF26B8303" by (simp add: crc_bit_def)
  finally show ?thesis by (simp add: kCrcTbl_def)
qed

lemma kCrcTbl_nth: "i < 256 \<Longrightarrow> kCrcTbl ! i = (crc_bit ^^ 8) (of_nat i)"
proof (induction i rule: less_induct)
  case (less i)
  show ?case
  proof (cases "i = 0 \<or> i = 1")
    case True
    then show ?thesis
      using kCrcTbl_1 by (auto simp: crc_bits_shift kCrcTbl_def)
  next
    case False
    define j where "j = i div 2"
    have j: "j < i" "j < 128" using False less.prems by (auto simp: j_def)
    have even: "kCrcTbl ! (2 * j) = (crc_bit ^^ 8) (of_nat (2 * j))"
    proof -
      have "crc_bit (kCrcTbl ! (2 * j)) = (crc_bit ^^ 8) (of_nat j)"
        using less.IH [of j] j by (simp only: kCrcTbl_even)
      also have "\<dots> = crc_bit ((crc_bit ^^ 8) (of_nat (2 * j)))"
        using j(2) by (rule crc_bits_double)
      finally show ?thesis by (simp only: crc_bit_inj)
    qed
    show ?thesis
    proof (cases "even i")
      case True
      then have "i = 2 * j" by (simp add: j_def)
      with even show ?thesis by simp
    next
      case False
      then have i: "i = 2 * j + 1" by (simp add: j_def)
      have "(of_nat i :: u32) = of_nat (2 * j) XOR 1"
        by (simp add: i xor_one_eq)
      then show ?thesis
        unfolding i using even kCrcTbl_1 j(2) by (simp only: kCrcTbl_odd crc_bits_xor)
    qed
  qed
qed


section \<open>One table step is eight reduction steps\<close>

lemma crc_index_low: "b < 0x80 \<Longrightarrow> crc_index crc b = uint (ucast crc XOR b)"
proof -
  assume "b < 0x80"
  then have "uint b < 128" by (simp add: word_less_def)
  then have "sint b = uint b"
    by (simp add: sint_uint signed_take_bit_eq_take_bit_minus bit_iff_odd take_bit_int_eq_self)
  then show ?thesis by (simp add: crc_index_def unsigned_xor_eq)
qed

lemma crc_index_high: "\<not> b < 0x80 \<Longrightarrow> crc_index crc b < 0"
proof -
  assume "\<not> b < 0x80"
  then have "128 \<le> uint b" by (simp add: word_less_def)
  moreover have "uint b < 256" using unsigned_less [of b, where ?'a = int] by simp
  ultimately have "uint b div 128 = 1" by simp
  with \<open>uint b < 256\<close> have "sint b < 0"
    by (simp add: sint_uint signed_take_bit_eq_take_bit_minus bit_iff_odd take_bit_int_eq_self)
  then show ?thesis by (simp add: crc_index_def xor_negative_int_iff)
qed

lemma crc_table_step:
  "kCrcTbl ! unat (ucast crc XOR b) XOR drop_bit 8 crc = crc_byte crc b"
proof -
  define y where "y = crc XOR ucast b"
  define low :: u32 where "low = ucast (ucast crc XOR b :: u8)"
  have "(of_nat (unat (ucast crc XOR b :: u8)) :: u32) = low" by (simp add: low_def)
  then have tbl: "kCrcTbl ! unat (ucast crc XOR b) = (crc_bit ^^ 8) low"
    using kCrcTbl_nth [OF unat_u8_lt] by simp
  have low_bit: "bit low n \<longleftrightarrow> n < 8 \<and> bit y n" for n
    by (auto simp: low_def y_def bit_xor_iff bit_ucast_iff dest: bit_imp_le_length)
  have "(crc_bit ^^ 8) (low XOR y) = drop_bit 8 (low XOR y)"
    by (rule crc_bits_shift) (simp add: bit_xor_iff low_bit)
  also have "\<dots> = drop_bit 8 crc"
    by (rule bit_word_eqI)
      (auto simp: bit_drop_bit_eq bit_xor_iff low_bit y_def bit_ucast_iff dest: bit_imp_le_length)
  finally have hi: "(crc_bit ^^ 8) (low XOR y) = drop_bit 8 crc" .
  have "(crc_bit ^^ 8) y = (crc_bit ^^ 8) (low XOR (low XOR y))"
    by (simp add: xor.left_commute flip: xor.assoc)
  also have "\<dots> = (crc_bit ^^ 8) low XOR drop_bit 8 crc"
    by (subst crc_bits_xor) (simp only: hi)
  finally show ?thesis by (simp only: tbl crc_byte_def y_def)
qed

lemma ke_calculate_crc32_loop_eq:
  "ke_calculate_crc32_loop m p n crc =
     (if \<forall>b \<in> set (load_bytes m p n). b < 0x80
      then Inr (foldl crc_byte crc (load_bytes m p n)) else Inl OutOfBounds)"
proof (induction n arbitrary: p crc)
  case 0
  show ?case by simp
next
  case (Suc n)
  show ?case
  proof (cases "m p < 0x80")
    case True
    have "uint (ucast crc XOR m p) < 256"
      using unsigned_less [of "ucast crc XOR m p", where ?'a = int] by simp
    with True show ?thesis
      by (simp add: Let_def crc_index_low crc_table_step Suc.IH)
  next
    case False
    then have "\<not> 0 \<le> crc_index crc (m p)" using crc_index_high [of "m p" crc] by simp
    with False show ?thesis by simp
  qed
qed

lemma foldl_crc_byte_inj: "foldl crc_byte a bs = foldl crc_byte b bs \<longleftrightarrow> a = b"
  by (induction bs arbitrary: a b)
    (auto simp: crc_byte_def crc_bits_inj xor_right_cancel)

lemma crc_byte_inj: "crc_byte c a = crc_byte c b \<longleftrightarrow> a = b"
proof -
  have "(c XOR ucast a = c XOR ucast b) \<longleftrightarrow> (ucast a :: u32) = ucast b"
    by (metis xor_right_cancel xor.commute)
  moreover have "unat (ucast x :: u32) = unat x" for x :: u8
    using unat_u8_lt [of x] by (simp add: unsigned_ucast_eq take_bit_nat_eq_self)
  then have "(ucast a :: u32) = ucast b \<longleftrightarrow> a = b" by (metis word_unat_eq_iff)
  ultimately show ?thesis by (simp add: crc_byte_def crc_bits_inj)
qed

lemma crc32c_detects_byte_change:
  "a \<noteq> b \<Longrightarrow> crc32c (xs @ a # ys) \<noteq> crc32c (xs @ b # ys)"
  by (simp add: crc32c_def xor_right_cancel foldl_crc_byte_inj crc_byte_inj)

lemma ke_calculate_crc32_eq:
  "ke_calculate_crc32 m p len =
     (if \<forall>b \<in> set (load_bytes m p (unat len)). b < 0x80
      then Inr (crc32c (load_bytes m p (unat len))) else Inl OutOfBounds)"
  by (simp add: ke_calculate_crc32_def ke_calculate_crc32_loop_eq crc32c_def)

text \<open>Overwriting one byte of a checked buffer with a different byte changes the outcome.\<close>

lemma ke_calculate_crc32_change:
  assumes "ke_calculate_crc32 m p len = Inr crc" and "i < unat len"
    and "b \<noteq> m (p + of_nat i)"
  shows "ke_calculate_crc32 (m(p + of_nat i := b)) p len \<noteq> Inr crc"
proof -
  define xs where "xs = load_bytes m p (unat len)"
  have i: "i < length xs" using assms(2) by (simp add: xs_def)
  have upd: "load_bytes (m(p + of_nat i := b)) p (unat len) = xs[i := b]"
    unfolding xs_def using assms(2) unat_u32_lt [of len] by (intro load_bytes_update) simp_all
  have "crc32c (take i xs @ xs ! i # drop (Suc i) xs) \<noteq> crc32c (take i xs @ b # drop (Suc i) xs)"
    using assms(2,3) by (intro crc32c_detects_byte_change) (simp add: xs_def)
  then have "crc32c xs \<noteq> crc32c (xs[i := b])"
    using i by (simp add: id_take_nth_drop [symmetric] upd_conv_take_nth_drop)
  moreover have "crc = crc32c xs"
    using assms(1) by (simp add: ke_calculate_crc32_eq xs_def split: if_splits)
  ultimately show ?thesis by (auto simp: ke_calculate_crc32_eq upd split: if_splits)
qed

section \<open>Properties\<close>

text \<open>
  Property C38. \<open>ke_calculate_crc32\<close> computes the CRC-32C of the buffer (initial value and final
  exclusive-or all ones) exactly when every byte is below \<open>0x80\<close>; on any other buffer the signed
  character makes the table subscript negative and the access is out of bounds. The 256 table
  entries are thereby shown to be the right ones.
\<close>

theorem ke_calculate_crc32_correct:
  "ke_calculate_crc32 m p len =
     (if \<forall>b \<in> set (load_bytes m p (unat len)). b < 0x80
      then Inr (crc32c (load_bytes m p (unat len))) else Inl OutOfBounds)"
  by (rule ke_calculate_crc32_eq)

theorem ke_calculate_crc32_correct_witness:
  "ke_calculate_crc32 (\<lambda>_. 0x80) 0x1000 2 = Inl OutOfBounds
   \<and> ke_calculate_crc32 (\<lambda>_. 0x41) 0x1000 2 = Inr (crc32c [0x41, 0x41])"
  using ke_calculate_crc32_correct [of "\<lambda>_. 0x80" "0x1000" 2]
    ke_calculate_crc32_correct [of "\<lambda>_. 0x41" "0x1000" 2]
  by (simp add: eval_simps)

end
