(* ===== verification/Kernel_Errors.thy ===== *)
theory Kernel_Errors
  imports ZKA_Prelude
begin

text \<open>
  The error codes of \<^verbatim>\<open>dev/ZKAKit/KernelKit/LPC.h\<close>, the bug check of
  \<^verbatim>\<open>LPC.cc\<close>, and the stop screen of \<^verbatim>\<open>Stop.cc\<close>. A call of \<open>ke_stop\<close>
  yields the lines it draws together with how it ends: normally, or by halting the machine,
  which is the value \<open>Inl (Stop i)\<close>.
\<close>

section \<open>Error codes\<close>

type_synonym HError = u32

definition kErrorSuccess :: HError where "kErrorSuccess = 0"
definition kErrorExecutable :: HError where "kErrorExecutable = 33"
definition kErrorExecutableLib :: HError where "kErrorExecutableLib = 34"
definition kErrorFileNotFound :: HError where "kErrorFileNotFound = 35"
definition kErrorDirectoryNotFound :: HError where "kErrorDirectoryNotFound = 36"
definition kErrorDiskReadOnly :: HError where "kErrorDiskReadOnly = 37"
definition kErrorDiskIsFull :: HError where "kErrorDiskIsFull = 38"
definition kErrorProcessFault :: HError where "kErrorProcessFault = 39"
definition kErrorFileExists :: HError where "kErrorFileExists = 46"
definition kErrorInternal :: HError where "kErrorInternal = 49"
definition kErrorForkAlreadyExists :: HError where "kErrorForkAlreadyExists = 50"
definition kErrorHeapNotPresent :: HError where "kErrorHeapNotPresent = 52"
definition kErrorNoEntrypoint :: HError where "kErrorNoEntrypoint = 53"
definition kErrorDiskIsCorrupted :: HError where "kErrorDiskIsCorrupted = 54"
definition kErrorDisk :: HError where "kErrorDisk = 55"
definition kErrorInvalidData :: HError where "kErrorInvalidData = 56"
definition kErrorUnimplemented :: HError where "kErrorUnimplemented = 0"

lemmas error_defs = kErrorSuccess_def kErrorExecutable_def kErrorExecutableLib_def
  kErrorFileNotFound_def kErrorDirectoryNotFound_def kErrorDiskReadOnly_def kErrorDiskIsFull_def
  kErrorProcessFault_def kErrorFileExists_def kErrorInternal_def kErrorForkAlreadyExists_def
  kErrorHeapNotPresent_def kErrorNoEntrypoint_def kErrorDiskIsCorrupted_def kErrorDisk_def
  kErrorInvalidData_def kErrorUnimplemented_def

section \<open>The stop screen\<close>

primrec ke_stop_text :: "RUNTIME_CHECK \<Rightarrow> string" where
  "ke_stop_text RUNTIME_CHECK_PROCESS = ''0x00000008: Invalid process behavior.''"
| "ke_stop_text RUNTIME_CHECK_ACPI = ''0x00000006: ACPI configuration error.''"
| "ke_stop_text RUNTIME_CHECK_PAGE = ''0x0000000B: Write/Read in non paged area.''"
| "ke_stop_text RUNTIME_CHECK_FILESYSTEM = ''0x0000000A: Filesystem driver error.''"
| "ke_stop_text RUNTIME_CHECK_POINTER = ''0x00000000: Kernel heap is corrupted.''"
| "ke_stop_text RUNTIME_CHECK_BAD_BEHAVIOR = ''0x00000009: Bad behavior.''"
| "ke_stop_text RUNTIME_CHECK_BOOTSTRAP =
     ''0x0000000A: Boot Code has finished running, running Kernel process...''"
| "ke_stop_text RUNTIME_CHECK_HANDSHAKE = ''0x00000005: Handshake fault.''"
| "ke_stop_text RUNTIME_CHECK_IPC = ''0x00000003: Bad LPC message.''"
| "ke_stop_text RUNTIME_CHECK_INVALID_PRIVILEGE = ''0x00000007: Privilege access violation.''"
| "ke_stop_text RUNTIME_CHECK_UNEXCPECTED = ''0x0000000B: Unexpected violation.''"
| "ke_stop_text RUNTIME_CHECK_VIRTUAL_OUT_OF_MEM = ''0x10000001: Out of virtual memory.''"
| "ke_stop_text RUNTIME_CHECK_FAILED =
     ''0x10000001 Kernel Bug check appears to have failed, a dump has been written to the storage.''"
| "ke_stop_text RUNTIME_CHECK_EXPRESSION = ''0xFFFFFFFC Unknown Kernel Error.''"
| "ke_stop_text RUNTIME_CHECK_FILE = ''0xFFFFFFFC Unknown Kernel Error.''"
| "ke_stop_text RUNTIME_CHECK_TLS = ''0xFFFFFFFC Unknown Kernel Error.''"

text \<open>
  \<open>ke_stop\<close> returns to its caller for the bootstrap identifier only; for every other identifier it
  enters \<open>RecoveryFactory::Recover\<close>, which halts for ever.
\<close>

definition ke_stop :: "RUNTIME_CHECK \<Rightarrow> string list \<times> (abort + unit)" where
  "ke_stop i =
     ([if i \<noteq> RUNTIME_CHECK_BOOTSTRAP then ''Kernel Panic!'' else ''Kernel Splash:'',
       ke_stop_text i],
      if i = RUNTIME_CHECK_BOOTSTRAP then Inr () else Inl (Stop i))"

definition ke_runtime_check :: "bool \<Rightarrow> abort + unit" where
  "ke_runtime_check expr = (if \<not> expr then snd (ke_stop RUNTIME_CHECK_FAILED) else Inr ())"

text \<open>\<open>MUST_PASS\<close> checks its condition in builds with \<open>__DEBUG__\<close> only.\<close>

definition MUST_PASS :: "bool \<Rightarrow> bool \<Rightarrow> abort + unit" where
  "MUST_PASS debug expr = (if debug then ke_runtime_check expr else Inr ())"

section \<open>The bug check\<close>

text \<open>The state is the flag \<open>kRaiseOnBugCheck\<close>.\<close>

definition err_bug_check :: "bool \<Rightarrow> abort + bool" where
  "err_bug_check kRaiseOnBugCheck =
     (if kRaiseOnBugCheck
      then case snd (ke_stop RUNTIME_CHECK_BAD_BEHAVIOR) of Inl e \<Rightarrow> Inl e | Inr _ \<Rightarrow> Inr False
      else Inr False)"

definition err_bug_check_raise :: "bool \<Rightarrow> bool" where
  "err_bug_check_raise kRaiseOnBugCheck = True"

lemma ke_stop_snd [simp]:
  "i \<noteq> RUNTIME_CHECK_BOOTSTRAP \<Longrightarrow> snd (ke_stop i) = Inl (Stop i)"
  by (simp add: ke_stop_def)

lemma MUST_PASS_eq:
  "MUST_PASS debug expr = (if debug \<and> \<not> expr then Inl (Stop RUNTIME_CHECK_FAILED) else Inr ())"
  by (simp add: MUST_PASS_def ke_runtime_check_def)

end
