(* ===== verification/Kernel_Heap.thy ===== *)
theory Kernel_Heap
  imports Page_Memory Rt_Utils Crc32 Kernel_Errors
begin

text \<open>
  The kernel heap of \<^verbatim>\<open>dev/ZKAKit/src/Heap.cc\<close> with the \<open>operator new\<close> and
  \<open>operator delete\<close> of \<^verbatim>\<open>New+Delete.cc\<close>. A block is a page allocation that holds a
  heap information block and then the caller's bytes. The information block is laid out in memory
  as the compiler of the AMD64 build does (bit-field units of different base types do not share
  storage, the structure is packed): 49 bytes.
\<close>

section \<open>The heap information block\<close>

definition kKernelHeapMagic :: u64 where "kKernelHeapMagic = 0xD4D7D5"
definition kKernelHeapMaxSize :: u64 where "kKernelHeapMaxSize = 0x80000000"
definition kKernelHeapAlignSz :: u64 where "kKernelHeapAlignSz = 16"

text \<open>The fields of \<open>HEAP_INFORMATION_BLOCK\<close>; the padding array is addressed separately.\<close>

datatype hib_field =
    HIB_Magic | HIB_Present | HIB_Wr | HIB_User | HIB_Page
  | HIB_CRC32 | HIB_Flags | HIB_HeapSize | HIB_HeapPtr

definition hib_size :: u64 where "hib_size = 49"
definition hib_padding :: u64 where "hib_padding = 33"

text \<open>The bit of byte 4 a Boolean bit-field occupies, or offset and length in bytes.\<close>

primrec hib_place :: "hib_field \<Rightarrow> nat + nat \<times> nat" where
  "hib_place HIB_Magic = Inr (0, 3)"
| "hib_place HIB_Present = Inl 0"
| "hib_place HIB_Wr = Inl 1"
| "hib_place HIB_User = Inl 2"
| "hib_place HIB_Page = Inl 3"
| "hib_place HIB_CRC32 = Inr (5, 4)"
| "hib_place HIB_Flags = Inr (9, 8)"
| "hib_place HIB_HeapSize = Inr (17, 8)"
| "hib_place HIB_HeapPtr = Inr (25, 8)"

definition get_hib :: "mem \<Rightarrow> addr \<Rightarrow> hib_field \<Rightarrow> u64" where
  "get_hib m p f =
     (case hib_place f of
        Inl b \<Rightarrow> of_bool (bit (m (p + 4)) b)
      | Inr (off, len) \<Rightarrow> of_nat (le_val (load_bytes m (p + of_nat off) len)))"

definition set_hib :: "mem \<Rightarrow> addr \<Rightarrow> hib_field \<Rightarrow> u64 \<Rightarrow> mem" where
  "set_hib m p f v =
     (case hib_place f of
        Inl b \<Rightarrow> m(p + 4 := (if v \<noteq> 0 then set_bit b (m (p + 4)) else unset_bit b (m (p + 4))))
      | Inr (off, len) \<Rightarrow> store_bytes m (p + of_nat off) (le_bytes len (unat v)))"

text \<open>What is left of a value after it went through a field.\<close>

definition hib_trunc :: "hib_field \<Rightarrow> u64 \<Rightarrow> u64" where
  "hib_trunc f v =
     (case hib_place f of Inl b \<Rightarrow> of_bool (v \<noteq> 0) | Inr (off, len) \<Rightarrow> of_nat (unat v mod 256 ^ len))"

section \<open>Heap operations\<close>

text \<open>
  \<open>mm_check_heap_address\<close>: subtracting an unsigned size makes the difference unsigned, so the
  comparison with zero is never true.
\<close>

definition mm_check_heap_address :: "addr \<Rightarrow> bool" where
  "mm_check_heap_address heap_ptr =
     (if heap_ptr = null then False
      else let base_heap = heap_ptr - hib_size
           in if base_heap < 0 then False else True)"

definition mm_realloc_heap :: "addr \<Rightarrow> u64 \<Rightarrow> abort + addr" where
  "mm_realloc_heap ptr_heap new_sz =
     (if mm_check_heap_address ptr_heap = False then Inr null
      else if ptr_heap = null \<or> new_sz < 1 then Inr null
      else case snd (ke_stop RUNTIME_CHECK_PROCESS) of Inl e \<Rightarrow> Inl e | Inr _ \<Rightarrow> Inr null)"

text \<open>The header writes of \<open>mm_new_heap\<close> and the padding fill.\<close>

definition hib_init :: "mem \<Rightarrow> addr \<Rightarrow> u64 \<Rightarrow> bool \<Rightarrow> bool \<Rightarrow> mem" where
  "hib_init m heap_info_ptr sz_fix wr user =
     (let m = set_hib m heap_info_ptr HIB_HeapSize sz_fix;
          m = set_hib m heap_info_ptr HIB_Magic kKernelHeapMagic;
          m = set_hib m heap_info_ptr HIB_CRC32 0;
          m = set_hib m heap_info_ptr HIB_HeapPtr (heap_info_ptr + hib_size);
          m = set_hib m heap_info_ptr HIB_Page 0;
          m = set_hib m heap_info_ptr HIB_Wr (of_bool wr);
          m = set_hib m heap_info_ptr HIB_User (of_bool user);
          m = set_hib m heap_info_ptr HIB_Present 1
      in fst (rt_set_memory m (heap_info_ptr + hib_padding) 0 kKernelHeapAlignSz))"

definition mm_new_heap ::
    "u64 \<Rightarrow> bool \<Rightarrow> bool \<Rightarrow> mm_state \<Rightarrow> (abort + mm_state \<times> addr) option" where
  "mm_new_heap sz wr user st =
     (if sz = 0 then Some (Inr (st, null))
      else case MUST_PASS (debug_build st) (sz < kKernelHeapMaxSize) of
        Inl e \<Rightarrow> Some (Inl e)
      | Inr _ \<Rightarrow>
          let sz_fix = sz + hib_size
          in case PageMgr_Request wr user False sz_fix st of
               None \<Rightarrow> None
             | Some (st1, wrapper) \<Rightarrow>
                 let heap_info_ptr = fVirtAddr wrapper + hib_size;
                     m = hib_init (memory st1) heap_info_ptr sz_fix wr user
                 in Some (Inr (st1\<lparr>memory := m\<rparr>, get_hib m heap_info_ptr HIB_HeapPtr)))"

definition mm_make_page :: "addr \<Rightarrow> mm_state \<Rightarrow> mm_state \<times> HError" where
  "mm_make_page heap_ptr st =
     (if mm_check_heap_address heap_ptr = False then (st, kErrorHeapNotPresent)
      else let heap_info_ptr = heap_ptr - hib_size
           in if heap_ptr = null then (st, kErrorHeapNotPresent)
              else (st\<lparr>memory := set_hib (memory st) heap_info_ptr HIB_Page 1\<rparr>, kErrorSuccess))"

definition mm_make_flags :: "addr \<Rightarrow> u64 \<Rightarrow> mm_state \<Rightarrow> mm_state \<times> HError" where
  "mm_make_flags heap_ptr flags st =
     (if mm_check_heap_address heap_ptr = False then (st, kErrorHeapNotPresent)
      else let heap_info_ptr = heap_ptr - hib_size
           in if heap_ptr = null then (st, kErrorHeapNotPresent)
              else (st\<lparr>memory := set_hib (memory st) heap_info_ptr HIB_Flags flags\<rparr>, kErrorSuccess))"

definition mm_get_flags :: "addr \<Rightarrow> mm_state \<Rightarrow> u64" where
  "mm_get_flags heap_ptr st =
     (let heap_info_ptr = heap_ptr - hib_size
      in if heap_ptr = null then ucast kErrorHeapNotPresent
         else get_hib (memory st) heap_info_ptr HIB_Flags)"

text \<open>The checksum comparison of \<open>mm_delete_heap\<close>; the size is narrowed to \<open>Int32\<close>.\<close>

definition heap_crc :: "mem \<Rightarrow> addr \<Rightarrow> abort + u32" where
  "heap_crc m heap_info_ptr =
     ke_calculate_crc32 m (get_hib m heap_info_ptr HIB_HeapPtr)
       (ucast (get_hib m heap_info_ptr HIB_HeapSize))"

definition heap_crc_check :: "mem \<Rightarrow> addr \<Rightarrow> abort + unit" where
  "heap_crc_check m heap_info_ptr =
     (if get_hib m heap_info_ptr HIB_CRC32 \<noteq> 0 then
        case heap_crc m heap_info_ptr of
          Inl e \<Rightarrow> Inl e
        | Inr crc \<Rightarrow>
            if get_hib m heap_info_ptr HIB_CRC32 \<noteq> ucast crc then
              if get_hib m heap_info_ptr HIB_User = 0
              then snd (ke_stop RUNTIME_CHECK_POINTER) else Inr ()
            else Inr ()
      else Inr ())"

definition hib_clear :: "mem \<Rightarrow> addr \<Rightarrow> mem" where
  "hib_clear m heap_info_ptr =
     (let m = set_hib m heap_info_ptr HIB_HeapSize 0;
          m = set_hib m heap_info_ptr HIB_Present 0;
          m = set_hib m heap_info_ptr HIB_HeapPtr 0;
          m = set_hib m heap_info_ptr HIB_CRC32 0;
          m = set_hib m heap_info_ptr HIB_Wr 0;
          m = set_hib m heap_info_ptr HIB_User 0
      in set_hib m heap_info_ptr HIB_Magic 0)"

definition mm_delete_heap :: "addr \<Rightarrow> mm_state \<Rightarrow> abort + mm_state \<times> HError" where
  "mm_delete_heap heap_ptr st =
     (if mm_check_heap_address heap_ptr = False then Inr (st, kErrorHeapNotPresent)
      else let heap_info_ptr = heap_ptr - hib_size; m = memory st
           in if heap_info_ptr \<noteq> null \<and> get_hib m heap_info_ptr HIB_Magic = kKernelHeapMagic then
                if get_hib m heap_info_ptr HIB_Present = 0 then Inr (st, kErrorHeapNotPresent)
                else case heap_crc_check m heap_info_ptr of
                  Inl e \<Rightarrow> Inl e
                | Inr _ \<Rightarrow>
                    let st1 = st\<lparr>memory := hib_clear m heap_info_ptr\<rparr>;
                        pageWrapper = PTEWrapper_new False False False (heap_info_ptr - hib_size);
                        st2 = fst (PageMgr_Free st1 pageWrapper)
                    in Inr (st2, kErrorSuccess)
              else Inr (st, kErrorInternal))"

definition mm_is_valid_heap :: "addr \<Rightarrow> mm_state \<Rightarrow> bool" where
  "mm_is_valid_heap heap_ptr st =
     (if heap_ptr \<noteq> null \<and> mm_is_bitmap st heap_ptr then
        let heap_info_ptr = heap_ptr - hib_size; m = memory st
        in if heap_info_ptr \<noteq> null \<and> get_hib m heap_info_ptr HIB_Present \<noteq> 0
              \<and> get_hib m heap_info_ptr HIB_Magic = kKernelHeapMagic
           then True else False
      else False)"

definition mm_protect_heap :: "addr \<Rightarrow> mm_state \<Rightarrow> abort + mm_state \<times> bool" where
  "mm_protect_heap heap_ptr st =
     (if heap_ptr \<noteq> null then
        let heap_info_ptr = heap_ptr - hib_size; m = memory st
        in if heap_info_ptr \<noteq> null \<and> get_hib m heap_info_ptr HIB_Present \<noteq> 0
              \<and> kKernelHeapMagic = get_hib m heap_info_ptr HIB_Magic
           then case heap_crc m heap_info_ptr of
                  Inl e \<Rightarrow> Inl e
                | Inr crc \<Rightarrow> Inr (st\<lparr>memory := set_hib m heap_info_ptr HIB_CRC32 (ucast crc)\<rparr>, True)
           else Inr (st, False)
      else Inr (st, False))"

text \<open>The class helpers of \<^verbatim>\<open>Heap.h\<close> and the global operators of \<^verbatim>\<open>New+Delete.cc\<close>.\<close>

definition operator_new :: "u64 \<Rightarrow> mm_state \<Rightarrow> (abort + mm_state \<times> addr) option" where
  "operator_new sz st =
     (let sz = (if sz = 0 then sz + 1 else sz) in mm_new_heap sz True False st)"

definition operator_delete :: "addr \<Rightarrow> mm_state \<Rightarrow> abort + mm_state" where
  "operator_delete ptr st =
     (if ptr = null then Inr st
      else case mm_delete_heap ptr st of Inl e \<Rightarrow> Inl e | Inr (st', _) \<Rightarrow> Inr st')"

text \<open>
  \<open>mm_new_class\<close> on a class of \<open>csize\<close> bytes whose constructor is \<open>ctor\<close>, an argument since the
  template fixes it; the pointer the caller passes by reference is state.
\<close>

definition mm_new_class ::
    "u64 \<Rightarrow> (addr \<Rightarrow> mm_state \<Rightarrow> mm_state) \<Rightarrow> addr \<Rightarrow> HError \<Rightarrow> mm_state
     \<Rightarrow> (abort + mm_state \<times> addr \<times> HError) option" where
  "mm_new_class csize ctor cls err st =
     (if cls \<noteq> null then Some (Inr (st, cls, kErrorInvalidData))
      else case operator_new csize st of
        None \<Rightarrow> None
      | Some (Inl e) \<Rightarrow> Some (Inl e)
      | Some (Inr (st', p)) \<Rightarrow> Some (Inr (ctor p st', p, err)))"

definition mm_delete_class :: "addr \<Rightarrow> mm_state \<Rightarrow> abort + mm_state \<times> addr" where
  "mm_delete_class cls st =
     (case operator_delete cls st of Inl e \<Rightarrow> Inl e | Inr st' \<Rightarrow> Inr (st', null))"

section \<open>Reading and writing the information block\<close>

lemma hib_byte_bounds:
  "hib_place f = Inr (off, len) \<Longrightarrow> off + len \<le> 33 \<and> len \<le> 8 \<and> (off + len \<le> 4 \<or> 5 \<le> off)"
  by (cases f) auto

lemma hib_bytes_disjoint:
  "hib_place f = Inr (off, len) \<Longrightarrow> hib_place g = Inr (off', len') \<Longrightarrow> f \<noteq> g \<Longrightarrow>
   disjoint_ranges (p + of_nat off) len (p + of_nat off') len'"
  by (cases f; cases g) (auto simp: disjoint_ranges_def)

lemma hib_bit_inj: "hib_place f = Inl b \<Longrightarrow> hib_place g = Inl b' \<Longrightarrow> f \<noteq> g \<Longrightarrow> b \<noteq> b' \<and> b < 8 \<and> b' < 8"
  by (cases f; cases g) auto

lemma hib_bit_not_in_bytes:
  "hib_place f = Inr (off, len) \<Longrightarrow> \<not> in_range (p + 4) (p + of_nat off) len"
  by (cases f) (auto simp: in_range_def unat_uminus_u64)

lemma load_bytes_not_in:
  "(\<And>i. i < n \<Longrightarrow> x \<noteq> a + of_nat i) \<Longrightarrow> load_bytes (m(x := b)) a n = load_bytes m a n"
  by (rule load_bytes_cong) (metis fun_upd_other)

lemma not_in_range_neq: "\<not> in_range x a n \<Longrightarrow> n \<le> 2 ^ 64 \<Longrightarrow> i < n \<Longrightarrow> x \<noteq> a + of_nat i"
  by (auto simp: in_range_def unat_of_nat_addr)

lemma hib_get_set:
  "get_hib (set_hib m p f v) p g = (if f = g then hib_trunc f v else get_hib m p g)"
proof (cases "hib_place f")
  case (Inl b)
  have b8: "b < 8" using Inl by (cases f) auto
  show ?thesis
  proof (cases "hib_place g")
    case (Inl b')
    with \<open>hib_place f = Inl b\<close> b8 hib_bit_inj [of f b g b'] show ?thesis
      by (auto simp: get_hib_def set_hib_def hib_trunc_def bit_set_bit_iff bit_unset_bit_iff
          possible_bit_def)
  next
    case (Inr p')
    obtain off len where g: "hib_place g = Inr (off, len)" using Inr by (cases p') auto
    then have "x \<noteq> y \<Longrightarrow> f \<noteq> g" for x y :: nat using Inl by auto
    then have "f \<noteq> g" using g Inl by auto
    have "load_bytes (m(p + 4 := w)) (p + of_nat off) len = load_bytes m (p + of_nat off) len" for w
      using hib_byte_bounds [OF g] not_in_range_neq [OF hib_bit_not_in_bytes [OF g]]
      by (intro load_bytes_not_in) auto
    with \<open>f \<noteq> g\<close> g Inl show ?thesis by (simp add: get_hib_def set_hib_def)
  qed
next
  case (Inr pr)
  obtain off len where f: "hib_place f = Inr (off, len)" using Inr by (cases pr) auto
  have len: "len \<le> 8" using hib_byte_bounds [OF f] by simp
  show ?thesis
  proof (cases "hib_place g")
    case (Inl b')
    with f have "f \<noteq> g" by auto
    with f Inl len show ?thesis
      by (simp add: get_hib_def set_hib_def store_bytes_apply hib_bit_not_in_bytes [OF f])
  next
    case (Inr p')
    obtain off' len' where g: "hib_place g = Inr (off', len')" using Inr by (cases p') auto
    show ?thesis
    proof (cases "f = g")
      case True
      with f g len load_store_bytes_same [of "le_bytes len (unat v)" m "p + of_nat off"] show ?thesis
        by (simp add: get_hib_def set_hib_def hib_trunc_def le_val_le_bytes)
    next
      case False
      then have "disjoint_ranges (p + of_nat off') len' (p + of_nat off) len"
        using hib_bytes_disjoint [OF g f] by simp
      with False f g len show ?thesis
        by (simp add: get_hib_def set_hib_def load_store_bytes_disjoint)
    qed
  qed
qed

lemma hib_frame: "\<not> in_range x p 33 \<Longrightarrow> set_hib m p f v x = m x"
proof (cases "hib_place f")
  case (Inl b)
  assume "\<not> in_range x p 33"
  then have "x \<noteq> p + 4" by (auto simp: in_range_def)
  with Inl show ?thesis by (simp add: set_hib_def)
next
  case (Inr pr)
  assume x: "\<not> in_range x p 33"
  obtain off len where f: "hib_place f = Inr (off, len)" using Inr by (cases pr) auto
  have b: "off + len \<le> 33" "len \<le> 8" using hib_byte_bounds [OF f] by simp_all
  then have "\<not> in_range x (p + of_nat off) len"
    using in_range_sub [of x p off len 33] x by auto
  with f b show ?thesis by (simp add: set_hib_def store_bytes_apply)
qed

lemma hib_cong:
  assumes "\<And>i. i < 33 \<Longrightarrow> m (p + of_nat i) = m' (p + of_nat i)"
  shows "get_hib m p f = get_hib m' p f"
proof (cases "hib_place f")
  case (Inl b)
  with assms [of 4] show ?thesis by (simp add: get_hib_def)
next
  case (Inr pr)
  obtain off len where f: "hib_place f = Inr (off, len)" using Inr by (cases pr) auto
  have "load_bytes m (p + of_nat off) len = load_bytes m' (p + of_nat off) len"
  proof (rule load_bytes_cong)
    fix i
    assume "i < len"
    with hib_byte_bounds [OF f] assms [of "off + i"]
    show "m (p + of_nat off + of_nat i) = m' (p + of_nat off + of_nat i)" by (simp add: add.assoc)
  qed
  with f show ?thesis by (simp add: get_hib_def)
qed

interpretation hib: field_layout get_hib set_hib hib_trunc 33
  by unfold_locales (fact hib_get_set, erule hib_frame, erule hib_cong)

lemma unat_ucast_u32_u64: "unat (ucast (c :: u32) :: u64) = unat c"
  using unat_u32_lt [of c] by (simp add: unsigned_ucast_eq take_bit_nat_eq_self)

lemma ucast_u32_u64_inj: "(ucast (a :: u32) :: u64) = ucast b \<longleftrightarrow> a = b"
  by (metis unat_ucast_u32_u64 word_unat_eq_iff)

lemma hib_trunc_simps [simp]:
  "hib_trunc HIB_HeapSize v = v"
  "hib_trunc HIB_HeapPtr v = v"
  "hib_trunc HIB_Flags v = v"
  "hib_trunc HIB_Magic kKernelHeapMagic = kKernelHeapMagic"
  "hib_trunc HIB_Magic 0 = 0"
  "hib_trunc HIB_CRC32 (ucast (c :: u32)) = ucast c"
  "hib_trunc HIB_CRC32 0 = 0"
  "hib_trunc HIB_Present v = of_bool (v \<noteq> 0)"
  "hib_trunc HIB_Page v = of_bool (v \<noteq> 0)"
  "hib_trunc HIB_Wr v = of_bool (v \<noteq> 0)"
  "hib_trunc HIB_User v = of_bool (v \<noteq> 0)"
  using unat_u64_lt [of v] unat_u32_lt [of c]
  by (simp_all add: hib_trunc_def kKernelHeapMagic_def unat_ucast_u32_u64)

section \<open>The block a request leaves\<close>

lemma mm_check_heap_address_iff [simp]: "mm_check_heap_address p \<longleftrightarrow> p \<noteq> null"
  by (simp add: mm_check_heap_address_def Let_def)

lemma hib_init_eq:
  "hib_init m p sz wr user =
     fst (rt_set_memory
       (hib.setfs m p [(HIB_HeapSize, sz), (HIB_Magic, kKernelHeapMagic), (HIB_CRC32, 0),
          (HIB_HeapPtr, p + hib_size), (HIB_Page, 0), (HIB_Wr, of_bool wr),
          (HIB_User, of_bool user), (HIB_Present, 1)])
       (p + hib_padding) 0 kKernelHeapAlignSz)"
  by (simp add: hib_init_def Let_def)

lemma concat_replicate_zero: "concat (replicate k (le_bytes 4 0)) = replicate (4 * k) 0"
proof -
  have four: "le_bytes 4 0 = [0, 0, 0, 0]" by (simp add: eval_simps)
  show ?thesis unfolding four
  proof (induction k)
    case (Suc k)
    have "4 * Suc k = Suc (Suc (Suc (Suc (4 * k))))" by simp
    then show ?case by (simp only: replicate_Suc concat.simps Suc.IH append_Cons append_Nil)
  qed simp
qed

lemma padding_fill:
  "fst (rt_set_memory m a 0 kKernelHeapAlignSz) x =
     (if a \<noteq> null \<and> in_range x a 64 then 0 else m x)"
  by (simp add: rt_set_memory_def rt_set_memory_loop_eq kKernelHeapAlignSz_def
      concat_replicate_zero store_bytes_apply in_range_def)

lemma get_hib_init:
  "get_hib (hib_init m p sz wr user) p f =
     (case f of HIB_Magic \<Rightarrow> kKernelHeapMagic | HIB_Present \<Rightarrow> 1 | HIB_Wr \<Rightarrow> of_bool wr
      | HIB_User \<Rightarrow> of_bool user | HIB_Page \<Rightarrow> 0 | HIB_CRC32 \<Rightarrow> 0 | HIB_Flags \<Rightarrow> get_hib m p HIB_Flags
      | HIB_HeapSize \<Rightarrow> sz | HIB_HeapPtr \<Rightarrow> p + hib_size)"
proof -
  define m1 where "m1 = hib.setfs m p [(HIB_HeapSize, sz), (HIB_Magic, kKernelHeapMagic),
    (HIB_CRC32, 0), (HIB_HeapPtr, p + hib_size), (HIB_Page, 0), (HIB_Wr, of_bool wr),
    (HIB_User, of_bool user), (HIB_Present, 1)]"
  have "\<not> in_range (p + of_nat i) (p + hib_padding) 64" if "i < 33" for i
    by (rule disjoint_ranges_not_in [OF _ that]) (simp add: disjoint_ranges_def hib_padding_def)
  then have "get_hib (hib_init m p sz wr user) p f = get_hib m1 p f"
    by (intro hib.get_cong) (simp only: hib_init_eq m1_def [symmetric] padding_fill simp_thms if_False)
  also have "\<dots> = (case f of HIB_Magic \<Rightarrow> kKernelHeapMagic | HIB_Present \<Rightarrow> 1 | HIB_Wr \<Rightarrow> of_bool wr
      | HIB_User \<Rightarrow> of_bool user | HIB_Page \<Rightarrow> 0 | HIB_CRC32 \<Rightarrow> 0 | HIB_Flags \<Rightarrow> get_hib m p HIB_Flags
      | HIB_HeapSize \<Rightarrow> sz | HIB_HeapPtr \<Rightarrow> p + hib_size)"
    by (cases f) (simp_all add: m1_def hib.get_set)
  finally show ?thesis .
qed

lemma hib_init_frame:
  assumes "\<not> in_range x p 97"
  shows "hib_init m p sz wr user x = m x"
proof -
  have "\<not> in_range x p 33" and "\<not> in_range x (p + hib_padding) 64"
    using assms in_range_sub [of x p 33 64 97] by (auto simp: in_range_def hib_padding_def)
  then show ?thesis unfolding hib_init_eq padding_fill
    by (simp only: hib.setfs_frame simp_thms if_False)
qed

lemma mm_new_heap_cases:
  assumes "mm_new_heap sz wr user st = Some (Inr (st', p))" and "sz \<noteq> 0"
  obtains st1 w where "PageMgr_Request wr user False (sz + hib_size) st = Some (st1, w)"
    and "p = fVirtAddr w + hib_size + hib_size"
    and "st' = st1\<lparr>memory := hib_init (memory st1) (p - hib_size) (sz + hib_size) wr user\<rparr>"
    and "\<not> (debug_build st \<and> \<not> sz < kKernelHeapMaxSize)"
  using assms
  by (auto simp: mm_new_heap_def Let_def MUST_PASS_eq get_hib_init add.commute
      split: if_splits option.splits)

lemma get_hib_clear:
  "get_hib (hib_clear m p) p f =
     (if f = HIB_Page \<or> f = HIB_Flags then get_hib m p f else 0)"
  by (cases f) (simp_all add: hib_clear_def Let_def hib.get_set)

lemma hib_clear_frame: "\<not> in_range x p 33 \<Longrightarrow> hib_clear m p x = m x"
  by (simp add: hib_clear_def Let_def hib.set_frame)

lemma PageMgr_Free_frame:
  "\<not> in_range x (fVirtAddr w) 24 \<Longrightarrow> memory (fst (PageMgr_Free st w)) x = memory st x"
  by (auto simp: PageMgr_Free_def mm_free_bitmap_def FreeBitMap_def Let_def bm.set_frame
      split: prod.splits if_splits)

section \<open>Allocators\<close>

text \<open>
  What the clients of a heap (\<open>operator new\<close>, \<open>operator delete\<close>, the class helpers) rely on:
  a successful request of a usable address yields a live block, releasing a live block reports
  success and ends its life, and releasing anything else reports an error and changes nothing.
\<close>

locale allocator =
  fixes alloc :: "u64 \<Rightarrow> 's \<Rightarrow> (abort + 's \<times> addr) option"
    and release :: "addr \<Rightarrow> 's \<Rightarrow> abort + 's \<times> HError"
    and live :: "'s \<Rightarrow> addr \<Rightarrow> bool"
    and usable :: "addr \<Rightarrow> bool"
  assumes alloc_live: "alloc sz s = Some (Inr (s', p)) \<Longrightarrow> sz \<noteq> 0 \<Longrightarrow> usable p \<Longrightarrow> live s' p"
    and release_live: "live s p \<Longrightarrow> \<exists>s'. release p s = Inr (s', kErrorSuccess) \<and> \<not> live s' p"
    and release_dead: "release p s = Inr (s', kErrorSuccess) \<Longrightarrow> live s p"
    and release_error: "release p s = Inr (s', e) \<Longrightarrow> e \<noteq> kErrorSuccess \<Longrightarrow> s' = s"
begin

lemma alloc_release:
  assumes "alloc sz s = Some (Inr (s1, p))" and "sz \<noteq> 0" and "usable p"
  shows "\<exists>s2. release p s1 = Inr (s2, kErrorSuccess) \<and> \<not> live s2 p"
  using alloc_live [OF assms] release_live by blast

lemma no_double_release:
  assumes "release p s = Inr (s1, kErrorSuccess)"
  shows "release p s1 \<noteq> Inr (s2, kErrorSuccess)"
proof -
  have "live s p" using assms by (rule release_dead)
  then obtain s' where "release p s = Inr (s', kErrorSuccess)" and "\<not> live s' p"
    using release_live by blast
  with assms have "\<not> live s1 p" by simp
  then show ?thesis using release_dead by blast
qed

end

text \<open>A live heap block, and the addresses whose information block is not at null.\<close>

definition heap_live :: "mm_state \<Rightarrow> addr \<Rightarrow> bool" where
  "heap_live st p \<longleftrightarrow> p \<noteq> null \<and> p - hib_size \<noteq> null
     \<and> get_hib (memory st) (p - hib_size) HIB_Magic = kKernelHeapMagic
     \<and> get_hib (memory st) (p - hib_size) HIB_Present \<noteq> 0
     \<and> heap_crc_check (memory st) (p - hib_size) = Inr ()"

definition heap_usable :: "addr \<Rightarrow> bool" where
  "heap_usable p \<longleftrightarrow> p \<noteq> null \<and> p - hib_size \<noteq> null"

text \<open>The state a successful release leaves.\<close>

definition heap_released :: "addr \<Rightarrow> mm_state \<Rightarrow> mm_state" where
  "heap_released p st =
     fst (PageMgr_Free (st\<lparr>memory := hib_clear (memory st) (p - hib_size)\<rparr>)
            (PTEWrapper_new False False False (p - hib_size - hib_size)))"

lemma mm_delete_heap_live: "heap_live st p \<Longrightarrow> mm_delete_heap p st = Inr (heap_released p st, kErrorSuccess)"
  by (simp add: heap_live_def mm_delete_heap_def Let_def heap_released_def)

lemma get_hib_released:
  "get_hib (memory (heap_released p st)) (p - hib_size) f =
   get_hib (hib_clear (memory st) (p - hib_size)) (p - hib_size) f"
proof (rule hib.get_cong)
  fix i :: nat
  assume "i < 33"
  then have "\<not> in_range (p - hib_size + of_nat i) (p - hib_size - hib_size) 24"
    by (intro disjoint_ranges_not_in [of _ 33]) (simp_all add: disjoint_ranges_def hib_size_def)
  then show "memory (heap_released p st) (p - hib_size + of_nat i) =
             hib_clear (memory st) (p - hib_size) (p - hib_size + of_nat i)"
    by (simp add: heap_released_def PageMgr_Free_frame PTEWrapper_new_def)
qed

lemma heap_released_not_live: "\<not> heap_live (heap_released p st) p"
  by (simp add: heap_live_def get_hib_released get_hib_clear kKernelHeapMagic_def)

lemma mm_delete_heap_success_iff:
  "mm_delete_heap p st = Inr (st', kErrorSuccess) \<longleftrightarrow> heap_live st p \<and> st' = heap_released p st"
  by (auto simp: heap_live_def mm_delete_heap_def Let_def heap_released_def error_defs
      split: sum.splits)

interpretation heap: allocator "\<lambda>sz. mm_new_heap sz wr user" mm_delete_heap heap_live heap_usable
  for wr user
proof unfold_locales
  fix sz st st' p
  assume "mm_new_heap sz wr user st = Some (Inr (st', p))" and "sz \<noteq> 0" and "heap_usable p"
  then show "heap_live st' p"
    by (elim mm_new_heap_cases) (auto simp: heap_live_def heap_usable_def get_hib_init heap_crc_check_def)
next
  fix st p
  assume "heap_live st p"
  then show "\<exists>s'. mm_delete_heap p st = Inr (s', kErrorSuccess) \<and> \<not> heap_live s' p"
    by (simp add: mm_delete_heap_live heap_released_not_live)
next
  fix p st st'
  assume "mm_delete_heap p st = Inr (st', kErrorSuccess)"
  then show "heap_live st p" by (simp add: mm_delete_heap_success_iff)
next
  fix p st st' e
  assume "mm_delete_heap p st = Inr (st', e)" and "e \<noteq> kErrorSuccess"
  then show "st' = st"
    by (auto simp: mm_delete_heap_def Let_def split: if_splits sum.splits)
qed

section \<open>Properties\<close>

text \<open>
  Property C5. A successful request of \<open>sz\<close> bytes returns an address 98 bytes above the page it
  got, and the information block below that address describes the request: the magic, present,
  the write and user bits asked for, the recorded size \<open>sz\<close> plus the size of the block header, and
  the address itself; the flag word keeps whatever the memory held before. The page manager's
  state is the one the page request left, and no byte outside the 97 from the block header on
  changes.
\<close>

theorem mm_new_heap_block:
  assumes "mm_new_heap sz wr user st = Some (Inr (st', p))" and "sz \<noteq> 0"
  shows "\<exists>st1 w. PageMgr_Request wr user False (sz + hib_size) st = Some (st1, w)
     \<and> p = fVirtAddr w + 98
     \<and> (\<forall>f. get_hib (memory st') (p - hib_size) f =
          (case f of HIB_Magic \<Rightarrow> kKernelHeapMagic | HIB_Present \<Rightarrow> 1 | HIB_Wr \<Rightarrow> of_bool wr
           | HIB_User \<Rightarrow> of_bool user | HIB_Page \<Rightarrow> 0 | HIB_CRC32 \<Rightarrow> 0
           | HIB_Flags \<Rightarrow> get_hib (memory st1) (p - hib_size) HIB_Flags
           | HIB_HeapSize \<Rightarrow> sz + hib_size | HIB_HeapPtr \<Rightarrow> p))
     \<and> (\<forall>x. \<not> in_range x (p - hib_size) 97 \<longrightarrow> memory st' x = memory st1 x)"
proof -
  obtain st1 w where "PageMgr_Request wr user False (sz + hib_size) st = Some (st1, w)"
    and "p = fVirtAddr w + hib_size + hib_size"
    and "st' = st1\<lparr>memory := hib_init (memory st1) (p - hib_size) (sz + hib_size) wr user\<rparr>"
    using assms by (rule mm_new_heap_cases)
  then show ?thesis
    by (intro exI [of _ st1] exI [of _ w])
      (auto simp: get_hib_init hib_init_frame hib_size_def split: hib_field.splits)
qed

text \<open>A concrete request on the example state, for the witnesses below.\<close>

definition heap_example :: "mm_state \<times> addr" where
  "heap_example =
     (case mm_new_heap 16 True False page_example of
        Some (Inr r) \<Rightarrow> r | _ \<Rightarrow> (page_example, null))"

lemma heap_example_request:
  "PageMgr_Request True False False (16 + hib_size) page_example =
     Some (fst (bitmap_mark page_example 0x100000 (16 + hib_size) True False),
           PTEWrapper_new True False False 0x100000)"
proof -
  have "FindBitMap page_example 0x100000 (16 + hib_size) True False =
        Some (bitmap_mark page_example 0x100000 (16 + hib_size) True False)"
    by (rule FindBitMap_fresh) (simp_all add: page_example_def get_bitmap_def load64_def eval_simps
        kBitMapMagic_def kPageSize_def hib_size_def)
  then show ?thesis
    by (simp add: PageMgr_Request_def mm_alloc_bitmap_def page_example_def split: prod.splits)
      (metis bitmap_mark_snd snd_conv fst_conv)
qed

lemma heap_example_new:
  "mm_new_heap 16 True False page_example = Some (Inr heap_example)" "snd heap_example = 0x100062"
proof -
  have "debug_build page_example = False" by (simp add: page_example_def)
  then have "\<exists>st'. mm_new_heap 16 True False page_example = Some (Inr (st', 0x100062))"
    by (simp add: mm_new_heap_def MUST_PASS_eq heap_example_request Let_def PTEWrapper_new_def
        get_hib_init, simp add: hib_size_def)
  then show "mm_new_heap 16 True False page_example = Some (Inr heap_example)"
    and "snd heap_example = 0x100062" by (auto simp: heap_example_def)
qed

lemma heap_example_eq: "heap_example = (fst heap_example, 0x100062)"
  using heap_example_new(2) by (metis prod.collapse)

theorem mm_new_heap_block_witness:
  "get_hib (memory (fst heap_example)) (0x100062 - hib_size) HIB_HeapSize = 65"
proof -
  have h: "mm_new_heap 16 True False page_example = Some (Inr (fst heap_example, 0x100062))"
    using heap_example_new(1) heap_example_eq by simp
  show ?thesis using mm_new_heap_block [OF h] by (auto simp: hib_size_def)
qed


lemma heap_example_bitmap: "mm_is_bitmap (fst heap_example) 0x100000"
proof -
  let ?st0 = "page_example\<lparr>memory := marked (memory page_example) 0x100000 (16 + hib_size)\<rparr>"
  have "load64 (memory ?st0) 0xD000 = 0"
    using load64_marked_other [of "0xD000" "0x100000" "memory page_example" "16 + hib_size"]
    by (simp add: disjoint_ranges_def page_example_def) (simp add: load64_def eval_simps)
  then have clear: "pte_clear ?st0 0x100000 0x100000 24"
    by (simp add: pte_clear_def pte_of_def page_walk_eq page_example_def)
  let ?st1 = "fst (bitmap_mark page_example 0x100000 (16 + hib_size) True False)"
  have magic: "get_bitmap (memory ?st1) 0x100000 kBitMapMagIdx = kBitMapMagic"
    using clear by (simp add: bitmap_mark_eq mm_map_page_keeps_bitmap get_marked)
  have ex: "memory (fst heap_example) = hib_init (memory ?st1) (0x100000 + hib_size) (16 + hib_size) True False"
  proof -
    have "mm_new_heap 16 True False page_example = Some (Inr (fst heap_example, 0x100062))"
      using heap_example_new(1) heap_example_eq by simp
    then show ?thesis
      by (rule mm_new_heap_cases) (simp_all add: heap_example_request, simp add: hib_size_def)
  qed
  have "get_bitmap (memory (fst heap_example)) 0x100000 kBitMapMagIdx = get_bitmap (memory ?st1) 0x100000 kBitMapMagIdx"
    unfolding ex
  proof (rule bm.get_cong)
    fix i :: nat
    assume "i < 24"
    then have "\<not> in_range (0x100000 + of_nat i) (0x100000 + hib_size) 97"
      by (intro disjoint_ranges_not_in [of _ 24]) (simp_all add: disjoint_ranges_def hib_size_def)
    then show "hib_init (memory ?st1) (0x100000 + hib_size) (16 + hib_size) True False (0x100000 + of_nat i)
      = memory ?st1 (0x100000 + of_nat i)" by (rule hib_init_frame)
  qed
  with magic show ?thesis by (simp add: mm_is_bitmap_def IsBitMap_iff)
qed


text \<open>
  Remark. Clearing the header's padding clears the caller's memory as well: whatever the size
  of the request, the 48 bytes from the returned address on are zero afterwards, so a request of
  fewer than 48 bytes overwrites what lies behind its block. A fresh block is also never a valid
  heap pointer for \<open>mm_is_valid_heap\<close>, which looks for the bitmap magic at the returned address
  instead of at the page.
\<close>

theorem mm_new_heap_clears_48_bytes:
  assumes "mm_new_heap sz wr user st = Some (Inr (st', p))" and "sz \<noteq> 0" and "p \<noteq> 16"
  shows "load_bytes (memory st') p 48 = replicate 48 0 \<and> \<not> mm_is_valid_heap p st'"
proof -
  obtain st1 where st': "st' = st1\<lparr>memory := hib_init (memory st1) (p - hib_size) (sz + hib_size) wr user\<rparr>"
    using assms(1,2) by (rule mm_new_heap_cases)
  have pad: "p - hib_size + hib_padding = p - 16" by (simp add: hib_size_def hib_padding_def)
  have zero: "memory st' (p + of_nat i) = 0" if "i < 48" for i
  proof -
    have "p + of_nat i - (p - 16) = of_nat (16 + i)" by simp
    moreover have "16 + i < 2 ^ 64" using that by simp
    ultimately have "unat (p + of_nat i - (p - 16)) = 16 + i"
      by (simp only: unat_of_nat_addr)
    with that assms(3) show ?thesis
      by (simp add: st' hib_init_eq padding_fill pad in_range_def)
  qed
  then have bytes: "load_bytes (memory st') p 48 = replicate 48 0"
    by (intro nth_equalityI) simp_all
  have "load_bytes (memory st') p 8 = replicate 8 0"
    by (intro nth_equalityI) (simp_all add: zero)
  then have "get_bitmap (memory st') p kBitMapMagIdx = 0"
    by (simp add: get_bitmap_def load64_def numeral_eq_Suc)
  then have "\<not> mm_is_valid_heap p st'"
    by (simp add: mm_is_valid_heap_def mm_is_bitmap_def IsBitMap_iff kBitMapMagic_def)
  with bytes show ?thesis by blast
qed

theorem mm_new_heap_clears_48_bytes_witness:
  "load_bytes (memory (fst heap_example)) 0x100062 48 = replicate 48 0
   \<and> \<not> mm_is_valid_heap 0x100062 (fst heap_example)"
proof -
  have h: "mm_new_heap 16 True False page_example = Some (Inr (fst heap_example, 0x100062))"
    using heap_example_new(1) heap_example_eq by simp
  show ?thesis using mm_new_heap_clears_48_bytes [OF h] by simp
qed

text \<open>
  Property C29. \<open>mm_protect_heap\<close> makes the release check the block: on a protected kernel block
  with a nonzero checksum, releasing the untouched block succeeds, and after overwriting any one
  of the checked bytes with another value the release never reports success but stops the kernel
  with \<open>RUNTIME_CHECK_POINTER\<close> (or the checksum routine itself leaves its table, when the new
  byte is at least \<open>0x80\<close>).
\<close>

theorem mm_protect_heap_detects_change:
  fixes p :: addr and st st1 :: mm_state
  defines "h \<equiv> p - hib_size"
  defines "n \<equiv> unat (ucast (get_hib (memory st) h HIB_HeapSize) :: u32)"
  assumes "mm_protect_heap p st = Inr (st1, True)" and "get_hib (memory st) h HIB_HeapPtr = p"
    and "get_hib (memory st) h HIB_User = 0" and "get_hib (memory st1) h HIB_CRC32 \<noteq> 0"
    and "disjoint_ranges p n h 33" and "i < n" and "b \<noteq> memory st1 (p + of_nat i)"
  shows "(\<exists>st2. mm_delete_heap p st1 = Inr (st2, kErrorSuccess))
     \<and> mm_delete_heap p (st1\<lparr>memory := (memory st1)(p + of_nat i := b)\<rparr>)
         \<in> {Inl (Stop RUNTIME_CHECK_POINTER), Inl OutOfBounds}"
proof -
  let ?len = "ucast (get_hib (memory st) h HIB_HeapSize) :: u32"
  obtain c where h0: "p \<noteq> null" "h \<noteq> null" and c: "ke_calculate_crc32 (memory st) p ?len = Inr c"
    and pres: "get_hib (memory st) h HIB_Present \<noteq> 0"
    and mag: "get_hib (memory st) h HIB_Magic = kKernelHeapMagic"
    and st1: "st1 = st\<lparr>memory := set_hib (memory st) h HIB_CRC32 (ucast c)\<rparr>"
    using assms(3,4) by (auto simp: mm_protect_heap_def h_def heap_crc_def Let_def split: if_splits sum.splits)
  define m1 where "m1 = memory st1"
  define m2 where "m2 = m1(p + of_nat i := b)"
  have out: "\<not> in_range (p + of_nat j) h 33" if "j < n" for j
    using assms(7) that by (rule disjoint_ranges_not_in)
  have "load_bytes m1 p n = load_bytes (memory st) p n"
    by (rule load_bytes_cong) (simp add: m1_def st1 hib.set_frame out)
  then have c1: "ke_calculate_crc32 m1 p ?len = Inr c"
    using c by (auto simp: ke_calculate_crc32_eq n_def split: if_splits)
  have g1: "get_hib m1 h f = (if f = HIB_CRC32 then ucast c else get_hib (memory st) h f)" for f
    by (simp add: m1_def st1 hib.get_set)
  have g2: "get_hib m2 h f = get_hib m1 h f" for f
  proof (rule hib.get_cong)
    fix j :: nat
    assume "j < 33"
    then have "p + of_nat i \<noteq> h + of_nat j"
      by (intro not_in_range_neq [OF out [OF assms(8)]]) simp_all
    then show "m2 (h + of_nat j) = m1 (h + of_nat j)" by (simp add: m2_def)
  qed
  have c2: "ke_calculate_crc32 m2 p ?len \<noteq> Inr c"
    unfolding m2_def using c1 assms(8,9) by (intro ke_calculate_crc32_change) (auto simp: n_def m1_def)
  have c0: "(ucast c :: u64) \<noteq> 0" using assms(6) g1 [of HIB_CRC32] by (simp add: m1_def)
  have "heap_live st1 p"
    using h0 pres mag c1 assms(4,5)
    by (simp add: heap_live_def h_def [symmetric] m1_def [symmetric] g1 heap_crc_check_def heap_crc_def)
  moreover have "heap_crc_check m2 h \<in> {Inl (Stop RUNTIME_CHECK_POINTER), Inl OutOfBounds}"
    using c2 c0 assms(4,5)
    by (auto simp: heap_crc_check_def heap_crc_def g1 g2 ke_calculate_crc32_eq ucast_u32_u64_inj
        split: if_splits)
  then have "mm_delete_heap p (st1\<lparr>memory := m2\<rparr>) \<in> {Inl (Stop RUNTIME_CHECK_POINTER), Inl OutOfBounds}"
    using h0 pres mag by (auto simp: mm_delete_heap_def h_def [symmetric] Let_def g1 g2)
  ultimately show ?thesis unfolding m2_def m1_def by (auto dest: mm_delete_heap_live)
qed

definition protect_example :: mm_state where
  "protect_example = page_example\<lparr>memory :=
     set_hib (set_hib (set_hib (set_hib (set_hib (\<lambda>_. 0x41) 0x2000 HIB_HeapSize 1)
       0x2000 HIB_Magic kKernelHeapMagic) 0x2000 HIB_HeapPtr 0x2031) 0x2000 HIB_User 0)
       0x2000 HIB_Present 1\<rparr>"

lemma protect_example_fields:
  "get_hib (memory protect_example) 0x2000 HIB_HeapSize = 1"
  "get_hib (memory protect_example) 0x2000 HIB_Magic = kKernelHeapMagic"
  "get_hib (memory protect_example) 0x2000 HIB_HeapPtr = 0x2031"
  "get_hib (memory protect_example) 0x2000 HIB_User = 0"
  "get_hib (memory protect_example) 0x2000 HIB_Present = 1"
  "memory protect_example 0x2031 = 0x41"
  by (simp_all add: protect_example_def hib.get_set hib.set_frame in_range_def)

lemma protect_example_protected:
  "mm_protect_heap 0x2031 protect_example =
     Inr (protect_example\<lparr>memory := set_hib (memory protect_example) 0x2000 HIB_CRC32
            (ucast (crc32c [0x41]))\<rparr>, True)"
proof -
  have "ke_calculate_crc32 (memory protect_example) 0x2031 1 = Inr (crc32c [0x41])"
    by (simp add: ke_calculate_crc32_eq protect_example_fields)
  then show ?thesis
    by (simp add: mm_protect_heap_def hib_size_def heap_crc_def Let_def protect_example_fields)
qed

lemma crc32c_A: "crc32c [0x41] = 0xE16DCDEE"
proof -
  have "crc32c [0x41] = (kCrcTbl ! unat (ucast (0xffffffff :: u32) XOR 0x41 :: u8)
          XOR drop_bit 8 0xffffffff) XOR 0xffffffff"
    by (simp only: crc_table_step crc32c_def foldl.simps)
  also have "kCrcTbl ! unat (ucast (0xffffffff :: u32) XOR 0x41 :: u8) = 0x1E6DCDEE"
    by (simp add: kCrcTbl_def)
  finally show ?thesis by simp
qed

theorem mm_protect_heap_detects_change_witness:
  "\<exists>st1. mm_protect_heap 0x2031 protect_example = Inr (st1, True)
     \<and> mm_delete_heap 0x2031 (st1\<lparr>memory := (memory st1)(0x2031 := 0x42)\<rparr>)
         \<in> {Inl (Stop RUNTIME_CHECK_POINTER), Inl OutOfBounds}"
proof -
  let ?m = "set_hib (memory protect_example) 0x2000 HIB_CRC32 (ucast (crc32c [0x41]))"
  have "?m 0x2031 = 0x41"
    by (simp add: hib.set_frame in_range_def protect_example_fields)
  moreover have "get_hib ?m 0x2000 HIB_CRC32 \<noteq> 0"
    by (simp add: hib.get_set crc32c_A hib_trunc_def)
  ultimately show ?thesis
    using mm_protect_heap_detects_change [OF protect_example_protected, of 0 "0x42"]
    by (simp add: protect_example_protected hib_size_def protect_example_fields disjoint_ranges_def)
qed

text \<open>
  Remark. The flag word of a block is a cell of its own: \<open>mm_make_flags\<close> followed by
  \<open>mm_get_flags\<close> returns what was stored, and neither it nor \<open>mm_make_page\<close> changes whether the
  block is live or what a release does to it, except that a block cannot change at the null
  address, where both report \<open>kErrorHeapNotPresent\<close>.
\<close>

theorem mm_make_flags_roundtrip:
  "(if p = null
    then mm_make_flags p flags st = (st, kErrorHeapNotPresent) \<and> mm_make_page p st = (st, kErrorHeapNotPresent)
    else snd (mm_make_flags p flags st) = kErrorSuccess
       \<and> mm_get_flags p (fst (mm_make_flags p flags st)) = flags
       \<and> mm_get_flags p (fst (mm_make_page p st)) = mm_get_flags p st
       \<and> get_hib (memory (fst (mm_make_page p st))) (p - hib_size) HIB_Page = 1
       \<and> (\<forall>f. f = HIB_Flags
             \<or> get_hib (memory (fst (mm_make_flags p flags st))) (p - hib_size) f
                = get_hib (memory st) (p - hib_size) f))"
  by (auto simp: mm_make_flags_def mm_make_page_def mm_get_flags_def Let_def hib.get_set)

section \<open>Running out of pages\<close>

lemma FindBitMap_wrapped:
  "kKernelBitMpStart st = - kPageSize \<Longrightarrow> FindBitMap st (kKernelBitMpStart st) sz wr user = Some (st, null)"
  unfolding FindBitMap_def by (subst FindBitMap_loop.simps) simp

lemma mm_new_heap_null_page:
  assumes "mm_alloc_bitmap wr user (sz + hib_size) False st = Some (st, null)" and "sz \<noteq> 0" and "sz < kKernelHeapMaxSize"
  shows "mm_new_heap sz wr user st = Some (Inr (st\<lparr>memory := hib_init (memory st) 49 (sz + hib_size) wr user\<rparr>, 98))"
proof -
  have "get_hib (hib_init m 49 sz' wr user) 49 HIB_HeapPtr = 98" for m sz'
    by (subst get_hib_init) (simp add: hib_size_def)
  with assms show ?thesis
    by (simp add: mm_new_heap_def PageMgr_Request_def PTEWrapper_new_def MUST_PASS_eq Let_def hib_size_def)
qed

text \<open>
  Remark. Running out of pages goes unnoticed: when the page allocator finds no block, \<open>mm_new_heap\<close>
  writes its information block at address 49 and returns address 98, which is not null, so that the
  null checks of its callers never see the failure.
\<close>

theorem mm_new_heap_hides_exhaustion:
  assumes "mm_alloc_bitmap wr user (sz + hib_size) False st = Some (st, null)" and "sz \<noteq> 0" and "sz < kKernelHeapMaxSize"
  shows "\<exists>st'. mm_new_heap sz wr user st = Some (Inr (st', 98)) \<and> (98 :: addr) \<noteq> null
    \<and> get_hib (memory st') 49 HIB_Magic = kKernelHeapMagic"
proof -
  have "get_hib (hib_init m 49 sz' wr user) 49 HIB_Magic = kKernelHeapMagic" for m sz'
    by (subst get_hib_init) (simp add: kKernelHeapMagic_def)
  with mm_new_heap_null_page [OF assms] show ?thesis by simp
qed

theorem mm_new_heap_hides_exhaustion_witness:
  "\<exists>st'. mm_new_heap 16 True False (page_example\<lparr>kKernelBitMpStart := - kPageSize\<rparr>) = Some (Inr (st', 98))
     \<and> get_hib (memory st') 49 HIB_Magic = kKernelHeapMagic"
proof -
  let ?st = "page_example\<lparr>kKernelBitMpStart := - kPageSize\<rparr>"
  have "mm_alloc_bitmap True False (16 + hib_size) False ?st = Some (?st, null)"
    unfolding mm_alloc_bitmap_def by (rule FindBitMap_wrapped) simp
  from mm_new_heap_hides_exhaustion [OF this] show ?thesis by (simp add: kKernelHeapMaxSize_def)
qed

end
