(* ===== verification/Hardware_Threads.thy ===== *)
theory Hardware_Threads
  imports Kernel_Heap
begin

text \<open>
  The hardware threads a process can be scheduled on:
  \<^verbatim>\<open>dev/ZKAKit/src/HardwareThreadScheduler.cc\<close>, its header, the fixed-size arrays of
  \<^verbatim>\<open>NewKit/Array.h\<close>, and of the AMD64 layer the stack check of \<^verbatim>\<open>HalAP.cc\<close> and the
  process blocks of \<^verbatim>\<open>HalCoreScheduler.cc\<close>.
\<close>

section \<open>Arrays\<close>

text \<open>
  An array of \<open>N\<close> elements is a list of length \<open>N\<close>; \<open>truthy\<close> is the element's conversion to
  \<open>bool\<close>. As written, \<open>Empty\<close> holds when some element is set.
\<close>

definition Array_at :: "'a list \<Rightarrow> u64 \<Rightarrow> abort + 'a" where
  "Array_at xs At = (if unat At < length xs then Inr (xs ! unat At) else Inl OutOfBounds)"

definition Array_Assign :: "'a list \<Rightarrow> u64 \<Rightarrow> 'a \<Rightarrow> abort + 'a list" where
  "Array_Assign xs At NewVal = (if unat At < length xs then Inr (xs[unat At := NewVal]) else Inl OutOfBounds)"

primrec Array_Count :: "('a \<Rightarrow> bool) \<Rightarrow> 'a list \<Rightarrow> nat" where
  "Array_Count truthy [] = 0"
| "Array_Count truthy (x # xs) = (if truthy x then 1 else 0) + Array_Count truthy xs"

definition Array_Empty :: "('a \<Rightarrow> bool) \<Rightarrow> 'a list \<Rightarrow> bool" where
  "Array_Empty truthy xs = (Array_Count truthy xs > 0)"

lemma Array_Count_0: "Array_Count truthy xs = 0 \<longleftrightarrow> (\<forall>x \<in> set xs. \<not> truthy x)"
  by (induction xs) auto

lemma Array_Empty_iff: "Array_Empty truthy xs \<longleftrightarrow> (\<exists>x \<in> set xs. truthy x)"
  unfolding Array_Empty_def using Array_Count_0 [of truthy xs] by auto

lemma Array_Count_le: "Array_Count truthy xs \<le> length xs"
  by (induction xs) auto

section \<open>Threads\<close>

datatype ThreadKind = kAPSystemReserved | kAPStandard | kAPFallback | kAPBoot | kInvalidAP | kAPCount

record HardwareThread =
  fStack :: addr
  fKind :: ThreadKind
  fID :: u32
  fSourcePID :: u64
  fWakeup :: bool
  fBusy :: bool
  fPTime :: u64

definition kMaxAPInsideSched :: nat where "kMaxAPInsideSched = 8"
definition kSchedProcessLimitPerTeam :: nat where "kSchedProcessLimitPerTeam = 32"

definition HardwareThread_new :: HardwareThread where
  "HardwareThread_new = \<lparr>fStack = null, fKind = kAPStandard, fID = 0, fSourcePID = -1, fWakeup = False,
     fBusy = False, fPTime = 0\<rparr>"

record PROCESS_CONTROL_BLOCK =
  f_Frame :: addr
  f_Stack :: addr
  f_Image :: addr

text \<open>
  The scheduler's threads, the timer of \<open>IsBusy\<close>, a static variable all threads share, and the
  process blocks.
\<close>

record hw_state =
  fThreadList :: "HardwareThread list"
  fCurrentThread :: u32
  busy_timer :: u64
  kProcessBlocks :: "PROCESS_CONTROL_BLOCK list"

definition HardwareThread_bool :: "HardwareThread \<Rightarrow> bool" where
  "HardwareThread_bool t = (fStack t \<noteq> null \<and> \<not> fBusy t)"

definition HardwareThread_IsBusy :: "HardwareThread \<Rightarrow> u64 \<Rightarrow> HardwareThread \<times> u64 \<times> bool" where
  "HardwareThread_IsBusy t timer =
     (let (t', timer') = (if timer > fPTime t then (t\<lparr>fBusy := False\<rparr>, 0) else (t, timer))
      in (t', timer' + 1, fBusy t'))"

definition HardwareThread_StackFrame :: "bool \<Rightarrow> HardwareThread \<Rightarrow> abort + addr" where
  "HardwareThread_StackFrame debug t =
     (case MUST_PASS debug (fStack t \<noteq> null) of Inl e \<Rightarrow> Inl e | Inr _ \<Rightarrow> Inr (fStack t))"

definition HardwareThread_Busy :: "bool \<Rightarrow> HardwareThread \<Rightarrow> HardwareThread" where
  "HardwareThread_Busy busy t = t\<lparr>fBusy := busy\<rparr>"

text \<open>The stack pointers of a frame lie 72 and 80 bytes into it.\<close>

definition hal_check_stack :: "mem \<Rightarrow> addr \<Rightarrow> bool" where
  "hal_check_stack m stack_ptr =
     (if stack_ptr = null then False
      else load64 m (stack_ptr + 72) \<noteq> 0 \<and> load64 m (stack_ptr + 80) \<noteq> 0)"

text \<open>\<open>pid % 32\<close> on signed integers: negative for a negative \<open>pid\<close>, which is then no index.\<close>

definition process_index :: "u64 \<Rightarrow> int" where
  "process_index pid = sint pid smod int kSchedProcessLimitPerTeam"

definition mp_get_current_context :: "u64 \<Rightarrow> hw_state \<Rightarrow> abort + addr" where
  "mp_get_current_context pid hw =
     (if process_index pid < 0 then Inl OutOfBounds
      else Inr (f_Frame (kProcessBlocks hw ! nat (process_index pid))))"

definition mp_register_process ::
    "bool \<Rightarrow> addr \<Rightarrow> addr \<Rightarrow> addr \<Rightarrow> u64 \<Rightarrow> hw_state \<Rightarrow> abort + hw_state \<times> bool" where
  "mp_register_process debug image_ptr stack_ptr stack_frame pid hw =
     (case MUST_PASS debug (image_ptr \<noteq> null \<and> stack_ptr \<noteq> null \<and> stack_frame \<noteq> null) of
        Inl e \<Rightarrow> Inl e
      | Inr _ \<Rightarrow>
          if process_index pid < 0 then Inl OutOfBounds
          else Inr (hw\<lparr>kProcessBlocks := (kProcessBlocks hw)[nat (process_index pid) :=
                        \<lparr>f_Frame = stack_frame, f_Stack = stack_ptr, f_Image = image_ptr\<rparr>]\<rparr>, True))"

text \<open>\<open>Switch\<close> on the thread at index \<open>i\<close>; \<open>m\<close> is the memory the frame lies in.\<close>

definition HardwareThread_Switch ::
    "bool \<Rightarrow> mem \<Rightarrow> nat \<Rightarrow> addr \<Rightarrow> addr \<Rightarrow> addr \<Rightarrow> u64 \<Rightarrow> hw_state \<Rightarrow> abort + hw_state \<times> bool" where
  "HardwareThread_Switch debug m i image_ptr stack_ptr frame pid hw =
     (if frame = null \<or> image_ptr = null \<or> stack_ptr = null then Inr (hw, False)
      else if \<not> fWakeup (fThreadList hw ! i) then Inr (hw, False)
      else
        let (t, timer, busy) = HardwareThread_IsBusy (fThreadList hw ! i) (busy_timer hw);
            hw1 = hw\<lparr>fThreadList := (fThreadList hw)[i := t], busy_timer := timer\<rparr>
        in if busy then Inr (hw1, False)
           else if \<not> hal_check_stack m frame then Inr (hw1, False)
           else
             let t2 = t\<lparr>fStack := frame, fSourcePID := pid\<rparr>;
                 hw2 = hw1\<lparr>fThreadList := (fThreadList hw1)[i := t2]\<rparr>
             in case mp_register_process debug image_ptr stack_ptr (fStack t2) (fSourcePID t2) hw2 of
                  Inl e \<Rightarrow> Inl e
                | Inr (hw3, ret) \<Rightarrow>
                    Inr (if ret then hw3\<lparr>fThreadList := (fThreadList hw3)[i := HardwareThread_Busy True t2]\<rparr> else hw3,
                         ret))"

section \<open>The scheduler of threads\<close>

definition HardwareThreadScheduler_Leak :: "hw_state \<Rightarrow> abort + addr" where
  "HardwareThreadScheduler_Leak hw =
     (case Array_at (fThreadList hw) (ucast (fCurrentThread hw)) of Inl e \<Rightarrow> Inl e | Inr t \<Rightarrow> Inr (fStack t))"

text \<open>
  Indexing yields a reference to the thread, here its index, or \<open>None\<close> beyond the last one. The
  first thread is made the boot thread unless the system reserved it. The reference the code
  returns is to the constructor's argument; it is taken as the pointer it was built from.
\<close>

definition HardwareThreadScheduler_at :: "nat \<Rightarrow> hw_state \<Rightarrow> hw_state \<times> nat option" where
  "HardwareThreadScheduler_at idx hw =
     (if idx = 0 then
        (if fKind (fThreadList hw ! 0) \<noteq> kAPSystemReserved
         then hw\<lparr>fThreadList := (fThreadList hw)[0 := (fThreadList hw ! 0)\<lparr>fKind := kAPBoot\<rparr>]\<rparr> else hw, Some 0)
      else if idx \<ge> kMaxAPInsideSched then (hw, None) else (hw, Some idx))"

definition HardwareThreadScheduler_bool :: "hw_state \<Rightarrow> bool" where
  "HardwareThreadScheduler_bool hw = (\<not> Array_Empty HardwareThread_bool (fThreadList hw))"

definition HardwareThreadScheduler_not :: "hw_state \<Rightarrow> bool" where
  "HardwareThreadScheduler_not hw = Array_Empty HardwareThread_bool (fThreadList hw)"

definition HardwareThreadScheduler_Capacity :: "hw_state \<Rightarrow> nat" where
  "HardwareThreadScheduler_Capacity hw =
     (if Array_Empty HardwareThread_bool (fThreadList hw) then 0 else kMaxAPInsideSched)"

section \<open>Switching a thread\<close>

definition hw_wf :: "hw_state \<Rightarrow> bool" where
  "hw_wf hw \<longleftrightarrow> length (fThreadList hw) = kMaxAPInsideSched \<and> length (kProcessBlocks hw) = kSchedProcessLimitPerTeam"

lemma process_index_bound: "process_index pid < int kSchedProcessLimitPerTeam"
proof -
  have "\<bar>x smod 32\<bar> < 32" for x :: int
    by (simp add: signed_modulo_int_def abs_mult)
  then show ?thesis by (simp add: process_index_def kSchedProcessLimitPerTeam_def abs_less_iff)
qed

lemma HardwareThread_IsBusy_keeps:
  "HardwareThread_IsBusy t timer = (t', timer', busy) \<Longrightarrow> t'\<lparr>fBusy := b\<rparr> = t\<lparr>fBusy := b\<rparr>"
  by (auto simp: HardwareThread_IsBusy_def split: if_splits)

text \<open>
  Whatever the outcome, a switch only touches the thread it is called on, keeps that thread's kind,
  identity, wake-up mark and time, and keeps the shape of the state.
\<close>

lemma HardwareThread_Switch_frame:
  assumes "HardwareThread_Switch debug m i image_ptr stack_ptr frame pid hw = Inr (hw', ret)"
  shows "length (fThreadList hw') = length (fThreadList hw) \<and> length (kProcessBlocks hw') = length (kProcessBlocks hw)
    \<and> (\<forall>j. j \<noteq> i \<longrightarrow> fThreadList hw' ! j = fThreadList hw ! j)
    \<and> (i < length (fThreadList hw) \<longrightarrow>
         fKind (fThreadList hw' ! i) = fKind (fThreadList hw ! i) \<and> fID (fThreadList hw' ! i) = fID (fThreadList hw ! i)
         \<and> fWakeup (fThreadList hw' ! i) = fWakeup (fThreadList hw ! i)
         \<and> fPTime (fThreadList hw' ! i) = fPTime (fThreadList hw ! i))
    \<and> fCurrentThread hw' = fCurrentThread hw"
  using assms
  by (auto simp: HardwareThread_Switch_def HardwareThread_IsBusy_def mp_register_process_def
      HardwareThread_Busy_def Let_def split: if_splits sum.splits)

lemma HardwareThread_Switch_success:
  assumes "hw_wf hw" and "i < kMaxAPInsideSched"
    and "HardwareThread_Switch debug m i image_ptr stack_ptr frame pid hw = Inr (hw', True)"
  shows "frame \<noteq> null \<and> image_ptr \<noteq> null \<and> stack_ptr \<noteq> null \<and> hal_check_stack m frame
    \<and> fWakeup (fThreadList hw ! i) \<and> (fBusy (fThreadList hw ! i) \<longrightarrow> busy_timer hw > fPTime (fThreadList hw ! i))
    \<and> 0 \<le> process_index pid
    \<and> fThreadList hw' ! i = (fThreadList hw ! i)\<lparr>fStack := frame, fSourcePID := pid, fBusy := True\<rparr>
    \<and> kProcessBlocks hw' ! nat (process_index pid) = \<lparr>f_Frame = frame, f_Stack = stack_ptr, f_Image = image_ptr\<rparr>"
proof -
  have "nat (process_index pid) < kSchedProcessLimitPerTeam" if "0 \<le> process_index pid"
    using that process_index_bound [of pid] by linarith
  with assms show ?thesis
    by (auto simp: HardwareThread_Switch_def HardwareThread_IsBusy_def mp_register_process_def hw_wf_def
        HardwareThread_Busy_def Let_def split: if_splits sum.splits)
qed

section \<open>Properties\<close>

text \<open>
  Remark. A thread accepts a process only when it is awake, is not busy with another one (or
  its time is used up) and the frame has a stack and a base pointer; then it is busy with exactly
  that frame and process, the frame is what \<open>mp_get_current_context\<close> returns for the process
  afterwards, and no other thread changes.
\<close>

theorem HardwareThread_Switch_registers:
  assumes "hw_wf hw" and "i < kMaxAPInsideSched"
    and "HardwareThread_Switch debug m i image_ptr stack_ptr frame pid hw = Inr (hw', True)"
  shows "fWakeup (fThreadList hw ! i) \<and> (fBusy (fThreadList hw ! i) \<longrightarrow> busy_timer hw > fPTime (fThreadList hw ! i))
    \<and> hal_check_stack m frame
    \<and> fThreadList hw' = (fThreadList hw)[i := (fThreadList hw ! i)\<lparr>fStack := frame, fSourcePID := pid, fBusy := True\<rparr>]
    \<and> mp_get_current_context pid hw' = Inr frame \<and> hw_wf hw'"
proof -
  note s = HardwareThread_Switch_success [OF assms] and f = HardwareThread_Switch_frame [OF assms(3)]
  have "fThreadList hw' = (fThreadList hw)[i := (fThreadList hw ! i)\<lparr>fStack := frame, fSourcePID := pid, fBusy := True\<rparr>]"
  proof (rule nth_equalityI)
    fix j
    assume "j < length (fThreadList hw')"
    with s f show "fThreadList hw' ! j =
        (fThreadList hw)[i := (fThreadList hw ! i)\<lparr>fStack := frame, fSourcePID := pid, fBusy := True\<rparr>] ! j"
      by (cases "j = i") simp_all
  qed (use f in simp)
  with s f assms(1) show ?thesis by (auto simp: mp_get_current_context_def hw_wf_def)
qed

definition hw_example :: hw_state where
  "hw_example = \<lparr>fThreadList = replicate 8 (HardwareThread_new\<lparr>fWakeup := True\<rparr>), fCurrentThread = 0, busy_timer = 0,
     kProcessBlocks = replicate 32 \<lparr>f_Frame = null, f_Stack = null, f_Image = null\<rparr>\<rparr>"

theorem HardwareThread_Switch_registers_witness:
  "\<exists>hw'. HardwareThread_Switch False (\<lambda>_. 1) 2 0x1000 0x2000 0x3000 5 hw_example = Inr (hw', True)
     \<and> mp_get_current_context 5 hw' = Inr 0x3000"
proof -
  have "load64 (\<lambda>_. 1) p \<noteq> 0" for p
    by (simp add: load64_def load_bytes_def)
  then have "hal_check_stack (\<lambda>_. 1) 0x3000" by (simp add: hal_check_stack_def)
  then obtain hw' where "HardwareThread_Switch False (\<lambda>_. 1) 2 0x1000 0x2000 0x3000 5 hw_example = Inr (hw', True)"
    by (simp add: HardwareThread_Switch_def hw_example_def HardwareThread_new_def HardwareThread_IsBusy_def
        mp_register_process_def MUST_PASS_eq process_index_def kSchedProcessLimitPerTeam_def Let_def)
  with HardwareThread_Switch_registers [OF _ _ this] show ?thesis
    by (simp add: hw_wf_def hw_example_def kMaxAPInsideSched_def kSchedProcessLimitPerTeam_def)
qed

end
