(* ===== verification/User_Process.thy ===== *)
theory User_Process
  imports Hardware_Threads
begin

text \<open>
  User processes and their scheduler: \<^verbatim>\<open>dev/ZKAKit/src/UserProcessScheduler.cc\<close> with its
  header and \<^verbatim>\<open>.inl\<close> file, \<^verbatim>\<open>UserProcessTeam.cc\<close>, and \<open>rtl_fini_dll\<close> of
  \<^verbatim>\<open>IPEFDLLObject.cc\<close>. Class objects (processes, the nodes of a process' memory list, loaded
  libraries) live in typed stores, from addresses to objects; an object that was deleted is not in
  its store. Everything else is in the memory of the memory manager.
\<close>

section \<open>Processes\<close>

datatype ProcessStatusKind = kInvalid | kStarting | kRunning | kKilled | kFrozen | kFinished

text \<open>The affinity is stored as a number; \<open>kAffinityZero\<close> is zero, which no enumerator of the source has.\<close>

datatype AffinityKind = kRealTime | kVeryHigh | kHigh | kStandard | kLowUsage | kVeryLowUsage | kAffinityZero

primrec affinity_value :: "AffinityKind \<Rightarrow> u64" where
  "affinity_value kRealTime = 500"
| "affinity_value kVeryHigh = 250"
| "affinity_value kHigh = 200"
| "affinity_value kStandard = 1000"
| "affinity_value kLowUsage = 1500"
| "affinity_value kVeryLowUsage = 2000"
| "affinity_value kAffinityZero = 0"

definition AffinityKind_lt :: "AffinityKind \<Rightarrow> AffinityKind \<Rightarrow> bool" where
  "AffinityKind_lt lhs rhs = (sint (affinity_value lhs) < sint (affinity_value rhs))"
definition AffinityKind_gt :: "AffinityKind \<Rightarrow> AffinityKind \<Rightarrow> bool" where
  "AffinityKind_gt lhs rhs = (sint (affinity_value lhs) > sint (affinity_value rhs))"
definition AffinityKind_le :: "AffinityKind \<Rightarrow> AffinityKind \<Rightarrow> bool" where
  "AffinityKind_le lhs rhs = (sint (affinity_value lhs) \<le> sint (affinity_value rhs))"
definition AffinityKind_ge :: "AffinityKind \<Rightarrow> AffinityKind \<Rightarrow> bool" where
  "AffinityKind_ge lhs rhs = (sint (affinity_value lhs) \<ge> sint (affinity_value rhs))"

text \<open>The comparison operators of the affinities are a linear order, so that the library's order applies.\<close>

lemma affinity_value_inject: "sint (affinity_value a) = sint (affinity_value b) \<Longrightarrow> a = b"
  by (cases a; cases b) (simp_all add: affinity_value_def)

instantiation AffinityKind :: linorder
begin
definition less_AffinityKind :: "AffinityKind \<Rightarrow> AffinityKind \<Rightarrow> bool" where
  "less_AffinityKind = AffinityKind_lt"
definition less_eq_AffinityKind :: "AffinityKind \<Rightarrow> AffinityKind \<Rightarrow> bool" where
  "less_eq_AffinityKind = AffinityKind_le"
instance
  by standard
    (auto simp: less_AffinityKind_def less_eq_AffinityKind_def AffinityKind_lt_def AffinityKind_le_def
      intro: affinity_value_inject)
end

definition kExectuableKind :: u32 where "kExectuableKind = 1"
definition kExectuableDLLKind :: u32 where "kExectuableDLLKind = 2"
definition kProcessInvalidID :: u64 where "kProcessInvalidID = -1"
definition sizeof_PDE :: u64 where "sizeof_PDE = 4096"
definition sizeof_StackFrame :: u64 where "sizeof_StackFrame = 88"
definition sizeof_UserProcessHeapList :: u64 where "sizeof_UserProcessHeapList = 40"

record UserProcessSignal =
  SignalIP :: u64
  PreviousStatus :: ProcessStatusKind
  SignalID :: u64

text \<open>\<open>up_ProcessParentTeam\<close> tells whether the pointer to the team was set.\<close>

record UserProcess =
  up_Name :: "u8 list"
  up_Owner :: addr
  up_StackFrame :: addr
  up_Affinity :: AffinityKind
  up_Status :: ProcessStatusKind
  up_StackReserve :: addr
  up_fCode :: addr
  up_fBlob :: addr
  up_StackSize :: u64
  up_PefDLLDelegate :: addr
  up_MemoryLimit :: u64
  up_ProcessSignal :: UserProcessSignal
  up_ProcessMemoryHeap :: addr
  up_ProcessParentTeam :: bool
  up_VMRegister :: addr
  up_PTime :: u64
  up_ProcessId :: u64
  up_Kind :: u32
  up_fLastExitCode :: u32
  up_fLocalCode :: u32

definition UserProcessImage_bool :: "UserProcess \<Rightarrow> bool" where
  "UserProcessImage_bool pr = (up_fCode pr \<noteq> null)"
definition HasImage :: "UserProcess \<Rightarrow> bool" where
  "HasImage pr = (up_fBlob pr \<noteq> null)"

record UserProcessHeapList =
  MemoryEntry :: addr
  MemoryEntrySize :: u64
  MemoryEntryPad :: u64
  MemoryPrev :: addr
  MemoryNext :: addr

text \<open>The scheduler with its one team, and the state of the parts it works on.\<close>

record sched =
  sc_mm :: mm_state
  sc_hw :: hw_state
  sc_procs :: "addr \<Rightarrow> UserProcess option"
  sc_entries :: "addr \<Rightarrow> UserProcessHeapList option"
  sc_dlls :: "addr \<Rightarrow> addr option"
  mProcessList :: "addr list"
  mCurrentProcess :: addr
  mTeamId :: u64
  mProcessCount :: u64
  kLastExitCode :: u32

definition get_object :: "(addr \<Rightarrow> 'a option) \<Rightarrow> addr \<Rightarrow> abort + 'a" where
  "get_object objs p =
     (if p = null then Inl NullAccess
      else case objs p of None \<Rightarrow> Inl DanglingAccess | Some x \<Rightarrow> Inr x)"

abbreviation get_proc :: "sched \<Rightarrow> addr \<Rightarrow> abort + UserProcess" where
  "get_proc s p \<equiv> get_object (sc_procs s) p"

definition set_proc :: "addr \<Rightarrow> UserProcess \<Rightarrow> sched \<Rightarrow> sched" where
  "set_proc p pr s = s\<lparr>sc_procs := (sc_procs s)(p \<mapsto> pr)\<rparr>"

text \<open>
  The constructor of a team clears the slots \<open>i\<close> with \<open>i < Count()\<close>, where the count is that of the
  slots in use and is taken anew in every round.
\<close>

function Team_clear :: "nat \<Rightarrow> addr list \<Rightarrow> addr list" where
  "Team_clear i list =
     (if i < Array_Count (\<lambda>p. p \<noteq> null) list then Team_clear (Suc i) (list[i := null]) else list)"
  by pat_completeness auto
termination
  using Array_Count_le [of "\<lambda>p. p \<noteq> null"]
  by (relation "measure (\<lambda>(i, list). length list - i)") (auto intro: diff_less_mono2 less_le_trans)

declare Team_clear.simps [simp del]

definition UserProcessTeam_new :: "addr list \<Rightarrow> addr list" where
  "UserProcessTeam_new list = Team_clear 0 list"

section \<open>Memory of a process\<close>

text \<open>
  \<open>New\<close>: the block is allocated in the process' address space. The first block becomes the head of
  the list and is returned; for a later one the walk to the end of the list never runs (its condition
  is inverted), the node after the head is replaced, and null is returned.
\<close>

definition UserProcess_New :: "addr \<Rightarrow> u64 \<Rightarrow> u64 \<Rightarrow> sched \<Rightarrow> (abort + sched \<times> addr) option" where
  "UserProcess_New this sz pad_amount s =
     ebind (Some (get_proc s this)) (\<lambda>pr.
     ebind (mm_new_heap (sz + pad_amount) True True ((sc_mm s)\<lparr>cr3 := up_VMRegister pr\<rparr>)) (\<lambda>(mm1, ptr).
     ebind (operator_new sizeof_UserProcessHeapList (mm1\<lparr>cr3 := cr3 (sc_mm s)\<rparr>)) (\<lambda>(mm2, node).
       if node = null then Some (Inl NullAccess)
       else if up_ProcessMemoryHeap pr = null then
         let entry = \<lparr>MemoryEntry = ptr, MemoryEntrySize = sz, MemoryEntryPad = pad_amount,
                      MemoryPrev = null, MemoryNext = null\<rparr>
         in Some (Inr (set_proc this (pr\<lparr>up_ProcessMemoryHeap := node\<rparr>)
              (s\<lparr>sc_mm := mm2, sc_entries := (sc_entries s)(node \<mapsto> entry)\<rparr>), ptr))
       else
     ebind (Some (get_object (sc_entries s) (up_ProcessMemoryHeap pr))) (\<lambda>head.
         let entry = \<lparr>MemoryEntry = ptr, MemoryEntrySize = 0, MemoryEntryPad = 0,
                      MemoryPrev = up_ProcessMemoryHeap pr, MemoryNext = null\<rparr>
         in Some (Inr (s\<lparr>sc_mm := mm2, sc_entries := (sc_entries s)(
              up_ProcessMemoryHeap pr \<mapsto> head\<lparr>MemoryNext := node\<rparr>, node \<mapsto> entry)\<rparr>, null))))))"

text \<open>
  \<open>Delete\<close> returns the error code of \<open>mm_delete_heap\<close> as a Boolean, and leaves the node in the list.
\<close>

partial_function (option) Delete_loop :: "addr \<Rightarrow> addr \<Rightarrow> addr \<Rightarrow> sched \<Rightarrow> (abort + sched \<times> bool) option" where
  "Delete_loop vm entry ptr s =
     (if entry = null then Some (Inr (s, False))
      else
     ebind (Some (get_object (sc_entries s) entry)) (\<lambda>e.
        if MemoryEntry e = ptr then
          ebind (Some (mm_delete_heap (MemoryEntry e) ((sc_mm s)\<lparr>cr3 := vm\<rparr>))) (\<lambda>(mm1, ret).
            Some (Inr (s\<lparr>sc_mm := mm1\<lparr>cr3 := cr3 (sc_mm s)\<rparr>\<rparr>, ret \<noteq> 0)))
        else Delete_loop vm (MemoryNext e) ptr s))"

definition UserProcess_Delete :: "addr \<Rightarrow> addr option \<Rightarrow> u64 \<Rightarrow> sched \<Rightarrow> (abort + sched \<times> bool) option" where
  "UserProcess_Delete this ptr sz s =
     (case ptr of
        None \<Rightarrow> Some (Inr (s, False))
      | Some p \<Rightarrow>
          if sz = 0 then Some (Inr (s, False))
          else ebind (Some (get_proc s this)) (\<lambda>pr.
                 Delete_loop (up_VMRegister pr) (up_ProcessMemoryHeap pr) p s))"

section \<open>Ending a process\<close>

text \<open>
  The loop that frees the memory list. \<open>MUST_PASS\<close> is given the error code, which is zero when the
  block was freed. The page directory \<open>pd\<close> is restored inside the loop only.
\<close>

partial_function (option) Exit_heap_loop :: "u64 \<Rightarrow> addr \<Rightarrow> sched \<Rightarrow> (abort + sched) option" where
  "Exit_heap_loop pd memory_heap_list s =
     (if memory_heap_list = null then Some (Inr s)
      else
     ebind (Some (get_object (sc_entries s) memory_heap_list)) (\<lambda>e.
     ebind (if MemoryEntry e \<noteq> null then
              ebind (Some (mm_delete_heap (MemoryEntry e) (sc_mm s))) (\<lambda>(mm1, err).
              ebind (Some (MUST_PASS (debug_build mm1) (err \<noteq> 0))) (\<lambda>_. Some (Inr mm1)))
            else Some (Inr (sc_mm s))) (\<lambda>mm1.
     ebind (Some (mm_delete_heap memory_heap_list (mm1\<lparr>cr3 := pd\<rparr>))) (\<lambda>(mm2, _).
        Exit_heap_loop pd (MemoryNext e)
          (s\<lparr>sc_mm := mm2, sc_entries := (sc_entries s)(memory_heap_list := None)\<rparr>)))))"

text \<open>A block is freed when the pointer is set and \<open>mm_is_valid_heap\<close> accepts it.\<close>

definition free_if_valid :: "addr \<Rightarrow> mm_state \<Rightarrow> abort + mm_state" where
  "free_if_valid p mm =
     (if p \<noteq> null \<and> mm_is_valid_heap p mm
      then case mm_delete_heap p mm of Inl e \<Rightarrow> Inl e | Inr (mm', _) \<Rightarrow> Inr mm'
      else Inr mm)"

text \<open>
  \<open>rtl_fini_dll\<close> as \<open>Exit\<close> calls it: the status of the process is no longer running, so that the
  call of \<open>Crash\<close> for a null library returns at once; the library is then used all the same.
\<close>

definition rtl_fini_dll :: "addr \<Rightarrow> sched \<Rightarrow> abort + sched \<times> bool" where
  "rtl_fini_dll dll_obj s =
     (case get_object (sc_dlls s) dll_obj of
        Inl e \<Rightarrow> Inl e
      | Inr mounted \<Rightarrow>
          (case operator_delete mounted (sc_mm s) of
             Inl e \<Rightarrow> Inl e
           | Inr mm1 \<Rightarrow>
               (case operator_delete dll_obj mm1 of
                  Inl e \<Rightarrow> Inl e
                | Inr mm2 \<Rightarrow> Inr (s\<lparr>sc_mm := mm2, sc_dlls := (sc_dlls s)(dll_obj := None)\<rparr>, True))))"

definition Exit_dll :: "addr \<Rightarrow> sched \<Rightarrow> abort + sched" where
  "Exit_dll this s =
     (case get_proc s this of
        Inl e \<Rightarrow> Inl e
      | Inr pr \<Rightarrow>
          if up_Kind pr = kExectuableDLLKind then
            (case rtl_fini_dll (up_PefDLLDelegate pr) s of
               Inl e \<Rightarrow> Inl e
             | Inr (s1, success) \<Rightarrow>
                 if \<not> success then map_sum id (\<lambda>_. s1) (snd (ke_stop RUNTIME_CHECK_PROCESS))
                 else Inr (set_proc this (pr\<lparr>up_PefDLLDelegate := null\<rparr>) s1))
          else Inr s)"

text \<open>Freeing what the process holds: the page directory, the image, the frame.\<close>

definition Exit_free :: "addr \<Rightarrow> UserProcess \<Rightarrow> sched \<Rightarrow> (abort + sched) option" where
  "Exit_free this pr s =
     (let mm1 = fst (mm_free_bitmap (sc_mm s) (up_VMRegister pr)) in
      ebind (Some (free_if_valid (up_fCode pr) mm1)) (\<lambda>mm2.
      ebind (Some (free_if_valid (up_fBlob pr) mm2)) (\<lambda>mm3.
      ebind (Some (free_if_valid (up_StackFrame pr) mm3)) (\<lambda>mm4.
        Some (Inr (set_proc this (pr\<lparr>up_fBlob := null, up_fCode := null, up_StackFrame := null\<rparr>)
                     (s\<lparr>sc_mm := mm4\<rparr>)))))))"

text \<open>The end of \<open>Exit\<close>: the reserved stack, the count of the team, and the process itself.\<close>

definition Exit_finish :: "addr \<Rightarrow> sched \<Rightarrow> (abort + sched) option" where
  "Exit_finish this s =
     ebind (Some (get_proc s this)) (\<lambda>pr.
     ebind (if up_StackReserve pr \<noteq> null then Some (mm_delete_heap (up_StackReserve pr) (sc_mm s))
            else Some (Inr (sc_mm s, kErrorSuccess))) (\<lambda>(mm1, _).
       if \<not> up_ProcessParentTeam pr then Some (Inl NullAccess)
       else
     ebind (Some (operator_delete this mm1)) (\<lambda>mm2.
         Some (Inr (s\<lparr>sc_mm := mm2, mProcessCount := mProcessCount s - 1,
                      sc_procs := (sc_procs s)(this := None)\<rparr>)))))"

definition UserProcess_Exit :: "addr \<Rightarrow> u32 \<Rightarrow> sched \<Rightarrow> (abort + sched) option" where
  "UserProcess_Exit this exit_code s =
     ebind (Some (get_proc s this)) (\<lambda>pr.
       let pr1 = pr\<lparr>up_Status := (if sint exit_code > 0 then kKilled else kFrozen), up_fLastExitCode := exit_code\<rparr>;
           pd = cr3 (sc_mm s);
           s1 = set_proc this pr1 (s\<lparr>kLastExitCode := exit_code, sc_mm := (sc_mm s)\<lparr>cr3 := up_VMRegister pr\<rparr>\<rparr>) in
     ebind (Exit_heap_loop pd (up_ProcessMemoryHeap pr) s1) (\<lambda>s2.
     ebind (Exit_free this pr1 s2) (\<lambda>s3.
     ebind (Some (Exit_dll this s3)) (\<lambda>s4.
     Exit_finish this s4))))"

definition UserProcess_Crash :: "addr \<Rightarrow> sched \<Rightarrow> (abort + sched) option" where
  "UserProcess_Crash this s =
     ebind (Some (get_proc s this)) (\<lambda>pr.
       if up_Status pr \<noteq> kRunning then Some (Inr s) else UserProcess_Exit this kErrorProcessFault s)"

definition UserProcess_bool :: "UserProcess \<Rightarrow> bool" where
  "UserProcess_bool pr = (up_Status pr = kRunning)"

definition UserProcess_Wake :: "addr \<Rightarrow> bool \<Rightarrow> sched \<Rightarrow> abort + sched" where
  "UserProcess_Wake this should_wakeup s =
     (case get_proc s this of
        Inl e \<Rightarrow> Inl e
      | Inr pr \<Rightarrow> Inr (set_proc this (pr\<lparr>up_Status := (if should_wakeup then kRunning else kFrozen)\<rparr>) s))"

definition sched_get_exit_code :: "sched \<Rightarrow> u32" where
  "sched_get_exit_code s = kLastExitCode s"

section \<open>The scheduler\<close>

text \<open>
  \<open>Spawn\<close>. The library runtime's \<open>rtl_init_dll\<close> is the argument \<open>init_dll\<close>; it yields null or the
  library. The failure of an allocation is answered by \<open>Crash\<close>, and a process beyond the limit
  keeps what it was given.
\<close>

definition Spawn_fail :: "addr \<Rightarrow> sched \<Rightarrow> (abort + sched \<times> u64) option" where
  "Spawn_fail process s =
     ebind (UserProcess_Crash process s) (\<lambda>s1. Some (Inr (s1, - ucast kErrorProcessFault)))"

definition Spawn_dll ::
    "(addr \<Rightarrow> sched \<Rightarrow> (abort + sched \<times> addr) option) \<Rightarrow> addr \<Rightarrow> sched \<Rightarrow> (abort + sched) option" where
  "Spawn_dll init_dll process s =
     ebind (Some (get_proc s process)) (\<lambda>pr.
       if up_Kind pr = kExectuableDLLKind then
         ebind (init_dll process s) (\<lambda>(s1, dll).
         ebind (Some (get_proc s1 process)) (\<lambda>pr1.
         ebind (Some (MUST_PASS (debug_build (sc_mm s1)) (dll \<noteq> null))) (\<lambda>_.
           Some (Inr (set_proc process (pr1\<lparr>up_PefDLLDelegate := dll\<rparr>) s1)))))
       else Some (Inr s))"

definition Spawn_enter :: "addr \<Rightarrow> sched \<Rightarrow> (abort + sched \<times> u64) option" where
  "Spawn_enter process s =
     (let pid = mProcessCount s in
      if sint pid > int kSchedProcessLimitPerTeam then Some (Inr (s, kProcessInvalidID))
      else
     ebind (Some (get_proc s process)) (\<lambda>pr.
     ebind (Some (Array_Assign (mProcessList s) pid process)) (\<lambda>list.
        Some (Inr (set_proc process (pr\<lparr>up_ProcessParentTeam := True, up_ProcessId := pid, up_Status := kStarting,
                                       up_PTime := affinity_value kStandard\<rparr>)
                     (s\<lparr>mProcessCount := mProcessCount s + 1, mProcessList := list\<rparr>), pid)))))"

definition Spawn_stack ::
    "(addr \<Rightarrow> sched \<Rightarrow> (abort + sched \<times> addr) option) \<Rightarrow> addr \<Rightarrow> sched \<Rightarrow> (abort + sched \<times> u64) option" where
  "Spawn_stack init_dll process s =
     ebind (Spawn_dll init_dll process s) (\<lambda>s1.
     ebind (Some (get_proc s1 process)) (\<lambda>pr.
     ebind (operator_new (up_StackSize pr) (sc_mm s1)) (\<lambda>(mm1, stack).
       let mm2 = fst (mm_map_page stack (kMMFlagsPresent OR kMMFlagsWr OR kMMFlagsUser) mm1);
           s2 = set_proc process (pr\<lparr>up_StackReserve := stack\<rparr>) (s1\<lparr>sc_mm := mm2\<rparr>)
       in if stack = null then Spawn_fail process s2 else Spawn_enter process s2)))"

definition Spawn_frame ::
    "(addr \<Rightarrow> sched \<Rightarrow> (abort + sched \<times> addr) option) \<Rightarrow> addr \<Rightarrow> sched \<Rightarrow> (abort + sched \<times> u64) option" where
  "Spawn_frame init_dll process s =
     ebind (Some (get_proc s process)) (\<lambda>pr.
     ebind (mm_new_heap sizeof_StackFrame True True (sc_mm s)) (\<lambda>(mm1, frame).
       let s1 = set_proc process (pr\<lparr>up_StackFrame := frame\<rparr>) (s\<lparr>sc_mm := mm1\<rparr>)
       in if frame = null then Spawn_fail process s1 else Spawn_stack init_dll process s1))"

definition UserProcessScheduler_Spawn ::
    "(addr \<Rightarrow> sched \<Rightarrow> (abort + sched \<times> addr) option) \<Rightarrow> addr \<Rightarrow> sched \<Rightarrow> (abort + sched \<times> u64) option" where
  "UserProcessScheduler_Spawn init_dll process s =
     (if process = null then Some (Inr (s, kProcessInvalidID))
      else
     ebind (Some (get_proc s process)) (\<lambda>pr.
     ebind (mm_new_heap sizeof_PDE False True (sc_mm s)) (\<lambda>(mm1, vm).
       let s1 = set_proc process (pr\<lparr>up_VMRegister := vm\<rparr>) (s\<lparr>sc_mm := mm1\<rparr>)
       in if vm = null then Spawn_fail process s1 else Spawn_frame init_dll process s1)))"

text \<open>The identifier is compared as an unsigned number with the number of slots in use.\<close>

definition UserProcessScheduler_Remove :: "u64 \<Rightarrow> sched \<Rightarrow> (abort + sched \<times> bool) option" where
  "UserProcessScheduler_Remove process_id s =
     (if unat process_id > Array_Count (\<lambda>p. p \<noteq> null) (mProcessList s) then Some (Inr (s, False))
      else
     ebind (Some (Array_at (mProcessList s) process_id)) (\<lambda>p.
     ebind (UserProcess_Exit p 0 s) (\<lambda>s1. Some (Inr (s1, True)))))"

definition CanBeScheduled :: "UserProcess \<Rightarrow> bool" where
  "CanBeScheduled pr =
     (if up_Status pr = kKilled \<or> up_Status pr = kFinished \<or> up_Status pr = kFrozen then False
      else if up_Status pr = kInvalid then False
      else if up_fCode pr = null then False
      else if up_Name pr ! 0 = 0 then False
      else up_PTime pr < 1)"

text \<open>
  The current process identifier is handed out as a reference to a copy. Reading it as a number
  tells whether there is a process; writing to it faults without a process and has no effect with one.
\<close>

definition TheCurrentPID :: "sched \<Rightarrow> abort + (HError + u64)" where
  "TheCurrentPID s =
     (if mCurrentProcess s = null then Inr (Inl kErrorProcessFault)
      else case get_proc s (mCurrentProcess s) of Inl e \<Rightarrow> Inl e | Inr pr \<Rightarrow> Inr (Inr (up_ProcessId pr)))"

definition assign_current_pid :: "sched \<Rightarrow> abort + unit" where
  "assign_current_pid s =
     (case TheCurrentPID s of Inl e \<Rightarrow> Inl e | Inr (Inl _) \<Rightarrow> Inl NullAccess | Inr (Inr _) \<Rightarrow> Inr ())"

abbreviation set_thread_time :: "nat \<Rightarrow> u64 \<Rightarrow> hw_state \<Rightarrow> hw_state" where
  "set_thread_time i t hw \<equiv> hw\<lparr>fThreadList := (fThreadList hw)[i := (fThreadList hw ! i)\<lparr>fPTime := t\<rparr>]\<rparr>"

text \<open>One thread of the loop of \<open>UserProcessHelper::Switch\<close>.\<close>

definition Switch_thread :: "addr \<Rightarrow> addr \<Rightarrow> addr \<Rightarrow> u64 \<Rightarrow> nat \<Rightarrow> sched \<Rightarrow> abort + sched" where
  "Switch_thread image_ptr stack frame_ptr new_pid index s =
     (let (hw1, r) = HardwareThreadScheduler_at index (sc_hw s); s1 = s\<lparr>sc_hw := hw1\<rparr> in
      case r of
        None \<Rightarrow> Inr s1
      | Some i \<Rightarrow>
          if fKind (fThreadList hw1 ! i) = kInvalidAP then Inr s1
          else if fKind (fThreadList hw1 ! i) \<noteq> kAPBoot \<and> fKind (fThreadList hw1 ! i) \<noteq> kAPSystemReserved then
            (case assign_current_pid s1 of
               Inl e \<Rightarrow> Inl e
             | Inr _ \<Rightarrow>
             (case Array_at (mProcessList s1) new_pid of
                Inl e \<Rightarrow> Inl e
              | Inr p \<Rightarrow>
              (case get_proc s1 p of
                 Inl e \<Rightarrow> Inl e
               | Inr pr \<Rightarrow>
                   let prev_ptime = fPTime (fThreadList hw1 ! i) in
                   (case HardwareThread_Switch (debug_build (sc_mm s1)) (memory (sc_mm s1)) i image_ptr stack
                           frame_ptr new_pid (set_thread_time i (up_PTime pr) hw1) of
                      Inl e \<Rightarrow> Inl e
                    | Inr (hw2, ret) \<Rightarrow>
                        if ret then Inr (s1\<lparr>sc_hw := hw2\<rparr>)
                        else (case assign_current_pid s1 of
                                Inl e \<Rightarrow> Inl e
                              | Inr _ \<Rightarrow> Inr (s1\<lparr>sc_hw := set_thread_time i prev_ptime hw2\<rparr>))))))
          else Inr s1)"

text \<open>The loop with \<open>n\<close> of the eight threads to go; its bound is computed anew in every round.\<close>

primrec Switch_loop :: "addr \<Rightarrow> addr \<Rightarrow> addr \<Rightarrow> u64 \<Rightarrow> nat \<Rightarrow> sched \<Rightarrow> abort + sched" where
  "Switch_loop image_ptr stack frame_ptr new_pid 0 s = Inr s"
| "Switch_loop image_ptr stack frame_ptr new_pid (Suc n) s =
     (let index = kMaxAPInsideSched - Suc n in
      if index < HardwareThreadScheduler_Capacity (sc_hw s) then
        (case Switch_thread image_ptr stack frame_ptr new_pid index s of
           Inl e \<Rightarrow> Inl e
         | Inr s1 \<Rightarrow> Switch_loop image_ptr stack frame_ptr new_pid n s1)
      else Inr s)"

definition UserProcessHelper_Switch :: "addr \<Rightarrow> addr \<Rightarrow> addr \<Rightarrow> u64 \<Rightarrow> sched \<Rightarrow> abort + sched \<times> bool" where
  "UserProcessHelper_Switch image_ptr stack frame_ptr new_pid s =
     (if stack = null \<or> frame_ptr = null \<or> image_ptr = null \<or> sint new_pid < 0 then Inr (s, False)
      else if \<not> mm_is_valid_heap image_ptr (sc_mm s) then Inr (s, False)
      else case Switch_loop image_ptr stack frame_ptr new_pid kMaxAPInsideSched s of
             Inl e \<Rightarrow> Inl e
           | Inr s1 \<Rightarrow> Inr (s1, False))"

text \<open>
  The loop of \<open>Run\<close> with \<open>n\<close> slots to go. A slot without a process is dereferenced like any other.
  Assigning the current process goes through a temporary \<open>Ref\<close>, whose destructor deletes what
  \<open>mm_is_valid_heap\<close> accepts; a process object is accepted only if it starts with the magic of a
  bitmap, which no name does, and that deletion is not part of the model.
\<close>

primrec Run_loop :: "nat \<Rightarrow> sched \<Rightarrow> (abort + sched) option" where
  "Run_loop 0 s = Some (Inr s)"
| "Run_loop (Suc n) s =
     (let process = mProcessList s ! (kSchedProcessLimitPerTeam - Suc n) in
     ebind (Some (get_proc s process)) (\<lambda>pr.
       if CanBeScheduled pr then
         let s1 = set_proc process (pr\<lparr>up_PTime := affinity_value (up_Affinity pr)\<rparr>) (s\<lparr>mCurrentProcess := process\<rparr>) in
     ebind (Some (UserProcessHelper_Switch (up_fCode pr) (up_StackReserve pr + up_StackSize pr - 1)
                    (up_StackFrame pr) (up_ProcessId pr) s1)) (\<lambda>(s2, ok).
     ebind (if \<not> ok then UserProcess_Crash process s2 else Some (Inr s2)) (\<lambda>s3. Run_loop n s3))
       else Run_loop n (set_proc process (pr\<lparr>up_PTime := up_PTime pr - 1\<rparr>) s)))"

definition UserProcessScheduler_Run :: "sched \<Rightarrow> (abort + sched \<times> nat) option" where
  "UserProcessScheduler_Run s =
     (if Array_Empty (\<lambda>p. p \<noteq> null) (mProcessList s) then Some (Inr (s, 0))
      else ebind (Run_loop kSchedProcessLimitPerTeam s) (\<lambda>s1. Some (Inr (s1, kSchedProcessLimitPerTeam))))"

definition StartScheduling :: "sched \<Rightarrow> (abort + sched \<times> nat) option" where
  "StartScheduling s = UserProcessScheduler_Run s"

definition UserProcessScheduler_bool :: "sched \<Rightarrow> bool" where
  "UserProcessScheduler_bool s = (Array_Count (\<lambda>p. p \<noteq> null) (mProcessList s) > 0)"

definition UserProcessScheduler_not :: "sched \<Rightarrow> bool" where
  "UserProcessScheduler_not s = (Array_Count (\<lambda>p. p \<noteq> null) (mProcessList s) = 0)"

text \<open>Waking a hardware thread starts scheduling; putting it to sleep never returns.\<close>

definition HardwareThread_Wake :: "nat \<Rightarrow> bool \<Rightarrow> sched \<Rightarrow> (abort + sched) option" where
  "HardwareThread_Wake i wakeup s =
     (let hw = sc_hw s;
          s1 = s\<lparr>sc_hw := hw\<lparr>fThreadList := (fThreadList hw)[i := (fThreadList hw ! i)\<lparr>fWakeup := wakeup\<rparr>]\<rparr>\<rparr>
      in if \<not> wakeup then None else ebind (StartScheduling s1) (\<lambda>(s2, _). Some (Inr s2)))"

end
