(* ===== verification/Process_Correct.thy ===== *)
theory Process_Correct
  imports User_Process
begin

text \<open>
  What the process scheduler guarantees: the effect of spawning and ending a process, the number of
  processes in the team as an invariant of every sequence of operations, and what running the
  scheduler does.
\<close>

section \<open>Frames\<close>

text \<open>What an operation on a process leaves alone: the team and the other processes.\<close>

definition same_team :: "sched \<Rightarrow> sched \<Rightarrow> bool" where
  "same_team s s' \<longleftrightarrow> mProcessList s' = mProcessList s \<and> mProcessCount s' = mProcessCount s
     \<and> mTeamId s' = mTeamId s \<and> mCurrentProcess s' = mCurrentProcess s"

definition only_proc :: "addr \<Rightarrow> sched \<Rightarrow> sched \<Rightarrow> bool" where
  "only_proc p s s' \<longleftrightarrow> (\<forall>q. q \<noteq> p \<longrightarrow> sc_procs s' q = sc_procs s q)"

lemma same_team_trans: "same_team a b \<Longrightarrow> same_team b c \<Longrightarrow> same_team a c"
  by (simp add: same_team_def)

lemma only_proc_trans: "only_proc p a b \<Longrightarrow> only_proc p b c \<Longrightarrow> only_proc p a c"
  by (simp add: only_proc_def)

lemma frames_simps [simp]:
  "same_team s s" "only_proc p s s" "same_team s (set_proc p pr s)" "only_proc p s (set_proc p pr s)"
  by (simp_all add: same_team_def only_proc_def set_proc_def)

lemma get_object_Inr: "get_object objs p = Inr x \<longleftrightarrow> p \<noteq> null \<and> objs p = Some x"
  by (auto simp: get_object_def split: option.splits)

lemma Exit_heap_loop_frame:
  assumes "Exit_heap_loop pd cur s = Some (Inr s')"
  shows "same_team s s' \<and> sc_procs s' = sc_procs s"
proof -
  define P where "P = (\<lambda>(pd :: u64) (cur :: addr) s (res :: abort + sched).
    \<forall>s'. res = Inr s' \<longrightarrow> same_team s s' \<and> sc_procs s' = sc_procs s)"
  have "P pd cur s (Inr s')"
  proof (rule Exit_heap_loop.raw_induct [where P = P, OF _ assms], goal_cases)
    case (1 f pd cur s res)
    show ?case unfolding P_def
    proof (intro allI impI)
      fix s'
      assume res: "res = Inr s'"
      show "same_team s s' \<and> sc_procs s' = sc_procs s"
      proof (cases "cur = null")
        case True
        with 1(2) res show ?thesis by simp
      next
        case False
        with 1(2) obtain e :: UserProcessHeapList and mm2 where
          "f pd (MemoryNext e) (s\<lparr>sc_mm := mm2, sc_entries := (sc_entries s)(cur := None)\<rparr>) = Some (Inr s')"
          unfolding res by (simp add: ebind_eq_Some del: ebind_simps) blast
        from 1(1) [OF this] show ?thesis by (simp add: P_def same_team_def)
      qed
    qed
  qed
  then show ?thesis by (simp add: P_def)
qed

lemma Exit_free_frame:
  "Exit_free this pr s = Some (Inr s') \<Longrightarrow> same_team s s' \<and> only_proc this s s' \<and>
   (\<exists>pr'. sc_procs s' this = Some pr' \<and> up_ProcessParentTeam pr' = up_ProcessParentTeam pr)"
  by (auto simp: Exit_free_def Let_def ebind_eq_Some same_team_def only_proc_def set_proc_def)

lemma Exit_dll_frame:
  "Exit_dll this s = Inr s' \<Longrightarrow> same_team s s' \<and> only_proc this s s' \<and>
   map_option up_ProcessParentTeam (sc_procs s' this) = map_option up_ProcessParentTeam (sc_procs s this)"
  by (auto simp: Exit_dll_def rtl_fini_dll_def same_team_def only_proc_def set_proc_def get_object_Inr
      split: sum.splits if_splits)

lemma UserProcess_Exit_effect:
  assumes "UserProcess_Exit this exit_code s = Some (Inr s')"
  shows "mProcessList s' = mProcessList s \<and> mProcessCount s' = mProcessCount s - 1
     \<and> sc_procs s' = (sc_procs s)(this := None)
     \<and> (\<exists>pr. sc_procs s this = Some pr \<and> up_ProcessParentTeam pr)"
proof -
  obtain pr where pr: "sc_procs s this = Some pr"
    using assms by (auto simp: UserProcess_Exit_def ebind_eq_Some get_object_Inr)
  define pr1 where "pr1 = pr\<lparr>up_Status := (if sint exit_code > 0 then kKilled else kFrozen), up_fLastExitCode := exit_code\<rparr>"
  define s1 where "s1 = set_proc this pr1 (s\<lparr>kLastExitCode := exit_code, sc_mm := (sc_mm s)\<lparr>cr3 := up_VMRegister pr\<rparr>\<rparr>)"
  have pr1: "up_ProcessParentTeam pr1 = up_ProcessParentTeam pr" by (simp add: pr1_def)
  have s1: "same_team s s1" "only_proc this s s1" by (simp_all add: s1_def same_team_def only_proc_def set_proc_def)
  obtain s2 s3 s4 where steps: "Exit_heap_loop (cr3 (sc_mm s)) (up_ProcessMemoryHeap pr) s1 = Some (Inr s2)"
      "Exit_free this pr1 s2 = Some (Inr s3)" "Exit_dll this s3 = Inr s4" "Exit_finish this s4 = Some (Inr s')"
    using assms pr unfolding UserProcess_Exit_def Let_def
    by (auto simp: ebind_eq_Some get_object_Inr pr1_def [symmetric] s1_def [symmetric])
  have a: "same_team s s4" "only_proc this s s4"
    using s1 Exit_heap_loop_frame [OF steps(1)] Exit_free_frame [OF steps(2)] Exit_dll_frame [OF steps(3)]
    by (auto simp: same_team_def only_proc_def)
  have par: "map_option up_ProcessParentTeam (sc_procs s4 this) = Some (up_ProcessParentTeam pr)"
    using Exit_free_frame [OF steps(2)] Exit_dll_frame [OF steps(3)] pr1 by auto
  have "up_ProcessParentTeam pr" and "mProcessList s' = mProcessList s4" "mProcessCount s' = mProcessCount s4 - 1"
    "sc_procs s' = (sc_procs s4)(this := None)"
    using steps(4) par by (auto simp: Exit_finish_def ebind_eq_Some get_object_Inr split: if_splits)
  with a pr show ?thesis by (auto simp: same_team_def only_proc_def fun_eq_iff)
qed

text \<open>Returning memory and switching leave the processes alone.\<close>

lemma Delete_loop_frame:
  assumes "Delete_loop vm cur ptr s = Some (Inr (s', ok))"
  shows "same_team s s' \<and> sc_procs s' = sc_procs s"
proof -
  define P where "P = (\<lambda>(vm :: u64) (cur :: addr) (ptr :: addr) s (res :: abort + sched \<times> bool).
    \<forall>s' ok. res = Inr (s', ok) \<longrightarrow> same_team s s' \<and> sc_procs s' = sc_procs s)"
  have "P vm cur ptr s (Inr (s', ok))"
  proof (rule Delete_loop.raw_induct [where P = P, OF _ assms], goal_cases)
    case (1 f vm cur ptr s res)
    show ?case unfolding P_def
    proof (intro allI impI)
      fix s' ok
      assume "res = Inr (s', ok)"
      with 1(2) have res: "cur = null \<and> s' = s
          \<or> (\<exists>e mm. sc_entries s cur = Some e \<and> s' = s\<lparr>sc_mm := mm\<rparr>)
          \<or> (\<exists>e :: UserProcessHeapList. f vm (MemoryNext e) ptr s = Some (Inr (s', ok)))"
        by (auto simp: ebind_eq_Some get_object_Inr split: if_splits simp del: ebind_simps)
      then show "same_team s s' \<and> sc_procs s' = sc_procs s"
        using 1(1) by (auto simp: same_team_def P_def)
    qed
  qed
  then show ?thesis by (simp add: P_def)
qed

lemma Switch_loop_frame: "Switch_loop im st fr pid n s = Inr s' \<Longrightarrow> same_team s s' \<and> sc_procs s' = sc_procs s"
proof (induction n arbitrary: s)
  case (Suc n)
  have "\<exists>hw. s1 = s\<lparr>sc_hw := hw\<rparr>" if "Switch_thread im st fr pid i s = Inr s1" for i s1
    using that by (auto simp: Switch_thread_def Let_def split: prod.splits option.splits if_splits sum.splits)
  with Suc show ?case by (fastforce simp: same_team_def Let_def split: if_splits sum.splits)
qed simp

section \<open>Spawning\<close>

lemma UserProcess_Crash_idle:
  "get_proc s p = Inr pr \<Longrightarrow> up_Status pr \<noteq> kRunning \<Longrightarrow> UserProcess_Crash p s = Some (Inr s)"
  by (simp add: UserProcess_Crash_def)

text \<open>A process that entered the team under the identifier \<open>pid\<close>.\<close>

definition entered :: "addr \<Rightarrow> u64 \<Rightarrow> sched \<Rightarrow> sched \<Rightarrow> bool" where
  "entered p pid s s' \<longleftrightarrow> pid = mProcessCount s \<and> unat pid < kSchedProcessLimitPerTeam
     \<and> mProcessCount s' = mProcessCount s + 1 \<and> mProcessList s' = (mProcessList s)[unat pid := p]
     \<and> only_proc p s s'
     \<and> (\<exists>pr. sc_procs s' p = Some pr \<and> up_ProcessId pr = pid \<and> up_Status pr = kStarting \<and> up_PTime pr = 1000
            \<and> up_ProcessParentTeam pr \<and> up_VMRegister pr \<noteq> null \<and> up_StackFrame pr \<noteq> null
            \<and> up_StackReserve pr \<noteq> null)"

lemma Spawn_enter_outcome:
  assumes "Spawn_enter p s = Some (Inr (s', pid))" and "length (mProcessList s) = kSchedProcessLimitPerTeam"
    and "sc_procs s p = Some pr" and "up_VMRegister pr \<noteq> null" "up_StackFrame pr \<noteq> null" "up_StackReserve pr \<noteq> null"
  shows "entered p pid s s'
    \<or> pid = kProcessInvalidID \<and> sint (mProcessCount s) > int kSchedProcessLimitPerTeam \<and> s' = s"
  using assms
  by (auto simp: Spawn_enter_def Let_def ebind_eq_Some get_object_Inr Array_Assign_def entered_def only_proc_def set_proc_def
      split: if_splits)

text \<open>Two states between which only the resources of the process \<open>p\<close> differ.\<close>

definition prepared :: "addr \<Rightarrow> sched \<Rightarrow> sched \<Rightarrow> bool" where
  "prepared p s s' \<longleftrightarrow> same_team s s' \<and> only_proc p s s'
     \<and> map_option up_ProcessParentTeam (sc_procs s' p) = map_option up_ProcessParentTeam (sc_procs s p)"

lemma prepared_refl [simp]: "prepared p s s"
  by (simp add: prepared_def)

lemma prepared_set_proc [simp]:
  "sc_procs s p = Some pr \<Longrightarrow> up_ProcessParentTeam pr' = up_ProcessParentTeam pr \<Longrightarrow>
   prepared p s (set_proc p pr' (s\<lparr>sc_mm := mm\<rparr>))"
  by (simp add: prepared_def same_team_def only_proc_def set_proc_def)

text \<open>The outcomes of spawning an executable that is not running yet.\<close>

definition spawn_outcome :: "addr \<Rightarrow> u64 \<Rightarrow> sched \<Rightarrow> sched \<Rightarrow> bool" where
  "spawn_outcome p pid s s' \<longleftrightarrow> entered p pid s s'
     \<or> pid = kProcessInvalidID \<and> sint (mProcessCount s) > int kSchedProcessLimitPerTeam \<and> prepared p s s'
     \<or> pid = - ucast kErrorProcessFault \<and> prepared p s s'"

lemma spawn_outcome_prepared:
  "prepared p s s1 \<Longrightarrow> spawn_outcome p pid s1 s' \<Longrightarrow> spawn_outcome p pid s s'"
  by (auto simp: spawn_outcome_def prepared_def entered_def same_team_def only_proc_def)

text \<open>An executable in the store that is not running.\<close>

definition idle_executable :: "addr \<Rightarrow> sched \<Rightarrow> bool" where
  "idle_executable p s \<longleftrightarrow> p \<noteq> null
     \<and> (\<exists>pr. sc_procs s p = Some pr \<and> up_Kind pr \<noteq> kExectuableDLLKind \<and> up_Status pr \<noteq> kRunning)"

lemma Spawn_fail_outcome:
  assumes "Spawn_fail p s = Some (Inr (s', pid))" and "idle_executable p s"
  shows "spawn_outcome p pid s s'"
proof -
  have "UserProcess_Crash p s = Some (Inr s)"
    using assms(2) by (auto simp: idle_executable_def get_object_Inr intro!: UserProcess_Crash_idle)
  with assms(1) show ?thesis by (simp add: Spawn_fail_def spawn_outcome_def)
qed

lemma Spawn_stack_outcome:
  assumes "Spawn_stack init_dll p s = Some (Inr (s', pid))" and idle: "idle_executable p s"
    and len: "length (mProcessList s) = kSchedProcessLimitPerTeam"
    and pr: "sc_procs s p = Some pr" "up_VMRegister pr \<noteq> null" "up_StackFrame pr \<noteq> null"
  shows "spawn_outcome p pid s s'"
proof -
  have "Spawn_dll init_dll p s = Some (Inr s)"
    using idle pr by (auto simp: Spawn_dll_def idle_executable_def get_object_def)
  then obtain mm2 stack where fin: "(if stack = null then Spawn_fail p (set_proc p (pr\<lparr>up_StackReserve := stack\<rparr>) (s\<lparr>sc_mm := mm2\<rparr>))
      else Spawn_enter p (set_proc p (pr\<lparr>up_StackReserve := stack\<rparr>) (s\<lparr>sc_mm := mm2\<rparr>))) = Some (Inr (s', pid))"
    using assms(1) pr by (auto simp: Spawn_stack_def ebind_eq_Some get_object_Inr Let_def)
  let ?s = "set_proc p (pr\<lparr>up_StackReserve := stack\<rparr>) (s\<lparr>sc_mm := mm2\<rparr>)"
  have idle': "idle_executable p ?s" using idle pr by (auto simp: idle_executable_def set_proc_def)
  have "spawn_outcome p pid ?s s'"
  proof (cases "stack = null")
    case True
    with fin idle' show ?thesis by (intro Spawn_fail_outcome) simp_all
  next
    case False
    have "sc_procs ?s p = Some (pr\<lparr>up_StackReserve := stack\<rparr>)" "length (mProcessList ?s) = kSchedProcessLimitPerTeam"
      using len by (simp_all add: set_proc_def)
    with False fin Spawn_enter_outcome [of p ?s s' pid "pr\<lparr>up_StackReserve := stack\<rparr>"] pr show ?thesis
      by (auto simp: spawn_outcome_def)
  qed
  moreover have "prepared p s ?s" using pr(1) by simp
  ultimately show ?thesis by (rule spawn_outcome_prepared [rotated])
qed

lemma Spawn_frame_outcome:
  assumes "Spawn_frame init_dll p s = Some (Inr (s', pid))" and idle: "idle_executable p s"
    and len: "length (mProcessList s) = kSchedProcessLimitPerTeam"
    and pr: "sc_procs s p = Some pr" "up_VMRegister pr \<noteq> null"
  shows "spawn_outcome p pid s s'"
proof -
  obtain mm1 frame where fin: "(if frame = null then Spawn_fail p (set_proc p (pr\<lparr>up_StackFrame := frame\<rparr>) (s\<lparr>sc_mm := mm1\<rparr>))
      else Spawn_stack init_dll p (set_proc p (pr\<lparr>up_StackFrame := frame\<rparr>) (s\<lparr>sc_mm := mm1\<rparr>))) = Some (Inr (s', pid))"
    using assms(1) pr by (auto simp: Spawn_frame_def ebind_eq_Some get_object_Inr Let_def)
  let ?s = "set_proc p (pr\<lparr>up_StackFrame := frame\<rparr>) (s\<lparr>sc_mm := mm1\<rparr>)"
  have idle': "idle_executable p ?s" using idle pr by (auto simp: idle_executable_def set_proc_def)
  have "spawn_outcome p pid ?s s'"
  proof (cases "frame = null")
    case True
    with fin idle' show ?thesis by (intro Spawn_fail_outcome) simp_all
  next
    case False
    with fin idle' len pr show ?thesis
      by (intro Spawn_stack_outcome [where pr = "pr\<lparr>up_StackFrame := frame\<rparr>"]) (simp_all add: set_proc_def)
  qed
  moreover have "prepared p s ?s" using pr(1) by simp
  ultimately show ?thesis by (rule spawn_outcome_prepared [rotated])
qed

lemma Spawn_outcome:
  assumes "UserProcessScheduler_Spawn init_dll p s = Some (Inr (s', pid))" and idle: "idle_executable p s"
    and len: "length (mProcessList s) = kSchedProcessLimitPerTeam"
  shows "spawn_outcome p pid s s'"
proof -
  obtain pr where pr: "sc_procs s p = Some pr" using idle by (auto simp: idle_executable_def)
  obtain mm1 vm where fin: "(if vm = null then Spawn_fail p (set_proc p (pr\<lparr>up_VMRegister := vm\<rparr>) (s\<lparr>sc_mm := mm1\<rparr>))
      else Spawn_frame init_dll p (set_proc p (pr\<lparr>up_VMRegister := vm\<rparr>) (s\<lparr>sc_mm := mm1\<rparr>))) = Some (Inr (s', pid))"
    using assms(1) pr idle
    by (auto simp: UserProcessScheduler_Spawn_def idle_executable_def ebind_eq_Some get_object_Inr Let_def)
  let ?s = "set_proc p (pr\<lparr>up_VMRegister := vm\<rparr>) (s\<lparr>sc_mm := mm1\<rparr>)"
  have idle': "idle_executable p ?s" using idle pr by (auto simp: idle_executable_def set_proc_def)
  have "spawn_outcome p pid ?s s'"
  proof (cases "vm = null")
    case True
    with fin idle' show ?thesis by (intro Spawn_fail_outcome) simp_all
  next
    case False
    with fin idle' len show ?thesis
      by (intro Spawn_frame_outcome [where pr = "pr\<lparr>up_VMRegister := vm\<rparr>"]) (simp_all add: set_proc_def)
  qed
  moreover have "prepared p s ?s" using pr by simp
  ultimately show ?thesis by (rule spawn_outcome_prepared [rotated])
qed

lemma distinct_filter_update:
  assumes "distinct (filter P xs)" and "P (xs ! i)" and "i < length xs" and "xs ! i \<noteq> y"
  shows "xs ! i \<notin> set (xs[i := y])"
proof -
  have xs: "xs = take i xs @ xs ! i # drop (Suc i) xs" using assms(3) by (rule id_take_nth_drop)
  have "distinct (filter P (take i xs @ xs ! i # drop (Suc i) xs))" using assms(1) xs by simp
  then have "xs ! i \<notin> set (take i xs)" "xs ! i \<notin> set (drop (Suc i) xs)" using assms(2) by auto
  with assms(3,4) show ?thesis by (simp add: upd_conv_take_nth_drop)
qed

section \<open>The team as a state machine\<close>

text \<open>The processes that belong to the team.\<close>

definition team :: "sched \<Rightarrow> addr set" where
  "team s = {p. \<exists>pr. sc_procs s p = Some pr \<and> up_ProcessParentTeam pr}"

definition sched_inv :: "sched \<Rightarrow> bool" where
  "sched_inv s \<longleftrightarrow> length (mProcessList s) = kSchedProcessLimitPerTeam \<and> finite (team s)
     \<and> unat (mProcessCount s) = card (team s)"

text \<open>
  The operations in any order: a process object is created, an executable is spawned, a process is
  removed, crashes, exits, is woken or put to sleep, takes or returns memory, or the scheduler runs.
\<close>

inductive sched_step :: "sched \<Rightarrow> sched \<Rightarrow> bool" where
  create: "sc_procs s p = None \<Longrightarrow> \<not> up_ProcessParentTeam pr \<Longrightarrow> sched_step s (set_proc p pr s)"
| spawn: "idle_executable p s \<Longrightarrow> p \<notin> team s \<Longrightarrow>
    UserProcessScheduler_Spawn init_dll p s = Some (Inr (s', pid)) \<Longrightarrow> sched_step s s'"
| remove: "UserProcessScheduler_Remove pid s = Some (Inr (s', ok)) \<Longrightarrow> sched_step s s'"
| exit: "UserProcess_Exit p code s = Some (Inr s') \<Longrightarrow> sched_step s s'"
| crash: "UserProcess_Crash p s = Some (Inr s') \<Longrightarrow> sched_step s s'"
| wake: "UserProcess_Wake p b s = Inr s' \<Longrightarrow> sched_step s s'"
| alloc: "UserProcess_New p sz pad s = Some (Inr (s', ptr)) \<Longrightarrow> sched_step s s'"
| release: "UserProcess_Delete p ptr sz s = Some (Inr (s', ok)) \<Longrightarrow> sched_step s s'"
| switch: "UserProcessHelper_Switch im st fr pid s = Inr (s', ok) \<Longrightarrow> sched_step s s'"
| run: "UserProcessScheduler_Run s = Some (Inr (s', n)) \<Longrightarrow> sched_step s s'"

inductive_cases sched_stepE: "sched_step s s'"

lemma team_prepared: "prepared p s s' \<Longrightarrow> team s' = team s"
  by (auto simp: prepared_def team_def only_proc_def map_option_case split: option.splits) (metis option.inject)+

lemma inv_same:
  "sched_inv s \<Longrightarrow> mProcessList s' = mProcessList s \<Longrightarrow> mProcessCount s' = mProcessCount s \<Longrightarrow> team s' = team s \<Longrightarrow>
   sched_inv s'"
  by (simp add: sched_inv_def)

lemma inv_entered:
  assumes "sched_inv s" and "entered p pid s s'" and "p \<notin> team s"
  shows "sched_inv s'"
proof -
  have "team s' = insert p (team s)"
    using assms(2) by (auto simp: entered_def team_def only_proc_def)
  moreover have "unat (mProcessCount s) < 32" using assms(2) by (auto simp: entered_def kSchedProcessLimitPerTeam_def)
  then have "unat (mProcessCount s + 1) = unat (mProcessCount s) + 1" by (simp add: unat_word_ariths)
  ultimately show ?thesis using assms by (simp add: sched_inv_def entered_def)
qed

lemma inv_exit:
  assumes "sched_inv s" and "UserProcess_Exit p code s = Some (Inr s')"
  shows "sched_inv s'"
proof -
  note e = UserProcess_Exit_effect [OF assms(2)]
  have "p \<in> team s" using e by (auto simp: team_def)
  moreover have "team s' = team s - {p}" using e by (auto simp: team_def)
  moreover have "card (team s) \<noteq> 0" using assms(1) \<open>p \<in> team s\<close> by (auto simp: sched_inv_def)
  then have "unat (mProcessCount s - 1) = unat (mProcessCount s) - 1"
    using assms(1) unat_sub [of 1 "mProcessCount s"] by (auto simp: sched_inv_def word_le_nat_alt Suc_le_eq card_gt_0_iff)
  ultimately show ?thesis using assms(1) e by (simp add: sched_inv_def)
qed

lemma Run_loop_null: "mProcessList s ! 0 = null \<Longrightarrow> Run_loop kSchedProcessLimitPerTeam s = Some (Inl NullAccess)"
proof -
  assume null: "mProcessList s ! 0 = null"
  obtain n where n: "kSchedProcessLimitPerTeam = Suc n" by (simp add: kSchedProcessLimitPerTeam_def)
  show ?thesis unfolding n by (simp add: n null get_object_def)
qed

lemma Run_effect:
  assumes "length (mProcessList s) = kSchedProcessLimitPerTeam"
  shows "UserProcessScheduler_Run s =
    (if \<exists>p \<in> set (mProcessList s). p \<noteq> null then Some (Inr (s, 0)) else Some (Inl NullAccess))"
proof (cases "\<exists>p \<in> set (mProcessList s). p \<noteq> null")
  case True
  then show ?thesis by (simp add: UserProcessScheduler_Run_def Array_Empty_iff)
next
  case False
  moreover have "mProcessList s ! 0 \<in> set (mProcessList s)"
    using assms by (intro nth_mem) (simp add: kSchedProcessLimitPerTeam_def)
  ultimately have "Run_loop kSchedProcessLimitPerTeam s = Some (Inl NullAccess)" by (intro Run_loop_null) blast
  with False show ?thesis by (auto simp: UserProcessScheduler_Run_def Array_Empty_iff)
qed

lemma sched_step_inv: "sched_step s s' \<Longrightarrow> sched_inv s \<Longrightarrow> sched_inv s'"
proof (induction rule: sched_step.induct)
  case (create s p pr)
  then have "team (set_proc p pr s) = team s" by (auto simp: team_def set_proc_def)
  with create show ?case using inv_same [of s "set_proc p pr s"] by (simp add: set_proc_def)
next
  case (spawn p s init_dll s' pid)
  then have "spawn_outcome p pid s s'" by (intro Spawn_outcome) (auto simp: sched_inv_def)
  with spawn show ?case
    using inv_entered inv_same [of s s'] team_prepared
    by (auto simp: spawn_outcome_def prepared_def same_team_def)
next
  case (remove pid s s' ok)
  then show ?case by (auto simp: UserProcessScheduler_Remove_def ebind_eq_Some split: if_splits intro: inv_exit)
next
  case (exit p code s s')
  then show ?case by (auto intro: inv_exit)
next
  case (crash p s s')
  then show ?case by (auto simp: UserProcess_Crash_def ebind_eq_Some split: if_splits intro: inv_exit)
next
  case (wake p b s s')
  then have "team s' = team s"
    by (auto simp: UserProcess_Wake_def team_def set_proc_def get_object_Inr split: sum.splits if_splits)
  with wake show ?case
    by (elim inv_same) (auto simp: UserProcess_Wake_def set_proc_def split: sum.splits)
next
  case (alloc p sz pad s s' ptr)
  then have "prepared p s s'"
    by (auto simp: UserProcess_New_def ebind_eq_Some get_object_Inr Let_def prepared_def same_team_def only_proc_def
        set_proc_def split: if_splits)
  with alloc show ?case using team_prepared by (elim inv_same) (auto simp: prepared_def same_team_def)
next
  case (release p ptr sz s s' ok)
  then have "same_team s s' \<and> sc_procs s' = sc_procs s"
    by (auto simp: UserProcess_Delete_def ebind_eq_Some split: option.splits if_splits dest: Delete_loop_frame)
  with release show ?case using inv_same [of s s'] by (simp add: same_team_def team_def)
next
  case (switch im st fr pid s s' ok)
  then have "same_team s s' \<and> sc_procs s' = sc_procs s"
    by (auto simp: UserProcessHelper_Switch_def split: sum.splits if_splits dest: Switch_loop_frame)
  with switch show ?case using inv_same [of s s'] by (simp add: same_team_def team_def)
next
  case (run s s' n)
  then show ?case using Run_effect [of s] by (auto simp: sched_inv_def split: if_splits)
qed

section \<open>What spawning keeps\<close>

text \<open>The image, the name, the kind and the stack size of a process that is spawned.\<close>

definition same_image :: "addr \<Rightarrow> sched \<Rightarrow> sched \<Rightarrow> bool" where
  "same_image p s s' \<longleftrightarrow> (\<forall>pr. sc_procs s p = Some pr \<longrightarrow> (\<exists>pr'. sc_procs s' p = Some pr'
     \<and> up_fCode pr' = up_fCode pr \<and> up_fBlob pr' = up_fBlob pr \<and> up_Name pr' = up_Name pr
     \<and> up_Kind pr' = up_Kind pr \<and> up_StackSize pr' = up_StackSize pr))"

lemma same_image_refl [simp]: "same_image p s s"
  by (simp add: same_image_def)

lemma Spawn_fail_image: "Spawn_fail p s = Some (Inr (s', pid)) \<Longrightarrow> idle_executable p s \<Longrightarrow> same_image p s s'"
  by (auto simp: Spawn_fail_def UserProcess_Crash_def idle_executable_def ebind_eq_Some get_object_Inr same_image_def)

lemma Spawn_enter_image: "Spawn_enter p s = Some (Inr (s', pid)) \<Longrightarrow> same_image p s s'"
  by (auto simp: Spawn_enter_def Let_def ebind_eq_Some get_object_Inr same_image_def set_proc_def split: if_splits)

lemma Spawn_stack_image:
  assumes "Spawn_stack init_dll p s = Some (Inr (s', pid))" and "idle_executable p s"
  shows "same_image p s s'"
proof -
  obtain pr where pr: "p \<noteq> null" "sc_procs s p = Some pr" "up_Kind pr \<noteq> kExectuableDLLKind" "up_Status pr \<noteq> kRunning"
    using assms(2) by (auto simp: idle_executable_def)
  then have "Spawn_dll init_dll p s = Some (Inr s)" by (simp add: Spawn_dll_def get_object_def)
  with assms(1) pr obtain mm2 stack where
    "(if stack = null then Spawn_fail p (set_proc p (pr\<lparr>up_StackReserve := stack\<rparr>) (s\<lparr>sc_mm := mm2\<rparr>))
      else Spawn_enter p (set_proc p (pr\<lparr>up_StackReserve := stack\<rparr>) (s\<lparr>sc_mm := mm2\<rparr>))) = Some (Inr (s', pid))"
    by (auto simp: Spawn_stack_def ebind_eq_Some get_object_Inr Let_def)
  moreover have "idle_executable p (set_proc p (pr\<lparr>up_StackReserve := stack\<rparr>) (s\<lparr>sc_mm := mm2\<rparr>))"
    using pr by (simp add: idle_executable_def set_proc_def)
  ultimately have "same_image p (set_proc p (pr\<lparr>up_StackReserve := stack\<rparr>) (s\<lparr>sc_mm := mm2\<rparr>)) s'"
    by (auto split: if_splits intro: Spawn_fail_image Spawn_enter_image)
  with pr show ?thesis by (simp add: same_image_def set_proc_def)
qed

lemma Spawn_frame_image:
  assumes "Spawn_frame init_dll p s = Some (Inr (s', pid))" and "idle_executable p s"
  shows "same_image p s s'"
proof -
  obtain pr where pr: "p \<noteq> null" "sc_procs s p = Some pr" "up_Kind pr \<noteq> kExectuableDLLKind" "up_Status pr \<noteq> kRunning"
    using assms(2) by (auto simp: idle_executable_def)
  with assms(1) obtain mm1 frame where
    "(if frame = null then Spawn_fail p (set_proc p (pr\<lparr>up_StackFrame := frame\<rparr>) (s\<lparr>sc_mm := mm1\<rparr>))
      else Spawn_stack init_dll p (set_proc p (pr\<lparr>up_StackFrame := frame\<rparr>) (s\<lparr>sc_mm := mm1\<rparr>))) = Some (Inr (s', pid))"
    by (auto simp: Spawn_frame_def ebind_eq_Some get_object_Inr Let_def)
  moreover have "idle_executable p (set_proc p (pr\<lparr>up_StackFrame := frame\<rparr>) (s\<lparr>sc_mm := mm1\<rparr>))"
    using pr by (simp add: idle_executable_def set_proc_def)
  ultimately have "same_image p (set_proc p (pr\<lparr>up_StackFrame := frame\<rparr>) (s\<lparr>sc_mm := mm1\<rparr>)) s'"
    by (auto split: if_splits intro: Spawn_fail_image Spawn_stack_image)
  with pr show ?thesis by (simp add: same_image_def set_proc_def)
qed

lemma Spawn_image:
  assumes "UserProcessScheduler_Spawn init_dll p s = Some (Inr (s', pid))" and "idle_executable p s"
  shows "same_image p s s'"
proof -
  obtain pr where pr: "p \<noteq> null" "sc_procs s p = Some pr" "up_Kind pr \<noteq> kExectuableDLLKind" "up_Status pr \<noteq> kRunning"
    using assms(2) by (auto simp: idle_executable_def)
  with assms(1) obtain mm1 vm where
    "(if vm = null then Spawn_fail p (set_proc p (pr\<lparr>up_VMRegister := vm\<rparr>) (s\<lparr>sc_mm := mm1\<rparr>))
      else Spawn_frame init_dll p (set_proc p (pr\<lparr>up_VMRegister := vm\<rparr>) (s\<lparr>sc_mm := mm1\<rparr>))) = Some (Inr (s', pid))"
    by (auto simp: UserProcessScheduler_Spawn_def ebind_eq_Some get_object_Inr Let_def)
  moreover have "idle_executable p (set_proc p (pr\<lparr>up_VMRegister := vm\<rparr>) (s\<lparr>sc_mm := mm1\<rparr>))"
    using pr by (simp add: idle_executable_def set_proc_def)
  ultimately have "same_image p (set_proc p (pr\<lparr>up_VMRegister := vm\<rparr>) (s\<lparr>sc_mm := mm1\<rparr>)) s'"
    by (auto split: if_splits intro: Spawn_fail_image Spawn_frame_image)
  with pr show ?thesis by (simp add: same_image_def set_proc_def)
qed

section \<open>Examples\<close>

text \<open>
  A scheduler after boot whose page allocator is exhausted (so that every allocation succeeds with
  the address 98), and a process object that is not running.
\<close>

definition proc_example :: UserProcess where
  "proc_example = \<lparr>up_Name = replicate 128 0, up_Owner = null, up_StackFrame = null, up_Affinity = kStandard,
     up_Status = kFinished, up_StackReserve = null, up_fCode = null, up_fBlob = null, up_StackSize = 4096,
     up_PefDLLDelegate = null, up_MemoryLimit = 0,
     up_ProcessSignal = \<lparr>SignalIP = 0, PreviousStatus = kInvalid, SignalID = 0\<rparr>, up_ProcessMemoryHeap = null, up_ProcessParentTeam = False, up_VMRegister = null,
     up_PTime = 0, up_ProcessId = 0, up_Kind = kExectuableKind, up_fLastExitCode = 0, up_fLocalCode = 0\<rparr>"

definition sched_example :: sched where
  "sched_example = \<lparr>sc_mm = page_example\<lparr>kKernelBitMpStart := - kPageSize\<rparr>, sc_hw = hw_example,
     sc_procs = Map.empty, sc_entries = Map.empty, sc_dlls = Map.empty,
     mProcessList = UserProcessTeam_new (replicate 32 null), mCurrentProcess = null, mTeamId = 0,
     mProcessCount = 0, kLastExitCode = 0\<rparr>"

definition no_init_dll :: "addr \<Rightarrow> sched \<Rightarrow> (abort + sched \<times> addr) option" where
  "no_init_dll p s = Some (Inr (s, null))"

lemma UserProcessTeam_new_null: "UserProcessTeam_new (replicate n null) = replicate n null"
proof -
  have "Array_Count (\<lambda>p. p \<noteq> null) (replicate n null) = 0" by (subst Array_Count_0) simp
  then show ?thesis by (simp add: UserProcessTeam_new_def Team_clear.simps [of 0])
qed

definition booted :: "sched \<Rightarrow> bool" where
  "booted s \<longleftrightarrow> mProcessList s = UserProcessTeam_new (replicate kSchedProcessLimitPerTeam null)
     \<and> mProcessCount s = 0 \<and> team s = {}"

lemma booted_inv: "booted s \<Longrightarrow> sched_inv s"
  by (simp add: booted_def sched_inv_def UserProcessTeam_new_null)

lemma booted_example: "booted sched_example"
  by (simp add: booted_def sched_example_def team_def kSchedProcessLimitPerTeam_def)

lemma new_heap_wrapped:
  "kKernelBitMpStart st = - kPageSize \<Longrightarrow> sz \<noteq> 0 \<Longrightarrow> sz < kKernelHeapMaxSize \<Longrightarrow>
   mm_new_heap sz wr user st = Some (Inr (st\<lparr>memory := hib_init (memory st) 49 (sz + hib_size) wr user\<rparr>, 98))"
  using FindBitMap_wrapped [of st] by (intro mm_new_heap_null_page) (simp_all add: mm_alloc_bitmap_def)

text \<open>Spawning an executable under these circumstances succeeds.\<close>

lemma Spawn_enter_room:
  assumes "p \<noteq> null" and "sc_procs s p = Some pr"
    and "length (mProcessList s) = kSchedProcessLimitPerTeam" and "unat (mProcessCount s) < kSchedProcessLimitPerTeam"
  shows "\<exists>s'. Spawn_enter p s = Some (Inr (s', mProcessCount s))"
proof -
  have "uint (mProcessCount s) < 32"
    using assms(4) unfolding uint_nat kSchedProcessLimitPerTeam_def by linarith
  moreover from this have "sint (mProcessCount s) = uint (mProcessCount s)"
    unfolding sint_uint by (intro signed_take_bit_int_eq_self order_trans [OF _ uint_ge_0]) simp_all
  ultimately have "\<not> sint (mProcessCount s) > int kSchedProcessLimitPerTeam"
    by (simp add: kSchedProcessLimitPerTeam_def)
  with assms show ?thesis by (simp add: Spawn_enter_def Let_def get_object_def Array_Assign_def)
qed

lemma Spawn_stack_wrapped:
  assumes "kKernelBitMpStart (sc_mm s) = - kPageSize" and "p \<noteq> null" and pr: "sc_procs s p = Some pr"
    and "up_StackSize pr < kKernelHeapMaxSize" and "up_Kind pr \<noteq> kExectuableDLLKind"
    and "length (mProcessList s) = kSchedProcessLimitPerTeam" and "unat (mProcessCount s) < kSchedProcessLimitPerTeam"
  shows "\<exists>s'. Spawn_stack init_dll p s = Some (Inr (s', mProcessCount s))"
proof -
  obtain mm1 where mm1: "operator_new (up_StackSize pr) (sc_mm s) = Some (Inr (mm1, 98))"
    using assms(1,4) by (cases "up_StackSize pr = 0") (simp_all add: operator_new_def new_heap_wrapped kKernelHeapMaxSize_def)
  let ?s = "set_proc p (pr\<lparr>up_StackReserve := 98\<rparr>)
    (s\<lparr>sc_mm := fst (mm_map_page 98 (kMMFlagsPresent OR kMMFlagsWr OR kMMFlagsUser) mm1)\<rparr>)"
  have "\<exists>s'. Spawn_enter p ?s = Some (Inr (s', mProcessCount ?s))"
    using assms by (intro Spawn_enter_room) (simp_all add: set_proc_def)
  with mm1 assms show ?thesis
    by (simp add: Spawn_stack_def Spawn_dll_def get_object_def Let_def) (simp add: set_proc_def)
qed

lemma Spawn_wrapped:
  assumes start: "kKernelBitMpStart (sc_mm s) = - kPageSize" and p: "p \<noteq> null" "sc_procs s p = Some pr"
    and "up_StackSize pr < kKernelHeapMaxSize" and "up_Kind pr \<noteq> kExectuableDLLKind"
    and "length (mProcessList s) = kSchedProcessLimitPerTeam" and "unat (mProcessCount s) < kSchedProcessLimitPerTeam"
  shows "\<exists>s'. UserProcessScheduler_Spawn init_dll p s = Some (Inr (s', mProcessCount s))"
proof -
  obtain mm1 where mm1: "mm_new_heap sizeof_PDE False True (sc_mm s) = Some (Inr (mm1, 98))" "kKernelBitMpStart mm1 = - kPageSize"
    using start by (simp add: new_heap_wrapped kKernelHeapMaxSize_def sizeof_PDE_def)
  obtain mm2 where mm2: "mm_new_heap sizeof_StackFrame True True mm1 = Some (Inr (mm2, 98))" "kKernelBitMpStart mm2 = - kPageSize"
    using mm1 by (simp add: new_heap_wrapped kKernelHeapMaxSize_def sizeof_StackFrame_def)
  let ?s1 = "set_proc p (pr\<lparr>up_VMRegister := 98\<rparr>) (s\<lparr>sc_mm := mm1\<rparr>)"
  let ?s2 = "set_proc p (pr\<lparr>up_VMRegister := 98, up_StackFrame := 98\<rparr>) (?s1\<lparr>sc_mm := mm2\<rparr>)"
  have s2: "\<exists>s'. Spawn_stack init_dll p ?s2 = Some (Inr (s', mProcessCount ?s2))"
    using assms mm2
    by (intro Spawn_stack_wrapped [where pr = "pr\<lparr>up_VMRegister := 98, up_StackFrame := 98\<rparr>"])
      (simp_all add: set_proc_def)
  have "Spawn_frame init_dll p ?s1 = Spawn_stack init_dll p ?s2"
    using p mm2 by (simp add: Spawn_frame_def get_object_def set_proc_def)
  moreover have "UserProcessScheduler_Spawn init_dll p s = Spawn_frame init_dll p ?s1"
    using p mm1 by (simp add: UserProcessScheduler_Spawn_def get_object_def)
  ultimately show ?thesis using s2 by (simp add: set_proc_def)
qed

section \<open>Properties\<close>


text \<open>The example: a process object is created and spawned.\<close>

abbreviation sched_created :: sched where
  "sched_created \<equiv> set_proc 0x5000 proc_example sched_example"

lemma sched_created_spawn: "\<exists>s'. UserProcessScheduler_Spawn no_init_dll 0x5000 sched_created = Some (Inr (s', 0))"
  using Spawn_wrapped [of sched_created "0x5000" proc_example no_init_dll] UserProcessTeam_new_null [of 32]
  by (simp add: set_proc_def sched_example_def kSchedProcessLimitPerTeam_def proc_example_def kKernelHeapMaxSize_def
      kExectuableKind_def kExectuableDLLKind_def)

lemma sched_created_idle: "idle_executable 0x5000 sched_created" "0x5000 \<notin> team sched_created"
  by (simp_all add: idle_executable_def team_def set_proc_def proc_example_def kExectuableKind_def kExectuableDLLKind_def)




text \<open>
  Property C10. Running the scheduler starts nothing: with a process in any slot \<open>Run\<close> returns zero and changes
  nothing, because the emptiness test of the process list is inverted; with no process at all it
  goes on to dereference the null pointer in the first slot.
\<close>

theorem UserProcessScheduler_Run_schedules_nothing:
  assumes "length (mProcessList s) = kSchedProcessLimitPerTeam"
  shows "UserProcessScheduler_Run s =
    (if UserProcessScheduler_bool s then Some (Inr (s, 0)) else Some (Inl NullAccess))"
proof -
  have "UserProcessScheduler_bool s \<longleftrightarrow> (\<exists>p \<in> set (mProcessList s). p \<noteq> null)"
    using Array_Count_0 [of "\<lambda>p. p \<noteq> null" "mProcessList s"] by (auto simp: UserProcessScheduler_bool_def)
  with Run_effect [OF assms] show ?thesis by simp
qed

theorem UserProcessScheduler_Run_schedules_nothing_witness:
  "UserProcessScheduler_Run sched_example = Some (Inl NullAccess)"
  using UserProcessScheduler_Run_schedules_nothing [of sched_example] Array_Count_0 [of "\<lambda>p. p \<noteq> null" "replicate 32 null"]
  by (simp add: sched_example_def UserProcessTeam_new_null UserProcessScheduler_bool_def kSchedProcessLimitPerTeam_def)

text \<open>
  Property C24. Identifiers are reused while they are in use: when a process exits, the count drops but no slot is
  cleared, so the next spawned process gets the identifier of the process spawned last and replaces it in
  the process list; that process is still alive and is no longer in the list.
\<close>

theorem exit_then_spawn_replaces_live_process:
  assumes "UserProcess_Exit p code s = Some (Inr s1)" and "length (mProcessList s) = kSchedProcessLimitPerTeam"
    and "UserProcessScheduler_Spawn init_dll r s1 = Some (Inr (s2, pid))" and "idle_executable r s1"
    and "unat pid < kSchedProcessLimitPerTeam"
    and "distinct (filter (\<lambda>x. x \<noteq> null) (mProcessList s))"
    and q: "mProcessList s ! unat (mProcessCount s - 1) = q" "q \<noteq> null" "q \<noteq> r" "q \<noteq> p"
  shows "pid = mProcessCount s - 1 \<and> mProcessList s2 = (mProcessList s)[unat pid := r]
    \<and> q \<notin> set (mProcessList s2) \<and> sc_procs s2 q = sc_procs s q"
proof -
  note e = UserProcess_Exit_effect [OF assms(1)]
  have "spawn_outcome r pid s1 s2" using assms e by (intro Spawn_outcome) simp_all
  then have o: "entered r pid s1 s2"
    using assms(5)
    by (auto simp: spawn_outcome_def kProcessInvalidID_def kErrorProcessFault_def kSchedProcessLimitPerTeam_def unat_uminus_u64)
  then have a: "pid = mProcessCount s - 1" "mProcessList s2 = (mProcessList s)[unat pid := r]"
    using e by (simp_all add: entered_def)
  have "q \<notin> set ((mProcessList s)[unat pid := r])"
    using q a(1) assms(2,5,6) distinct_filter_update [of "\<lambda>x. x \<noteq> null" "mProcessList s" "unat pid" r] by simp
  moreover have "sc_procs s2 q = sc_procs s q" using o e q by (simp add: entered_def only_proc_def)
  ultimately show ?thesis using a by simp
qed

text \<open>The example: of two processes the first exits; a third one is spawned.\<close>

definition sched_two :: sched where
  "sched_two = sched_example\<lparr>
     sc_procs := [0x5000 \<mapsto> proc_example\<lparr>up_ProcessParentTeam := True\<rparr>,
                  0x6000 \<mapsto> proc_example\<lparr>up_ProcessParentTeam := True\<rparr>, 0x7000 \<mapsto> proc_example],
     mProcessList := [0x5000, 0x6000] @ replicate 30 null, mProcessCount := 2\<rparr>"

lemma zero_memory:
  assumes "memory mm = (\<lambda>_. 0)" and "p \<noteq> null"
  shows "operator_delete p mm = Inr mm"
proof -
  have "get_hib (\<lambda>_. 0) q HIB_Magic = 0" for q by (simp add: get_hib_def load_bytes_def)
  with assms show ?thesis by (simp add: operator_delete_def mm_delete_heap_def kKernelHeapMagic_def Let_def)
qed

lemma sched_two_exit:
  "\<exists>s1. UserProcess_Exit 0x5000 0 sched_two = Some (Inr s1) \<and> kKernelBitMpStart (sc_mm s1) = - kPageSize
     \<and> sc_procs s1 0x7000 = Some proc_example \<and> mProcessList s1 = mProcessList sched_two \<and> mProcessCount s1 = 1"
proof -
  have "memory (sc_mm sched_two) = (\<lambda>_. 0)" by (simp add: sched_two_def sched_example_def page_example_def)
  then show ?thesis
    by (simp add: UserProcess_Exit_def Exit_free_def Exit_dll_def Exit_finish_def Exit_heap_loop.simps free_if_valid_def
        get_object_def set_proc_def sched_two_def sched_example_def proc_example_def mm_free_bitmap_def
        kExectuableKind_def kExectuableDLLKind_def zero_memory Let_def page_example_def)
qed

theorem exit_then_spawn_replaces_live_process_witness:
  "\<exists>s1 s2. UserProcess_Exit 0x5000 0 sched_two = Some (Inr s1)
     \<and> UserProcessScheduler_Spawn no_init_dll 0x7000 s1 = Some (Inr (s2, 1))
     \<and> 0x6000 \<notin> set (mProcessList s2) \<and> sc_procs s2 0x6000 = sc_procs sched_two 0x6000"
proof -
  obtain s1 where s1: "UserProcess_Exit 0x5000 0 sched_two = Some (Inr s1)" "kKernelBitMpStart (sc_mm s1) = - kPageSize"
    "sc_procs s1 0x7000 = Some proc_example" "mProcessList s1 = mProcessList sched_two" "mProcessCount s1 = 1"
    using sched_two_exit by blast
  have len: "length (mProcessList sched_two) = kSchedProcessLimitPerTeam"
    by (simp add: sched_two_def kSchedProcessLimitPerTeam_def)
  obtain s2 where s2: "UserProcessScheduler_Spawn no_init_dll 0x7000 s1 = Some (Inr (s2, 1))"
    using Spawn_wrapped [of s1 "0x7000" proc_example no_init_dll] s1 len
    by (auto simp: kSchedProcessLimitPerTeam_def proc_example_def kKernelHeapMaxSize_def kExectuableKind_def kExectuableDLLKind_def)
  have idle: "idle_executable 0x7000 s1"
    using s1(3) by (simp add: idle_executable_def proc_example_def kExectuableKind_def kExectuableDLLKind_def)
  have "distinct (filter (\<lambda>x. x \<noteq> null) (mProcessList sched_two))"
    by (simp add: sched_two_def)
  from exit_then_spawn_replaces_live_process [OF s1(1) len s2 idle _ this, of "0x6000"] s1 s2 show ?thesis
    by (simp add: sched_two_def kSchedProcessLimitPerTeam_def)
qed

text \<open>
  Remark. Only the first block of a process is handed out: when the process already has a memory list, \<open>New\<close> returns
  null whatever it allocated, and the node it adds takes the place of everything that followed
  the head, so that earlier blocks are no longer in the list.
\<close>

theorem UserProcess_New_later_blocks:
  assumes "UserProcess_New p sz pad s = Some (Inr (s', ptr))" and "sc_procs s p = Some pr"
    and "up_ProcessMemoryHeap pr \<noteq> null"
  shows "ptr = null \<and> sc_procs s' = sc_procs s
    \<and> (\<exists>head node blk. sc_entries s (up_ProcessMemoryHeap pr) = Some head
         \<and> sc_entries s' = (sc_entries s)(up_ProcessMemoryHeap pr \<mapsto> head\<lparr>MemoryNext := node\<rparr>,
             node \<mapsto> \<lparr>MemoryEntry = blk, MemoryEntrySize = 0, MemoryEntryPad = 0,
                      MemoryPrev = up_ProcessMemoryHeap pr, MemoryNext = null\<rparr>))"
proof -
  obtain head node blk mm where "sc_entries s (up_ProcessMemoryHeap pr) = Some head" "ptr = null"
    "s' = s\<lparr>sc_mm := mm, sc_entries := (sc_entries s)(up_ProcessMemoryHeap pr \<mapsto> head\<lparr>MemoryNext := node\<rparr>,
       node \<mapsto> \<lparr>MemoryEntry = blk, MemoryEntrySize = 0, MemoryEntryPad = 0,
                MemoryPrev = up_ProcessMemoryHeap pr, MemoryNext = null\<rparr>)\<rparr>"
    using assms by (auto simp: UserProcess_New_def ebind_eq_Some get_object_Inr Let_def split: if_splits)
  then show ?thesis by auto
qed

definition heap_list_example :: sched where
  "heap_list_example = sched_example\<lparr>sc_procs := [0x5000 \<mapsto> proc_example\<lparr>up_ProcessMemoryHeap := 0x8000\<rparr>],
     sc_entries := [0x8000 \<mapsto> \<lparr>MemoryEntry = 0x9000, MemoryEntrySize = 16, MemoryEntryPad = 0,
                               MemoryPrev = null, MemoryNext = 0xA000\<rparr>]\<rparr>"

theorem UserProcess_New_later_blocks_witness:
  "\<exists>s'. UserProcess_New 0x5000 16 0 heap_list_example = Some (Inr (s', null)) \<and> sc_procs s' = sc_procs heap_list_example"
proof -
  have "kKernelBitMpStart (sc_mm heap_list_example) = - kPageSize" by (simp add: heap_list_example_def sched_example_def)
  then obtain s' where s': "UserProcess_New 0x5000 16 0 heap_list_example = Some (Inr (s', null))"
    by (simp add: UserProcess_New_def operator_new_def new_heap_wrapped kKernelHeapMaxSize_def sizeof_UserProcessHeapList_def
        get_object_def heap_list_example_def proc_example_def Let_def)
  with UserProcess_New_later_blocks [OF s'] show ?thesis by (simp add: heap_list_example_def)
qed

text \<open>
  Remark. In a debug build a process that owns memory cannot exit: \<open>Exit\<close> passes the error code of \<open>mm_delete_heap\<close>
  to \<open>MUST_PASS\<close>, and the code of success is zero, so freeing the first block of the
  process stops the system.
\<close>

theorem UserProcess_Exit_stops_on_success:
  assumes "debug_build (sc_mm s)" and "p \<noteq> null" and "sc_procs s p = Some pr"
    and "up_ProcessMemoryHeap pr = node" "node \<noteq> null" "sc_entries s node = Some e" "MemoryEntry e \<noteq> null"
    and "mm_delete_heap (MemoryEntry e) ((sc_mm s)\<lparr>cr3 := up_VMRegister pr\<rparr>) = Inr (mm, kErrorSuccess)" and "debug_build mm"
  shows "UserProcess_Exit p code s = Some (Inl (Stop RUNTIME_CHECK_FAILED))"
  using assms
  by (simp add: UserProcess_Exit_def Exit_heap_loop.simps [of _ node] get_object_def set_proc_def Let_def
      MUST_PASS_eq kErrorSuccess_def)

definition debug_example :: sched where
  "debug_example = heap_list_example\<lparr>sc_mm := page_example\<lparr>debug_build := True,
     memory := hib_init (memory page_example) (0x9000 - hib_size) 65 True True\<rparr>\<rparr>"

theorem UserProcess_Exit_stops_on_success_witness:
  "UserProcess_Exit 0x5000 0 debug_example = Some (Inl (Stop RUNTIME_CHECK_FAILED))"
proof -
  let ?mm = "(sc_mm debug_example)\<lparr>cr3 := null\<rparr>"
  obtain mm where "mm_delete_heap 0x9000 ?mm = Inr (mm, kErrorSuccess)" "debug_build mm"
    using that
    by (simp add: debug_example_def mm_delete_heap_def mm_check_heap_address_def Let_def get_hib_init hib_size_def heap_crc_check_def
        PageMgr_Free_def mm_free_bitmap_def FreeBitMap_def PTEWrapper_new_def split: prod.splits)
  with UserProcess_Exit_stops_on_success [of debug_example "0x5000" "proc_example\<lparr>up_ProcessMemoryHeap := 0x8000\<rparr>" "0x8000"
      "\<lparr>MemoryEntry = 0x9000, MemoryEntrySize = 16, MemoryEntryPad = 0, MemoryPrev = null, MemoryNext = 0xA000\<rparr>" mm 0]
  show ?thesis by (simp add: debug_example_def heap_list_example_def proc_example_def)
qed

end
