(* ===== verification/Kernel_Strings.thy ===== *)
theory Kernel_Strings
  imports Kernel_Heap "HOL-Library.Monad_Syntax"
begin

text \<open>
  Kernel strings: \<^verbatim>\<open>dev/ZKAKit/src/KString.cc\<close> and \<^verbatim>\<open>NewKit/KString.h\<close>, with
  \<open>alloc_string\<close> of \<^verbatim>\<open>Utils.cc\<close>. A \<open>KString\<close> is a pointer to characters, their
  number and an append cursor; the characters live in kernel memory. An operation that measures a
  C string is \<open>None\<close> when the string has no terminator.
\<close>

section \<open>Kernel strings\<close>

record KString =
  fData :: addr
  fDataSz :: u64
  fCur :: u64

text \<open>The comparison loops: leave with false at the first index where the bytes differ (agree).\<close>

primrec str_eq_loop :: "mem \<Rightarrow> addr \<Rightarrow> addr \<Rightarrow> u64 \<Rightarrow> nat \<Rightarrow> bool" where
  "str_eq_loop m rhs lhs index 0 = True"
| "str_eq_loop m rhs lhs index (Suc k) =
     (if m (rhs + index) \<noteq> m (lhs + index) then False else str_eq_loop m rhs lhs (index + 1) k)"

primrec str_ne_loop :: "mem \<Rightarrow> addr \<Rightarrow> addr \<Rightarrow> u64 \<Rightarrow> nat \<Rightarrow> bool" where
  "str_ne_loop m rhs lhs index 0 = True"
| "str_ne_loop m rhs lhs index (Suc k) =
     (if m (rhs + index) = m (lhs + index) then False else str_ne_loop m rhs lhs (index + 1) k)"

definition KString_eq :: "mem \<Rightarrow> KString \<Rightarrow> KString \<Rightarrow> bool" where
  "KString_eq m this rhs =
     (if fDataSz rhs \<noteq> fDataSz this then False
      else str_eq_loop m (fData rhs) (fData this) 0 (unat (fDataSz this)))"

definition KString_eq_chars :: "mem \<Rightarrow> KString \<Rightarrow> addr \<Rightarrow> bool option" where
  "KString_eq_chars m this rhs =
     do { len \<leftarrow> rt_string_len m rhs;
          if len \<noteq> fDataSz this then Some False
          else Some (str_eq_loop m rhs (fData this) 0 (unat len)) }"

definition KString_ne :: "mem \<Rightarrow> KString \<Rightarrow> KString \<Rightarrow> bool" where
  "KString_ne m this rhs =
     (if fDataSz rhs \<noteq> fDataSz this then False
      else str_ne_loop m (fData rhs) (fData this) 0 (unat (fDataSz rhs)))"

definition KString_ne_chars :: "mem \<Rightarrow> KString \<Rightarrow> addr \<Rightarrow> bool option" where
  "KString_ne_chars m this rhs =
     do { len \<leftarrow> rt_string_len m rhs;
          if len \<noteq> fDataSz this then Some False
          else Some (str_ne_loop m rhs (fData this) 0 (unat len)) }"

definition StringBuilder_Equals :: "mem \<Rightarrow> addr \<Rightarrow> addr \<Rightarrow> bool option" where
  "StringBuilder_Equals m lhs rhs =
     do { lr \<leftarrow> rt_string_len m rhs;
          ll \<leftarrow> rt_string_len m lhs;
          if lr \<noteq> ll then Some False
          else Some (str_eq_loop m rhs lhs 0 (unat lr)) }"

section \<open>Appending\<close>

text \<open>\<open>cur\<close> is an \<open>Int32\<close>, extended with its sign when it is added to the index.\<close>

primrec rt_string_append_loop :: "mem \<Rightarrow> addr \<Rightarrow> addr \<Rightarrow> u32 \<Rightarrow> u64 \<Rightarrow> nat \<Rightarrow> mem" where
  "rt_string_append_loop m lhs rhs cur rhs_i 0 = m"
| "rt_string_append_loop m lhs rhs cur rhs_i (Suc k) =
     rt_string_append_loop (m(lhs + (rhs_i + scast cur) := m (rhs + rhs_i))) lhs rhs cur (rhs_i + 1) k"

definition rt_string_append :: "mem \<Rightarrow> addr \<Rightarrow> addr \<Rightarrow> u32 \<Rightarrow> mem option" where
  "rt_string_append m lhs rhs cur =
     do { sz_rhs \<leftarrow> rt_string_len m rhs;
          Some (rt_string_append_loop m lhs rhs cur 0 (unat sz_rhs)) }"

definition KString_append_chars :: "mem \<Rightarrow> KString \<Rightarrow> addr \<Rightarrow> (mem \<times> KString) option" where
  "KString_append_chars m this rhs =
     do { m1 \<leftarrow> rt_string_append m (fData this) rhs (ucast (fCur this));
          len \<leftarrow> rt_string_len m1 rhs;
          Some (m1, this\<lparr>fCur := fCur this + len\<rparr>) }"

definition KString_append :: "mem \<Rightarrow> KString \<Rightarrow> KString \<Rightarrow> (mem \<times> KString) option" where
  "KString_append m this rhs =
     do { rlen \<leftarrow> rt_string_len m (fData rhs);
          if rlen > fDataSz this then Some (m, this)
          else do { m1 \<leftarrow> rt_string_append m (fData this) (fData rhs) (ucast (fCur this));
                    len \<leftarrow> rt_string_len m1 (fData rhs);
                    Some (m1, this\<lparr>fCur := fCur this + len\<rparr>) } }"

section \<open>Construction\<close>

definition KString_new :: "u64 \<Rightarrow> mm_state \<Rightarrow> (abort + mm_state \<times> KString) option" where
  "KString_new Sz st =
     (case MUST_PASS (debug_build st) (1 < Sz) of
        Inl e \<Rightarrow> Some (Inl e)
      | Inr _ \<Rightarrow>
          do { r \<leftarrow> operator_new Sz st;
               case r of
                 Inl e \<Rightarrow> Some (Inl e)
               | Inr (st1, p) \<Rightarrow>
                   (case MUST_PASS (debug_build st1) (p \<noteq> null) of
                      Inl e \<Rightarrow> Some (Inl e)
                    | Inr _ \<Rightarrow>
                        Some (Inr (st1\<lparr>memory := fst (rt_set_memory (memory st1) p 0 Sz)\<rparr>,
                                   \<lparr>fData = p, fDataSz = Sz, fCur = 0\<rparr>))) })"

definition KString_destroy :: "KString \<Rightarrow> mm_state \<Rightarrow> abort + mm_state \<times> KString" where
  "KString_destroy this st =
     (if fData this \<noteq> null
      then case operator_delete (fData this) st of
             Inl e \<Rightarrow> Inl e | Inr st' \<Rightarrow> Inr (st', this\<lparr>fData := null\<rparr>)
      else Inr (st, this))"

text \<open>
  A \<open>Ref\<close> built from a value keeps the address of its constructor's own parameter. That parameter is
  gone when the constructor returns, so a \<open>ValueRef\<close> refers to an object whose lifetime is over; what
  a read through it yields is the argument \<open>expired\<close>. The destructor deletes what
  \<open>mm_is_valid_heap\<close> accepts, which an address on the stack is not.
\<close>

datatype 'a Ref = NullRef | ValueRef 'a

definition Ref_bool :: "'a Ref \<Rightarrow> bool" where
  "Ref_bool r = (r \<noteq> NullRef)"

definition Ref_Leak :: "('a \<Rightarrow> abort + 'a) \<Rightarrow> 'a Ref \<Rightarrow> abort + 'a" where
  "Ref_Leak expired r = (case r of NullRef \<Rightarrow> Inl NullAccess | ValueRef x \<Rightarrow> expired x)"

text \<open>An \<open>ErrorOr\<close> is such a reference and an error code, zero unless it was built from a code.\<close>

record 'a ErrorOr =
  mRef :: "'a Ref"
  mId :: u32

definition ErrorOr_value :: "'a \<Rightarrow> 'a ErrorOr" where "ErrorOr_value x = \<lparr>mRef = ValueRef x, mId = 0\<rparr>"
definition ErrorOr_null :: "'a ErrorOr" where "ErrorOr_null = \<lparr>mRef = NullRef, mId = 0\<rparr>"
definition ErrorOr_error :: "u32 \<Rightarrow> 'a ErrorOr" where "ErrorOr_error err = \<lparr>mRef = NullRef, mId = err\<rparr>"
definition ErrorOr_bool :: "'a ErrorOr \<Rightarrow> bool" where "ErrorOr_bool e = Ref_bool (mRef e)"

text \<open>
  \<open>StringBuilder::Construct\<close>. The string object is allocated and stays behind; it is passed on by
  value twice, and the destructors of the two copies release its characters.
\<close>

definition sizeof_KString :: u64 where "sizeof_KString = 24"

definition StringBuilder_Construct :: "addr \<Rightarrow> mm_state \<Rightarrow> (abort + mm_state \<times> KString ErrorOr) option" where
  "StringBuilder_Construct chars st =
     (if chars = null \<or> memory st chars = 0 then Some (Inr (st, ErrorOr_null))
      else
     ebind (operator_new sizeof_KString st) (\<lambda>(st0, object).
     ebind (map_option Inr (rt_string_len (memory st0) chars)) (\<lambda>len.
     ebind (KString_new len st0) (\<lambda>(st1, view).
     ebind (map_option Inr (KString_append_chars (memory st1) view chars)) (\<lambda>(m2, view').
        if object = null then Some (Inl NullAccess)
        else
     ebind (Some (KString_destroy view' (st1\<lparr>memory := m2\<rparr>))) (\<lambda>(st3, _).
     ebind (Some (KString_destroy view' st3)) (\<lambda>(st4, _).
        Some (Inr (st4, ErrorOr_value view')))))))))"

definition alloc_string :: "addr \<Rightarrow> mm_state \<Rightarrow> (abort + mm_state \<times> addr) option" where
  "alloc_string txt st =
     (if txt = null then Some (Inr (st, null))
      else do { len \<leftarrow> rt_string_len (memory st) txt;
                r \<leftarrow> operator_new len st;
                case r of
                  Inl e \<Rightarrow> Some (Inl e)
                | Inr (st1, string) \<Rightarrow>
                    if string = null then Some (Inr (st1, null))
                    else do { len' \<leftarrow> rt_string_len (memory st1) txt;
                              Some (Inr (st1\<lparr>memory := fst (rt_copy_memory (memory st1) txt string len')\<rparr>,
                                         string)) } })"

section \<open>Formatting\<close>

text \<open>
  \<open>StringBuilder::FromBool\<close> and \<open>Format\<close> write into a buffer \<open>ret\<close> obtained from \<open>alloca\<close>; the
  address is an argument, and \<open>FromBool_alloca\<close> is the size asked for. \<open>expr\<close> is the address of the
  literal the code selects. The literal ``?'' they return on a null format is the second result.
\<close>

definition FromBool_alloca :: "bool \<Rightarrow> u64 \<Rightarrow> u64" where
  "FromBool_alloca i fmt_len = (if i then 4 else 5 + fmt_len)"

function FromBool_copy :: "mem \<Rightarrow> addr \<Rightarrow> addr \<Rightarrow> u64 \<Rightarrow> u64 \<Rightarrow> u64 \<Rightarrow> mem" where
  "FromBool_copy m ret boolean_expr res_len y_idx result_cnt =
     (if y_idx < res_len
      then FromBool_copy (m(ret + result_cnt := m (boolean_expr + y_idx))) ret boolean_expr res_len
             (y_idx + 1) (result_cnt + 1)
      else m)"
  by pat_completeness auto
termination
proof (relation "measure (\<lambda>(m, ret, e, res_len, y, c). unat res_len - unat y)", goal_cases)
  case (2 m ret e res_len y c)
  then have "unat (y + 1) = Suc (unat y)"
    using unat_u64_lt [of res_len] by (simp add: word_less_nat_alt unat_word_ariths)
  with 2 show ?case by (simp add: word_less_nat_alt)
qed simp

declare FromBool_copy.simps [simp del]

primrec FromBool_loop :: "mem \<Rightarrow> addr \<Rightarrow> addr \<Rightarrow> addr \<Rightarrow> u64 \<Rightarrow> u64 \<Rightarrow> nat \<Rightarrow> mem" where
  "FromBool_loop m fmt ret boolean_expr res_len idx 0 = m"
| "FromBool_loop m fmt ret boolean_expr res_len idx (Suc k) =
     (if m (fmt + idx) = 0x25 then FromBool_copy m ret boolean_expr res_len idx idx
      else FromBool_loop (m(ret + idx := m (fmt + idx))) fmt ret boolean_expr res_len (idx + 1) k)"

definition StringBuilder_FromBool ::
    "mem \<Rightarrow> addr \<Rightarrow> (bool \<Rightarrow> addr) \<Rightarrow> addr \<Rightarrow> bool \<Rightarrow> (mem \<times> addr option) option" where
  "StringBuilder_FromBool m fmt expr ret i =
     (if fmt = null then Some (m, None)
      else if ret = null then Some (m, None)
      else do { fmt_len \<leftarrow> rt_string_len m fmt;
                res_len \<leftarrow> rt_string_len m (expr i);
                Some (FromBool_loop m fmt ret (expr i) res_len 0 (unat fmt_len), Some ret) })"

text \<open>\<open>Format\<close> measures both strings again at every step, in the memory it is changing.\<close>

partial_function (option) Builder_Format_copy :: "mem \<Rightarrow> addr \<Rightarrow> addr \<Rightarrow> u64 \<Rightarrow> u64 \<Rightarrow> mem option" where
  "Builder_Format_copy m ret fmt2 y_idx result_cnt =
     do { len2 \<leftarrow> rt_string_len m fmt2;
          if y_idx < len2
          then Builder_Format_copy (m(ret + result_cnt := m (fmt2 + y_idx))) ret fmt2 (y_idx + 1) (result_cnt + 1)
          else Some m }"

partial_function (option) Builder_Format_loop :: "mem \<Rightarrow> addr \<Rightarrow> addr \<Rightarrow> addr \<Rightarrow> u64 \<Rightarrow> mem option" where
  "Builder_Format_loop m fmt fmt2 ret idx =
     do { len \<leftarrow> rt_string_len m fmt;
          if idx < len
          then if m (fmt + idx) = 0x25 then Builder_Format_copy m ret fmt2 0 idx
               else Builder_Format_loop (m(ret + idx := m (fmt + idx))) fmt fmt2 ret (idx + 1)
          else Some m }"

definition StringBuilder_Format :: "mem \<Rightarrow> addr \<Rightarrow> addr \<Rightarrow> addr \<Rightarrow> (mem \<times> addr option) option" where
  "StringBuilder_Format m fmt fmt2 ret =
     (if fmt = null \<or> fmt2 = null then Some (m, None)
      else if ret = null then Some (m, None)
      else do { m' \<leftarrow> Builder_Format_loop m fmt fmt2 ret 0; Some (m', Some ret) })"

section \<open>The loops\<close>

lemma str_eq_loop_iff:
  "str_eq_loop m rhs lhs index k \<longleftrightarrow> load_bytes m (rhs + index) k = load_bytes m (lhs + index) k"
  by (induction k arbitrary: index) (auto simp: add.assoc)

lemma str_ne_loop_iff:
  "str_ne_loop m rhs lhs index k \<longleftrightarrow>
   list_all2 (\<noteq>) (load_bytes m (lhs + index) k) (load_bytes m (rhs + index) k)"
  by (induction k arbitrary: index) (auto simp: add.assoc)

text \<open>Appending and plain formatting are the byte copy of \<open>rt_copy_memory\<close>.\<close>

lemma rt_string_append_loop_copy:
  "rt_string_append_loop m lhs rhs cur i k = rt_copy_memory_loop m rhs (lhs + scast cur) i k"
  by (induction k arbitrary: m i) (simp_all add: ac_simps)

lemma copy_loop_store:
  assumes "disjoint_ranges src k dst k" and "k < 2 ^ 64"
  shows "rt_copy_memory_loop m src dst 0 k = store_bytes m dst (load_bytes m src k)"
proof (cases "k = 0")
  case False
  have k: "unat (of_nat k :: u64) = k" using assms(2) by (rule unat_of_nat_addr)
  have pos: "\<not> (of_nat k :: u64) < 1"
  proof
    assume "(of_nat k :: u64) < 1"
    then have "unat (of_nat k :: u64) < 1" by (simp add: word_less_nat_alt)
    with k False show False by simp
  qed
  have "fst (rt_copy_memory m src dst (of_nat k)) = store_bytes m dst (load_bytes m src (unat (of_nat k :: u64)))"
    by (rule rt_copy_memory_eq) (use assms k in \<open>simp add: disjoint_ranges_def\<close>)
  with pos k show ?thesis by (simp add: rt_copy_memory_def)
qed simp

lemma FromBool_loop_plain:
  assumes "disjoint_ranges fmt n ret n" and "n < 2 ^ 64" and "0x25 \<notin> set (load_bytes m fmt n)"
  shows "FromBool_loop m fmt ret e res_len 0 n = rt_copy_memory_loop m fmt ret 0 n"
proof -
  have "FromBool_loop m' fmt ret e res_len (of_nat i) k = rt_copy_memory_loop m' fmt ret (of_nat i) k"
    if "i + k = n" and "\<And>j. j < n \<Longrightarrow> m' (fmt + of_nat j) = m (fmt + of_nat j)" for m' i k
    using that
  proof (induction k arbitrary: m' i)
    case (Suc k)
    have "i < n" using Suc.prems(1) by simp
    then have "m (fmt + of_nat i) \<in> set (load_bytes m fmt n)" by (auto simp: load_bytes_nth)
    with assms(3) have "m' (fmt + of_nat i) \<noteq> 0x25" using Suc.prems(2) [OF \<open>i < n\<close>] by auto
    moreover have "fmt + of_nat j \<noteq> ret + of_nat i" if "j < n" for j
    proof -
      have "\<not> in_range (fmt + of_nat j) ret n" using assms(1) that by (rule disjoint_ranges_not_in)
      then show ?thesis using assms(2) \<open>i < n\<close> by (auto simp: in_range_def unat_of_nat_addr)
    qed
    ultimately show ?case
      using Suc.IH [of "Suc i" "m'(ret + of_nat i := m' (fmt + of_nat i))"] Suc.prems
      by (simp add: add.commute [of _ 1] fun_upd_def)
  qed simp
  from this [of 0 n m] show ?thesis by simp
qed

lemma scast_ucast_small: "unat (w :: u64) < 2 ^ 31 \<Longrightarrow> scast (ucast w :: u32) = w"
proof -
  assume "unat w < 2 ^ 31"
  then have "int (unat w) < int (2 ^ 31)" by (simp only: of_nat_less_iff)
  then have w: "uint w < 2 ^ 31" by simp
  have "sint (ucast w :: u32) = signed_take_bit 31 (uint w)"
    by (simp add: signed_ucast_eq)
  also have "\<dots> = uint w"
  proof (rule signed_take_bit_int_eq_self)
    have "0 \<le> uint w" by simp
    then show "- (2 ^ 31) \<le> uint w" by (rule order_trans [rotated]) simp
  qed (use w in simp)
  finally show ?thesis by (simp add: scast_eq)
qed

lemma StringBuilder_Equals_eq:
  assumes "first_nul_after m lhs 0 nl" and "first_nul_after m rhs 0 nr"
  shows "StringBuilder_Equals m lhs rhs = Some (load_bytes m lhs nl = load_bytes m rhs nr)"
proof -
  have n: "nl < 2 ^ 64" "nr < 2 ^ 64" using assms by (auto simp: first_nul_after_def)
  have "load_bytes m lhs nl \<noteq> load_bytes m rhs nr" if "nl \<noteq> nr"
    using that by (metis length_load_bytes)
  with n show ?thesis
    by (auto simp: StringBuilder_Equals_def rt_string_len_finds [OF assms(1)]
        rt_string_len_finds [OF assms(2)] of_nat_addr_inj str_eq_loop_iff unat_of_nat_addr)
qed

section \<open>Properties\<close>

text \<open>
  Remark. \<open>StringBuilder::Equals\<close> decides equality of C strings: when the first terminators
  (from position 1 on) are at \<open>nl\<close> and \<open>nr\<close>, it returns whether the characters before them are
  the same.
\<close>

theorem StringBuilder_Equals_decides:
  assumes "first_nul_after m lhs 0 nl" and "first_nul_after m rhs 0 nr"
  shows "StringBuilder_Equals m lhs rhs = Some (load_bytes m lhs nl = load_bytes m rhs nr)"
  using assms by (rule StringBuilder_Equals_eq)

definition string_example :: mem where
  "string_example = store_bytes (store_bytes (\<lambda>_. 0) 0x1000 [0x2F, 0x61, 0x25]) 0x2000 [0x2F, 0x61, 0x25]"

lemma first_nul_at_3:
  assumes "m (p + 1) \<noteq> 0" and "m (p + 2) \<noteq> 0" and "m (p + 3) = 0"
  shows "first_nul_after m p 0 3"
proof -
  have "m (p + of_nat i) \<noteq> 0" if "0 < i" "i < 3" for i
  proof -
    from that have "i = 1 \<or> i = 2" by linarith
    with assms show ?thesis by auto
  qed
  with assms show ?thesis by (simp add: first_nul_after_def)
qed

lemma string_example_strings:
  "first_nul_after string_example 0x1000 0 3" "first_nul_after string_example 0x2000 0 3"
  by (rule first_nul_at_3; simp add: string_example_def)+

theorem StringBuilder_Equals_decides_witness:
  "StringBuilder_Equals string_example 0x1000 0x2000 = Some True"
  using StringBuilder_Equals_decides [OF string_example_strings] by (simp add: string_example_def eval_simps)

text \<open>
  Remark. The two operators of \<open>KString\<close> are not each other's negation: \<open>==\<close> holds when the
  sizes agree and all bytes agree, \<open>!=\<close> only when the sizes agree and every single byte differs, so
  strings of different sizes are neither equal nor unequal.
\<close>

theorem KString_operators:
  "KString_eq m a b = (fDataSz a = fDataSz b
       \<and> load_bytes m (fData a) (unat (fDataSz a)) = load_bytes m (fData b) (unat (fDataSz b)))
   \<and> KString_ne m a b = (fDataSz a = fDataSz b
       \<and> list_all2 (\<noteq>) (load_bytes m (fData a) (unat (fDataSz a))) (load_bytes m (fData b) (unat (fDataSz b))))"
  by (auto simp: KString_eq_def KString_ne_def str_eq_loop_iff str_ne_loop_iff)

text \<open>
  Remark. \<open>operator+=\<close> with a C string of length \<open>n\<close> writes its characters at the cursor and
  advances the cursor by \<open>n\<close>; it never consults the capacity \<open>fDataSz\<close>, so the write goes past
  the end of the string's memory whenever cursor and length add up to more.
\<close>

theorem KString_append_writes_at_cursor:
  assumes "first_nul_after m rhs 0 n" and "unat (fCur this) < 2 ^ 31"
    and "disjoint_ranges rhs (Suc n) (fData this + fCur this) n"
  shows "KString_append_chars m this rhs =
     Some (store_bytes m (fData this + fCur this) (load_bytes m rhs n),
           this\<lparr>fCur := fCur this + of_nat n\<rparr>)"
proof -
  let ?m1 = "store_bytes m (fData this + fCur this) (load_bytes m rhs n)"
  have n: "n < 2 ^ 64" using assms(1) by (auto simp: first_nul_after_def)
  have cur: "(scast (ucast (fCur this) :: u32) :: u64) = fCur this"
    using assms(2) by (rule scast_ucast_small)
  have dis: "disjoint_ranges rhs n (fData this + fCur this) n"
    using assms(3) by (auto simp: disjoint_ranges_def)
  have app: "rt_string_append m (fData this) rhs (ucast (fCur this)) = Some ?m1"
    using n dis by (simp add: rt_string_append_def rt_string_len_finds [OF assms(1)]
        rt_string_append_loop_copy cur copy_loop_store unat_of_nat_addr)
  have "?m1 (rhs + of_nat i) = m (rhs + of_nat i)" if "i < Suc n" for i
    using disjoint_ranges_not_in [OF assms(3) that] n by (simp add: store_bytes_apply)
  then have "first_nul_after ?m1 rhs 0 n" using assms(1) by (auto simp: first_nul_after_def)
  from rt_string_len_finds [OF this] app show ?thesis by (simp add: KString_append_chars_def)
qed

theorem KString_append_writes_at_cursor_witness:
  "\<exists>r. KString_append_chars string_example \<lparr>fData = 0x3000, fDataSz = 2, fCur = 1\<rparr> 0x1000 =
     Some (store_bytes string_example 0x3001 [0x2F, 0x61, 0x25], r) \<and> fCur r = 4"
  using KString_append_writes_at_cursor [OF string_example_strings(1),
      of "\<lparr>fData = 0x3000, fDataSz = 2, fCur = 1\<rparr>"]
  by (simp add: disjoint_ranges_def) (simp add: string_example_def eval_simps)

text \<open>
  Remark. \<open>FromBool\<close> on a format without a percent sign copies the whole format into the
  buffer and adds no terminator. For the value true the buffer has four bytes, so every such
  format longer than four characters is written past its end.
\<close>

theorem FromBool_true_overruns:
  assumes "fmt \<noteq> null" and "ret \<noteq> null" and "first_nul_after m fmt 0 n"
    and "rt_string_len m (expr True) = Some res_len" and "0x25 \<notin> set (load_bytes m fmt n)"
    and "disjoint_ranges fmt n ret n" and "4 < n"
  shows "StringBuilder_FromBool m fmt expr ret True =
           Some (store_bytes m ret (load_bytes m fmt n), Some ret)
         \<and> unat (FromBool_alloca True (of_nat n)) < n"
proof -
  have n: "n < 2 ^ 64" using assms(3) by (auto simp: first_nul_after_def)
  show ?thesis
    using assms n
    by (simp add: StringBuilder_FromBool_def rt_string_len_finds [OF assms(3)] unat_of_nat_addr
        FromBool_loop_plain copy_loop_store FromBool_alloca_def)
qed

theorem FromBool_true_overruns_witness:
  "\<exists>m'. StringBuilder_FromBool (\<lambda>a. if a = 0x1005 \<or> a = 0x2003 then 0 else 0x41) 0x1000 (\<lambda>_. 0x2000) 0x4000 True =
     Some (m', Some 0x4000) \<and> m' 0x4004 = 0x41 \<and> FromBool_alloca True 5 = 4"
proof -
  let ?m = "(\<lambda>a. if a = 0x1005 \<or> a = 0x2003 then 0 else 0x41) :: mem"
  have "?m (0x1000 + of_nat i) \<noteq> 0" if "0 < i" "i < 5" for i
  proof -
    from that have "i = 1 \<or> i = 2 \<or> i = 3 \<or> i = 4" by linarith
    then show ?thesis by auto
  qed
  then have f: "first_nul_after ?m 0x1000 0 5" by (simp add: first_nul_after_def)
  have "first_nul_after ?m 0x2000 0 3" by (rule first_nul_at_3) simp_all
  then have r: "rt_string_len ?m ((\<lambda>_. 0x2000) True) = Some 3" using rt_string_len_finds by force
  have l: "load_bytes ?m 0x1000 5 = [0x41, 0x41, 0x41, 0x41, 0x41]" by (simp add: eval_simps)
  show ?thesis
    using FromBool_true_overruns [OF _ _ f r, of "0x4000"]
    by (simp add: l disjoint_ranges_def FromBool_alloca_def store_bytes_apply in_range_def)
qed

end
