(* ===== verification/Ipc_Network.thy ===== *)
theory Ipc_Network
  imports Process_Correct Kernel_Strings
begin

text \<open>
  Messages between processes and network addresses: \<^verbatim>\<open>dev/ZKAKit/src/Network/IPC.cc\<close>,
  \<^verbatim>\<open>IP.cc\<close>, \<^verbatim>\<open>NetworkDevice.cc\<close> and their headers under \<^verbatim>\<open>NetworkKit\<close>. The local
  error code is the one of the current process, which a rejected message crashes.
\<close>

section \<open>Messages\<close>

record IPCAddress =
  UserProcessID :: u64
  UserProcessTeam :: u64

definition IPCAddress_eq :: "IPCAddress \<Rightarrow> IPCAddress \<Rightarrow> bool" where
  "IPCAddress_eq this other =
     (UserProcessID other = UserProcessID this \<and> UserProcessTeam other = UserProcessTeam this)"

record IPCMessage =
  IpcHeaderMagic :: u32
  IpcEndianess :: u8
  IpcPacketSize :: u64
  IpcFrom :: IPCAddress
  IpcTo :: IPCAddress
  IpcCRC32 :: u32
  IpcMsg :: u32
  IpcMsgSz :: u32
  IpcData :: "u8 list"

definition kIPCHeaderMagic :: u32 where "kIPCHeaderMagic = 0x4950434"
definition kIPCLittleEndian :: u8 where "kIPCLittleEndian = 0"
definition kIPCBigEndian :: u8 where "kIPCBigEndian = 1"
definition kIPCMixedEndian :: u8 where "kIPCMixedEndian = 2"
definition kIPCMsgSize :: u64 where "kIPCMsgSize = 6094"
definition sizeof_IPCMessage :: u64 where "sizeof_IPCMessage = 6151"
definition kErrorIPC :: HError where "kErrorIPC = 59"

datatype Endian = kEndianInvalid | kEndianBig | kEndianLittle | kEndianMixed | kEndianCount

primrec endian_value :: "Endian \<Rightarrow> u8" where
  "endian_value kEndianInvalid = 0"
| "endian_value kEndianBig = 1"
| "endian_value kEndianLittle = 2"
| "endian_value kEndianMixed = 3"
| "endian_value kEndianCount = 4"

text \<open>The first byte of the object and the value it is compared with.\<close>

definition rtl_deduce_endianess :: "u8 \<Rightarrow> u8 \<Rightarrow> Endian" where
  "rtl_deduce_endianess first value = (if first = value then kEndianBig else kEndianLittle)"

text \<open>The first byte of a message is the low byte of its magic.\<close>

abbreviation message_byte0 :: "IPCMessage \<Rightarrow> u8" where
  "message_byte0 pckt \<equiv> ucast (IpcHeaderMagic pckt)"

definition Pass :: "IPCMessage \<Rightarrow> IPCMessage option \<Rightarrow> abort + IPCMessage option \<times> bool" where
  "Pass this target =
     (case target of
        None \<Rightarrow> Inr (target, False)
      | Some t \<Rightarrow>
          if IPCAddress_eq (IpcFrom t) (IpcTo this) then
            if IpcMsgSz this > IpcMsgSz t then Inr (target, False)
            else
              let n = unat (IpcMsgSz this) in
              if n > length (IpcData this) \<or> n > length (IpcData t) then Inl OutOfBounds
              else Inr (Some (t\<lparr>IpcData := take n (IpcData this) @ drop n (IpcData t)\<rparr>), True)
          else Inr (target, False))"

definition err_local_set :: "HError \<Rightarrow> sched \<Rightarrow> abort + sched" where
  "err_local_set code s =
     (case get_proc s (mCurrentProcess s) of
        Inl e \<Rightarrow> Inl e
      | Inr pr \<Rightarrow> Inr (set_proc (mCurrentProcess s) (pr\<lparr>up_fLocalCode := code\<rparr>) s))"

definition ipc_check_failed :: "sched \<Rightarrow> abort + sched \<times> bool" where
  "ipc_check_failed s = (case err_local_set kErrorIPC s of Inl e \<Rightarrow> Inl e | Inr s' \<Rightarrow> Inr (s', False))"

definition ipc_int_sanitize_packet :: "IPCMessage \<Rightarrow> sched \<Rightarrow> abort + sched \<times> bool" where
  "ipc_int_sanitize_packet pckt s =
     (let endian = rtl_deduce_endianess (message_byte0 pckt) (message_byte0 pckt);
          bad_endian =
            (case endian of
               kEndianBig \<Rightarrow> IpcEndianess pckt = kIPCLittleEndian
             | kEndianLittle \<Rightarrow> IpcEndianess pckt = kIPCBigEndian
             | kEndianMixed \<Rightarrow> IpcEndianess pckt = kIPCMixedEndian
             | _ \<Rightarrow> True)
      in if bad_endian then ipc_check_failed s
         else if IPCAddress_eq (IpcFrom pckt) (IpcTo pckt) \<or> IpcPacketSize pckt > kIPCMsgSize then ipc_check_failed s
         else Inr (s, IpcPacketSize pckt > 1 \<and> IpcHeaderMagic pckt = kIPCHeaderMagic))"

definition ipc_sanitize_packet :: "IPCMessage option \<Rightarrow> sched \<Rightarrow> (abort + sched \<times> bool) option" where
  "ipc_sanitize_packet pckt s =
     ebind (case pckt of None \<Rightarrow> Some (Inr (s, False)) | Some p \<Rightarrow> Some (ipc_int_sanitize_packet p s)) (\<lambda>(s1, ok).
       if \<not> ok then ebind (UserProcess_Crash (mCurrentProcess s1) s1) (\<lambda>s2. Some (Inr (s2, False)))
       else Some (Inr (s1, True)))"

definition IPCMessage_zero :: IPCMessage where
  "IPCMessage_zero =
     \<lparr>IpcHeaderMagic = 0, IpcEndianess = 0, IpcPacketSize = 0, IpcFrom = \<lparr>UserProcessID = 0, UserProcessTeam = 0\<rparr>,
      IpcTo = \<lparr>UserProcessID = 0, UserProcessTeam = 0\<rparr>, IpcCRC32 = 0, IpcMsg = 0, IpcMsgSz = 0,
      IpcData = replicate (unat kIPCMsgSize) 0\<rparr>"

text \<open>
  The argument is a pointer to a pointer: \<open>None\<close> is null, \<open>Some None\<close> points to null. The test for
  null comes after the first use.
\<close>

definition ipc_construct_packet ::
    "IPCMessage option option \<Rightarrow> sched \<Rightarrow> (abort + sched \<times> IPCMessage option \<times> bool) option" where
  "ipc_construct_packet pckt_in s =
     (case pckt_in of
        None \<Rightarrow> Some (Inl NullAccess)
      | Some (Some p) \<Rightarrow> Some (Inr (s, Some p, True))
      | Some None \<Rightarrow>
          ebind (operator_new sizeof_IPCMessage (sc_mm s)) (\<lambda>(mm1, ptr).
            if ptr = null then Some (Inr (s\<lparr>sc_mm := mm1\<rparr>, None, False))
            else
              let s1 = s\<lparr>sc_mm := mm1\<rparr>; msg = IPCMessage_zero;
                  endian = rtl_deduce_endianess (message_byte0 msg) (message_byte0 msg)
              in ebind (Some (get_proc s1 (mCurrentProcess s1))) (\<lambda>pr.
                   Some (Inr (s1, Some (msg\<lparr>IpcHeaderMagic := kIPCHeaderMagic, IpcEndianess := endian_value endian,
                       IpcPacketSize := sizeof_IPCMessage, IpcTo := \<lparr>UserProcessID = 0, UserProcessTeam = 0\<rparr>,
                       IpcFrom := \<lparr>UserProcessID = up_ProcessId pr, UserProcessTeam = mTeamId s1\<rparr>\<rparr>), True)))))"

section \<open>Addresses\<close>

text \<open>An address is its bytes: four for \<open>RawIPAddress\<close>, eight for \<open>RawIPAddress6\<close>.\<close>

primrec RawIP_eq :: "u8 list \<Rightarrow> u8 list \<Rightarrow> bool" where
  "RawIP_eq ip [] = True"
| "RawIP_eq ip (b # bs) = (case ip of [] \<Rightarrow> True | a # as \<Rightarrow> if a \<noteq> b then False else RawIP_eq as bs)"

primrec RawIP_ne :: "u8 list \<Rightarrow> u8 list \<Rightarrow> bool" where
  "RawIP_ne ip [] = True"
| "RawIP_ne ip (b # bs) = (case ip of [] \<Rightarrow> True | a # as \<Rightarrow> if a = b then False else RawIP_ne as bs)"

definition RawIP_at :: "u8 list \<Rightarrow> u64 \<Rightarrow> abort + u8" where
  "RawIP_at fAddr index =
     (if unat index > length fAddr then Inr 0x30
      else if unat index = length fAddr then Inl OutOfBounds
      else Inr (fAddr ! unat index))"

text \<open>The constructors copy the bytes; printing reads the address as a string, although nothing ends it.\<close>

definition RawIPAddress_new :: "mem \<Rightarrow> addr \<Rightarrow> u8 list" where "RawIPAddress_new m bytes = load_bytes m bytes 4"
definition RawIPAddress6_new :: "mem \<Rightarrow> addr \<Rightarrow> u8 list" where "RawIPAddress6_new m bytes = load_bytes m bytes 8"

definition IPFactory_ToKString :: "addr \<Rightarrow> mm_state \<Rightarrow> (abort + mm_state \<times> KString ErrorOr) option" where
  "IPFactory_ToKString fAddr st = StringBuilder_Construct fAddr st"

primrec IpCheck_loop :: "mem \<Rightarrow> addr \<Rightarrow> u64 \<Rightarrow> nat \<Rightarrow> nat \<Rightarrow> bool" where
  "IpCheck_loop m ip base 0 cnter = True"
| "IpCheck_loop m ip base (Suc k) cnter =
     (if m (ip + base) = 0x2E then IpCheck_loop m ip (base + 1) k 0
      else if cnter = 3 then False
      else IpCheck_loop m ip (base + 1) k (cnter + 1))"

definition IpCheckVersion4 :: "mem \<Rightarrow> addr \<Rightarrow> bool option" where
  "IpCheckVersion4 m ip =
     (case rt_string_len m ip of None \<Rightarrow> None | Some len \<Rightarrow> Some (IpCheck_loop m ip 0 (unat len) 0))"

section \<open>Network devices\<close>

definition cNetworkNameLen :: u64 where "cNetworkNameLen = 512"

text \<open>The name is a buffer of \<open>cNetworkNameLen\<close> bytes at \<open>fNetworkName\<close>.\<close>

definition NetworkDevice_Name :: "addr \<Rightarrow> addr \<Rightarrow> mem \<Rightarrow> (mem \<times> bool) option" where
  "NetworkDevice_Name fNetworkName strView m =
     (if strView = null then Some (m, False)
      else if m strView = 0 then Some (m, False)
      else case rt_string_len m strView of
        None \<Rightarrow> None
      | Some len \<Rightarrow>
          if len > cNetworkNameLen then Some (m, False)
          else Some (fst (rt_copy_memory m strView fNetworkName len), True))"

definition NetworkDevice_new :: "bool \<Rightarrow> 'f option \<Rightarrow> 'f option \<Rightarrow> 'c option \<Rightarrow> abort + 'c option" where
  "NetworkDevice_new debug out inp on_cleanup =
     (case MUST_PASS debug (out \<noteq> None \<and> inp \<noteq> None \<and> on_cleanup \<noteq> None) of Inl e \<Rightarrow> Inl e | Inr _ \<Rightarrow> Inr on_cleanup)"

definition NetworkDevice_delete :: "bool \<Rightarrow> ('s \<Rightarrow> 's) option \<Rightarrow> 's \<Rightarrow> abort + 's" where
  "NetworkDevice_delete debug fCleanup s =
     (case MUST_PASS debug (fCleanup \<noteq> None) of
        Inl e \<Rightarrow> Inl e
      | Inr _ \<Rightarrow> Inr (case fCleanup of Some f \<Rightarrow> f s | None \<Rightarrow> s))"

section \<open>Groups of an address\<close>

text \<open>Every four characters in a row contain a dot.\<close>

definition dotted :: "bool list \<Rightarrow> bool" where
  "dotted ds \<longleftrightarrow> (\<forall>i. i + 4 \<le> length ds \<longrightarrow> (\<exists>j<4. ds ! (i + j)))"

lemma dotted_dot: "c \<le> 3 \<Longrightarrow> dotted (replicate c False @ True # ds) \<longleftrightarrow> dotted ds"
proof
  assume c: "c \<le> 3" and d: "dotted (replicate c False @ True # ds)"
  show "dotted ds" unfolding dotted_def
  proof (intro allI impI)
    fix i
    assume "i + 4 \<le> length ds"
    then obtain j where "j < 4" "(replicate c False @ True # ds) ! (i + c + 1 + j)"
      using d unfolding dotted_def by (force dest: spec [of _ "i + c + 1"])
    then show "\<exists>j<4. ds ! (i + j)" by (auto simp: nth_append)
  qed
next
  assume c: "c \<le> 3" and d: "dotted ds"
  show "dotted (replicate c False @ True # ds)" unfolding dotted_def
  proof (intro allI impI)
    fix i
    assume i: "i + 4 \<le> length (replicate c False @ True # ds)"
    show "\<exists>j<4. (replicate c False @ True # ds) ! (i + j)"
    proof (cases "i \<le> c")
      case True
      with c show ?thesis by (intro exI [of _ "c - i"]) (auto simp: nth_append)
    next
      case False
      then obtain j where "j < 4" "ds ! (i - c - 1 + j)"
        using d i unfolding dotted_def by (force dest: spec [of _ "i - c - 1"])
      with False show ?thesis by (intro exI [of _ j]) (auto simp: nth_append nth_Cons' algebra_simps Suc_diff_le)
    qed
  qed
qed

lemma dotted_full: "\<not> dotted (replicate 3 False @ False # ds)"
proof
  assume "dotted (replicate 3 False @ False # ds)"
  then obtain j where "j < 4" "(replicate 3 False @ False # ds) ! j"
    unfolding dotted_def by (force dest: spec [of _ 0])
  moreover have "j = 0 \<or> j = 1 \<or> j = 2 \<or> j = 3" using \<open>j < 4\<close> by linarith
  ultimately show False by (auto simp: nth_append)
qed

lemma IpCheck_loop_dotted:
  "c \<le> 3 \<Longrightarrow> IpCheck_loop m ip base k c \<longleftrightarrow>
   dotted (replicate c False @ map (\<lambda>i. m (ip + base + of_nat i) = 0x2E) [0..<k])"
proof (induction k arbitrary: base c)
  case 0
  then show ?case by (auto simp: dotted_def)
next
  case (Suc k)
  have shift: "map (\<lambda>i. m (ip + base + of_nat i) = 0x2E) [0..<Suc k] =
      (m (ip + base) = 0x2E) # map (\<lambda>i. m (ip + (base + 1) + of_nat i) = 0x2E) [0..<k]"
    by (simp add: map_upt_Suc algebra_simps del: upt_Suc)
  show ?case
  proof (cases "m (ip + base) = 0x2E")
    case True
    with Suc shift show ?thesis by (simp add: dotted_dot del: upt_Suc)
  next
    case False
    show ?thesis
    proof (cases "c = 3")
      case True
      with False shift dotted_full show ?thesis by (simp del: upt_Suc)
    next
      case c: False
      let ?ds = "map (\<lambda>i. m (ip + (base + 1) + of_nat i) = 0x2E) [0..<k]"
      have "replicate c False @ False # ?ds = replicate (Suc c) False @ ?ds"
        by (metis append.assoc append_Cons append_Nil replicate_Suc replicate_append_same)
      with False c Suc.prems Suc.IH [of "Suc c" "base + 1"] shift show ?thesis
        by (simp only: IpCheck_loop.simps) (simp del: upt_Suc replicate_Suc)
    qed
  qed
qed

section \<open>Properties\<close>

text \<open>
  Property C30. A message the kernel constructs is one it rejects: \<open>ipc_construct_packet\<close> records the size of the whole
  message structure, which exceeds the limit of the check, so sanitizing the message reports failure, sets the
  error code, and ends the current process if it is running.
\<close>

theorem constructed_packet_is_rejected:
  assumes "ipc_construct_packet (Some None) s = Some (Inr (s1, Some p, True))"
    and "sc_procs s1 (mCurrentProcess s1) = Some pr"
  shows "\<exists>s2. ipc_int_sanitize_packet p s1 = Inr (s2, False)
    \<and> s2 = set_proc (mCurrentProcess s1) (pr\<lparr>up_fLocalCode := kErrorIPC\<rparr>) s1
    \<and> (up_Status pr \<noteq> kRunning \<longrightarrow> ipc_sanitize_packet (Some p) s1 = Some (Inr (s2, False)))
    \<and> (up_Status pr = kRunning \<longrightarrow> (\<forall>s3 ok. ipc_sanitize_packet (Some p) s1 = Some (Inr (s3, ok)) \<longrightarrow>
         \<not> ok \<and> sc_procs s3 (mCurrentProcess s1) = None))"
proof -
  let ?s2 = "set_proc (mCurrentProcess s1) (pr\<lparr>up_fLocalCode := kErrorIPC\<rparr>) s1"
  have cur: "mCurrentProcess s1 \<noteq> null" and p: "IpcPacketSize p = sizeof_IPCMessage" "IpcEndianess p = 1"
    using assms(1)
    by (auto simp: ipc_construct_packet_def ebind_eq_Some get_object_Inr Let_def rtl_deduce_endianess_def split: if_splits)
  have s: "ipc_int_sanitize_packet p s1 = Inr (?s2, False)"
    using cur p assms(2)
    by (simp add: ipc_int_sanitize_packet_def rtl_deduce_endianess_def kIPCLittleEndian_def sizeof_IPCMessage_def
        kIPCMsgSize_def ipc_check_failed_def err_local_set_def get_object_def)
  then have san: "ipc_sanitize_packet (Some p) s1 =
      ebind (UserProcess_Crash (mCurrentProcess s1) ?s2) (\<lambda>s3. Some (Inr (s3, False)))"
    by (simp add: ipc_sanitize_packet_def set_proc_def)
  have proc: "get_proc ?s2 (mCurrentProcess s1) = Inr (pr\<lparr>up_fLocalCode := kErrorIPC\<rparr>)"
    using cur by (simp add: get_object_def set_proc_def)
  have "sc_procs s3 (mCurrentProcess s1) = None"
    if "up_Status pr = kRunning" "UserProcess_Crash (mCurrentProcess s1) ?s2 = Some (Inr s3)" for s3
    using that proc UserProcess_Exit_effect [of "mCurrentProcess s1" kErrorProcessFault ?s2 s3]
    by (simp add: UserProcess_Crash_def)
  with s san proc show ?thesis by (auto simp: ebind_eq_Some UserProcess_Crash_idle)
qed

definition ipc_example :: sched where
  "ipc_example = sched_created\<lparr>mCurrentProcess := 0x5000\<rparr>"

theorem constructed_packet_is_rejected_witness:
  "\<exists>s1 p s2. ipc_construct_packet (Some None) ipc_example = Some (Inr (s1, Some p, True))
     \<and> ipc_int_sanitize_packet p s1 = Inr (s2, False)"
proof -
  have "kKernelBitMpStart (sc_mm ipc_example) = - kPageSize" "sc_procs ipc_example 0x5000 = Some proc_example"
    "mCurrentProcess ipc_example = 0x5000"
    by (simp_all add: ipc_example_def set_proc_def sched_example_def)
  then obtain s1 p where c: "ipc_construct_packet (Some None) ipc_example = Some (Inr (s1, Some p, True))"
    and "sc_procs s1 (mCurrentProcess s1) = Some proc_example"
    by (simp add: ipc_construct_packet_def operator_new_def new_heap_wrapped sizeof_IPCMessage_def kKernelHeapMaxSize_def
        get_object_def Let_def)
  from constructed_packet_is_rejected [OF this] c show ?thesis by blast
qed

text \<open>
  Remark. Passing a message copies exactly the announced number of bytes into the target, and only when the
  target listens at the address the message goes to and announces at least as much room; nothing else of the
  target changes, and the sender's bytes can be read back from it.
\<close>

theorem Pass_delivers:
  assumes "Pass this (Some t) = Inr (r, True)"
  shows "\<exists>t'. r = Some t' \<and> IpcFrom t = IpcTo this \<and> IpcMsgSz this \<le> IpcMsgSz t
    \<and> take (unat (IpcMsgSz this)) (IpcData t') = take (unat (IpcMsgSz this)) (IpcData this)
    \<and> drop (unat (IpcMsgSz this)) (IpcData t') = drop (unat (IpcMsgSz this)) (IpcData t)
    \<and> length (IpcData t') = length (IpcData t) \<and> t'\<lparr>IpcData := IpcData t\<rparr> = t"
  using assms
  by (auto simp: Pass_def IPCAddress_eq_def Let_def not_less split: if_splits intro: IPCAddress.equality)

theorem Pass_delivers_witness:
  "\<exists>t'. Pass (IPCMessage_zero\<lparr>IpcMsgSz := 2, IpcData := [7, 8, 9]\<rparr>)
     (Some (IPCMessage_zero\<lparr>IpcMsgSz := 4, IpcData := [1, 2, 3]\<rparr>)) = Inr (Some t', True) \<and> take 2 (IpcData t') = [7, 8]"
proof -
  obtain r where r: "Pass (IPCMessage_zero\<lparr>IpcMsgSz := 2, IpcData := [7, 8, 9]\<rparr>)
     (Some (IPCMessage_zero\<lparr>IpcMsgSz := 4, IpcData := [1, 2, 3]\<rparr>)) = Inr (r, True)"
    by (simp add: Pass_def IPCAddress_eq_def IPCMessage_zero_def Let_def)
  from Pass_delivers [OF r] r show ?thesis by auto
qed

text \<open>
  Remark. What \<open>IpCheckVersion4\<close> accepts: exactly the strings in which no four characters in a row are free of
  dots. Neither the number of groups nor the characters are looked at.
\<close>

theorem IpCheckVersion4_accepts:
  assumes "rt_string_len m ip = Some len"
  shows "IpCheckVersion4 m ip =
    Some (\<forall>i. i + 4 \<le> unat len \<longrightarrow> (\<exists>j<4. m (ip + of_nat (i + j)) = 0x2E))"
proof -
  have "dotted (map (\<lambda>i. m (ip + of_nat i) = 0x2E) [0..<unat len]) \<longleftrightarrow>
      (\<forall>i. i + 4 \<le> unat len \<longrightarrow> (\<exists>j<4. m (ip + of_nat (i + j)) = 0x2E))"
    unfolding dotted_def by (intro all_cong1 imp_cong ex_cong1 conj_cong refl) (simp_all del: upt_Suc of_nat_add)
  with assms show ?thesis by (simp add: IpCheckVersion4_def IpCheck_loop_dotted del: of_nat_add)
qed

theorem IpCheckVersion4_accepts_witness:
  "IpCheckVersion4 (\<lambda>a. if a = 0x1004 then 0 else 0x31) 0x1000 = Some False"
proof -
  let ?m = "\<lambda>a :: addr. if a = 0x1004 then 0 else 0x31 :: u8"
  have "rt_string_len ?m 0x1000 = Some (of_nat 4)"
  proof (rule rt_string_len_finds)
    have "?m (0x1000 + of_nat i) \<noteq> 0" if "0 < i \<and> i < 4" for i :: nat
    proof -
      from that have "i = 1 \<or> i = 2 \<or> i = 3" by linarith
      then show ?thesis by auto
    qed
    then show "first_nul_after ?m 0x1000 0 4" by (simp add: first_nul_after_def)
  qed
  from IpCheckVersion4_accepts [OF this]
  have "IpCheckVersion4 ?m 0x1000 = Some (\<forall>i. i + 4 \<le> (4 :: nat) \<longrightarrow> (\<exists>j<4. ?m (0x1000 + of_nat (i + j)) = 0x2E))"
    by (simp only: unat_of_nat_addr) simp
  moreover have "?m a \<noteq> 0x2E" for a by simp
  ultimately show ?thesis by (simp only: simp_thms) auto
qed

text \<open>
  Of two constructed addresses \<open>==\<close> says that all bytes agree, \<open>!=\<close> that none does: it is not the negation.
\<close>

lemma RawIP_eq_iff: "length a = length b \<Longrightarrow> RawIP_eq a b \<longleftrightarrow> a = b"
  by (induction b arbitrary: a) (auto split: list.split)

lemma RawIP_ne_iff: "length a = length b \<Longrightarrow> RawIP_ne a b \<longleftrightarrow> list_all2 (\<noteq>) a b"
  by (induction b arbitrary: a) (auto split: list.split)

lemma RawIPAddress6_compare:
  "RawIP_eq (RawIPAddress6_new m p) (RawIPAddress6_new m q) \<longleftrightarrow> (\<forall>i < 8. m (p + of_nat i) = m (q + of_nat i))"
  "RawIP_ne (RawIPAddress6_new m p) (RawIPAddress6_new m q) \<longleftrightarrow> (\<forall>i < 8. m (p + of_nat i) \<noteq> m (q + of_nat i))"
  by (simp_all add: RawIPAddress6_new_def RawIP_eq_iff RawIP_ne_iff list_eq_iff_nth_eq list_all2_conv_all_nth)

end
