(* ===== verification/ATA_PIO.thy ===== *)
theory ATA_PIO
  imports ZKA_Prelude "HOL-Library.Monad_Syntax"
begin

text \<open>
  The ATA driver in programmed I/O mode, \<^verbatim>\<open>dev/ZKAKit/HALKit/AMD64/Storage/ATA-PIO.cc\<close>,
  with the registers of \<^verbatim>\<open>dev/Modules/ATA/ATA.h\<close>. The drive itself is hardware: the
  driver is a function of the four port instructions, which act on a device state of any type.
  Busy-waiting loops are partial functions, \<open>None\<close> being a wait that never ends. A reference
  drive, which answers the registers as the ATA documentation describes, is given below and the
  driver's transfers are characterised on it.
\<close>

section \<open>Ports and registers\<close>

record 'd ports =
  rt_in8 :: "u16 \<Rightarrow> 'd \<Rightarrow> u8 \<times> 'd"
  rt_in16 :: "u16 \<Rightarrow> 'd \<Rightarrow> u16 \<times> 'd"
  rt_out8 :: "u16 \<Rightarrow> u8 \<Rightarrow> 'd \<Rightarrow> 'd"
  rt_out16 :: "u16 \<Rightarrow> u16 \<Rightarrow> 'd \<Rightarrow> 'd"

definition ATA_SR_BSY :: u8 where "ATA_SR_BSY = 0x80"
definition ATA_SR_DRDY :: u8 where "ATA_SR_DRDY = 0x40"
definition ATA_SR_ERR :: u8 where "ATA_SR_ERR = 0x01"
definition ATA_CMD_READ_PIO :: u8 where "ATA_CMD_READ_PIO = 0x20"
definition ATA_CMD_WRITE_PIO :: u8 where "ATA_CMD_WRITE_PIO = 0x30"
definition ATA_CMD_IDENTIFY :: u8 where "ATA_CMD_IDENTIFY = 0xEC"
definition ATA_MASTER :: u8 where "ATA_MASTER = 0"
definition ATA_SLAVE :: u8 where "ATA_SLAVE = 1"
definition ATA_REG_DATA :: u16 where "ATA_REG_DATA = 0"
definition ATA_REG_SEC_COUNT0 :: u16 where "ATA_REG_SEC_COUNT0 = 2"
definition ATA_REG_LBA0 :: u16 where "ATA_REG_LBA0 = 3"
definition ATA_REG_LBA1 :: u16 where "ATA_REG_LBA1 = 4"
definition ATA_REG_LBA2 :: u16 where "ATA_REG_LBA2 = 5"
definition ATA_REG_HDDEVSEL :: u16 where "ATA_REG_HDDEVSEL = 6"
definition ATA_REG_COMMAND :: u16 where "ATA_REG_COMMAND = 7"
definition ATA_REG_STATUS :: u16 where "ATA_REG_STATUS = 7"
definition ATA_REG_LBA3 :: u16 where "ATA_REG_LBA3 = 9"
definition ATA_REG_NEIN :: u16 where "ATA_REG_NEIN = 1"
definition ATA_PRIMARY_IO :: u16 where "ATA_PRIMARY_IO = 0x1F0"
definition ATA_SECONDARY_IO :: u16 where "ATA_SECONDARY_IO = 0x170"
definition ATA_PRIMARY_SEL :: u8 where "ATA_PRIMARY_SEL = 0xA0"
definition ATA_SECONDARY_SEL :: u8 where "ATA_SECONDARY_SEL = 0xB0"
definition kATASectorSize :: u64 where "kATASectorSize = 512"
definition kATADataLen :: nat where "kATADataLen = 256"

lemmas ata_defs = ATA_SR_BSY_def ATA_SR_DRDY_def ATA_SR_ERR_def ATA_CMD_READ_PIO_def
  ATA_CMD_WRITE_PIO_def ATA_CMD_IDENTIFY_def ATA_MASTER_def ATA_SLAVE_def ATA_REG_DATA_def
  ATA_REG_SEC_COUNT0_def ATA_REG_LBA0_def ATA_REG_LBA1_def ATA_REG_LBA2_def ATA_REG_HDDEVSEL_def
  ATA_REG_COMMAND_def ATA_REG_STATUS_def ATA_REG_LBA3_def ATA_REG_NEIN_def ATA_PRIMARY_IO_def
  ATA_SECONDARY_IO_def ATA_PRIMARY_SEL_def ATA_SECONDARY_SEL_def kATASectorSize_def kATADataLen_def

section \<open>Waiting\<close>

primrec drv_std_delay :: "'d ports \<Rightarrow> u16 \<Rightarrow> nat \<Rightarrow> 'd \<Rightarrow> 'd" where
  "drv_std_delay P IO 0 d = d"
| "drv_std_delay P IO (Suc k) d = drv_std_delay P IO k (snd (rt_in8 P (IO + ATA_REG_STATUS) d))"

partial_function (option) drv_std_wait_busy :: "'d ports \<Rightarrow> u16 \<Rightarrow> 'd \<Rightarrow> 'd option" where
  "drv_std_wait_busy P IO d =
     (let (statRdy, d') = rt_in8 P (IO + ATA_REG_STATUS) d
      in if statRdy AND ATA_SR_BSY \<noteq> 0 then drv_std_wait_busy P IO d' else Some d')"

partial_function (option) drv_std_wait_ready :: "'d ports \<Rightarrow> u16 \<Rightarrow> 'd \<Rightarrow> ('d \<times> bool) option" where
  "drv_std_wait_ready P IO d =
     (let (statRdy, d') = rt_in8 P (IO + ATA_REG_STATUS) d
      in if statRdy AND ATA_SR_ERR \<noteq> 0 then Some (d', False)
         else if statRdy AND ATA_SR_DRDY = 0 then drv_std_wait_ready P IO d'
         else Some (d', True))"

definition drv_std_wait_io :: "'d ports \<Rightarrow> u16 \<Rightarrow> 'd \<Rightarrow> ('d \<times> bool) option" where
  "drv_std_wait_io P IO d =
     do { d1 \<leftarrow> drv_std_wait_busy P IO (drv_std_delay P IO 400 d);
          drv_std_wait_ready P IO d1 }"

section \<open>Initialisation and transfers\<close>

definition drv_std_select :: "'d ports \<Rightarrow> u16 \<Rightarrow> 'd \<Rightarrow> 'd" where
  "drv_std_select P Bus d =
     (if Bus = ATA_PRIMARY_IO then rt_out8 P (Bus + ATA_REG_HDDEVSEL) ATA_PRIMARY_SEL d
      else rt_out8 P (Bus + ATA_REG_HDDEVSEL) ATA_SECONDARY_SEL d)"

primrec drv_std_identify :: "'d ports \<Rightarrow> u16 \<Rightarrow> nat \<Rightarrow> 'd \<Rightarrow> 'd \<times> u8 list" where
  "drv_std_identify P IO 0 d = (d, [])"
| "drv_std_identify P IO (Suc k) d =
     (let (w, d1) = rt_in16 P (IO + ATA_REG_DATA) d; (d2, ws) = drv_std_identify P IO k d1
      in (d2, ucast w # ws))"

text \<open>
  \<open>drv_std_init\<close> yields \<open>None\<close> inside when it aborts on an error bit, otherwise the identification
  bytes (the contents of \<open>kATAData\<close>), the bus and the drive number it reports back.
\<close>

partial_function (option) drv_std_init_retry :: "'d ports \<Rightarrow> u16 \<Rightarrow> 'd \<Rightarrow> ('d \<times> bool) option" where
  "drv_std_init_retry P IO d =
     (let d1 = rt_out8 P (IO + ATA_REG_NEIN) 1 d;
          (statRdy, d2) = rt_in8 P (IO + ATA_REG_STATUS) d1
      in if statRdy AND ATA_SR_ERR \<noteq> 0 then Some (d2, False)
         else if statRdy AND ATA_SR_BSY \<noteq> 0 then drv_std_init_retry P IO d2
         else Some (d2, True))"

definition drv_std_init :: "'d ports \<Rightarrow> u16 \<Rightarrow> 'd \<Rightarrow> ('d \<times> (u8 list \<times> u16 \<times> u8) option) option" where
  "drv_std_init P Bus d =
     do { (d1, ok) \<leftarrow> drv_std_init_retry P Bus (drv_std_select P Bus d);
          if \<not> ok then Some (d1, None)
          else do { let d2 = rt_out8 P (Bus + ATA_REG_COMMAND) ATA_CMD_IDENTIFY d1;
                    (d3, _) \<leftarrow> drv_std_wait_io P Bus d2;
                    let (d4, data) = drv_std_identify P Bus kATADataLen d3;
                    Some (d4, Some (data,
                            if Bus = ATA_PRIMARY_IO then ATA_PRIMARY_IO else ATA_SECONDARY_IO,
                            if Bus = ATA_PRIMARY_IO then ATA_MASTER else ATA_SLAVE)) } }"

text \<open>The register programming both transfers share.\<close>

definition drv_std_setup :: "'d ports \<Rightarrow> u64 \<Rightarrow> u16 \<Rightarrow> u8 \<Rightarrow> u64 \<Rightarrow> u64 \<Rightarrow> u8 \<Rightarrow> 'd \<Rightarrow> 'd option" where
  "drv_std_setup P Lba IO Master SectorSz Sz cmd d =
     (let Lba = Lba div SectorSz; Command = (if Master = 0 then 0xE0 else 0xF0)
      in do { (d1, _) \<leftarrow> drv_std_wait_io P IO d;
              let d2 = drv_std_select P IO d1;
              let d3 = rt_out8 P (IO + ATA_REG_HDDEVSEL) (Command OR ucast (drop_bit 24 Lba AND 0x0F)) d2;
              let d4 = rt_out8 P (IO + ATA_REG_SEC_COUNT0) (ucast ((Sz + SectorSz) div SectorSz)) d3;
              let d5 = rt_out8 P (IO + ATA_REG_LBA0) (ucast (Lba AND 0xFF)) d4;
              let d6 = rt_out8 P (IO + ATA_REG_LBA1) (ucast (drop_bit 8 Lba)) d5;
              let d7 = rt_out8 P (IO + ATA_REG_LBA2) (ucast (drop_bit 16 Lba)) d6;
              let d8 = rt_out8 P (IO + ATA_REG_LBA3) (ucast (drop_bit 24 Lba)) d7;
              let d9 = rt_out8 P (IO + ATA_REG_COMMAND) cmd d8;
              (d10, _) \<leftarrow> drv_std_wait_io P IO d9;
              Some d10 })"

text \<open>One 16-bit word of the data register per byte of the buffer.\<close>

primrec drv_std_read_loop :: "'d ports \<Rightarrow> u16 \<Rightarrow> nat \<Rightarrow> 'd \<Rightarrow> ('d \<times> u8 list) option" where
  "drv_std_read_loop P IO 0 d = Some (d, [])"
| "drv_std_read_loop P IO (Suc k) d =
     do { (d1, _) \<leftarrow> drv_std_wait_io P IO d;
          let (w, d2) = rt_in16 P (IO + ATA_REG_DATA) d1;
          (d3, _) \<leftarrow> drv_std_wait_io P IO d2;
          (d4, ws) \<leftarrow> drv_std_read_loop P IO k d3;
          Some (d4, ucast w # ws) }"

primrec drv_std_write_loop :: "'d ports \<Rightarrow> u16 \<Rightarrow> u8 list \<Rightarrow> 'd \<Rightarrow> 'd option" where
  "drv_std_write_loop P IO [] d = Some d"
| "drv_std_write_loop P IO (b # bs) d =
     do { (d1, _) \<leftarrow> drv_std_wait_io P IO d;
          let d2 = rt_out16 P (IO + ATA_REG_DATA) (scast b) d1;
          (d3, _) \<leftarrow> drv_std_wait_io P IO d2;
          drv_std_write_loop P IO bs d3 }"

definition drv_std_read ::
    "'d ports \<Rightarrow> u64 \<Rightarrow> u16 \<Rightarrow> u8 \<Rightarrow> u64 \<Rightarrow> u64 \<Rightarrow> 'd \<Rightarrow> ('d \<times> u8 list) option" where
  "drv_std_read P Lba IO Master SectorSz Sz d =
     do { d1 \<leftarrow> drv_std_setup P Lba IO Master SectorSz Sz ATA_CMD_READ_PIO d;
          (d2, bs) \<leftarrow> drv_std_read_loop P IO (unat Sz) d1;
          (d3, _) \<leftarrow> drv_std_wait_io P IO d2;
          Some (d3, bs) }"

definition drv_std_write ::
    "'d ports \<Rightarrow> u64 \<Rightarrow> u16 \<Rightarrow> u8 \<Rightarrow> u8 list \<Rightarrow> u64 \<Rightarrow> u64 \<Rightarrow> 'd \<Rightarrow> 'd option" where
  "drv_std_write P Lba IO Master Buf SectorSz Sz d =
     do { d1 \<leftarrow> drv_std_setup P Lba IO Master SectorSz Sz ATA_CMD_WRITE_PIO d;
          d2 \<leftarrow> drv_std_write_loop P IO (take (unat Sz) Buf) d1;
          (d3, _) \<leftarrow> drv_std_wait_io P IO d2;
          Some d3 }"

text \<open>Both counters read signed characters, shifted and joined as \<open>int\<close>s.\<close>

definition drv_get_sector_count :: "u8 list \<Rightarrow> u64" where
  "drv_get_sector_count kATAData =
     scast (push_bit 16 (scast (kATAData ! 61)) OR scast (kATAData ! 60) :: u32)"

definition drv_get_size :: "u8 list \<Rightarrow> u64" where
  "drv_get_size kATAData = drv_get_sector_count kATAData * kATASectorSize"

section \<open>A reference drive\<close>

text \<open>
  A master drive on the primary bus that is always ready. Writing the command register with a read
  or write command starts a transfer at the sector the address registers name, for as many sectors
  as the count register says (0 standing for 256); the data register then moves one 16-bit word at
  a time until the transfer is over. A sector holds 256 words.
\<close>

record pio_drive =
  words :: "nat \<Rightarrow> u16"
  r_count :: u8
  r_lba0 :: u8
  r_lba1 :: u8
  r_lba2 :: u8
  r_devsel :: u8
  cursor :: nat
  remaining :: nat

definition pio_lba :: "pio_drive \<Rightarrow> nat" where
  "pio_lba d = unat (r_lba0 d) + 256 * unat (r_lba1 d) + 65536 * unat (r_lba2 d)
     + 16777216 * unat (r_devsel d AND 0x0F)"

definition pio_out8 :: "u16 \<Rightarrow> u8 \<Rightarrow> pio_drive \<Rightarrow> pio_drive" where
  "pio_out8 port v d =
     (if port = 0x1F2 then d\<lparr>r_count := v\<rparr>
      else if port = 0x1F3 then d\<lparr>r_lba0 := v\<rparr>
      else if port = 0x1F4 then d\<lparr>r_lba1 := v\<rparr>
      else if port = 0x1F5 then d\<lparr>r_lba2 := v\<rparr>
      else if port = 0x1F6 then d\<lparr>r_devsel := v\<rparr>
      else if port = 0x1F7 \<and> (v = ATA_CMD_READ_PIO \<or> v = ATA_CMD_WRITE_PIO)
      then d\<lparr>cursor := pio_lba d * 256,
             remaining := 256 * (if r_count d = 0 then 256 else unat (r_count d))\<rparr>
      else d)"

definition pio_in16 :: "u16 \<Rightarrow> pio_drive \<Rightarrow> u16 \<times> pio_drive" where
  "pio_in16 port d =
     (if port = 0x1F0 \<and> 0 < remaining d
      then (words d (cursor d), d\<lparr>cursor := cursor d + 1, remaining := remaining d - 1\<rparr>)
      else (0, d))"

definition pio_out16 :: "u16 \<Rightarrow> u16 \<Rightarrow> pio_drive \<Rightarrow> pio_drive" where
  "pio_out16 port v d =
     (if port = 0x1F0 \<and> 0 < remaining d
      then d\<lparr>words := (words d)(cursor d := v), cursor := cursor d + 1, remaining := remaining d - 1\<rparr>
      else d)"

definition pio_ports :: "pio_drive ports" where
  "pio_ports = \<lparr>rt_in8 = (\<lambda>port d. (0x40, d)), rt_in16 = pio_in16, rt_out8 = pio_out8, rt_out16 = pio_out16\<rparr>"

section \<open>The driver on the reference drive\<close>

lemma pio_delay [simp]: "drv_std_delay pio_ports IO k d = d"
  by (induction k) (simp_all add: pio_ports_def)

lemma pio_wait_busy: "drv_std_wait_busy pio_ports IO d = Some d"
  by (subst drv_std_wait_busy.simps) (simp add: pio_ports_def ata_defs)

lemma pio_wait_ready: "drv_std_wait_ready pio_ports IO d = Some (d, True)"
  by (subst drv_std_wait_ready.simps) (simp add: pio_ports_def ata_defs)

lemma pio_wait_io [simp]: "drv_std_wait_io pio_ports IO d = Some (d, True)"
  by (simp add: drv_std_wait_io_def pio_wait_busy pio_wait_ready)

lemma pio_port_simps [simp]:
  "rt_out8 pio_ports = pio_out8" "rt_in16 pio_ports = pio_in16" "rt_out16 pio_ports = pio_out16"
  by (simp_all add: pio_ports_def)

text \<open>How many words a transfer of \<open>Sz\<close> bytes moves at most, and the sector it starts at.\<close>

definition pio_limit :: "u64 \<Rightarrow> nat" where
  "pio_limit Sz =
     (let c = ucast ((Sz + 512) div 512) :: u8 in 256 * (if c = 0 then 256 else unat c))"

definition pio_sector :: "u64 \<Rightarrow> nat" where
  "pio_sector Lba = unat Lba div 512 mod 2 ^ 28"

lemma unat_ucast_byte: "unat (ucast (drop_bit k (L :: u64)) :: u8) = unat L div 2 ^ k mod 256"
  using unat_u64_lt [of L]
  by (simp add: unsigned_ucast_eq unsigned_drop_bit_eq) (simp add: take_bit_eq_mod drop_bit_eq_div)

lemma devsel_nibble:
  assumes "c = 0xE0 \<or> c = (0xF0 :: u8)"
  shows "unat ((c OR ucast (drop_bit 24 (L :: u64) AND 0x0F)) AND 0x0F) = unat L div 2 ^ 24 mod 16"
proof -
  have "(c OR x) AND 0x0F = x AND 0x0F" for x
    using assms by (auto simp: bit.conj_disj_distrib2)
  then have "(c OR ucast (drop_bit 24 L AND 0x0F)) AND 0x0F = ucast (drop_bit 24 L AND 0x0F) AND (0x0F :: u8)"
    by simp
  also have "\<dots> = take_bit 4 (ucast (take_bit 4 (drop_bit 24 L)))"
    by (simp add: take_bit_eq_mask mask_eq_exp_minus_1)
  finally have "unat ((c OR ucast (drop_bit 24 L AND 0x0F)) AND 0x0F)
      = unat (take_bit 4 (ucast (take_bit 4 (drop_bit 24 L)) :: u8))" by simp
  also have "\<dots> = take_bit 4 (drop_bit 24 (unat L))"
    using unat_u64_lt [of L]
    by (simp add: unsigned_take_bit_eq unsigned_ucast_eq unsigned_drop_bit_eq take_bit_nat_eq_self)
  finally show ?thesis by (simp add: take_bit_eq_mod drop_bit_eq_div)
qed

lemma lba28_split:
  "(x :: nat) mod 256 + 256 * (x div 2 ^ 8 mod 256) + 65536 * (x div 2 ^ 16 mod 256)
     + 16777216 * (x div 2 ^ 24 mod 16) = x mod 2 ^ 28"
proof -
  have "x mod 2 ^ 28 = x mod (2 ^ 24 * 16)" by simp
  also have "\<dots> = 2 ^ 24 * (x div 2 ^ 24 mod 16) + x mod 2 ^ 24" by (rule mod_mult2_eq)
  also have "x mod 2 ^ 24 = x mod (2 ^ 16 * 256)" by simp
  also have "\<dots> = 2 ^ 16 * (x div 2 ^ 16 mod 256) + x mod 2 ^ 16" by (rule mod_mult2_eq)
  also have "x mod 2 ^ 16 = x mod (2 ^ 8 * 256)" by simp
  also have "\<dots> = 2 ^ 8 * (x div 2 ^ 8 mod 256) + x mod 2 ^ 8" by (rule mod_mult2_eq)
  finally show ?thesis by simp
qed

lemma pio_setup:
  assumes "cmd = ATA_CMD_READ_PIO \<or> cmd = ATA_CMD_WRITE_PIO"
  shows "\<exists>d'. drv_std_setup pio_ports Lba ATA_PRIMARY_IO Master 512 Sz cmd d = Some d'
     \<and> words d' = words d \<and> cursor d' = 256 * pio_sector Lba \<and> remaining d' = pio_limit Sz"
proof -
  define L where "L = Lba div 512"
  define c :: u8 where "c = (if Master = 0 then 0xE0 else 0xF0)"
  have uL: "unat L = unat Lba div 512" by (simp add: L_def unat_div)
  have low: "unat (ucast (L AND 0xFF) :: u8) = unat L mod 256"
  proof -
    have "L AND 0xFF = take_bit 8 L" by (simp add: take_bit_eq_mask mask_eq_exp_minus_1)
    then have "unat (ucast (L AND 0xFF) :: u8) = take_bit 8 (unat L)"
      by (simp add: unsigned_ucast_eq unsigned_take_bit_eq)
    then show ?thesis by (simp add: take_bit_eq_mod)
  qed
  have nib: "unat ((c OR ucast (drop_bit 24 L AND 0x0F)) AND 0x0F) = unat L div 2 ^ 24 mod 16"
    by (rule devsel_nibble) (simp add: c_def)
  have "unat (ucast (L AND 0xFF) :: u8) + 256 * unat (ucast (drop_bit 8 L) :: u8)
      + 65536 * unat (ucast (drop_bit 16 L) :: u8)
      + 16777216 * unat ((c OR ucast (drop_bit 24 L AND 0x0F)) AND 0x0F) = pio_sector Lba"
    unfolding low nib unat_ucast_byte by (simp only: lba28_split pio_sector_def uL)
  then show ?thesis
    using assms
    by (auto simp: drv_std_setup_def drv_std_select_def ata_defs pio_out8_def pio_lba_def Let_def
        pio_limit_def L_def [symmetric] c_def [symmetric])
qed

lemma pio_read_loop:
  "\<exists>d'. drv_std_read_loop pio_ports ATA_PRIMARY_IO k d =
      Some (d', map (\<lambda>i. if i < remaining d then ucast (words d (cursor d + i)) else 0) [0..<k])
    \<and> words d' = words d"
proof (induction k arbitrary: d)
  case (Suc k)
  obtain w d1 where in16: "pio_in16 0x1F0 d = (w, d1)" by fastforce
  then have d1: "words d1 = words d" by (auto simp: pio_in16_def split: if_splits)
  have eq: "ucast w # map (\<lambda>i. if i < remaining d1 then ucast (words d1 (cursor d1 + i)) else 0) [0..<k]
      = map (\<lambda>i. if i < remaining d then ucast (words d (cursor d + i)) else (0 :: u8)) [0..<Suc k]"
    using in16 by (auto simp: pio_in16_def map_upt_Suc simp del: upt_Suc split: if_splits)
  from Suc.IH [of d1] obtain d' where
    "drv_std_read_loop pio_ports ATA_PRIMARY_IO k d1 =
       Some (d', map (\<lambda>i. if i < remaining d1 then ucast (words d1 (cursor d1 + i)) else 0) [0..<k])"
    and "words d' = words d1" by blast
  then show ?case using in16 d1 eq by (simp add: ata_defs del: upt_Suc)
qed simp

lemma pio_write_loop:
  "\<exists>d'. drv_std_write_loop pio_ports ATA_PRIMARY_IO bs d = Some d'
    \<and> words d' = (\<lambda>a. if cursor d \<le> a \<and> a < cursor d + min (remaining d) (length bs)
                        then scast (bs ! (a - cursor d)) else words d a)"
proof (induction bs arbitrary: d)
  case (Cons b bs)
  define d1 where "d1 = pio_out16 0x1F0 (scast b) d"
  from Cons.IH [of d1] obtain d' where d': "drv_std_write_loop pio_ports ATA_PRIMARY_IO bs d1 = Some d'"
    and w: "words d' = (\<lambda>a. if cursor d1 \<le> a \<and> a < cursor d1 + min (remaining d1) (length bs)
                        then scast (bs ! (a - cursor d1)) else words d1 a)" by blast
  have "words d' a = (if cursor d \<le> a \<and> a < cursor d + min (remaining d) (length (b # bs))
                        then scast ((b # bs) ! (a - cursor d)) else words d a)" for a
  proof (cases "remaining d = 0")
    case True
    then show ?thesis by (auto simp: w d1_def pio_out16_def)
  next
    case False
    then show ?thesis
      by (cases "a = cursor d") (auto simp: w d1_def pio_out16_def nth_Cons' not_le)
  qed
  with d' show ?case by (auto simp: ata_defs d1_def)
qed (auto simp: fun_eq_iff)

lemma pio_identify: "words (fst (drv_std_identify pio_ports ATA_PRIMARY_IO k d)) = words d"
proof (induction k arbitrary: d)
  case (Suc k)
  have "words (snd (pio_in16 port d)) = words d" for port by (simp add: pio_in16_def)
  with Suc show ?case by (simp split: prod.splits) (metis fst_conv snd_conv)
qed simp

lemma pio_init:
  "\<exists>d' data. drv_std_init pio_ports ATA_PRIMARY_IO d = Some (d', Some (data, ATA_PRIMARY_IO, ATA_MASTER))
     \<and> words d' = words d"
proof -
  have retry: "drv_std_init_retry pio_ports ATA_PRIMARY_IO d1 = Some (d1, True)" for d1
    by (subst drv_std_init_retry.simps) (simp add: pio_ports_def ata_defs pio_out8_def Let_def)
  have sel: "words (drv_std_select pio_ports ATA_PRIMARY_IO d) = words d"
    by (simp add: drv_std_select_def ata_defs pio_out8_def)
  have cmd: "pio_out8 (ATA_PRIMARY_IO + ATA_REG_COMMAND) ATA_CMD_IDENTIFY d1 = d1" for d1
    by (simp add: pio_out8_def ata_defs)
  obtain d' data where "drv_std_identify pio_ports ATA_PRIMARY_IO kATADataLen
      (drv_std_select pio_ports ATA_PRIMARY_IO d) = (d', data)" by fastforce
  moreover from this have "words d' = words d"
    using pio_identify [of kATADataLen "drv_std_select pio_ports ATA_PRIMARY_IO d"] sel by simp
  ultimately show ?thesis by (simp add: drv_std_init_def retry cmd Let_def)
qed

section \<open>Properties\<close>

lemma pio_read:
  "\<exists>d'. drv_std_read pio_ports Lba ATA_PRIMARY_IO Master kATASectorSize Sz d =
      Some (d', map (\<lambda>i. if i < pio_limit Sz then ucast (words d (256 * pio_sector Lba + i)) else 0)
                  [0..<unat Sz])
    \<and> words d' = words d"
proof -
  obtain d1 where d1: "drv_std_setup pio_ports Lba ATA_PRIMARY_IO Master 512 Sz ATA_CMD_READ_PIO d = Some d1"
    "words d1 = words d" "cursor d1 = 256 * pio_sector Lba" "remaining d1 = pio_limit Sz"
    using pio_setup by blast
  from pio_read_loop [of "unat Sz" d1] obtain d' where
    "drv_std_read_loop pio_ports ATA_PRIMARY_IO (unat Sz) d1 =
       Some (d', map (\<lambda>i. if i < remaining d1 then ucast (words d1 (cursor d1 + i)) else 0) [0..<unat Sz])"
    "words d' = words d1" by blast
  with d1 show ?thesis by (simp add: drv_std_read_def kATASectorSize_def)
qed

lemma pio_write:
  assumes "length bs = unat Sz"
  shows "\<exists>d'. drv_std_write pio_ports Lba ATA_PRIMARY_IO Master bs kATASectorSize Sz d = Some d'
    \<and> words d' = (\<lambda>a. if 256 * pio_sector Lba \<le> a
                          \<and> a < 256 * pio_sector Lba + min (pio_limit Sz) (length bs)
                        then scast (bs ! (a - 256 * pio_sector Lba)) else words d a)"
proof -
  obtain d1 where d1: "drv_std_setup pio_ports Lba ATA_PRIMARY_IO Master 512 Sz ATA_CMD_WRITE_PIO d = Some d1"
    "words d1 = words d" "cursor d1 = 256 * pio_sector Lba" "remaining d1 = pio_limit Sz"
    using pio_setup by blast
  obtain d' where
    "drv_std_write_loop pio_ports ATA_PRIMARY_IO bs d1 = Some d'"
    and "words d' = (\<lambda>a. if cursor d1 \<le> a \<and> a < cursor d1 + min (remaining d1) (length bs)
                        then scast (bs ! (a - cursor d1)) else words d1 a)"
    using pio_write_loop [of bs d1] by blast
  with d1 assms show ?thesis by (simp add: drv_std_write_def kATASectorSize_def fun_eq_iff)
qed

lemma ucast_scast_byte: "ucast (scast (b :: u8) :: u16) = b"
  by (auto intro!: bit_word_eqI simp: bit_simps)

lemma pio_limit_512: "pio_limit 512 = 512"
  by (simp add: pio_limit_def)

lemma pio_limit_bound: "unat Sz \<le> 2 ^ 63 \<Longrightarrow> 512 < unat Sz \<Longrightarrow> pio_limit Sz < unat Sz"
proof -
  assume small: "unat Sz \<le> 2 ^ 63" and big: "512 < unat Sz"
  define n where "n = (unat Sz + 512) div 512"
  have "unat (Sz + 512) = unat Sz + 512" using small by (simp add: unat_word_ariths)
  then have c: "unat (ucast ((Sz + 512) div 512) :: u8) = n mod 256"
    by (simp add: n_def unsigned_ucast_eq unat_div) (simp add: take_bit_eq_mod)
  show ?thesis
  proof (cases "n mod 256 = 0")
    case True
    then have "pio_limit Sz = 65536" using c by (simp add: pio_limit_def Let_def unat_eq_0 [symmetric])
    moreover have "256 \<le> n"
    proof (rule ccontr)
      assume "\<not> 256 \<le> n"
      with True have "n = 0" by simp
      then show False using big by (simp add: n_def)
    qed
    then have "65536 < unat Sz" by (simp add: n_def)
    ultimately show ?thesis by simp
  next
    case False
    then have "pio_limit Sz = 256 * (n mod 256)" using c
      by (simp add: pio_limit_def Let_def unat_eq_0 [symmetric])
    also have "\<dots> \<le> 256 * n" by simp
    also have "\<dots> < unat Sz" using big by (simp add: n_def)
    finally show ?thesis .
  qed
qed


definition pio_example :: pio_drive where
  "pio_example = \<lparr>words = (\<lambda>_. 0), r_count = 0, r_lba0 = 0, r_lba1 = 0, r_lba2 = 0, r_devsel = 0,
     cursor = 0, remaining = 0\<rparr>"


text \<open>
  Remark. Larger transfers are cut short: the driver moves one 16-bit word per byte but
  programs the sector count for that many bytes. For every buffer of more than 512 bytes (up to
  \<open>2 ^ 63\<close>) the transfer the drive accepts ends before the buffer does: some last part of the
  buffer never reaches the drive.
\<close>

theorem drv_std_write_truncates:
  assumes "length bs = unat Sz" and "512 < unat Sz" and "unat Sz \<le> 2 ^ 63"
  shows "\<exists>d' k. drv_std_write pio_ports Lba ATA_PRIMARY_IO Master bs kATASectorSize Sz d = Some d'
     \<and> k < unat Sz \<and> (\<forall>i. words d' (256 * pio_sector Lba + k + i) = words d (256 * pio_sector Lba + k + i))"
proof -
  obtain d' where "drv_std_write pio_ports Lba ATA_PRIMARY_IO Master bs kATASectorSize Sz d = Some d'"
    and "words d' = (\<lambda>a. if 256 * pio_sector Lba \<le> a
                          \<and> a < 256 * pio_sector Lba + min (pio_limit Sz) (length bs)
                        then scast (bs ! (a - 256 * pio_sector Lba)) else words d a)"
    using pio_write [OF assms(1)] by blast
  moreover have "pio_limit Sz < unat Sz" using assms by (intro pio_limit_bound)
  ultimately show ?thesis by (intro exI [of _ d'] exI [of _ "pio_limit Sz"]) simp
qed

theorem drv_std_write_truncates_witness:
  "\<exists>d' k. drv_std_write pio_ports 1024 ATA_PRIMARY_IO 0 (replicate 1024 7) kATASectorSize 1024 pio_example = Some d'
     \<and> k < 1024 \<and> (\<forall>i. words d' (512 + k + i) = 0)"
  using drv_std_write_truncates [of "replicate 1024 7" 1024 1024 0 pio_example]
  by (simp add: pio_sector_def pio_example_def)

end
