(* ===== verification/Drive_Mgr.thy ===== *)
theory Drive_Mgr
  imports ATA_PIO Kernel_Errors
begin

text \<open>
  The drive manager: \<^verbatim>\<open>dev/ZKAKit/src/DriveMgr.cc\<close> and \<^verbatim>\<open>KernelKit/DriveMgr.h\<close>
  in the configuration with the ATA driver in programmed I/O mode, and the mount point access of
  \<^verbatim>\<open>NeFS+IO.cc\<close>. A drive is a record with the function pointers the code has; they act on a
  packet and on the state of the machine's drives. A packet's buffer is the list of its bytes,
  \<open>None\<close> for a null pointer.
\<close>

section \<open>Packets, drives and mount points\<close>

record DrivePacket =
  fPacketContent :: "u8 list option"
  fPacketMime :: string
  fPacketSize :: u64
  fPacketCRC32 :: u32
  fPacketGood :: bool
  fPacketLba :: u64
  fPacketReadOnly :: bool

definition DrivePacket_new :: DrivePacket where
  "DrivePacket_new =
     \<lparr>fPacketContent = None, fPacketMime = ''*/*'', fPacketSize = 0, fPacketCRC32 = 0,
      fPacketGood = True, fPacketLba = 0, fPacketReadOnly = False\<rparr>"

type_synonym 's drive_op = "DrivePacket \<Rightarrow> 's \<Rightarrow> (abort + 's \<times> DrivePacket) option"

record 's DriveTrait =
  fName :: string
  fKind :: u32
  fFlags :: u32
  fPacket :: DrivePacket
  fInput :: "DrivePacket \<Rightarrow> 's \<Rightarrow> (abort + 's \<times> DrivePacket) option"
  fOutput :: "DrivePacket \<Rightarrow> 's \<Rightarrow> (abort + 's \<times> DrivePacket) option"
  fVerify :: "DrivePacket \<Rightarrow> 's \<Rightarrow> (abort + 's \<times> DrivePacket) option"
  fInit :: "DrivePacket \<Rightarrow> 's \<Rightarrow> (abort + 's \<times> DrivePacket) option"
  fDriveKind :: string

record 's Mountpoint =
  mA :: "'s DriveTrait"
  mB :: "'s DriveTrait"
  mC :: "'s DriveTrait"
  mD :: "'s DriveTrait"

definition kInvalidDisc :: u32 where "kInvalidDisc = - 1"
definition kMassStorageDisc :: u32 where "kMassStorageDisc = 0xDA"
definition kReadOnlyDrive :: u32 where "kReadOnlyDrive = 0x10"
definition kEPMDrive :: u32 where "kEPMDrive = 0x11"
definition kUnformattedDrive :: u32 where "kUnformattedDrive = 0x15"

definition kErrorNoSuchDisk :: HError where "kErrorNoSuchDisk = 45"

text \<open>\<open>GetAddressOf\<close>: the drive of an index (or null) and the error code it leaves.\<close>

definition GetAddressOf :: "'s Mountpoint \<Rightarrow> u32 \<Rightarrow> 's DriveTrait option \<times> HError" where
  "GetAddressOf mnt index =
     (if index = 0 then (Some (mA mnt), kErrorSuccess)
      else if index = 1 then (Some (mB mnt), kErrorSuccess)
      else if index = 2 then (Some (mC mnt), kErrorSuccess)
      else if index = 3 then (Some (mD mnt), kErrorSuccess)
      else (None, kErrorNoSuchDisk))"

section \<open>Drive operations\<close>

text \<open>
  The state: the device, the identification bytes of the driver, and the bus and drive number the
  manager keeps in \<open>kATAIO\<close> and \<open>kATAMaster\<close>.
\<close>

record 'd drv_state =
  dev :: 'd
  kATAData :: "u8 list"
  kATAIO :: u16
  kATAMaster :: u8

definition io_drv_input :: "'d ports \<Rightarrow> 'd drv_state drive_op" where
  "io_drv_input P pckt s =
     (case fPacketContent pckt of
        None \<Rightarrow> if fPacketSize pckt = 0 then Some (Inr (s, pckt)) else Some (Inl NullAccess)
      | Some buf \<Rightarrow>
          if unat (fPacketSize pckt) \<le> length buf then
            do { (d', bs) \<leftarrow> drv_std_read P (fPacketLba pckt) (kATAIO s) (kATAMaster s)
                               kATASectorSize (fPacketSize pckt) (dev s);
                 Some (Inr (s\<lparr>dev := d'\<rparr>, pckt\<lparr>fPacketContent := Some (bs @ drop (length bs) buf)\<rparr>)) }
          else Some (Inl OutOfBounds))"

definition io_drv_output :: "'d ports \<Rightarrow> 'd drv_state drive_op" where
  "io_drv_output P pckt s =
     (case fPacketContent pckt of
        None \<Rightarrow> if fPacketSize pckt = 0 then Some (Inr (s, pckt)) else Some (Inl NullAccess)
      | Some buf \<Rightarrow>
          if unat (fPacketSize pckt) \<le> length buf then
            do { d' \<leftarrow> drv_std_write P (fPacketLba pckt) (kATAIO s) (kATAMaster s) buf
                         kATASectorSize (fPacketSize pckt) (dev s);
                 Some (Inr (s\<lparr>dev := d'\<rparr>, pckt)) }
          else Some (Inl OutOfBounds))"

definition io_drv_init :: "'d ports \<Rightarrow> 'd drv_state drive_op" where
  "io_drv_init P pckt s =
     do { (d1, r1) \<leftarrow> drv_std_init P ATA_PRIMARY_IO (dev s);
          case r1 of
            Some (data, bus, master) \<Rightarrow>
              Some (Inr (s\<lparr>dev := d1, kATAData := data, kATAIO := bus, kATAMaster := master\<rparr>,
                         pckt\<lparr>fPacketGood := True\<rparr>))
          | None \<Rightarrow>
              do { (d2, r2) \<leftarrow> drv_std_init P ATA_SECONDARY_IO d1;
                   case r2 of
                     None \<Rightarrow> Some (Inr (s\<lparr>dev := d2, kATAIO := ATA_SECONDARY_IO, kATAMaster := 0\<rparr>, pckt))
                   | Some (data, bus, master) \<Rightarrow>
                       Some (Inr (s\<lparr>dev := d2, kATAData := data, kATAIO := bus, kATAMaster := master\<rparr>,
                                  pckt\<lparr>fPacketGood := True\<rparr>)) } }"

definition io_drv_kind :: string where
  "io_drv_kind = ''ATA-PIO''"

definition io_drv_unimplemented :: "'s drive_op" where
  "io_drv_unimplemented pckt s = Some (Inr (s, pckt))"

section \<open>Construction of drives\<close>

text \<open>
  A local \<open>DriveTrait\<close> is uninitialised except for its packet; \<open>trait\<close> is whatever it holds.
  Copying a literal into a name leaves the rest of the name as it is.
\<close>

definition copy_name :: "string \<Rightarrow> string \<Rightarrow> string" where
  "copy_name lit name = lit @ drop (length lit) name"

definition io_construct_blank_drive :: "'s DriveTrait \<Rightarrow> 's DriveTrait" where
  "io_construct_blank_drive trait =
     trait\<lparr>fPacket := DrivePacket_new, fName := copy_name ''/Disks/NUL:'' (fName trait), fKind := kInvalidDisc,
           fInput := io_drv_unimplemented, fOutput := io_drv_unimplemented,
           fVerify := io_drv_unimplemented, fInit := io_drv_unimplemented, fDriveKind := io_drv_kind\<rparr>"

definition kEPMMagic :: "u8 list" where
  "kEPMMagic = [0x45, 0x50, 0x4D, 0x41, 0x4D]"

definition sizeof_boot_block :: nat where "sizeof_boot_block = 512"

definition ioi_detect_drive ::
    "'s DriveTrait \<Rightarrow> u8 list \<Rightarrow> 's \<Rightarrow> (abort + 's \<times> 's DriveTrait) option" where
  "ioi_detect_drive trait block_struct s =
     (let pkt = (fPacket trait)\<lparr>fPacketLba := 0, fPacketSize := of_nat sizeof_boot_block,
                  fPacketContent := Some block_struct,
                  fPacketMime := copy_name ''fs/detect-packet'' (fPacketMime (fPacket trait))\<rparr>
      in do { r1 \<leftarrow> fInit trait pkt s;
              case r1 of
                Inl e \<Rightarrow> Some (Inl e)
              | Inr (s1, pkt1) \<Rightarrow>
                  do { r2 \<leftarrow> fInput trait pkt1 s1;
                       case r2 of
                         Inl e \<Rightarrow> Some (Inl e)
                       | Inr (s2, pkt2) \<Rightarrow>
                           let epm = (case fPacketContent pkt2 of
                                        None \<Rightarrow> False | Some bs \<Rightarrow> take 5 bs = kEPMMagic);
                               kind = (if epm then kMassStorageDisc OR kEPMDrive
                                       else kMassStorageDisc OR kUnformattedDrive OR kReadOnlyDrive);
                               pkt3 = pkt2\<lparr>fPacketReadOnly := \<not> epm,
                                        fPacketMime := copy_name ''*/*'' (fPacketMime pkt2),
                                        fPacketLba := 0, fPacketSize := 0, fPacketContent := None\<rparr>
                           in Some (Inr (s2, trait\<lparr>fKind := kind, fPacket := pkt3\<rparr>)) } })"

definition io_construct_main_drive ::
    "'d ports \<Rightarrow> 'd drv_state DriveTrait \<Rightarrow> u8 list \<Rightarrow> 'd drv_state
     \<Rightarrow> (abort + 'd drv_state \<times> 'd drv_state DriveTrait) option" where
  "io_construct_main_drive P trait block_struct s =
     ioi_detect_drive
       (trait\<lparr>fPacket := DrivePacket_new, fName := copy_name ''/Disks/OS:'' (fName trait),
              fVerify := io_drv_unimplemented, fOutput := io_drv_output P, fInput := io_drv_input P,
              fInit := io_drv_init P, fDriveKind := io_drv_kind\<rparr>)
       block_struct s"

section \<open>Access through a mount point\<close>

text \<open>
  \<open>fs_newfs_read\<close> and \<open>fs_newfs_write\<close> (\<^verbatim>\<open>NeFS+IO.cc\<close>): the packet's good mark is cleared
  first and returned at the end; an index outside the four drives does nothing.
\<close>

definition fs_newfs_select :: "'s Mountpoint \<Rightarrow> u32 \<Rightarrow> 's DriveTrait option" where
  "fs_newfs_select mnt DrvIndex =
     (if DrvIndex = 0 then Some (mA mnt) else if DrvIndex = 1 then Some (mB mnt)
      else if DrvIndex = 2 then Some (mC mnt) else if DrvIndex = 3 then Some (mD mnt) else None)"

definition fs_newfs_read ::
    "'s Mountpoint option \<Rightarrow> 's DriveTrait \<Rightarrow> u32 \<Rightarrow> 's
     \<Rightarrow> (abort + 's \<times> 's DriveTrait \<times> u32) option" where
  "fs_newfs_read Mnt DrvTrait DrvIndex s =
     (case Mnt of
        None \<Rightarrow> Some (Inr (s, DrvTrait, 1))
      | Some mnt \<Rightarrow>
          let pkt = (fPacket DrvTrait)\<lparr>fPacketGood := False\<rparr>
          in case fs_newfs_select mnt DrvIndex of
               None \<Rightarrow> Some (Inr (s, DrvTrait\<lparr>fPacket := pkt\<rparr>, 0))
             | Some drv \<Rightarrow>
                 do { r \<leftarrow> fInput drv pkt s;
                      case r of
                        Inl e \<Rightarrow> Some (Inl e)
                      | Inr (s', pkt') \<Rightarrow>
                          Some (Inr (s', DrvTrait\<lparr>fPacket := pkt'\<rparr>, of_bool (fPacketGood pkt'))) })"

definition fs_newfs_write ::
    "'s Mountpoint option \<Rightarrow> 's DriveTrait \<Rightarrow> u32 \<Rightarrow> 's
     \<Rightarrow> (abort + 's \<times> 's DriveTrait \<times> u32) option" where
  "fs_newfs_write Mnt DrvTrait DrvIndex s =
     (case Mnt of
        None \<Rightarrow> Some (Inr (s, DrvTrait, 1))
      | Some mnt \<Rightarrow>
          let pkt = (fPacket DrvTrait)\<lparr>fPacketGood := False\<rparr>
          in case fs_newfs_select mnt DrvIndex of
               None \<Rightarrow> Some (Inr (s, DrvTrait\<lparr>fPacket := pkt\<rparr>, 0))
             | Some drv \<Rightarrow>
                 do { r \<leftarrow> fOutput drv pkt s;
                      case r of
                        Inl e \<Rightarrow> Some (Inl e)
                      | Inr (s', pkt') \<Rightarrow>
                          Some (Inr (s', DrvTrait\<lparr>fPacket := pkt'\<rparr>, of_bool (fPacketGood pkt'))) })"

section \<open>Drives that store blocks\<close>

text \<open>
  What the file system relies on: input of a 512-byte packet delivers the block at the packet's
  address, output replaces that block, and blocks far enough from the address keep their contents.
  Neither changes anything else of the packet.
\<close>

locale block_drive =
  fixes inp :: "DrivePacket \<Rightarrow> 's \<Rightarrow> (abort + 's \<times> DrivePacket) option"
    and outp :: "DrivePacket \<Rightarrow> 's \<Rightarrow> (abort + 's \<times> DrivePacket) option"
    and ok :: "'s \<Rightarrow> bool"
    and block :: "'s \<Rightarrow> u64 \<Rightarrow> u8 list"
    and far :: "u64 \<Rightarrow> u64 \<Rightarrow> bool"
  assumes far_sym: "far a b = far b a"
    and length_block: "ok s \<Longrightarrow> length (block s a) = 512"
    and input_block:
      "ok s \<Longrightarrow> fPacketContent p = Some buf \<Longrightarrow> length buf = 512 \<Longrightarrow> fPacketSize p = 512 \<Longrightarrow>
       \<exists>s'. inp p s = Some (Inr (s', p\<lparr>fPacketContent := Some (block s (fPacketLba p))\<rparr>))
            \<and> ok s' \<and> block s' = block s"
    and output_block:
      "ok s \<Longrightarrow> fPacketContent p = Some bs \<Longrightarrow> length bs = 512 \<Longrightarrow> fPacketSize p = 512 \<Longrightarrow>
       \<exists>s'. outp p s = Some (Inr (s', p)) \<and> ok s' \<and> block s' (fPacketLba p) = bs
            \<and> (\<forall>a. far a (fPacketLba p) \<longrightarrow> block s' a = block s a)"
begin

lemma output_input:
  assumes "ok s" and "fPacketContent p = Some bs" and "length bs = 512" and "fPacketSize p = 512"
  shows "\<exists>s1 s2. outp p s = Some (Inr (s1, p)) \<and> inp p s1 = Some (Inr (s2, p))"
proof -
  obtain s1 where s1: "outp p s = Some (Inr (s1, p))" "ok s1" "block s1 (fPacketLba p) = bs"
    using output_block [OF assms] by blast
  then show ?thesis using input_block [OF s1(2) assms(2-4)] assms(2) by auto
qed

end

text \<open>The ATA driver on the reference drive is such a drive: a packet of 512 bytes fills two sectors.\<close>

definition ata_ok :: "pio_drive drv_state \<Rightarrow> bool" where
  "ata_ok s \<longleftrightarrow> kATAIO s = ATA_PRIMARY_IO"

definition ata_block :: "pio_drive drv_state \<Rightarrow> u64 \<Rightarrow> u8 list" where
  "ata_block s a = map (\<lambda>i. ucast (words (dev s) (256 * pio_sector a + i))) [0..<512]"

definition ata_far :: "u64 \<Rightarrow> u64 \<Rightarrow> bool" where
  "ata_far a b \<longleftrightarrow> pio_sector a + 2 \<le> pio_sector b \<or> pio_sector b + 2 \<le> pio_sector a"

lemma ata_input:
  assumes "ata_ok s" and "fPacketContent p = Some buf" and "length buf = 512" and "fPacketSize p = 512"
  shows "\<exists>s'. io_drv_input pio_ports p s =
           Some (Inr (s', p\<lparr>fPacketContent := Some (ata_block s (fPacketLba p))\<rparr>))
       \<and> ata_ok s' \<and> ata_block s' = ata_block s"
proof -
  obtain d' where d': "drv_std_read pio_ports (fPacketLba p) ATA_PRIMARY_IO (kATAMaster s) kATASectorSize 512 (dev s)
      = Some (d', map (\<lambda>i. if i < pio_limit 512 then ucast (words (dev s) (256 * pio_sector (fPacketLba p) + i)) else 0)
                  [0..<unat (512 :: u64)])" and w: "words d' = words (dev s)"
    using pio_read by blast
  have eq: "map (\<lambda>i. if i < pio_limit 512 then ucast (words (dev s) (256 * pio_sector (fPacketLba p) + i)) else 0)
                  [0..<unat (512 :: u64)] = ata_block s (fPacketLba p)"
    by (simp add: ata_block_def pio_limit_512)
  have "io_drv_input pio_ports p s =
      Some (Inr (s\<lparr>dev := d'\<rparr>, p\<lparr>fPacketContent := Some (ata_block s (fPacketLba p))\<rparr>))"
    using d' [unfolded eq] assms by (simp add: io_drv_input_def ata_ok_def) (simp add: ata_block_def)
  moreover have "ata_block (s\<lparr>dev := d'\<rparr>) = ata_block s" by (simp add: ata_block_def w fun_eq_iff)
  ultimately show ?thesis using assms(1) by (auto simp: ata_ok_def)
qed

lemma ata_output:
  assumes "ata_ok s" and "fPacketContent p = Some bs" and "length bs = 512" and "fPacketSize p = 512"
  shows "\<exists>s'. io_drv_output pio_ports p s = Some (Inr (s', p)) \<and> ata_ok s'
       \<and> ata_block s' (fPacketLba p) = bs
       \<and> (\<forall>a. ata_far a (fPacketLba p) \<longrightarrow> ata_block s' a = ata_block s a)"
proof -
  let ?c = "256 * pio_sector (fPacketLba p)"
  have len: "length bs = unat (512 :: u64)" using assms(3) by simp
  obtain d' where d': "drv_std_write pio_ports (fPacketLba p) ATA_PRIMARY_IO (kATAMaster s) bs kATASectorSize 512 (dev s)
      = Some d'"
    and w: "words d' = (\<lambda>a. if ?c \<le> a \<and> a < ?c + min (pio_limit 512) (length bs)
                        then scast (bs ! (a - ?c)) else words (dev s) a)"
    using pio_write [OF len] by blast
  have "ata_block (s\<lparr>dev := d'\<rparr>) (fPacketLba p) = bs"
    using assms(3) by (intro nth_equalityI) (simp_all add: ata_block_def w pio_limit_512 ucast_scast_byte)
  moreover have "ata_block (s\<lparr>dev := d'\<rparr>) a = ata_block s a" if "ata_far a (fPacketLba p)" for a
    using that assms(3) by (auto simp: ata_block_def w pio_limit_512 ata_far_def)
  ultimately show ?thesis
    using d' assms by (auto simp: io_drv_output_def ata_ok_def)
qed

interpretation ata: block_drive "io_drv_input pio_ports" "io_drv_output pio_ports" ata_ok ata_block ata_far
  by unfold_locales ((auto simp: ata_far_def) [1],
      simp add: ata_block_def, erule (3) ata_input, erule (3) ata_output)

section \<open>Properties\<close>

lemma main_drive_constructed:
  assumes "length blk = 512"
  shows "\<exists>s' trait'. io_construct_main_drive pio_ports trait blk s = Some (Inr (s', trait'))
     \<and> ata_ok s' \<and> ata_block s' = ata_block s
     \<and> fKind trait' = (if take 5 (ata_block s 0) = kEPMMagic then 0xDB else 0xDF)
     \<and> fPacketReadOnly (fPacket trait') = (take 5 (ata_block s 0) \<noteq> kEPMMagic)
     \<and> fPacketContent (fPacket trait') = None \<and> fPacketGood (fPacket trait')
     \<and> fInput trait' = io_drv_input pio_ports \<and> fOutput trait' = io_drv_output pio_ports"
proof -
  let ?p = "DrivePacket_new\<lparr>fPacketLba := 0, fPacketSize := of_nat sizeof_boot_block,
                  fPacketContent := Some blk,
                  fPacketMime := copy_name ''fs/detect-packet'' (fPacketMime DrivePacket_new),
                  fPacketGood := True\<rparr>"
  obtain d1 data where init: "drv_std_init pio_ports ATA_PRIMARY_IO (dev s) =
      Some (d1, Some (data, ATA_PRIMARY_IO, ATA_MASTER))" and w: "words d1 = words (dev s)"
    using pio_init by blast
  define s1 where "s1 = s\<lparr>dev := d1, kATAData := data, kATAIO := ATA_PRIMARY_IO, kATAMaster := ATA_MASTER\<rparr>"
  have ok: "ata_ok s1" by (simp add: s1_def ata_ok_def)
  have b1: "ata_block s1 = ata_block s" by (simp add: s1_def ata_block_def w fun_eq_iff)
  obtain s' where "io_drv_input pio_ports ?p s1 = Some (Inr (s', ?p\<lparr>fPacketContent := Some (ata_block s1 0)\<rparr>))"
    and "ata_ok s'" and "ata_block s' = ata_block s1"
    using ata.input_block [OF ok, of ?p blk] assms by (auto simp: sizeof_boot_block_def)
  then show ?thesis
    by (simp add: io_construct_main_drive_def ioi_detect_drive_def Let_def io_drv_init_def init
        s1_def [symmetric] b1 DrivePacket_new_def kMassStorageDisc_def kEPMDrive_def
        kUnformattedDrive_def kReadOnlyDrive_def)
qed

text \<open>
  Remark. Construction of the main drive on the reference drive always succeeds, whatever bus
  the manager used before: it selects the primary bus, changes no block, and classifies the drive
  by its first block. With the EPM magic the drive is a writable EPM mass-storage drive, with any
  other contents it is marked read-only and unformatted. The packet is left reset.
\<close>

theorem io_construct_main_drive_classifies:
  assumes "length blk = 512"
  shows "\<exists>s' trait'. io_construct_main_drive pio_ports trait blk s = Some (Inr (s', trait'))
     \<and> ata_ok s' \<and> ata_block s' = ata_block s
     \<and> fKind trait' = (if take 5 (ata_block s 0) = kEPMMagic then 0xDB else 0xDF)
     \<and> fPacketReadOnly (fPacket trait') = (take 5 (ata_block s 0) \<noteq> kEPMMagic)
     \<and> fPacketContent (fPacket trait') = None \<and> fPacketGood (fPacket trait')
     \<and> fInput trait' = io_drv_input pio_ports \<and> fOutput trait' = io_drv_output pio_ports"
  using assms by (rule main_drive_constructed)

definition drive_example :: "pio_drive drv_state" where
  "drive_example = \<lparr>dev = pio_example, kATAData = [], kATAIO = 0, kATAMaster = 0\<rparr>"

definition trait_example :: "pio_drive drv_state DriveTrait" where
  "trait_example = \<lparr>fName = [], fKind = 0, fFlags = 0, fPacket = DrivePacket_new,
     fInput = io_drv_unimplemented, fOutput = io_drv_unimplemented, fVerify = io_drv_unimplemented,
     fInit = io_drv_unimplemented, fDriveKind = []\<rparr>"

theorem io_construct_main_drive_classifies_witness:
  "\<exists>s' trait'. io_construct_main_drive pio_ports trait_example (replicate 512 0) drive_example = Some (Inr (s', trait'))
     \<and> fKind trait' = 0xDF"
proof -
  have "ata_block drive_example 0 ! 0 = 0" by (simp add: ata_block_def drive_example_def pio_example_def)
  then have "take 5 (ata_block drive_example 0) ! 0 \<noteq> kEPMMagic ! 0"
    by (simp add: kEPMMagic_def)
  then have "take 5 (ata_block drive_example 0) \<noteq> kEPMMagic" by metis
  then show ?thesis
    using io_construct_main_drive_classifies [of "replicate 512 0" trait_example drive_example] by auto
qed

end
