(* ===== verification/NeFS_Layout.thy ===== *)
theory NeFS_Layout
  imports Drive_Mgr Kernel_Strings
begin

text \<open>
  The on-disk structures of the New File System (\<^verbatim>\<open>dev/ZKAKit/FSKit/NeFS.h\<close>) and of the
  partition map (\<^verbatim>\<open>FirmwareKit/EPM.h\<close>), each exactly one 512-byte block, as records with
  their byte layout; and C strings inside a bounded object, which is how the file system compares
  the names stored in those structures.
\<close>

section \<open>Strings in bounded objects\<close>

text \<open>
  An object is the list of its bytes from the pointer to its end. Running past the end is an
  out-of-bounds access.
\<close>

function obj_len_from :: "u8 list \<Rightarrow> nat \<Rightarrow> abort + nat" where
  "obj_len_from bs cnt =
     (let cnt' = cnt + 1
      in if cnt' < length bs then if bs ! cnt' \<noteq> 0 then obj_len_from bs cnt' else Inr cnt'
         else Inl OutOfBounds)"
  by pat_completeness auto
termination
  by (relation "measure (\<lambda>(bs, cnt). length bs - cnt)") auto

declare obj_len_from.simps [simp del]

definition obj_string_len :: "u8 list \<Rightarrow> abort + nat" where
  "obj_string_len bs = obj_len_from bs 0"

definition obj_Equals :: "u8 list \<Rightarrow> u8 list \<Rightarrow> abort + bool" where
  "obj_Equals lhs rhs =
     (case obj_string_len rhs of
        Inl e \<Rightarrow> Inl e
      | Inr lr \<Rightarrow>
          (case obj_string_len lhs of
             Inl e \<Rightarrow> Inl e
           | Inr ll \<Rightarrow> if lr \<noteq> ll then Inr False
                      else Inr (list_all (\<lambda>index. rhs ! index = lhs ! index) [0..<lr])))"

lemma obj_len_from_finds:
  assumes "cnt < n" and "n < length bs" and "bs ! n = 0" and "\<forall>i. cnt < i \<and> i < n \<longrightarrow> bs ! i \<noteq> 0"
  shows "obj_len_from bs cnt = Inr n"
  using assms
proof (induction "n - cnt" arbitrary: cnt)
  case (Suc d)
  show ?case
  proof (cases "Suc cnt = n")
    case True
    with Suc.prems show ?thesis by (subst obj_len_from.simps) simp
  next
    case False
    with Suc.prems Suc.hyps(1) [of "Suc cnt"] Suc.hyps(2) show ?thesis
      by (subst obj_len_from.simps) (simp add: Let_def)
  qed
qed simp

lemma obj_len_from_result:
  "obj_len_from bs cnt = Inr n \<Longrightarrow>
   cnt < n \<and> n < length bs \<and> bs ! n = 0 \<and> (\<forall>i. cnt < i \<and> i < n \<longrightarrow> bs ! i \<noteq> 0)"
proof (induction bs cnt rule: obj_len_from.induct)
  case (1 bs cnt)
  have step: "obj_len_from bs cnt =
      (if cnt + 1 < length bs then if bs ! (cnt + 1) \<noteq> 0 then obj_len_from bs (cnt + 1) else Inr (cnt + 1)
       else Inl OutOfBounds)"
    by (subst obj_len_from.simps) (simp only: Let_def)
  show ?case
  proof (cases "cnt + 1 < length bs \<and> bs ! (cnt + 1) \<noteq> 0")
    case True
    with 1(2) have "obj_len_from bs (cnt + 1) = Inr n" by (simp add: step)
    then have ih: "cnt + 1 < n" "n < length bs" "bs ! n = 0" "\<forall>i. cnt + 1 < i \<and> i < n \<longrightarrow> bs ! i \<noteq> 0"
      using 1(1) True by auto
    have "bs ! i \<noteq> 0" if "cnt < i" "i < n" for i
      using that ih(4) True by (cases "i = cnt + 1") auto
    with ih show ?thesis by auto
  next
    case False
    with 1(2) show ?thesis by (auto simp: step split: if_splits)
  qed
qed

lemma obj_string_len_iff:
  "obj_string_len bs = Inr n \<longleftrightarrow>
   0 < n \<and> n < length bs \<and> bs ! n = 0 \<and> (\<forall>i. 0 < i \<and> i < n \<longrightarrow> bs ! i \<noteq> 0)"
  unfolding obj_string_len_def using obj_len_from_finds [of 0 n bs] obj_len_from_result [of bs 0 n]
  by blast

lemma obj_Equals_eq:
  assumes "obj_string_len lhs = Inr ll" and "obj_string_len rhs = Inr lr"
  shows "obj_Equals lhs rhs = Inr (take ll lhs = take lr rhs)"
proof -
  have l: "ll < length lhs" "lr < length rhs" using assms by (simp_all add: obj_string_len_iff)
  have "(take n lhs = take n rhs) = (\<forall>i < n. rhs ! i = lhs ! i)" if "n < length lhs" "n < length rhs" for n
    using that by (auto simp: list_eq_iff_nth_eq)
  moreover have "take ll lhs \<noteq> take lr rhs" if "ll \<noteq> lr"
  proof
    assume "take ll lhs = take lr rhs"
    then have "length (take ll lhs) = length (take lr rhs)" by simp
    with that l show False by simp
  qed
  ultimately show ?thesis using assms l by (auto simp: obj_Equals_def list_all_iff)
qed

text \<open>The comparison agrees with the one on memory when the objects lie there.\<close>

lemma obj_Equals_refines:
  assumes "load_bytes m l (length ls) = ls" and "load_bytes m r (length rs) = rs"
    and "length ls < 2 ^ 64" and "length rs < 2 ^ 64" and "obj_Equals ls rs = Inr b"
  shows "StringBuilder_Equals m l r = Some b"
proof -
  obtain ll lr where len: "obj_string_len ls = Inr ll" "obj_string_len rs = Inr lr"
    using assms(5) by (auto simp: obj_Equals_def split: sum.splits)
  have nul: "first_nul_after m p 0 n"
    if "load_bytes m p (length bs) = bs" "length bs < 2 ^ 64" "obj_string_len bs = Inr n" for p bs n
  proof -
    have "bs ! i = m (p + of_nat i)" if "i < length bs" for i
      using that \<open>load_bytes m p (length bs) = bs\<close> by (metis nth_load_bytes)
    with that(2,3) show ?thesis by (auto simp: first_nul_after_def obj_string_len_iff)
  qed
  have t: "load_bytes m p n = take n bs" if "load_bytes m p (length bs) = bs" "n < length bs" for p bs n
  proof (rule nth_equalityI)
    fix i
    assume "i < length (load_bytes m p n)"
    then have "i < n" by simp
    moreover have "bs ! i = m (p + of_nat i)"
      using \<open>i < n\<close> that by (metis nth_load_bytes less_trans)
    ultimately show "load_bytes m p n ! i = take n bs ! i" by simp
  qed (use that in simp)
  have "StringBuilder_Equals m l r = Some (load_bytes m l ll = load_bytes m r lr)"
    by (rule StringBuilder_Equals_eq) (use assms len nul in auto)
  moreover have "ll < length ls" "lr < length rs" using len by (simp_all add: obj_string_len_iff)
  ultimately show ?thesis using assms t obj_Equals_eq [OF len] by simp
qed

section \<open>Constants\<close>

definition kNeFSFlagDeleted :: u16 where "kNeFSFlagDeleted = 70"
definition kNeFSFlagUnallocated :: u16 where "kNeFSFlagUnallocated = 0"
definition kNeFSFlagCreated :: u16 where "kNeFSFlagCreated = 71"
definition kNeFSCatalogKindFile :: u32 where "kNeFSCatalogKindFile = 1"
definition kNeFSCatalogKindDir :: u32 where "kNeFSCatalogKindDir = 2"
definition kNeFSDataForkKind :: u32 where "kNeFSDataForkKind = 1"
definition kNeFSPartitionTypeStandard :: u32 where "kNeFSPartitionTypeStandard = 7"
definition kNeFSPartitionTypeBoot :: u32 where "kNeFSPartitionTypeBoot = 9"
definition kNeFSVersionInteger :: u64 where "kNeFSVersionInteger = 0x0129"
definition kNeFSRootCatalogStartAddress :: u64 where "kNeFSRootCatalogStartAddress = 1024"
definition kNeFSCatalogStartAddress :: u64 where "kNeFSCatalogStartAddress = 2560"
definition kNeFSForkDataSz :: u64 where "kNeFSForkDataSz = 0x1000000"
definition kNeFSNodeNameLen :: nat where "kNeFSNodeNameLen = 256"
definition kBadAddress :: u64 where "kBadAddress = 0"

lemmas nefs_consts = kNeFSFlagDeleted_def kNeFSFlagUnallocated_def kNeFSFlagCreated_def
  kNeFSCatalogKindFile_def kNeFSCatalogKindDir_def kNeFSDataForkKind_def
  kNeFSPartitionTypeStandard_def kNeFSPartitionTypeBoot_def kNeFSVersionInteger_def
  kNeFSRootCatalogStartAddress_def kNeFSCatalogStartAddress_def kNeFSForkDataSz_def
  kNeFSNodeNameLen_def kBadAddress_def

definition kNeFSRoot :: "u8 list" where "kNeFSRoot = [0x2F, 0]"
definition Separator :: u8 where "Separator = 0x2F"

section \<open>Structures\<close>

record NFS_CATALOG =
  cat_Name :: "u8 list"
  cat_Mime :: "u8 list"
  cat_Flags :: u16
  cat_FilkMMFlags :: u16
  cat_Kind :: u32
  cat_DataForkSize :: u64
  cat_ResourceForkSize :: u64
  cat_DataFork :: u64
  cat_ResourceFork :: u64
  cat_NextSibling :: u64
  cat_PrevSibling :: u64

record NFS_FORK =
  fork_ForkName :: "u8 list"
  fork_CatalogName :: "u8 list"
  fork_Flags :: u32
  fork_Kind :: u32
  fork_ResourceId :: u64
  fork_ResourceKind :: u32
  fork_ResourckMMFlags :: u32
  fork_DataOffset :: u64
  fork_DataSize :: u64
  fork_NextSibling :: u64
  fork_PreviousSibling :: u64

record NFS_ROOT_PARTITION =
  part_Ident :: "u8 list"
  part_PartitionName :: "u8 list"
  part_Flags :: u32
  part_Kind :: u32
  part_StartCatalog :: u64
  part_CatalogCount :: u64
  part_DiskSize :: u64
  part_FreeCatalog :: u64
  part_FreeSectors :: u64
  part_SectorCount :: u64
  part_SectorSize :: u64
  part_Version :: u64
  part_EpmBlock :: u64
  part_Pad :: "u8 list"

record BOOT_BLOCK =
  epm_Magic :: "u8 list"
  epm_Name :: "u8 list"
  epm_Uuid :: "u8 list"
  epm_Version :: u32
  epm_NumBlocks :: u64
  epm_SectorSz :: u64
  epm_LbaStart :: u64
  epm_LbaEnd :: u64
  epm_Kind :: u16
  epm_FsVersion :: u32
  epm_Fs :: "u8 list"
  epm_Reserved :: "u8 list"

section \<open>Byte layout\<close>

definition bytes_at :: "nat \<Rightarrow> nat \<Rightarrow> u8 list \<Rightarrow> u8 list" where
  "bytes_at off n bs = take n (drop off bs)"

abbreviation enc16 :: "u16 \<Rightarrow> u8 list" where "enc16 v \<equiv> le_bytes 2 (unat v)"
abbreviation enc32 :: "u32 \<Rightarrow> u8 list" where "enc32 v \<equiv> le_bytes 4 (unat v)"
abbreviation enc64 :: "u64 \<Rightarrow> u8 list" where "enc64 v \<equiv> le_bytes 8 (unat v)"

abbreviation dec16 :: "u8 list \<Rightarrow> u16" where "dec16 bs \<equiv> of_nat (le_val bs)"
abbreviation dec32 :: "u8 list \<Rightarrow> u32" where "dec32 bs \<equiv> of_nat (le_val bs)"
abbreviation dec64 :: "u8 list \<Rightarrow> u64" where "dec64 bs \<equiv> of_nat (le_val bs)"

definition catalog_bytes :: "NFS_CATALOG \<Rightarrow> u8 list" where
  "catalog_bytes c =
     cat_Name c @ cat_Mime c @ enc16 (cat_Flags c) @ enc16 (cat_FilkMMFlags c) @ enc32 (cat_Kind c)
     @ enc64 (cat_DataForkSize c) @ enc64 (cat_ResourceForkSize c) @ enc64 (cat_DataFork c)
     @ enc64 (cat_ResourceFork c) @ enc64 (cat_NextSibling c) @ enc64 (cat_PrevSibling c)"

definition catalog_of :: "u8 list \<Rightarrow> NFS_CATALOG" where
  "catalog_of bs =
     \<lparr>cat_Name = bytes_at 0 256 bs, cat_Mime = bytes_at 256 200 bs,
      cat_Flags = dec16 (bytes_at 456 2 bs), cat_FilkMMFlags = dec16 (bytes_at 458 2 bs),
      cat_Kind = dec32 (bytes_at 460 4 bs), cat_DataForkSize = dec64 (bytes_at 464 8 bs),
      cat_ResourceForkSize = dec64 (bytes_at 472 8 bs), cat_DataFork = dec64 (bytes_at 480 8 bs),
      cat_ResourceFork = dec64 (bytes_at 488 8 bs), cat_NextSibling = dec64 (bytes_at 496 8 bs),
      cat_PrevSibling = dec64 (bytes_at 504 8 bs)\<rparr>"

definition fork_bytes :: "NFS_FORK \<Rightarrow> u8 list" where
  "fork_bytes f =
     fork_ForkName f @ fork_CatalogName f @ enc32 (fork_Flags f) @ enc32 (fork_Kind f)
     @ enc64 (fork_ResourceId f) @ enc32 (fork_ResourceKind f) @ enc32 (fork_ResourckMMFlags f)
     @ enc64 (fork_DataOffset f) @ enc64 (fork_DataSize f) @ enc64 (fork_NextSibling f)
     @ enc64 (fork_PreviousSibling f)"

definition fork_of :: "u8 list \<Rightarrow> NFS_FORK" where
  "fork_of bs =
     \<lparr>fork_ForkName = bytes_at 0 200 bs, fork_CatalogName = bytes_at 200 256 bs,
      fork_Flags = dec32 (bytes_at 456 4 bs), fork_Kind = dec32 (bytes_at 460 4 bs),
      fork_ResourceId = dec64 (bytes_at 464 8 bs), fork_ResourceKind = dec32 (bytes_at 472 4 bs),
      fork_ResourckMMFlags = dec32 (bytes_at 476 4 bs), fork_DataOffset = dec64 (bytes_at 480 8 bs),
      fork_DataSize = dec64 (bytes_at 488 8 bs), fork_NextSibling = dec64 (bytes_at 496 8 bs),
      fork_PreviousSibling = dec64 (bytes_at 504 8 bs)\<rparr>"

definition partition_bytes :: "NFS_ROOT_PARTITION \<Rightarrow> u8 list" where
  "partition_bytes p =
     part_Ident p @ part_PartitionName p @ enc32 (part_Flags p) @ enc32 (part_Kind p)
     @ enc64 (part_StartCatalog p) @ enc64 (part_CatalogCount p) @ enc64 (part_DiskSize p)
     @ enc64 (part_FreeCatalog p) @ enc64 (part_FreeSectors p) @ enc64 (part_SectorCount p)
     @ enc64 (part_SectorSize p) @ enc64 (part_Version p) @ enc64 (part_EpmBlock p) @ part_Pad p"

definition partition_of :: "u8 list \<Rightarrow> NFS_ROOT_PARTITION" where
  "partition_of bs =
     \<lparr>part_Ident = bytes_at 0 8 bs, part_PartitionName = bytes_at 8 32 bs,
      part_Flags = dec32 (bytes_at 40 4 bs), part_Kind = dec32 (bytes_at 44 4 bs),
      part_StartCatalog = dec64 (bytes_at 48 8 bs), part_CatalogCount = dec64 (bytes_at 56 8 bs),
      part_DiskSize = dec64 (bytes_at 64 8 bs), part_FreeCatalog = dec64 (bytes_at 72 8 bs),
      part_FreeSectors = dec64 (bytes_at 80 8 bs), part_SectorCount = dec64 (bytes_at 88 8 bs),
      part_SectorSize = dec64 (bytes_at 96 8 bs), part_Version = dec64 (bytes_at 104 8 bs),
      part_EpmBlock = dec64 (bytes_at 112 8 bs), part_Pad = bytes_at 120 392 bs\<rparr>"

definition boot_block_bytes :: "BOOT_BLOCK \<Rightarrow> u8 list" where
  "boot_block_bytes b =
     epm_Magic b @ epm_Name b @ epm_Uuid b @ enc32 (epm_Version b) @ enc64 (epm_NumBlocks b)
     @ enc64 (epm_SectorSz b) @ enc64 (epm_LbaStart b) @ enc64 (epm_LbaEnd b) @ enc16 (epm_Kind b)
     @ enc32 (epm_FsVersion b) @ epm_Fs b @ epm_Reserved b"

definition boot_block_of :: "u8 list \<Rightarrow> BOOT_BLOCK" where
  "boot_block_of bs =
     \<lparr>epm_Magic = bytes_at 0 5 bs, epm_Name = bytes_at 5 32 bs, epm_Uuid = bytes_at 37 16 bs,
      epm_Version = dec32 (bytes_at 53 4 bs), epm_NumBlocks = dec64 (bytes_at 57 8 bs),
      epm_SectorSz = dec64 (bytes_at 65 8 bs), epm_LbaStart = dec64 (bytes_at 73 8 bs),
      epm_LbaEnd = dec64 (bytes_at 81 8 bs), epm_Kind = dec16 (bytes_at 89 2 bs),
      epm_FsVersion = dec32 (bytes_at 91 4 bs), epm_Fs = bytes_at 95 16 bs,
      epm_Reserved = bytes_at 111 401 bs\<rparr>"

text \<open>Structures whose character arrays have their declared sizes.\<close>

definition wf_catalog :: "NFS_CATALOG \<Rightarrow> bool" where
  "wf_catalog c \<longleftrightarrow> length (cat_Name c) = 256 \<and> length (cat_Mime c) = 200"

definition wf_fork :: "NFS_FORK \<Rightarrow> bool" where
  "wf_fork f \<longleftrightarrow> length (fork_ForkName f) = 200 \<and> length (fork_CatalogName f) = 256"

definition wf_partition :: "NFS_ROOT_PARTITION \<Rightarrow> bool" where
  "wf_partition p \<longleftrightarrow> length (part_Ident p) = 8 \<and> length (part_PartitionName p) = 32 \<and> length (part_Pad p) = 392"

definition wf_boot_block :: "BOOT_BLOCK \<Rightarrow> bool" where
  "wf_boot_block b \<longleftrightarrow> length (epm_Magic b) = 5 \<and> length (epm_Name b) = 32 \<and> length (epm_Uuid b) = 16
     \<and> length (epm_Fs b) = 16 \<and> length (epm_Reserved b) = 401"

section \<open>Encoding and decoding\<close>

lemma unat_u16_lt: "unat (v :: u16) < 2 ^ 16"
  using unsigned_less [of v] by simp

lemma dec_enc [simp]:
  "dec16 (enc16 v16) = v16" "dec32 (enc32 v32) = v32" "dec64 (enc64 v64) = v64"
  using unat_u16_lt [of v16] unat_u32_lt [of v32] unat_u64_lt [of v64]
  by (simp_all add: le_val_le_bytes)

lemma enc_dec [simp]:
  "length bs = 2 \<Longrightarrow> enc16 (dec16 bs) = bs"
  "length bs = 4 \<Longrightarrow> enc32 (dec32 bs) = bs"
  "length bs = 8 \<Longrightarrow> enc64 (dec64 bs) = bs"
  using le_val_bound [of bs] le_bytes_le_val [of bs] by (simp_all add: unat_of_nat)

lemma length_bytes_at [simp]: "off + n \<le> length bs \<Longrightarrow> length (bytes_at off n bs) = n"
  by (simp add: bytes_at_def)

lemma bytes_at_join:
  "b = a + n \<Longrightarrow> bytes_at a n bs @ bytes_at b k bs = bytes_at a (n + k) bs"
  by (simp add: bytes_at_def take_add) (simp add: add.commute)

lemma bytes_at_join2:
  "b = a + n \<Longrightarrow> bytes_at a n bs @ bytes_at b k bs @ r = bytes_at a (n + k) bs @ r"
  by (simp flip: append_assoc add: bytes_at_join)

lemma bytes_at_all [simp]: "length bs = n \<Longrightarrow> bytes_at 0 n bs = bs"
  by (simp add: bytes_at_def)

lemma catalog_bytes_of [simp]: "length bs = 512 \<Longrightarrow> catalog_bytes (catalog_of bs) = bs"
  by (simp add: catalog_bytes_def catalog_of_def bytes_at_join bytes_at_join2)

lemma fork_bytes_of [simp]: "length bs = 512 \<Longrightarrow> fork_bytes (fork_of bs) = bs"
  by (simp add: fork_bytes_def fork_of_def bytes_at_join bytes_at_join2)

lemma partition_bytes_of [simp]: "length bs = 512 \<Longrightarrow> partition_bytes (partition_of bs) = bs"
  by (simp add: partition_bytes_def partition_of_def bytes_at_join bytes_at_join2)

lemma boot_block_bytes_of [simp]: "length bs = 512 \<Longrightarrow> boot_block_bytes (boot_block_of bs) = bs"
  by (simp add: boot_block_bytes_def boot_block_of_def bytes_at_join bytes_at_join2)

lemma catalog_of_bytes [simp]: "wf_catalog c \<Longrightarrow> catalog_of (catalog_bytes c) = c"
  by (cases c) (simp add: wf_catalog_def catalog_of_def catalog_bytes_def bytes_at_def)

lemma fork_of_bytes [simp]: "wf_fork f \<Longrightarrow> fork_of (fork_bytes f) = f"
  by (cases f) (simp add: wf_fork_def fork_of_def fork_bytes_def bytes_at_def)

lemma partition_of_bytes [simp]: "wf_partition p \<Longrightarrow> partition_of (partition_bytes p) = p"
  by (cases p) (simp add: wf_partition_def partition_of_def partition_bytes_def bytes_at_def)

lemma boot_block_of_bytes [simp]: "wf_boot_block b \<Longrightarrow> boot_block_of (boot_block_bytes b) = b"
  by (cases b) (simp add: wf_boot_block_def boot_block_of_def boot_block_bytes_def bytes_at_def)

lemma length_structs [simp]:
  "wf_catalog c \<Longrightarrow> length (catalog_bytes c) = 512"
  "wf_fork f \<Longrightarrow> length (fork_bytes f) = 512"
  "wf_partition p \<Longrightarrow> length (partition_bytes p) = 512"
  "wf_boot_block b \<Longrightarrow> length (boot_block_bytes b) = 512"
  by (simp_all add: wf_catalog_def wf_fork_def wf_partition_def wf_boot_block_def catalog_bytes_def
      fork_bytes_def partition_bytes_def boot_block_bytes_def)

lemma wf_structs [simp]:
  "length bs = 512 \<Longrightarrow> wf_catalog (catalog_of bs)"
  "length bs = 512 \<Longrightarrow> wf_fork (fork_of bs)"
  "length bs = 512 \<Longrightarrow> wf_partition (partition_of bs)"
  "length bs = 512 \<Longrightarrow> wf_boot_block (boot_block_of bs)"
  by (simp_all add: wf_catalog_def wf_fork_def wf_partition_def wf_boot_block_def catalog_of_def
      fork_of_def partition_of_def boot_block_of_def)

section \<open>Properties\<close>

text \<open>
  Remark. The four structures and their blocks correspond one to one: a structure with its
  declared array sizes takes exactly 512 bytes and is read back unchanged.
\<close>

theorem nefs_structs_roundtrip:
  assumes "wf_catalog c" and "wf_fork f" and "wf_partition p" and "wf_boot_block b"
  shows "catalog_of (catalog_bytes c) = c \<and> length (catalog_bytes c) = 512
       \<and> fork_of (fork_bytes f) = f \<and> length (fork_bytes f) = 512
       \<and> partition_of (partition_bytes p) = p \<and> length (partition_bytes p) = 512
       \<and> boot_block_of (boot_block_bytes b) = b \<and> length (boot_block_bytes b) = 512"
  using assms by simp

theorem nefs_structs_roundtrip_witness:
  "fork_of (fork_bytes (fork_of (replicate 512 3))) = fork_of (replicate 512 3)"
  using nefs_structs_roundtrip [of "catalog_of (replicate 512 1)" "fork_of (replicate 512 3)"
      "partition_of (replicate 512 2)" "boot_block_of (replicate 512 4)"] by simp

end
