(* ===== verification/NeFS.thy ===== *)
theory NeFS
  imports NeFS_Layout
begin

text \<open>
  The file system parser \<open>NeFSParser\<close> of \<^verbatim>\<open>dev/ZKAKit/src/FS/NeFS.cc\<close>. Operations take the
  drive \<open>kDiskMountpoint.A()\<close> as an argument and act on the drives' state and the calling process'
  error code. Structures in memory (stack buffers and the results of \<open>new\<close>) are values; a pointer
  that may be null is an option. A result is \<open>None\<close> when a loop never ends, \<open>Inl\<close> when the code
  accesses memory out of bounds or through null, and otherwise the new state and the value.
\<close>

section \<open>State\<close>

record 's nefs =
  disk :: 's
  err_local :: HError

section \<open>Packets\<close>

definition nefs_packet :: "'s DriveTrait \<Rightarrow> DrivePacket" where
  "nefs_packet drv =
     (fPacket drv)\<lparr>fPacketMime := copy_name ''fs/nefs-packet'' (fPacketMime (fPacket drv))\<rparr>"

definition drive_in ::
    "'s DriveTrait \<Rightarrow> DrivePacket \<Rightarrow> u64 \<Rightarrow> u8 list \<Rightarrow> 's \<Rightarrow> (abort + 's \<times> DrivePacket \<times> u8 list) option" where
  "drive_in drv pkt lba buf s =
     ebind (fInput drv (pkt\<lparr>fPacketLba := lba, fPacketSize := of_nat (length buf),
                            fPacketContent := Some buf\<rparr>) s)
       (\<lambda>(s', pkt'). case fPacketContent pkt' of
                        None \<Rightarrow> Some (Inl NullAccess)
                      | Some bs \<Rightarrow> Some (Inr (s', pkt', bs)))"

definition drive_out ::
    "'s DriveTrait \<Rightarrow> DrivePacket \<Rightarrow> u64 \<Rightarrow> u8 list \<Rightarrow> 's \<Rightarrow> (abort + 's \<times> DrivePacket) option" where
  "drive_out drv pkt lba buf s =
     fOutput drv (pkt\<lparr>fPacketLba := lba, fPacketSize := of_nat (length buf), fPacketContent := Some buf\<rparr>) s"

abbreviation zero_block :: "u8 list" where "zero_block \<equiv> replicate 512 0"

section \<open>Parent names\<close>

text \<open>
  The prefix of a path up to its last separator, computed in a buffer of \<open>kNeFSNodeNameLen\<close> bytes:
  the last two characters are erased unconditionally, then characters are erased backwards until a
  separator is met. Running below index 0 leaves the buffer.
\<close>

primrec strip_parent :: "u8 list \<Rightarrow> nat \<Rightarrow> abort + u8 list" where
  "strip_parent buf 0 = (if buf ! 0 \<noteq> Separator then Inl OutOfBounds else Inr buf)"
| "strip_parent buf (Suc i) =
     (if buf ! Suc i \<noteq> Separator then strip_parent (buf[Suc i := 0]) i else Inr buf)"

definition parent_copy :: "u8 list \<Rightarrow> abort + u8 list" where
  "parent_copy name =
     (case obj_string_len name of
        Inl e \<Rightarrow> Inl e
      | Inr n \<Rightarrow> if n > kNeFSNodeNameLen then Inl OutOfBounds
                else Inr (take n name @ replicate (kNeFSNodeNameLen - n) 0))"

definition parent_strip :: "u8 list \<Rightarrow> abort + u8 list" where
  "parent_strip buf =
     (case obj_string_len buf of
        Inl e \<Rightarrow> Inl e
      | Inr k \<Rightarrow> if k < 2 then Inl OutOfBounds
                else strip_parent (buf[k - 1 := 0, k - 2 := 0]) (k - 2))"

definition parent_name :: "u8 list \<Rightarrow> abort + u8 list" where
  "parent_name name = (case parent_copy name of Inl e \<Rightarrow> Inl e | Inr buf \<Rightarrow> parent_strip buf)"

section \<open>Finding catalogs\<close>

text \<open>The loop at \<open>NeFSSearchThroughCatalogList\<close>, which follows the sibling links.\<close>

partial_function (option) FindCatalog_search ::
    "'s DriveTrait \<Rightarrow> DrivePacket \<Rightarrow> u8 list \<Rightarrow> u8 list \<Rightarrow> u64 \<Rightarrow> 's
     \<Rightarrow> (abort + 's \<times> DrivePacket \<times> u8 list \<times> (NFS_CATALOG \<times> u64) option) option" where
  "FindCatalog_search drv pkt name buf startCatalogList s =
     (if fPacketGood pkt then
        ebind (drive_in drv pkt startCatalogList buf s) (\<lambda>(s1, pkt1, bs).
        ebind (Some (obj_Equals name bs)) (\<lambda>eq.
          let catalog = catalog_of bs
          in if eq \<and> cat_Flags catalog AND kNeFSFlagCreated \<noteq> 0
             then Some (Inr (s1, pkt1, bs, Some (catalog, startCatalogList)))
             else if cat_NextSibling catalog \<le> kNeFSRootCatalogStartAddress
             then Some (Inr (s1, pkt1, bs, None))
             else FindCatalog_search drv pkt1 name bs (cat_NextSibling catalog) s1))
      else Some (Inr (s, pkt, buf, None)))"

text \<open>
  The search of the whole list, and the search that starts at a given sibling and falls back to
  the whole list (\<open>localSearchFirst\<close>).
\<close>

definition FindCatalog_list ::
    "'s DriveTrait \<Rightarrow> DrivePacket \<Rightarrow> u8 list \<Rightarrow> u8 list \<Rightarrow> u64 \<Rightarrow> 's
     \<Rightarrow> (abort + 's \<times> (NFS_CATALOG \<times> u64) option) option" where
  "FindCatalog_list drv pkt name tmp start s =
     ebind (FindCatalog_search drv pkt name tmp start s) (\<lambda>(s', pkt', tmp', r). Some (Inr (s', r)))"

definition FindCatalog_local ::
    "'s DriveTrait \<Rightarrow> DrivePacket \<Rightarrow> u8 list \<Rightarrow> u8 list \<Rightarrow> u64 \<Rightarrow> u64 \<Rightarrow> 's
     \<Rightarrow> (abort + 's \<times> (NFS_CATALOG \<times> u64) option) option" where
  "FindCatalog_local drv pkt name tmp sibling start s =
     ebind (FindCatalog_search drv pkt name tmp sibling s) (\<lambda>(s', pkt', tmp', r).
       case r of
         Some found \<Rightarrow> Some (Inr (s', Some found))
       | None \<Rightarrow> FindCatalog_list drv pkt' name tmp' start s')"

text \<open>The search once the parent is known: below the root the whole list, else after the parent.\<close>

definition FindCatalog_below ::
    "'s DriveTrait \<Rightarrow> DrivePacket \<Rightarrow> u8 list \<Rightarrow> u8 list \<Rightarrow> u64 \<Rightarrow> u8 list \<Rightarrow> (NFS_CATALOG \<times> u64) option \<Rightarrow> 's
     \<Rightarrow> (abort + 's \<times> (NFS_CATALOG \<times> u64) option) option" where
  "FindCatalog_below drv pkt name tmp start parentName parentCatalog s =
     (case parentCatalog of
        None \<Rightarrow> Some (Inr (s, None))
      | Some (pc, _) \<Rightarrow>
          ebind (Some (obj_Equals parentName kNeFSRoot)) (\<lambda>parent_is_root.
            if parent_is_root then FindCatalog_list drv pkt name tmp start s
            else FindCatalog_local drv pkt name tmp (cat_NextSibling pc) start s))"

text \<open>
  \<open>FindCatalog\<close> finds the parent first and starts after it; when that fails it searches the whole
  list. The returned address is \<open>out_lba\<close>, which is 0 exactly when the result is null.
\<close>

partial_function (option) FindCatalog ::
    "'s DriveTrait \<Rightarrow> u8 list \<Rightarrow> 's \<Rightarrow> (abort + 's \<times> (NFS_CATALOG \<times> u64) option) option" where
  "FindCatalog drv catalogName s =
     ebind (drive_in drv (nefs_packet drv) kNeFSRootCatalogStartAddress zero_block s) (\<lambda>(s1, pkt1, pb).
       let startCatalogList = part_StartCatalog (partition_of pb) in
     ebind (drive_in drv pkt1 startCatalogList zero_block s1) (\<lambda>(s2, pkt2, tmp).
     ebind (Some (obj_Equals catalogName kNeFSRoot)) (\<lambda>is_root.
       if is_root then FindCatalog_list drv pkt2 catalogName tmp startCatalogList s2
       else
         ebind (Some (parent_name catalogName)) (\<lambda>parentName.
         ebind (FindCatalog drv parentName s2) (\<lambda>(s3, parentCatalog).
         FindCatalog_below drv pkt2 catalogName tmp startCatalogList parentName parentCatalog s3)))))"

definition GetCatalog ::
    "'s DriveTrait \<Rightarrow> u8 list \<Rightarrow> 's \<Rightarrow> (abort + 's \<times> NFS_CATALOG option) option" where
  "GetCatalog drv name s =
     ebind (FindCatalog drv name s) (\<lambda>(s', r). Some (Inr (s', map_option fst r)))"

definition CloseCatalog :: "NFS_CATALOG option \<Rightarrow> bool" where
  "CloseCatalog catalog = (case catalog of None \<Rightarrow> False | Some _ \<Rightarrow> True)"

section \<open>Creating catalogs\<close>

definition catalog_zero :: NFS_CATALOG where
  "catalog_zero = catalog_of zero_block"

text \<open>The catalog \<open>CreateCatalog\<close> prepares before it looks for a free block.\<close>

definition child_catalog :: "u8 list \<Rightarrow> nat \<Rightarrow> u32 \<Rightarrow> u32 \<Rightarrow> u64 \<Rightarrow> NFS_CATALOG" where
  "child_catalog name n flags kind out_lba =
     catalog_zero\<lparr>cat_ResourceForkSize := 512, cat_DataForkSize := 512,
       cat_NextSibling := out_lba, cat_PrevSibling := out_lba, cat_Kind := kind,
       cat_Flags := ucast ((ucast kNeFSFlagCreated :: u32) OR flags),
       cat_Name := take n name @ drop n (cat_Name catalog_zero)\<rparr>"

text \<open>Writing the child into the free block and accounting for it in the partition block.\<close>

definition CreateCatalog_store ::
    "'s DriveTrait \<Rightarrow> DrivePacket \<Rightarrow> u8 list \<Rightarrow> NFS_CATALOG \<Rightarrow> NFS_CATALOG \<Rightarrow> u64 \<Rightarrow> 's
     \<Rightarrow> (abort + 's \<times> NFS_CATALOG option) option" where
  "CreateCatalog_store drv pkt parentName next_sibling child start_free s =
     ebind (drive_in drv pkt kNeFSRootCatalogStartAddress zero_block s) (\<lambda>(s1, pkt1, pb).
       let part_block = partition_of pb in
       if part_FreeCatalog part_block < 1 then Some (Inr (s1, None))
       else
         let child1 = child\<lparr>cat_DataFork := part_DiskSize part_block - start_free,
                            cat_ResourceFork := part_DiskSize part_block - start_free\<rparr> in
     ebind (Some (obj_Equals parentName (catalog_bytes next_sibling))) (\<lambda>eq.
         let child2 = (if \<not> eq then child1\<lparr>cat_NextSibling := start_free + 512 * 4\<rparr> else child1) in
     ebind (drive_out drv pkt1 start_free (catalog_bytes child2) s1) (\<lambda>(s2, pkt2).
     ebind (drive_in drv pkt2 kNeFSRootCatalogStartAddress pb s2) (\<lambda>(s3, pkt3, pb3).
         let part3 = partition_of pb3;
             part4 = part3\<lparr>part_FreeSectors := part_FreeSectors part3 - 1,
                           part_CatalogCount := part_CatalogCount part3 + 1,
                           part_FreeCatalog := part_FreeCatalog part3 - 1\<rparr> in
     ebind (drive_out drv pkt3 kNeFSRootCatalogStartAddress (partition_bytes part4) s3) (\<lambda>(s4, pkt4).
         Some (Inr (s4, Some child2)))))))"

partial_function (option) CreateCatalog_loop ::
    "'s DriveTrait \<Rightarrow> DrivePacket \<Rightarrow> u8 list \<Rightarrow> u8 list \<Rightarrow> NFS_CATALOG \<Rightarrow> u64 \<Rightarrow> u8 list \<Rightarrow> 's
     \<Rightarrow> (abort + 's \<times> NFS_CATALOG option) option" where
  "CreateCatalog_loop drv pkt name parentName child start_free tmp s =
     (if fPacketGood pkt then
        let next_sibling = catalog_of tmp in
        if start_free \<le> kNeFSRootCatalogStartAddress then Some (Inr (s, None))
        else if cat_Flags next_sibling AND kNeFSFlagCreated = 0
        then CreateCatalog_store drv pkt parentName next_sibling child start_free s
        else
          ebind (Some (obj_Equals tmp name)) (\<lambda>eq.
            if eq then Some (Inr (s, Some next_sibling))
            else
              ebind (drive_in drv pkt (start_free + 512 * 4) tmp s) (\<lambda>(s1, pkt1, tmp1).
              CreateCatalog_loop drv pkt1 name parentName child (start_free + 512 * 4) tmp1 s1))
      else Some (Inr (s, None)))"

text \<open>The part of \<open>CreateCatalog\<close> after the parent's name is known.\<close>

definition CreateCatalog_under ::
    "'s DriveTrait \<Rightarrow> u8 list \<Rightarrow> nat \<Rightarrow> u8 list \<Rightarrow> u32 \<Rightarrow> u32 \<Rightarrow> 's
     \<Rightarrow> (abort + 's \<times> NFS_CATALOG option) option" where
  "CreateCatalog_under drv name n parentName flags kind s =
     ebind (FindCatalog drv parentName s) (\<lambda>(s1, catalog).
       if (case catalog of None \<Rightarrow> False | Some (c, _) \<Rightarrow> cat_Kind c = kNeFSCatalogKindFile)
       then Some (Inr (s1, None))
       else
     ebind (case catalog of
              Some (_, lba) \<Rightarrow> Some (Inr (s1, fPacket drv, lba))
            | None \<Rightarrow> ebind (drive_in drv (fPacket drv) kNeFSRootCatalogStartAddress zero_block s1)
                        (\<lambda>(s2, pkt2, pb). Some (Inr (s2, pkt2, part_StartCatalog (partition_of pb)))))
       (\<lambda>(s2, pkt2, out_lba).
         let child = child_catalog name n flags kind out_lba;
             pkt3 = pkt2\<lparr>fPacketMime := copy_name ''fs/nefs-packet'' (fPacketMime pkt2)\<rparr> in
     ebind (drive_in drv pkt3 out_lba zero_block s2) (\<lambda>(s4, pkt4, tmp4).
         let start_free = cat_NextSibling (catalog_of tmp4) in
     ebind (drive_in drv pkt4 start_free tmp4 s4) (\<lambda>(s5, pkt5, tmp5).
     CreateCatalog_loop drv pkt5 name parentName child start_free tmp5 s5))))"

definition CreateCatalog ::
    "'s DriveTrait \<Rightarrow> u8 list \<Rightarrow> u32 \<Rightarrow> u32 \<Rightarrow> 's nefs \<Rightarrow> (abort + 's nefs \<times> NFS_CATALOG option) option" where
  "CreateCatalog drv name flags kind st =
     ebind (Some (obj_string_len name)) (\<lambda>n.
       if kind = kNeFSCatalogKindDir \<and> name ! (n - 1) \<noteq> Separator then Some (Inr (st, None))
       else if kind \<noteq> kNeFSCatalogKindDir \<and> name ! (n - 1) = Separator then Some (Inr (st, None))
       else
     ebind (FindCatalog drv name (disk st)) (\<lambda>(s1, catalog_copy).
       case catalog_copy of
         Some (c, _) \<Rightarrow> Some (Inr (\<lparr>disk = s1, err_local = kErrorFileExists\<rparr>, Some c))
       | None \<Rightarrow>
     ebind (Some (parent_copy name)) (\<lambda>buf.
         if buf ! 0 = 0 then Some (Inr (\<lparr>disk = s1, err_local = kErrorFileNotFound\<rparr>, None))
         else
     ebind (Some (parent_strip buf)) (\<lambda>parentName.
     ebind (CreateCatalog_under drv name n parentName flags kind s1) (\<lambda>(s2, r).
       Some (Inr (\<lparr>disk = s2, err_local = err_local st\<rparr>, r)))))))"

definition CreateCatalog_file ::
    "'s DriveTrait \<Rightarrow> u8 list \<Rightarrow> 's nefs \<Rightarrow> (abort + 's nefs \<times> NFS_CATALOG option) option" where
  "CreateCatalog_file drv name st = CreateCatalog drv name 0 kNeFSCatalogKindFile st"

section \<open>Removing catalogs\<close>

text \<open>
  The null pointer that \<open>FindCatalog\<close> returns for a missing catalog is dereferenced by the test of
  its flags.
\<close>

definition RemoveCatalog ::
    "'s DriveTrait \<Rightarrow> u8 list option \<Rightarrow> 's nefs \<Rightarrow> (abort + 's nefs \<times> bool) option" where
  "RemoveCatalog drv catalogName st =
     (case catalogName of
        None \<Rightarrow> Some (Inr (st\<lparr>err_local := kErrorInternal\<rparr>, False))
      | Some name \<Rightarrow>
     ebind (Some (obj_Equals name kNeFSRoot)) (\<lambda>is_root.
        if is_root then Some (Inr (st\<lparr>err_local := kErrorInternal\<rparr>, False))
        else
     ebind (FindCatalog drv name (disk st)) (\<lambda>(s1, r).
        case r of
          None \<Rightarrow> Some (Inl NullAccess)
        | Some (catalog, out_lba) \<Rightarrow>
            if out_lba \<ge> kNeFSCatalogStartAddress \<or> cat_Flags catalog AND kNeFSFlagCreated \<noteq> 0 then
              let catalog' = catalog\<lparr>cat_Flags := cat_Flags catalog OR kNeFSFlagDeleted\<rparr> in
     ebind (drive_out drv (nefs_packet drv) out_lba (catalog_bytes catalog') s1) (\<lambda>(s2, pkt2).
     ebind (drive_in drv pkt2 kNeFSRootCatalogStartAddress zero_block s2) (\<lambda>(s3, pkt3, pb).
              let part_block = partition_of pb;
                  part' = part_block\<lparr>part_CatalogCount := part_CatalogCount part_block - 1,
                                     part_FreeSectors := part_FreeSectors part_block + 1\<rparr> in
     ebind (drive_out drv pkt3 kNeFSRootCatalogStartAddress (partition_bytes part') s3) (\<lambda>(s4, pkt4).
              Some (Inr (st\<lparr>disk := s4\<rparr>, True)))))
            else Some (Inr (st\<lparr>disk := s1\<rparr>, False)))))"

section \<open>Parent names\<close>

lemma strip_parent_finds:
  assumes "j \<le> i" and "i < length buf" and "buf ! j = Separator"
    and "\<forall>k. j < k \<and> k \<le> i \<longrightarrow> buf ! k \<noteq> Separator"
  shows "strip_parent buf i = Inr (take (Suc j) buf @ replicate (i - j) 0 @ drop (Suc i) buf)"
  using assms
proof (induction i arbitrary: buf)
  case 0
  then show ?case by simp
next
  case (Suc i)
  show ?case
  proof (cases "j = Suc i")
    case True
    with Suc.prems show ?thesis by simp
  next
    case False
    with Suc.prems have j: "j \<le> i" by simp
    have "strip_parent (buf[Suc i := 0]) i =
        Inr (take (Suc j) (buf[Suc i := 0]) @ replicate (i - j) 0 @ drop (Suc i) (buf[Suc i := 0]))"
      using Suc.prems j by (intro Suc.IH) (auto simp: nth_list_update)
    moreover have "drop (Suc i) (buf[Suc i := 0]) = 0 # drop (Suc (Suc i)) buf"
      using Suc.prems(2) by (simp add: drop_update_swap Cons_nth_drop_Suc [symmetric])
    moreover have "replicate (Suc i - j) (0 :: u8) = replicate (i - j) 0 @ [0]"
      using j by (simp add: Suc_diff_le replicate_append_same)
    ultimately show ?thesis using Suc.prems False j by simp
  qed
qed

lemma strip_parent_none:
  "i < length buf \<Longrightarrow> \<forall>k \<le> i. buf ! k \<noteq> Separator \<Longrightarrow> strip_parent buf i = Inl OutOfBounds"
  by (induction i arbitrary: buf) (simp_all add: nth_list_update)

text \<open>A path: characters without NUL, closed by a NUL, in a longer object.\<close>

lemma obj_string_len_path:
  assumes "xs \<noteq> []" and "0 \<notin> set xs" shows "obj_string_len (xs @ 0 # rest) = Inr (length xs)"
  using assms by (auto simp: obj_string_len_iff nth_append in_set_conv_nth)

lemma parent_copy_path:
  assumes "xs \<noteq> []" and "0 \<notin> set xs" and "length xs \<le> 256"
  shows "parent_copy (xs @ 0 # rest) = Inr (xs @ replicate (256 - length xs) 0)"
  using assms by (simp add: parent_copy_def obj_string_len_path kNeFSNodeNameLen_def)

lemma replicate_pos: "0 < n \<Longrightarrow> replicate n x = x # replicate (n - 1) x"
  by (cases n) simp_all

lemma parent_name_path:
  assumes "0 \<notin> set (dir @ leaf)" and "Separator \<notin> set leaf" and "2 \<le> length (leaf @ extra)"
    and "length (dir @ [Separator] @ leaf @ extra) < 256" and "length extra \<le> 1" and "0 \<notin> set extra"
  shows "parent_name (dir @ [Separator] @ leaf @ extra @ 0 # rest) =
         Inr (dir @ [Separator] @ replicate (255 - length dir) 0)"
proof -
  define xs where "xs = dir @ [Separator] @ leaf @ extra"
  define k where "k = length xs"
  have s0: "Separator \<noteq> 0" by (simp add: Separator_def)
  have xs: "xs \<noteq> []" "0 \<notin> set xs" "length xs < 256" using assms s0 by (auto simp: xs_def)
  define buf where "buf = xs @ replicate (256 - k) 0"
  have copy: "parent_copy (xs @ 0 # rest) = Inr buf"
    using parent_copy_path [of xs rest] xs by (simp add: buf_def k_def)
  have len: "obj_string_len buf = Inr k"
    using obj_string_len_path [of xs "replicate (255 - k) 0"] xs
    by (simp add: buf_def k_def replicate_pos)
  have k2: "length dir + 3 \<le> k" "k < 256" "length buf = 256"
    using assms xs by (simp_all add: k_def xs_def buf_def)
  define buf' where "buf' = buf[k - 1 := 0, k - 2 := 0]"
  have "strip_parent buf' (k - 2) =
      Inr (take (Suc (length dir)) buf' @ replicate (k - 2 - length dir) 0 @ drop (Suc (k - 2)) buf')"
  proof (rule strip_parent_finds)
    show "buf' ! length dir = Separator"
      using k2 by (simp add: buf'_def buf_def xs_def nth_append)
    show "\<forall>i. length dir < i \<and> i \<le> k - 2 \<longrightarrow> buf' ! i \<noteq> Separator"
    proof (intro allI impI)
      fix i
      assume i: "length dir < i \<and> i \<le> k - 2"
      show "buf' ! i \<noteq> Separator"
      proof (cases "i = k - 2")
        case True
        with k2 s0 show ?thesis by (simp add: buf'_def)
      next
        case False
        have "k = length dir + 1 + length leaf + length extra" by (simp add: k_def xs_def)
        with i False have "i < length dir + 1 + length leaf" using assms(5) by linarith
        then have il: "i - Suc (length dir) < length leaf" using i by linarith
        have "i \<noteq> k - 1" using i k2 by linarith
        then have "buf' ! i = buf ! i" using False by (simp add: buf'_def)
        then have "buf' ! i = leaf ! (i - Suc (length dir))"
          using i il by (simp add: buf_def xs_def nth_append)
        moreover have "leaf ! (i - Suc (length dir)) \<in> set leaf"
          using i \<open>i < length dir + 1 + length leaf\<close> by (intro nth_mem) linarith
        ultimately show ?thesis using assms(2) by auto
      qed
    qed
  qed (use k2 in \<open>simp_all add: buf'_def\<close>)
  moreover have "take (Suc (length dir)) buf' = dir @ [Separator]"
    using k2 by (simp add: buf'_def buf_def xs_def take_update_cancel)
  moreover have "drop (Suc (k - 2)) buf' = replicate (257 - k) 0"
  proof -
    have "Suc (k - 2) = k - 1" using k2 by simp
    then have "drop (Suc (k - 2)) buf' = drop (k - 1) (buf[k - 1 := 0])"
      using k2 by (simp add: buf'_def)
    also have "\<dots> = 0 # drop k buf"
      using k2 by (simp add: drop_update_swap Cons_nth_drop_Suc [symmetric])
    also have "drop k buf = replicate (256 - k) 0" by (simp add: buf_def k_def)
    finally show ?thesis using k2 replicate_pos [of "257 - k" "0 :: u8"] by simp
  qed
  moreover have "replicate (k - 2 - length dir) (0 :: u8) @ replicate (257 - k) 0 = replicate (255 - length dir) 0"
    using k2 by (simp add: replicate_add [symmetric])
  ultimately show ?thesis
    using copy len k2 by (simp add: parent_name_def parent_strip_def buf'_def xs_def)
qed

lemma parent_name_single:
  "x \<noteq> 0 \<Longrightarrow> parent_name (Separator # x # 0 # rest) = Inl OutOfBounds"
proof -
  assume "x \<noteq> 0"
  moreover have "Separator \<noteq> 0" by (simp add: Separator_def)
  ultimately have "parent_copy ([Separator, x] @ 0 # rest) = Inr ([Separator, x] @ replicate 254 0)"
    and "obj_string_len ([Separator, x] @ 0 # replicate 253 0) = Inr 2"
    using parent_copy_path [of "[Separator, x]" rest] obj_string_len_path [of "[Separator, x]"] by auto
  then show ?thesis
    by (simp add: parent_name_def parent_strip_def replicate_pos Separator_def)
qed

lemma parent_strip_root: "parent_strip (0x2F # replicate 255 0) = Inl OutOfBounds"
proof -
  have "obj_string_len ([0x2F] @ 0 # replicate 254 0) = Inr 1"
    using obj_string_len_path [of "[0x2F]"] by simp
  then show ?thesis by (simp add: parent_strip_def replicate_pos)
qed

section \<open>Searching a well-formed catalog list\<close>

text \<open>
  The abstract view of the disk: blocks by address, the list of catalogs linked by their sibling
  fields from the partition's first catalog on, and which catalogs answer to a name.
\<close>

definition nefs_matches :: "(u64 \<Rightarrow> u8 list) \<Rightarrow> u8 list \<Rightarrow> u64 \<Rightarrow> bool" where
  "nefs_matches blk name a \<longleftrightarrow>
     obj_Equals name (blk a) = Inr True \<and> cat_Flags (catalog_of (blk a)) AND kNeFSFlagCreated \<noteq> 0"

fun sibling_chain :: "(u64 \<Rightarrow> u8 list) \<Rightarrow> u64 list \<Rightarrow> bool" where
  "sibling_chain blk [] = False"
| "sibling_chain blk [a] = (cat_NextSibling (catalog_of (blk a)) \<le> kNeFSRootCatalogStartAddress)"
| "sibling_chain blk (a # b # as) =
     (cat_NextSibling (catalog_of (blk a)) = b \<and> kNeFSRootCatalogStartAddress < b
      \<and> sibling_chain blk (b # as))"

definition nefs_list :: "(u64 \<Rightarrow> u8 list) \<Rightarrow> u64 list \<Rightarrow> bool" where
  "nefs_list blk as \<longleftrightarrow>
     sibling_chain blk as \<and> hd as = part_StartCatalog (partition_of (blk kNeFSRootCatalogStartAddress))
     \<and> list_all (\<lambda>a. \<exists>n < 256. obj_string_len (blk a) = Inr n) as"

definition nefs_lookup :: "(u64 \<Rightarrow> u8 list) \<Rightarrow> u64 list \<Rightarrow> u8 list \<Rightarrow> (NFS_CATALOG \<times> u64) option" where
  "nefs_lookup blk as name = map_option (\<lambda>a. (catalog_of (blk a), a)) (find (nefs_matches blk name) as)"

lemma obj_Equals_total:
  "obj_string_len l = Inr n \<Longrightarrow> obj_string_len r = Inr k \<Longrightarrow> \<exists>b. obj_Equals l r = Inr b"
  by (simp add: obj_Equals_eq)

locale nefs_drive = block_drive "fInput drv" "fOutput drv" ok block far
  for drv :: "'s DriveTrait" and ok block far +
  assumes good: "fPacketGood (fPacket drv)"
begin

lemma packet_good [simp]: "fPacketGood (nefs_packet drv)"
  by (simp add: nefs_packet_def good)

lemma drive_in_block:
  assumes "ok s" and "length buf = 512" and "fPacketGood pkt"
  shows "\<exists>s' pkt'. drive_in drv pkt lba buf s = Some (Inr (s', pkt', block s lba))
     \<and> ok s' \<and> block s' = block s \<and> fPacketGood pkt'"
proof -
  let ?p = "pkt\<lparr>fPacketLba := lba, fPacketSize := of_nat (length buf), fPacketContent := Some buf\<rparr>"
  obtain s' where "fInput drv ?p s = Some (Inr (s', ?p\<lparr>fPacketContent := Some (block s lba)\<rparr>))"
    and "ok s'" and "block s' = block s"
    using input_block [OF assms(1), of ?p buf] assms(2) by auto
  then show ?thesis using assms(3) by (simp add: drive_in_def)
qed

lemma drive_out_block:
  assumes "ok s" and "length bs = 512" and "fPacketGood pkt"
  shows "\<exists>s' pkt'. drive_out drv pkt lba bs s = Some (Inr (s', pkt'))
     \<and> ok s' \<and> block s' lba = bs \<and> (\<forall>a. far a lba \<longrightarrow> block s' a = block s a) \<and> fPacketGood pkt'"
proof -
  let ?p = "pkt\<lparr>fPacketLba := lba, fPacketSize := of_nat (length bs), fPacketContent := Some bs\<rparr>"
  have "\<exists>s'. fOutput drv ?p s = Some (Inr (s', ?p)) \<and> ok s' \<and> block s' (fPacketLba ?p) = bs
      \<and> (\<forall>a. far a (fPacketLba ?p) \<longrightarrow> block s' a = block s a)"
    using assms by (intro output_block) simp_all
  then show ?thesis using assms(3) by (auto simp: drive_out_def)
qed

lemma search_chain:
  assumes "ok s" and "fPacketGood pkt" and "length buf = 512" and "obj_string_len name = Inr n"
    and "sibling_chain (block s) as" and "list_all (\<lambda>a. \<exists>n < 256. obj_string_len (block s a) = Inr n) as"
  shows "\<exists>s' pkt' buf'. FindCatalog_search drv pkt name buf (hd as) s =
       Some (Inr (s', pkt', buf', nefs_lookup (block s) as name))
     \<and> ok s' \<and> block s' = block s \<and> fPacketGood pkt' \<and> length buf' = 512"
  using assms
proof (induction "block s" as arbitrary: s pkt buf rule: sibling_chain.induct)
  case 1
  then show ?case by simp
next
  case (2 a)
  obtain s1 pkt1 where in1: "drive_in drv pkt a buf s = Some (Inr (s1, pkt1, block s a))" "ok s1"
    "block s1 = block s" "fPacketGood pkt1" using drive_in_block [OF 2(1,3,2)] by blast
  obtain b where b: "obj_Equals name (block s a) = Inr b"
    using 2(6) obj_Equals_total [OF 2(4), of "block s a"] by auto
  show ?case
    using in1 b 2
    by (subst FindCatalog_search.simps)
      (simp add: Let_def nefs_lookup_def nefs_matches_def length_block)
next
  case (3 a b as)
  obtain s1 pkt1 where in1: "drive_in drv pkt a buf s = Some (Inr (s1, pkt1, block s a))" "ok s1"
    "block s1 = block s" "fPacketGood pkt1" using drive_in_block [OF 3(2,4,3)] by blast
  obtain eq where eq: "obj_Equals name (block s a) = Inr eq"
    using 3(7) obj_Equals_total [OF 3(5), of "block s a"] by auto
  have "\<exists>s' pkt' buf'. FindCatalog_search drv pkt1 name (block s a) (hd (b # as)) s1 =
       Some (Inr (s', pkt', buf', nefs_lookup (block s1) (b # as) name))
     \<and> ok s' \<and> block s' = block s1 \<and> fPacketGood pkt' \<and> length buf' = 512"
    using 3 in1 by (intro 3(1)) (simp_all add: length_block)
  then show ?case
    using in1 eq 3(2-)
    by (subst FindCatalog_search.simps)
      (auto simp: Let_def nefs_lookup_def nefs_matches_def length_block)
qed

lemma find_root:
  assumes "ok s" and "nefs_list (block s) as" and "obj_Equals name kNeFSRoot = Inr True"
  shows "\<exists>s'. FindCatalog drv name s = Some (Inr (s', nefs_lookup (block s) as name))
     \<and> ok s' \<and> block s' = block s"
proof -
  let ?start = "part_StartCatalog (partition_of (block s kNeFSRootCatalogStartAddress))"
  obtain s1 pkt1 where in1: "drive_in drv (nefs_packet drv) kNeFSRootCatalogStartAddress zero_block s =
      Some (Inr (s1, pkt1, block s kNeFSRootCatalogStartAddress))" "ok s1" "block s1 = block s" "fPacketGood pkt1"
    using drive_in_block [OF assms(1), of zero_block "nefs_packet drv" kNeFSRootCatalogStartAddress] by auto
  obtain s2 pkt2 where in2: "drive_in drv pkt1 ?start zero_block s1 = Some (Inr (s2, pkt2, block s ?start))"
    "ok s2" "block s2 = block s" "fPacketGood pkt2"
    using drive_in_block [OF in1(2), of zero_block pkt1 ?start] in1 by auto
  obtain n where "obj_string_len name = Inr n"
    using assms(3) by (auto simp: obj_Equals_def split: sum.splits)
  then obtain s3 pkt3 buf3 where "FindCatalog_search drv pkt2 name (block s ?start) ?start s2 =
      Some (Inr (s3, pkt3, buf3, nefs_lookup (block s) as name))" "ok s3" "block s3 = block s"
    using search_chain [OF in2(2,4), of "block s ?start" name n as] assms(1,2) in2
    by (auto simp: nefs_list_def length_block)
  then show ?thesis
    using in1 in2 assms(3) by (subst FindCatalog.simps) (simp add: Let_def FindCatalog_list_def)
qed

lemma find_under_root:
  assumes "ok s" and "nefs_list (block s) as" and "obj_Equals name kNeFSRoot = Inr False"
    and "parent_name name = Inr parent" and "obj_Equals parent kNeFSRoot = Inr True"
    and "nefs_lookup (block s) as parent \<noteq> None"
  shows "\<exists>s'. FindCatalog drv name s = Some (Inr (s', nefs_lookup (block s) as name))
     \<and> ok s' \<and> block s' = block s"
proof -
  let ?start = "part_StartCatalog (partition_of (block s kNeFSRootCatalogStartAddress))"
  obtain s1 pkt1 where in1: "drive_in drv (nefs_packet drv) kNeFSRootCatalogStartAddress zero_block s =
      Some (Inr (s1, pkt1, block s kNeFSRootCatalogStartAddress))" "ok s1" "block s1 = block s" "fPacketGood pkt1"
    using drive_in_block [OF assms(1), of zero_block "nefs_packet drv" kNeFSRootCatalogStartAddress] by auto
  obtain s2 pkt2 where in2: "drive_in drv pkt1 ?start zero_block s1 = Some (Inr (s2, pkt2, block s ?start))"
    "ok s2" "block s2 = block s" "fPacketGood pkt2"
    using drive_in_block [OF in1(2), of zero_block pkt1 ?start] in1 by auto
  obtain s3 pc where par: "FindCatalog drv parent s2 = Some (Inr (s3, Some pc))" "ok s3" "block s3 = block s"
    using find_root [OF in2(2) _ assms(5), of as] assms(2,6) in2 by auto
  obtain n where "obj_string_len name = Inr n"
    using assms(3) by (auto simp: obj_Equals_def split: sum.splits)
  then obtain s4 pkt4 buf4 where "FindCatalog_search drv pkt2 name (block s ?start) ?start s3 =
      Some (Inr (s4, pkt4, buf4, nefs_lookup (block s) as name))" "ok s4" "block s4 = block s"
    using search_chain [OF par(2) in2(4), of "block s ?start" name n as] assms(1,2) par
    by (auto simp: nefs_list_def length_block)
  then show ?thesis
    using in1 in2 par assms by (subst FindCatalog.simps) (cases pc, simp add: Let_def FindCatalog_below_def FindCatalog_list_def)
qed

text \<open>What a search result means, on the blocks of the disk.\<close>

definition found_ok :: "'s \<Rightarrow> u8 list \<Rightarrow> (NFS_CATALOG \<times> u64) option \<Rightarrow> bool" where
  "found_ok s name r \<longleftrightarrow>
     (\<forall>c a. r = Some (c, a) \<longrightarrow> c = catalog_of (block s a) \<and> nefs_matches (block s) name a)"

lemma found_ok_cong: "block s' = block s \<Longrightarrow> found_ok s' name r = found_ok s name r"
  by (simp add: found_ok_def)

lemma search_sound:
  assumes "FindCatalog_search drv pkt name buf a s = Some (Inr (s', pkt', buf', r))"
    and "ok s" and "length buf = 512" and "fPacketGood pkt"
  shows "ok s' \<and> block s' = block s \<and> fPacketGood pkt' \<and> length buf' = 512 \<and> found_ok s name r"
proof -
  define P where "P = (\<lambda>drv' (pkt :: DrivePacket) name (buf :: u8 list) (a :: u64) s
      (res :: abort + 's \<times> DrivePacket \<times> u8 list \<times> (NFS_CATALOG \<times> u64) option). drv' = drv \<longrightarrow>
    (\<forall>s' pkt' buf' r. res = Inr (s', pkt', buf', r) \<longrightarrow> ok s \<longrightarrow> length buf = 512 \<longrightarrow> fPacketGood pkt \<longrightarrow>
      ok s' \<and> block s' = block s \<and> fPacketGood pkt' \<and> length buf' = 512 \<and> found_ok s name r))"
  have "P drv pkt name buf a s (Inr (s', pkt', buf', r))"
  proof (rule FindCatalog_search.raw_induct [where P = P, OF _ assms(1)], goal_cases)
    case (1 f drv' pkt name buf a s res)
    show ?case unfolding P_def
    proof (intro impI allI)
      fix s' pkt' buf' r
      assume d: "drv' = drv" and res: "res = Inr (s', pkt', buf', r)"
        and ok: "ok s" and len: "length buf = 512" and gd: "fPacketGood pkt"
      obtain s1 pkt1 where in1: "drive_in drv pkt a buf s = Some (Inr (s1, pkt1, block s a))" "ok s1"
        "block s1 = block s" "fPacketGood pkt1" using drive_in_block [OF ok len gd, of a] by auto
      obtain eq where eq: "obj_Equals name (block s a) = Inr eq"
        using 1(2) d res gd in1 by (cases "obj_Equals name (block s a)") auto
      let ?c = "catalog_of (block s a)"
      show "ok s' \<and> block s' = block s \<and> fPacketGood pkt' \<and> length buf' = 512 \<and> found_ok s name r"
      proof (cases "eq \<and> cat_Flags ?c AND kNeFSFlagCreated \<noteq> 0 \<or> cat_NextSibling ?c \<le> kNeFSRootCatalogStartAddress")
        case True
        then show ?thesis
          using 1(2) d res gd in1 eq ok
          by (auto simp: Let_def nefs_matches_def length_block found_ok_def split: if_splits)
      next
        case False
        then have "f drv pkt1 name (block s a) (cat_NextSibling ?c) s1 = Some res"
          using 1(2) d gd in1 eq by (auto simp: Let_def)
        then have "P drv pkt1 name (block s a) (cat_NextSibling ?c) s1 res" by (rule 1(1))
        moreover have "found_ok s1 name r = found_ok s name r" using in1(3) by (rule found_ok_cong)
        ultimately show ?thesis using res in1 ok unfolding P_def by (simp add: length_block)
      qed
    qed
  qed
  with assms(2-) show ?thesis unfolding P_def by blast
qed

lemma list_sound:
  assumes "FindCatalog_list drv pkt name buf a s = Some (Inr (s', r))"
    and "ok s" and "length buf = 512" and "fPacketGood pkt"
  shows "ok s' \<and> block s' = block s \<and> found_ok s name r"
  using assms search_sound [of pkt name buf a s] by (auto simp: FindCatalog_list_def ebind_eq_Some)

lemma local_sound:
  assumes "FindCatalog_local drv pkt name buf a start s = Some (Inr (s', r))"
    and "ok s" and "length buf = 512" and "fPacketGood pkt"
  shows "ok s' \<and> block s' = block s \<and> found_ok s name r"
proof -
  obtain s4 pkt4 buf4 r4 where
    first: "FindCatalog_search drv pkt name buf a s = Some (Inr (s4, pkt4, buf4, r4))"
    and rest: "(case r4 of Some found \<Rightarrow> Some (Inr (s4, Some found))
                | None \<Rightarrow> FindCatalog_list drv pkt4 name buf4 start s4) = Some (Inr (s', r))"
    using assms(1) by (auto simp: FindCatalog_local_def ebind_eq_Some)
  have f: "ok s4" "block s4 = block s" "fPacketGood pkt4" "length buf4 = 512" "found_ok s name r4"
    using search_sound [OF first assms(2-4)] by simp_all
  have cong: "found_ok s4 name r = found_ok s name r" using f(2) by (rule found_ok_cong)
  show ?thesis
  proof (cases r4)
    case None
    with rest list_sound [OF _ f(1,4,3), of name start s' r] f(2) cong show ?thesis by simp
  next
    case (Some x)
    with rest f show ?thesis by simp
  qed
qed

lemma below_sound:
  assumes "FindCatalog_below drv pkt name buf start parent pc s = Some (Inr (s', r))"
    and "ok s" and "length buf = 512" and "fPacketGood pkt"
  shows "ok s' \<and> block s' = block s \<and> found_ok s name r"
proof (cases pc)
  case None
  with assms show ?thesis by (simp add: FindCatalog_below_def found_ok_def)
next
  case (Some x)
  then show ?thesis
    using assms(1) list_sound [OF _ assms(2-4)] local_sound [OF _ assms(2-4)]
    by (auto simp: FindCatalog_below_def ebind_eq_Some split: if_splits prod.splits)
qed

lemma find_sound:
  assumes "FindCatalog drv name s = Some (Inr (s', r))" and "ok s"
  shows "ok s' \<and> block s' = block s \<and> found_ok s name r"
proof -
  define P where "P = (\<lambda>drv' name s (res :: abort + 's \<times> (NFS_CATALOG \<times> u64) option). drv' = drv \<longrightarrow>
    (\<forall>s' r. res = Inr (s', r) \<longrightarrow> ok s \<longrightarrow> ok s' \<and> block s' = block s \<and> found_ok s name r))"
  have "P drv name s (Inr (s', r))"
  proof (rule FindCatalog.raw_induct [where P = P, OF _ assms(1)], goal_cases)
    case (1 f drv' name s res)
    show ?case unfolding P_def
    proof (intro impI allI)
      fix s' r
      assume d: "drv' = drv" and res: "res = Inr (s', r)" and ok: "ok s"
      let ?start = "part_StartCatalog (partition_of (block s kNeFSRootCatalogStartAddress))"
      obtain s1 pkt1 where in1: "drive_in drv (nefs_packet drv) kNeFSRootCatalogStartAddress zero_block s =
          Some (Inr (s1, pkt1, block s kNeFSRootCatalogStartAddress))" "ok s1" "block s1 = block s" "fPacketGood pkt1"
        using drive_in_block [OF ok, of zero_block "nefs_packet drv" kNeFSRootCatalogStartAddress] by auto
      obtain s2 pkt2 where in2: "drive_in drv pkt1 ?start zero_block s1 = Some (Inr (s2, pkt2, block s ?start))"
        "ok s2" "block s2 = block s" "fPacketGood pkt2"
        using drive_in_block [OF in1(2), of zero_block pkt1 ?start] in1 by auto
      have len: "length (block s ?start) = 512" using ok by (rule length_block)
      have rec: "ok s3 \<and> block s3 = block s" if "f drv parent s2 = Some (Inr (s3, pr))" for parent s3 pr
        using 1(1) [OF that] in2 unfolding P_def by auto
      let ?list = "FindCatalog_list drv pkt2 name (block s ?start) ?start"
      consider (root) "?list s2 = Some (Inr (s', r))"
        | (below) parent s3 pc where "f drv parent s2 = Some (Inr (s3, pc))"
            "FindCatalog_below drv pkt2 name (block s ?start) ?start parent pc s3 = Some (Inr (s', r))"
        using 1(2) unfolding d res by (auto simp: in1 in2 Let_def ebind_eq_Some split: if_splits)
      then show "ok s' \<and> block s' = block s \<and> found_ok s name r"
      proof cases
        case root
        with list_sound [OF root in2(2) len in2(4)] in2(3) show ?thesis by (simp add: found_ok_def)
      next
        case below
        have s3: "ok s3" "block s3 = block s" using rec [OF below(1)] by simp_all
        with below_sound [OF below(2) s3(1) len in2(4)] show ?thesis by (simp add: found_ok_def)
      qed
    qed
  qed
  with assms(2) show ?thesis unfolding P_def by blast
qed

lemma remove_found:
  assumes "ok (disk st)" and "obj_Equals name kNeFSRoot = Inr False"
    and "FindCatalog drv name (disk st) = Some (Inr (s1, Some (c, a)))"
    and "far a kNeFSRootCatalogStartAddress"
  shows "\<exists>st'. RemoveCatalog drv (Some name) st = Some (Inr (st', True)) \<and> ok (disk st')
     \<and> block (disk st') a = catalog_bytes (c\<lparr>cat_Flags := cat_Flags c OR kNeFSFlagDeleted\<rparr>)
     \<and> (let p = partition_of (block (disk st) kNeFSRootCatalogStartAddress) in
        block (disk st') kNeFSRootCatalogStartAddress =
          partition_bytes (p\<lparr>part_CatalogCount := part_CatalogCount p - 1, part_FreeSectors := part_FreeSectors p + 1\<rparr>))
     \<and> (\<forall>x. far x a \<longrightarrow> far x kNeFSRootCatalogStartAddress \<longrightarrow> block (disk st') x = block (disk st) x)"
proof -
  let ?root = "kNeFSRootCatalogStartAddress" and ?s = "disk st"
  let ?c = "c\<lparr>cat_Flags := cat_Flags c OR kNeFSFlagDeleted\<rparr>"
  let ?p = "partition_of (block ?s ?root)"
  let ?p' = "?p\<lparr>part_CatalogCount := part_CatalogCount ?p - 1, part_FreeSectors := part_FreeSectors ?p + 1\<rparr>"
  have s1: "ok s1" "block s1 = block ?s" and c: "c = catalog_of (block ?s a)"
    and cr: "cat_Flags c AND kNeFSFlagCreated \<noteq> 0"
    using find_sound [OF assms(3,1)] by (auto simp: found_ok_def nefs_matches_def)
  have len: "length (block ?s x) = 512" for x using assms(1) by (rule length_block)
  have wf: "length (catalog_bytes ?c) = 512" "length (partition_bytes ?p') = 512"
    using wf_structs(1) [OF len] wf_structs(3) [OF len]
    by (simp_all add: c wf_catalog_def wf_partition_def)
  obtain s2 pkt2 where out2: "drive_out drv (nefs_packet drv) a (catalog_bytes ?c) s1 = Some (Inr (s2, pkt2))"
    "ok s2" "block s2 a = catalog_bytes ?c" "\<forall>x. far x a \<longrightarrow> block s2 x = block ?s x" "fPacketGood pkt2"
    using drive_out_block [OF s1(1) wf(1), of "nefs_packet drv" a] s1 by auto
  have root2: "block s2 ?root = block ?s ?root" using out2(4) assms(4) far_sym by blast
  obtain s3 pkt3 where in3: "drive_in drv pkt2 ?root zero_block s2 = Some (Inr (s3, pkt3, block ?s ?root))"
    "ok s3" "block s3 = block s2" "fPacketGood pkt3"
    using drive_in_block [OF out2(2), of zero_block pkt2 ?root] out2(5) root2 by auto
  obtain s4 pkt4 where out4: "drive_out drv pkt3 ?root (partition_bytes ?p') s3 = Some (Inr (s4, pkt4))"
    "ok s4" "block s4 ?root = partition_bytes ?p'" "\<forall>x. far x ?root \<longrightarrow> block s4 x = block s3 x"
    using drive_out_block [OF in3(2) wf(2) in3(4), of ?root] by auto
  have "RemoveCatalog drv (Some name) st = Some (Inr (st\<lparr>disk := s4\<rparr>, True))"
    using assms(2,3) cr out2(1) in3(1) out4(1) by (simp add: RemoveCatalog_def Let_def)
  then show ?thesis using out2 in3 out4 assms(4) by (auto simp: Let_def)
qed

end

text \<open>The ATA drive as the mounted drive.\<close>

definition ata_mounted :: "pio_drive drv_state DriveTrait \<Rightarrow> pio_drive drv_state DriveTrait" where
  "ata_mounted drv = drv\<lparr>fPacket := (fPacket drv)\<lparr>fPacketGood := True\<rparr>,
     fInput := io_drv_input pio_ports, fOutput := io_drv_output pio_ports\<rparr>"

interpretation nefs: nefs_drive "ata_mounted drv" ata_ok ata_block ata_far for drv
  unfolding nefs_drive_def nefs_drive_axioms_def
  using ata.block_drive_axioms by (simp add: ata_mounted_def)

section \<open>Removal leaves the list alone\<close>

lemma obj_string_len_prefix:
  assumes "take 256 bs = take 256 bs'" and "length bs = 512" and "length bs' = 512"
    and "obj_string_len bs = Inr n" and "n < 256"
  shows "obj_string_len bs' = Inr n"
proof -
  have "bs ! i = bs' ! i" if "i < 256" for i using assms(1) that by (metis nth_take)
  then show ?thesis using assms(2-5) by (auto simp: obj_string_len_iff)
qed

lemma obj_Equals_prefix:
  assumes "take 256 bs = take 256 bs'" and "length bs = 512" and "length bs' = 512"
    and "obj_string_len bs = Inr n" and "n < 256"
  shows "obj_Equals name bs' = obj_Equals name bs"
proof -
  have "obj_string_len bs' = Inr n" using assms by (rule obj_string_len_prefix)
  moreover have "bs ! i = bs' ! i" if "i < n" for i using assms(1,5) that by (metis nth_take less_trans)
  ultimately show ?thesis using assms(4) by (auto simp: obj_Equals_def list_all_iff split: sum.splits)
qed

lemma deleted_still_created: "(f OR kNeFSFlagDeleted) AND kNeFSFlagCreated \<noteq> (0 :: u16)"
proof -
  have "bit ((f OR kNeFSFlagDeleted) AND kNeFSFlagCreated) 1"
    by (simp add: bit_simps nefs_consts bit_numeral_rec)
  then show ?thesis by auto
qed

text \<open>Two disks that differ in the flags of one catalog only, as far as the list goes.\<close>

lemma list_after_flags:
  assumes list: "nefs_list blk as" and len: "\<And>x. length (blk x) = 512"
    and a: "blk' a = catalog_bytes ((catalog_of (blk a))\<lparr>cat_Flags := fl\<rparr>)"
    and rest: "\<forall>x \<in> set as. x \<noteq> a \<longrightarrow> blk' x = blk x"
    and start: "part_StartCatalog (partition_of (blk' kNeFSRootCatalogStartAddress))
              = part_StartCatalog (partition_of (blk kNeFSRootCatalogStartAddress))"
  shows "nefs_list blk' as
    \<and> (\<forall>x \<in> set as. obj_Equals name (blk' x) = obj_Equals name (blk x))
    \<and> (\<forall>x \<in> set as. cat_Flags (catalog_of (blk' x)) = (if x = a then fl else cat_Flags (catalog_of (blk x))))"
proof -
  have wf: "wf_catalog ((catalog_of (blk a))\<lparr>cat_Flags := fl\<rparr>)"
    using wf_structs(1) [OF len] by (simp add: wf_catalog_def)
  have pre: "take 256 (blk x) = take 256 (blk' x) \<and> length (blk' x) = 512
      \<and> catalog_of (blk' x) = (catalog_of (blk x))\<lparr>cat_Flags := (if x = a then fl else cat_Flags (catalog_of (blk x)))\<rparr>"
    if "x \<in> set as" for x
  proof (cases "x = a")
    case True
    have "take 256 (catalog_bytes ((catalog_of (blk a))\<lparr>cat_Flags := fl\<rparr>)) = take 256 (blk a)"
      using len by (simp add: catalog_bytes_def catalog_of_def bytes_at_def)
    with True wf a show ?thesis by simp
  next
    case False
    with rest that len show ?thesis by simp
  qed
  have str: "\<exists>n<256. obj_string_len (blk' x) = Inr n \<and> obj_Equals name (blk' x) = obj_Equals name (blk x)"
    if "x \<in> set as" for x
  proof -
    have "\<forall>y \<in> set as. \<exists>n < 256. obj_string_len (blk y) = Inr n"
      using list by (simp add: nefs_list_def list_all_iff)
    with that obtain n where "n < 256" "obj_string_len (blk x) = Inr n" by blast
    with pre [OF that] len show ?thesis
      using obj_string_len_prefix obj_Equals_prefix by blast
  qed
  have "sibling_chain blk' bs" if "sibling_chain blk bs" "set bs \<subseteq> set as" for bs
    using that by (induction bs rule: induct_list012) (auto simp: pre)
  moreover have "\<forall>x \<in> set as. \<exists>n < 256. obj_string_len (blk' x) = Inr n" using str by blast
  moreover have "\<forall>x \<in> set as. obj_Equals name (blk' x) = obj_Equals name (blk x)" using str by blast
  ultimately show ?thesis using list start pre by (simp add: nefs_list_def list_all_iff)
qed

end
