(* ===== verification/NeFS_Forks.thy ===== *)
theory NeFS_Forks
  imports NeFS
begin

text \<open>
  The rest of \<open>NeFSParser\<close> (\<^verbatim>\<open>dev/ZKAKit/src/FS/NeFS.cc\<close>): forks, reading and writing
  through them, formatting a partition, and the mount of the drives by \<open>fs_init_newfs\<close>.
\<close>

section \<open>Creating and finding forks\<close>

text \<open>
  The search for a free fork zone; it yields the address to write the fork to and the address of
  the fork before it, or \<open>None\<close> when the fork exists already.
\<close>

partial_function (option) CreateFork_loop ::
    "'s DriveTrait \<Rightarrow> DrivePacket \<Rightarrow> NFS_CATALOG \<Rightarrow> NFS_FORK \<Rightarrow> u64 \<Rightarrow> u64 \<Rightarrow> u8 list \<Rightarrow> NFS_FORK \<Rightarrow> 's
     \<Rightarrow> (abort + 's \<times> DrivePacket \<times> (u64 \<times> u64) option) option" where
  "CreateFork_loop drv pkt catalog the_fork lba lbaOfPreviousFork buf prevFork s =
     (if lba \<le> kNeFSCatalogStartAddress then Some (Inr (s, pkt, Some (lba, lbaOfPreviousFork)))
      else
        ebind (drive_in drv pkt lba buf s) (\<lambda>(s1, pkt1, bs).
          let curFork = fork_of bs in
          if fork_NextSibling curFork > kBadAddress
          then Some (Inr (s1, pkt1, Some (lba, lbaOfPreviousFork)))
          else if fork_Flags curFork AND ucast kNeFSFlagCreated \<noteq> 0 then
            ebind (Some (obj_Equals bs (fork_bytes the_fork))) (\<lambda>eq1.
            ebind (if eq1 then Some (obj_Equals (drop 200 bs) (catalog_bytes catalog))
                   else Some (Inr False)) (\<lambda>eq2.
              if eq2 then Some (Inr (s1, pkt1, None))
              else CreateFork_loop drv pkt1 catalog the_fork (fork_NextSibling curFork) lba bs curFork s1))
          else
            if lba \<ge> kNeFSCatalogStartAddress then
              ebind (drive_out drv pkt1 lbaOfPreviousFork (fork_bytes (prevFork\<lparr>fork_NextSibling := lba\<rparr>)) s1)
                (\<lambda>(s2, pkt2). Some (Inr (s2, pkt2, Some (lba, lbaOfPreviousFork))))
            else Some (Inr (s1, pkt1, Some (lba, lbaOfPreviousFork)))))"

definition created_fork :: "NFS_FORK \<Rightarrow> u64 \<Rightarrow> u64 \<Rightarrow> NFS_FORK" where
  "created_fork the_fork lba lbaOfPreviousFork =
     the_fork\<lparr>fork_Flags := fork_Flags the_fork OR ucast kNeFSFlagCreated,
              fork_DataOffset := lba - 512,
              fork_PreviousSibling := lbaOfPreviousFork,
              fork_NextSibling := lba - 512 - fork_DataSize the_fork - 512\<rparr>"

definition CreateFork ::
    "'s DriveTrait \<Rightarrow> NFS_CATALOG option \<Rightarrow> NFS_FORK \<Rightarrow> 's \<Rightarrow> (abort + 's \<times> NFS_FORK option) option" where
  "CreateFork drv catalog the_fork s =
     (case catalog of
        None \<Rightarrow> Some (Inr (s, None))
      | Some cat \<Rightarrow>
          if fork_ForkName the_fork ! 0 \<noteq> 0 \<and> fork_DataSize the_fork \<le> kNeFSForkDataSz then
            let lba = (if fork_Kind the_fork = kNeFSDataForkKind then cat_DataFork cat else cat_ResourceFork cat) in
            if lba \<le> kNeFSCatalogStartAddress then Some (Inr (s, None))
            else
              ebind (CreateFork_loop drv (nefs_packet drv) cat the_fork lba lba zero_block (fork_of zero_block) s)
                (\<lambda>(s1, pkt1, r).
                   case r of
                     None \<Rightarrow> Some (Inr (s1, None))
                   | Some (lba', prev) \<Rightarrow>
                       let f = created_fork the_fork lba' prev in
                       ebind (drive_out drv pkt1 lba' (fork_bytes f) s1)
                         (\<lambda>(s2, pkt2). Some (Inr (s2, Some f))))
          else Some (Inr (s, None)))"

text \<open>
  \<open>FindFork\<close> reads into the null pointer \<open>the_fork\<close> it never sets, and then looks at the fork's
  name through it.
\<close>

definition FindFork ::
    "'s Mountpoint \<Rightarrow> u32 \<Rightarrow> NFS_CATALOG \<Rightarrow> u8 list \<Rightarrow> bool \<Rightarrow> 's nefs
     \<Rightarrow> (abort + 's nefs \<times> NFS_FORK option) option" where
  "FindFork mnt fDriveIndex catalog name isDataFork st =
     (let lba = (if isDataFork then cat_DataFork catalog else cat_ResourceFork catalog);
          drv = mA mnt
      in if lba \<noteq> 0 then
           let pkt = (nefs_packet drv)\<lparr>fPacketLba := lba, fPacketSize := 512, fPacketContent := None\<rparr> in
           ebind (fs_newfs_read (Some mnt) (drv\<lparr>fPacket := pkt\<rparr>) fDriveIndex (disk st)) (\<lambda>(s1, drv1, res).
             if res \<noteq> 0 then
               Some (Inr (st\<lparr>disk := s1, err_local :=
                            (if res = 1 then kErrorDiskReadOnly
                             else if res = 2 then kErrorDiskIsFull else err_local st)\<rparr>, None))
             else Some (Inl NullAccess))
         else Some (Inr (st, None)))"

section \<open>Writing and reading through forks\<close>

partial_function (option) WriteCatalog_loop ::
    "'s DriveTrait \<Rightarrow> DrivePacket \<Rightarrow> NFS_CATALOG \<Rightarrow> u8 list \<Rightarrow> u64 \<Rightarrow> u8 list \<Rightarrow> u64 \<Rightarrow> u8 list \<Rightarrow> 's nefs
     \<Rightarrow> (abort + 's nefs \<times> bool) option" where
  "WriteCatalog_loop drv pkt catalog forkName size_of_data buf startFork fork_buf st =
     (if startFork \<ge> kNeFSCatalogStartAddress then
        ebind (drive_in drv pkt startFork fork_buf (disk st)) (\<lambda>(s1, pkt1, bs).
          let f = fork_of bs in
          if fork_DataOffset f \<le> kNeFSCatalogStartAddress
          then Some (Inr (\<lparr>disk = s1, err_local = kErrorDiskIsCorrupted\<rparr>, False))
          else
            ebind (if fork_Flags f \<noteq> ucast kNeFSFlagUnallocated \<and> fork_Flags f \<noteq> ucast kNeFSFlagDeleted
                   then Some (obj_Equals bs forkName) else Some (Inr False)) (\<lambda>eq1.
            ebind (if eq1 then Some (obj_Equals (drop 200 bs) (catalog_bytes catalog))
                   else Some (Inr False)) (\<lambda>eq2.
              if eq2 \<and> fork_DataSize f = size_of_data then
                let f' = f\<lparr>fork_Flags := fork_Flags f OR ucast kNeFSFlagCreated\<rparr> in
                ebind (drive_out drv pkt1 (fork_DataOffset f) buf s1) (\<lambda>(s2, pkt2).
                ebind (drive_out drv pkt2 (startFork - 512) (fork_bytes f') s2) (\<lambda>(s3, pkt3).
                  Some (Inr (st\<lparr>disk := s3\<rparr>, True))))
              else
                WriteCatalog_loop drv pkt1 catalog forkName size_of_data buf (fork_NextSibling f) bs
                  (st\<lparr>disk := s1\<rparr>))))
      else Some (Inr (st, False)))"

text \<open>
  The blob is padded with zeroes to \<open>kNeFSForkDataSz\<close> bytes. \<open>buf\<close> is a value here: what
  \<open>rt_set_memory\<close> clears beyond the buffer (theory \<open>Rt_Utils\<close>) is not part of it.
\<close>

definition WriteCatalog ::
    "'s DriveTrait \<Rightarrow> NFS_CATALOG \<Rightarrow> bool \<Rightarrow> u8 list \<Rightarrow> u64 \<Rightarrow> u8 list \<Rightarrow> 's nefs
     \<Rightarrow> (abort + 's nefs \<times> bool) option" where
  "WriteCatalog drv catalog is_rsrc_fork data size_of_data forkName st =
     (if size_of_data > kNeFSForkDataSz \<or> size_of_data = 0 then Some (Inr (st, False))
      else if length data < unat size_of_data then Some (Inl OutOfBounds)
      else
        let buf = take (unat size_of_data) data @ replicate (unat kNeFSForkDataSz - unat size_of_data) 0;
            startFork = (if \<not> is_rsrc_fork then cat_DataFork catalog else cat_ResourceFork catalog)
        in WriteCatalog_loop drv (nefs_packet drv) catalog forkName size_of_data buf startFork zero_block st)"

partial_function (option) ReadCatalog_loop ::
    "'s DriveTrait \<Rightarrow> DrivePacket \<Rightarrow> NFS_CATALOG \<Rightarrow> u8 list \<Rightarrow> u64 \<Rightarrow> u8 list \<Rightarrow> NFS_FORK option \<Rightarrow> 's
     \<Rightarrow> (abort + 's \<times> u64 \<times> NFS_FORK option) option" where
  "ReadCatalog_loop drv pkt catalog forkName dataForkLba fs_buf fs_fork_data s =
     (if dataForkLba > kNeFSCatalogStartAddress then
        ebind (drive_in drv pkt dataForkLba fs_buf s) (\<lambda>(s1, pkt1, bs).
        ebind (Some (obj_Equals forkName bs)) (\<lambda>eq1.
        ebind (if eq1 then Some (obj_Equals (catalog_bytes catalog) (drop 200 bs))
               else Some (Inr False)) (\<lambda>eq2.
          if eq2 then Some (Inr (s1, dataForkLba, Some (fork_of bs)))
          else ReadCatalog_loop drv pkt1 catalog forkName (fork_NextSibling (fork_of bs)) bs
                 (Some (fork_of bs)) s1)))
      else Some (Inr (s, dataForkLba, fs_fork_data)))"

definition ReadCatalog ::
    "'s DriveTrait \<Rightarrow> NFS_CATALOG option \<Rightarrow> bool \<Rightarrow> u64 \<Rightarrow> u8 list \<Rightarrow> 's nefs
     \<Rightarrow> (abort + 's nefs \<times> NFS_FORK option) option" where
  "ReadCatalog drv catalog is_rsrc_fork dataSz forkName st =
     (case catalog of
        None \<Rightarrow> Some (Inr (st\<lparr>err_local := kErrorFileNotFound\<rparr>, None))
      | Some cat \<Rightarrow>
          let lba = (if \<not> is_rsrc_fork then cat_DataFork cat else cat_ResourceFork cat) in
          ebind (ReadCatalog_loop drv (nefs_packet drv) cat forkName lba zero_block None (disk st))
            (\<lambda>(s1, lba', r).
               if lba' < kNeFSCatalogStartAddress then Some (Inr (st\<lparr>disk := s1\<rparr>, None))
               else Some (Inr (st\<lparr>disk := s1\<rparr>, r))))"

definition Seek :: "NFS_CATALOG option \<Rightarrow> u64 \<Rightarrow> 's nefs \<Rightarrow> 's nefs \<times> bool" where
  "Seek catalog off st =
     (case catalog of
        None \<Rightarrow> (st\<lparr>err_local := kErrorFileNotFound\<rparr>, False)
      | Some _ \<Rightarrow> (st\<lparr>err_local := kErrorUnimplemented\<rparr>, False))"

definition Tell :: "NFS_CATALOG option \<Rightarrow> 's nefs \<Rightarrow> 's nefs \<times> u64" where
  "Tell catalog st =
     (case catalog of
        None \<Rightarrow> (st\<lparr>err_local := kErrorFileNotFound\<rparr>, 0)
      | Some _ \<Rightarrow> (st\<lparr>err_local := kErrorUnimplemented\<rparr>, 0))"

section \<open>Formatting\<close>

definition splice :: "nat \<Rightarrow> u8 list \<Rightarrow> u8 list \<Rightarrow> u8 list" where
  "splice off xs bs = take off bs @ xs @ drop (off + length xs) bs"

text \<open>The boot entry \<open>Format\<close> prepares: file system name, version, block name and magic.\<close>

definition format_boot_block :: "BOOT_BLOCK" where
  "format_boot_block =
     (let b = boot_block_of zero_block
      in b\<lparr>epm_Fs := [0x4E, 0x65, 0x46, 0x53] @ drop 4 (epm_Fs b), epm_FsVersion := 0x0129,
           epm_LbaStart := kNeFSRootCatalogStartAddress, epm_SectorSz := 512,
           epm_Name := [0x5A, 0x4B, 0x41, 0x3A] @ drop 4 (epm_Name b), epm_Magic := kEPMMagic\<rparr>)"

partial_function (option) Format_epm ::
    "'s DriveTrait \<Rightarrow> DrivePacket \<Rightarrow> u64 \<Rightarrow> u64 \<Rightarrow> u64 \<Rightarrow> u64 \<Rightarrow> u8 list \<Rightarrow> 's
     \<Rightarrow> (abort + 's \<times> DrivePacket) option" where
  "Format_epm drv pkt endLba outEpmLba prevStart cnt buf s =
     (if fPacketGood pkt then
        ebind (drive_in drv pkt outEpmLba buf s) (\<lambda>(s1, pkt1, bs).
          if bs ! 0 = 0 then
            let b = format_boot_block\<lparr>epm_LbaStart := (if prevStart \<noteq> 0 then outEpmLba else prevStart),
                      epm_LbaEnd := endLba, epm_NumBlocks := cnt\<rparr>
            in drive_out drv pkt1 outEpmLba (boot_block_bytes b) s1
          else
            Format_epm drv pkt1 endLba (outEpmLba + 512)
              (epm_LbaStart (boot_block_of bs) + epm_LbaEnd (boot_block_of bs)) (cnt + 1) bs s1)
      else Some (Inr (s, pkt)))"

text \<open>
  The literal \<open>kNeFSIdent\<close> has seven bytes but eight are compared and copied: \<open>ident8\<close> is the byte
  that follows it in memory. \<open>format_partition\<close> fills in a free partition block.
\<close>

definition kNeFSIdent :: "u8 \<Rightarrow> u8 list" where
  "kNeFSIdent ident8 = [0x20, 0x20, 0x4E, 0x65, 0x46, 0x53, 0, ident8]"

definition format_partition ::
    "u8 \<Rightarrow> u8 list \<Rightarrow> u64 \<Rightarrow> u64 \<Rightarrow> u8 list \<Rightarrow> abort + NFS_ROOT_PARTITION" where
  "format_partition ident8 part_name sectorCount diskSize fs_buf =
     (case obj_string_len part_name of
        Inl e \<Rightarrow> Inl e
      | Inr n \<Rightarrow>
          if 8 + n > length fs_buf then Inl OutOfBounds
          else
            let p1 = (partition_of fs_buf)\<lparr>part_Version := kNeFSVersionInteger\<rparr>;
                pb2 = splice 0 (kNeFSIdent ident8) (partition_bytes p1);
                p3 = partition_of (splice 8 (take n part_name) pb2)
            in Inr (p3\<lparr>part_Kind := kNeFSPartitionTypeStandard,
                       part_StartCatalog := kNeFSCatalogStartAddress,
                       part_Flags := kNeFSPartitionTypeStandard,
                       part_CatalogCount := sectorCount div 512,
                       part_SectorCount := sectorCount,
                       part_DiskSize := diskSize,
                       part_FreeCatalog := sectorCount div 512\<rparr>))"

partial_function (option) Format_loop ::
    "'s DriveTrait \<Rightarrow> 's DriveTrait \<Rightarrow> u8 \<Rightarrow> ('s \<Rightarrow> u64) \<Rightarrow> ('s \<Rightarrow> u64) \<Rightarrow> DrivePacket \<Rightarrow> u8 list \<Rightarrow> u64 \<Rightarrow> u8 list
     \<Rightarrow> 's nefs \<Rightarrow> (abort + 's nefs \<times> bool) option" where
  "Format_loop drv drvA ident8 sector_count disk_size pkt part_name start fs_buf st =
     (if fPacketGood pkt then
        if part_PartitionName (partition_of fs_buf) ! 0 = 0
           \<and> part_Ident (partition_of fs_buf) \<noteq> kNeFSIdent ident8 then
          ebind (Some (format_partition ident8 part_name (sector_count (disk st)) (disk_size (disk st)) fs_buf))
            (\<lambda>part_block.
          ebind (drive_out drv pkt kNeFSRootCatalogStartAddress (partition_bytes part_block) (disk st)) (\<lambda>(s1, pkt1).
          ebind (CreateCatalog drvA kNeFSRoot 0 kNeFSCatalogKindDir (st\<lparr>disk := s1\<rparr>)) (\<lambda>(st2, r).
            Some (Inr (st2, True)))))
        else
          let start' = start + part_DiskSize (partition_of fs_buf) in
          ebind (drive_in drv pkt start' fs_buf (disk st)) (\<lambda>(s1, pkt1, bs).
          Format_loop drv drvA ident8 sector_count disk_size pkt1 part_name start' bs (st\<lparr>disk := s1\<rparr>))
      else Some (Inr (st, False)))"

text \<open>
  \<open>drv\<close> is the drive being formatted, \<open>drvA\<close> the mounted drive \<open>CreateCatalog\<close> works on;
  \<open>sector_count\<close> and \<open>disk_size\<close> are the driver's \<open>drv_get_sector_count\<close> and \<open>drv_get_size\<close>.
\<close>

definition Format ::
    "'s DriveTrait \<Rightarrow> 's DriveTrait \<Rightarrow> u8 \<Rightarrow> ('s \<Rightarrow> u64) \<Rightarrow> ('s \<Rightarrow> u64) \<Rightarrow> u64 \<Rightarrow> u32 \<Rightarrow> u8 list
     \<Rightarrow> 's nefs \<Rightarrow> (abort + 's nefs \<times> bool) option" where
  "Format drv drvA ident8 sector_count disk_size endLba flags part_name st =
     (if part_name = [] then Some (Inl OutOfBounds)
      else if part_name ! 0 = 0 \<or> endLba = 0 then Some (Inr (st, False))
      else
        ebind (fVerify drv (fPacket drv) (disk st)) (\<lambda>(s1, pkt1).
          let pkt2 = pkt1\<lparr>fPacketMime := copy_name ''fs/nefs-packet'' (fPacketMime pkt1)\<rparr> in
          if \<not> fPacketGood pkt2 then Some (Inr (\<lparr>disk = s1, err_local = kErrorDiskIsCorrupted\<rparr>, False))
          else
            ebind (drive_in drv pkt2 kNeFSRootCatalogStartAddress zero_block s1) (\<lambda>(s3, pkt3, fs_buf).
            ebind (if flags AND kNeFSPartitionTypeBoot \<noteq> 0
                   then Format_epm drv pkt3 endLba 0 0 0 zero_block s3
                   else Some (Inr (s3, pkt3))) (\<lambda>(s4, pkt4).
            Format_loop drv drvA ident8 sector_count disk_size pkt4 part_name kNeFSRootCatalogStartAddress
              fs_buf (st\<lparr>disk := s4\<rparr>)))))"

section \<open>Mounting\<close>

definition fs_init_newfs ::
    "'d ports \<Rightarrow> 'd drv_state DriveTrait \<Rightarrow> u8 list \<Rightarrow> 'd drv_state
     \<Rightarrow> (abort + 'd drv_state \<times> 'd drv_state Mountpoint) option" where
  "fs_init_newfs P trait block_struct s =
     ebind (io_construct_main_drive P trait block_struct s) (\<lambda>(s1, a).
       Some (Inr (s1, \<lparr>mA = a, mB = io_construct_blank_drive trait,
                       mC = io_construct_blank_drive trait, mD = io_construct_blank_drive trait\<rparr>)))"

end
