(* ===== verification/NeFS_Create.thy ===== *)
theory NeFS_Create
  imports NeFS_Forks
begin

text \<open>
  What creating a catalog does to the catalog list. The list starts at the root catalog and goes
  on through slots spaced 2048 bytes apart, all created but the last one, which is free. Creating a
  file below the root fills that slot and links the next one, so that the shape is kept and the
  file is found afterwards.
\<close>

section \<open>The shape of the list\<close>

definition nefs_created :: "(u64 \<Rightarrow> u8 list) \<Rightarrow> u64 \<Rightarrow> bool" where
  "nefs_created blk a \<longleftrightarrow> cat_Flags (catalog_of (blk a)) AND kNeFSFlagCreated \<noteq> 0"

definition nefs_free :: "(u64 \<Rightarrow> u8 list) \<Rightarrow> u64 \<Rightarrow> bool" where
  "nefs_free blk a \<longleftrightarrow>
     \<not> nefs_created blk a \<and> cat_NextSibling (catalog_of (blk a)) \<le> kNeFSRootCatalogStartAddress
     \<and> (\<exists>n < 256. obj_string_len (blk a) = Inr n) \<and> obj_Equals kNeFSRoot (blk a) = Inr False"

definition nefs_slot :: "u64 \<Rightarrow> nat \<Rightarrow> u64" where
  "nefs_slot x i = x + 512 * 4 * of_nat i"

definition nefs_slots :: "u64 \<Rightarrow> u64 \<Rightarrow> nat \<Rightarrow> u64 list" where
  "nefs_slots r x k = r # map (nefs_slot x) [0..<k]"

text \<open>The list of a partition with the root at \<open>r\<close> and \<open>k\<close> catalogs below it.\<close>

definition nefs_wf :: "(u64 \<Rightarrow> u8 list) \<Rightarrow> u64 \<Rightarrow> u64 \<Rightarrow> nat \<Rightarrow> bool" where
  "nefs_wf blk r x k \<longleftrightarrow>
     nefs_list blk (nefs_slots r x (Suc k)) \<and> nefs_matches blk kNeFSRoot r
     \<and> cat_Kind (catalog_of (blk r)) \<noteq> kNeFSCatalogKindFile
     \<and> (\<forall>i < k. nefs_created blk (nefs_slot x i)) \<and> nefs_free blk (nefs_slot x k)"

text \<open>The partition block, the root and the slots do not overlap, the slot after the last included.\<close>

definition nefs_apart :: "(u64 \<Rightarrow> u64 \<Rightarrow> bool) \<Rightarrow> u64 \<Rightarrow> u64 \<Rightarrow> nat \<Rightarrow> bool" where
  "nefs_apart far r x k \<longleftrightarrow> sorted_wrt far (kNeFSRootCatalogStartAddress # nefs_slots r x (Suc (Suc k)))"

text \<open>The partition block once a catalog more is accounted for.\<close>

definition one_catalog_more :: "NFS_ROOT_PARTITION \<Rightarrow> NFS_ROOT_PARTITION" where
  "one_catalog_more p = p\<lparr>part_FreeSectors := part_FreeSectors p - 1,
     part_CatalogCount := part_CatalogCount p + 1, part_FreeCatalog := part_FreeCatalog p - 1\<rparr>"

lemma nefs_slot_Suc: "nefs_slot x (Suc i) = nefs_slot x i + 512 * 4"
  by (simp add: nefs_slot_def algebra_simps)

lemma nefs_slot_0: "nefs_slot x 0 = x"
  by (simp add: nefs_slot_def)

lemma nefs_slots_Suc: "nefs_slots r x (Suc k) = nefs_slots r x k @ [nefs_slot x k]"
  by (simp add: nefs_slots_def)

lemma obj_Equals_sym:
  "obj_Equals a b = Inr e \<Longrightarrow> obj_Equals b a = Inr e"
  by (auto simp: obj_Equals_def split: sum.splits if_splits simp: list_all_iff)

lemma obj_Equals_trans:
  assumes "obj_Equals a b = Inr True" and "obj_Equals b c = Inr e" shows "obj_Equals a c = Inr e"
proof -
  obtain la lb lc where l: "obj_string_len a = Inr la" "obj_string_len b = Inr lb" "obj_string_len c = Inr lc"
    using assms by (auto simp: obj_Equals_def split: sum.splits)
  with assms show ?thesis by (simp add: obj_Equals_eq)
qed

lemma chain_extend:
  assumes "sibling_chain blk (as @ [b])" and "\<forall>a \<in> set as. blk' a = blk a"
    and "cat_NextSibling (catalog_of (blk' b)) = c" and "kNeFSRootCatalogStartAddress < c"
    and "cat_NextSibling (catalog_of (blk' c)) \<le> kNeFSRootCatalogStartAddress"
  shows "sibling_chain blk' (as @ [b, c])"
  using assms by (induction as rule: induct_list012) auto

lemma chain_above:
  "sibling_chain blk (a # as) \<Longrightarrow> b \<in> set as \<Longrightarrow> kNeFSRootCatalogStartAddress < b"
  by (induction as arbitrary: a) auto

lemma chain_next: "sibling_chain blk (a # b # as) \<Longrightarrow> cat_NextSibling (catalog_of (blk a)) = b"
  by simp

section \<open>Creating below the root\<close>

lemma wf_catalog_zero [simp]: "wf_catalog catalog_zero"
  by (simp add: catalog_zero_def)

lemma child_catalog_wf:
  "n \<le> 256 \<Longrightarrow> n < length name \<Longrightarrow> wf_catalog (child_catalog name n flags kind lba)"
  using wf_catalog_zero by (simp add: child_catalog_def wf_catalog_def)

lemma child_catalog_created:
  "cat_Flags (child_catalog name n flags kind lba) AND kNeFSFlagCreated \<noteq> 0"
proof -
  have "bit (cat_Flags (child_catalog name n flags kind lba) AND kNeFSFlagCreated) 0"
    by (simp add: child_catalog_def bit_simps nefs_consts bit_numeral_rec)
  then show ?thesis by auto
qed

lemma catalog_zero_name: "cat_Name catalog_zero = replicate 256 0"
  by (simp add: catalog_zero_def catalog_of_def bytes_at_def)

lemma child_catalog_named:
  assumes "obj_string_len name = Inr n" and "n < 256"
    and "cat_Name c = cat_Name (child_catalog name n flags kind lba)"
  shows "obj_string_len (catalog_bytes c) = Inr n" and "obj_Equals name (catalog_bytes c) = Inr True"
proof -
  have n: "n < length name" using assms(1) by (simp add: obj_string_len_iff)
  obtain rest where "catalog_bytes c = cat_Name c @ rest" by (simp add: catalog_bytes_def)
  then have pre: "catalog_bytes c = take n name @ 0 # replicate (255 - n) 0 @ rest"
    using assms(2,3) n replicate_pos [of "256 - n" "0 :: u8"]
    by (simp add: child_catalog_def catalog_zero_name)
  have nth: "catalog_bytes c ! i = name ! i" if "i < n" for i
    using that n by (subst pre) (simp add: nth_append)
  have "catalog_bytes c ! n = 0" using n by (subst pre) (simp add: nth_append)
  moreover have "n < length (catalog_bytes c)" using n by (subst pre) simp
  ultimately show len: "obj_string_len (catalog_bytes c) = Inr n"
    using assms(1) nth by (auto simp: obj_string_len_iff)
  have "take n (catalog_bytes c) = take n name" using n by (subst pre) simp
  then show "obj_Equals name (catalog_bytes c) = Inr True"
    using obj_Equals_eq [OF assms(1) len] by simp
qed

context nefs_drive
begin

lemma create_loop:
  assumes "ok s" and "fPacketGood pkt" and "i \<le> k"
    and "\<forall>j. i \<le> j \<and> j < k \<longrightarrow> nefs_created (block s) (nefs_slot x j)
                         \<and> obj_Equals (block s (nefs_slot x j)) name = Inr False"
    and "\<forall>j. i \<le> j \<and> j \<le> k \<longrightarrow> kNeFSRootCatalogStartAddress < nefs_slot x j"
    and "\<not> nefs_created (block s) (nefs_slot x k)"
  shows "\<exists>s' pkt'. CreateCatalog_loop drv pkt name parent child (nefs_slot x i) (block s (nefs_slot x i)) s =
       CreateCatalog_store drv pkt' parent (catalog_of (block s (nefs_slot x k))) child (nefs_slot x k) s'
     \<and> ok s' \<and> block s' = block s \<and> fPacketGood pkt'"
  using assms
proof (induction "k - i" arbitrary: i pkt s)
  case 0
  then have "i = k" and "\<not> nefs_slot x k \<le> kNeFSRootCatalogStartAddress" by (auto simp: not_le)
  with 0 show ?case by (subst CreateCatalog_loop.simps) (auto simp: Let_def nefs_created_def)
next
  case (Suc d)
  then have i: "i < k" by simp
  obtain s1 pkt1 where in1: "drive_in drv pkt (nefs_slot x (Suc i)) (block s (nefs_slot x i)) s =
      Some (Inr (s1, pkt1, block s (nefs_slot x (Suc i))))" "ok s1" "block s1 = block s" "fPacketGood pkt1"
    using drive_in_block [OF Suc.prems(1) length_block [OF Suc.prems(1)] Suc.prems(2)] by blast
  have "CreateCatalog_loop drv pkt name parent child (nefs_slot x i) (block s (nefs_slot x i)) s =
      CreateCatalog_loop drv pkt1 name parent child (nefs_slot x (Suc i)) (block s1 (nefs_slot x (Suc i))) s1"
    using Suc.prems i in1
    by (subst CreateCatalog_loop.simps) (auto simp: Let_def nefs_created_def nefs_slot_Suc not_le)
  moreover have "\<exists>s' pkt'. CreateCatalog_loop drv pkt1 name parent child (nefs_slot x (Suc i)) (block s1 (nefs_slot x (Suc i))) s1 =
       CreateCatalog_store drv pkt' parent (catalog_of (block s1 (nefs_slot x k))) child (nefs_slot x k) s'
     \<and> ok s' \<and> block s' = block s1 \<and> fPacketGood pkt'"
    using Suc.prems Suc.hyps(2) in1 i by (intro Suc.hyps(1)) auto
  ultimately show ?case using in1(3) by simp
qed

lemma create_store:
  assumes "ok s" and "fPacketGood pkt" and "far a kNeFSRootCatalogStartAddress" and "wf_catalog child"
    and "obj_Equals parent (block s a) = Inr False"
    and "1 \<le> part_FreeCatalog (partition_of (block s kNeFSRootCatalogStartAddress))"
  shows "\<exists>s' c. CreateCatalog_store drv pkt parent (catalog_of (block s a)) child a s = Some (Inr (s', Some c))
     \<and> ok s' \<and> block s' a = catalog_bytes c \<and> wf_catalog c
     \<and> c = child\<lparr>cat_DataFork := cat_DataFork c, cat_ResourceFork := cat_DataFork c, cat_NextSibling := a + 512 * 4\<rparr>
     \<and> (let p = partition_of (block s kNeFSRootCatalogStartAddress) in
        cat_DataFork c = part_DiskSize p - a \<and>
        block s' kNeFSRootCatalogStartAddress =
          partition_bytes (one_catalog_more p))
     \<and> (\<forall>b. far b a \<longrightarrow> far b kNeFSRootCatalogStartAddress \<longrightarrow> block s' b = block s b)"
proof -
  let ?root = "kNeFSRootCatalogStartAddress"
  let ?p = "partition_of (block s ?root)"
  let ?p' = "one_catalog_more ?p"
  define c where "c = child\<lparr>cat_DataFork := part_DiskSize ?p - a, cat_ResourceFork := part_DiskSize ?p - a,
                         cat_NextSibling := a + 512 * 4\<rparr>"
  have wf: "wf_catalog c" using assms(4) by (simp add: c_def wf_catalog_def)
  have len: "length (block s b) = 512" for b using assms(1) by (rule length_block)
  have wfp: "length (partition_bytes ?p') = 512"
    using wf_structs(3) [OF len] by (simp add: wf_partition_def one_catalog_more_def)
  obtain s1 pkt1 where in1: "drive_in drv pkt ?root zero_block s = Some (Inr (s1, pkt1, block s ?root))"
    "ok s1" "block s1 = block s" "fPacketGood pkt1"
    using drive_in_block [OF assms(1), of zero_block pkt ?root] assms(2) by auto
  obtain s2 pkt2 where out2: "drive_out drv pkt1 a (catalog_bytes c) s1 = Some (Inr (s2, pkt2))"
    "ok s2" "block s2 a = catalog_bytes c" "\<forall>b. far b a \<longrightarrow> block s2 b = block s b" "fPacketGood pkt2"
    using drive_out_block [OF in1(2) length_structs(1) [OF wf] in1(4), of a] in1(3) by auto
  have root2: "block s2 ?root = block s ?root" using out2(4) assms(3) far_sym by blast
  obtain s3 pkt3 where in3: "drive_in drv pkt2 ?root (block s ?root) s2 = Some (Inr (s3, pkt3, block s ?root))"
    "ok s3" "block s3 = block s2" "fPacketGood pkt3"
    using drive_in_block [OF out2(2) len [of ?root] out2(5), of ?root] root2 by auto
  obtain s4 pkt4 where out4: "drive_out drv pkt3 ?root (partition_bytes ?p') s3 = Some (Inr (s4, pkt4))"
    "ok s4" "block s4 ?root = partition_bytes ?p'" "\<forall>b. far b ?root \<longrightarrow> block s4 b = block s3 b"
    using drive_out_block [OF in3(2) wfp in3(4), of ?root] by auto
  have "CreateCatalog_store drv pkt parent (catalog_of (block s a)) child a s = Some (Inr (s4, Some c))"
    using assms(5,6) in1(1) out2(1) in3(1) out4(1) len
    by (auto simp: CreateCatalog_store_def Let_def c_def not_less one_catalog_more_def)
  moreover have "block s4 a = catalog_bytes c" using out4(4) assms(3) in3(3) out2(3) by auto
  ultimately show ?thesis
    using wf out4 in3(3) out2(4) by (auto simp: Let_def c_def intro!: exI [of _ s4] exI [of _ c])
qed

text \<open>The search for a name that is below the root, in terms of the list.\<close>

lemma find_file:
  assumes "ok s" and "nefs_wf (block s) r x k" and "obj_Equals name kNeFSRoot = Inr False"
    and "parent_name name = Inr parent" and "obj_Equals parent kNeFSRoot = Inr True"
  shows "\<exists>s'. FindCatalog drv name s = Some (Inr (s', nefs_lookup (block s) (nefs_slots r x (Suc k)) name))
     \<and> ok s' \<and> block s' = block s"
proof -
  have "nefs_matches (block s) parent r"
    using assms(2) obj_Equals_trans [OF assms(5)] by (auto simp: nefs_wf_def nefs_matches_def)
  then have "nefs_lookup (block s) (nefs_slots r x (Suc k)) parent \<noteq> None"
    by (simp add: nefs_lookup_def nefs_slots_def)
  with assms show ?thesis by (intro find_under_root) (auto simp: nefs_wf_def)
qed

lemma find_parent:
  assumes "ok s" and "nefs_wf (block s) r x k" and "obj_Equals parent kNeFSRoot = Inr True"
  shows "\<exists>s'. FindCatalog drv parent s = Some (Inr (s', Some (catalog_of (block s r), r)))
     \<and> ok s' \<and> block s' = block s"
proof -
  have "nefs_matches (block s) parent r"
    using assms(2) obj_Equals_trans [OF assms(3)] by (auto simp: nefs_wf_def nefs_matches_def)
  then have "nefs_lookup (block s) (nefs_slots r x (Suc k)) parent = Some (catalog_of (block s r), r)"
    by (simp add: nefs_lookup_def nefs_slots_def)
  with find_root [OF assms(1) _ assms(3), of "nefs_slots r x (Suc k)"] assms(2) show ?thesis
    by (simp add: nefs_wf_def)
qed

lemma create_under:
  assumes "ok s" and wf: "nefs_wf (block s) r x k" and par: "obj_Equals parent kNeFSRoot = Inr True"
    and name: "obj_string_len name = Inr n" "n < 256"
    and new: "nefs_lookup (block s) (nefs_slots r x (Suc k)) name = None"
    and apart: "far (nefs_slot x k) kNeFSRootCatalogStartAddress"
    and free: "1 \<le> part_FreeCatalog (partition_of (block s kNeFSRootCatalogStartAddress))"
  shows "\<exists>s' c. CreateCatalog_under drv name n parent flags kind s = Some (Inr (s', Some c))
     \<and> ok s' \<and> block s' (nefs_slot x k) = catalog_bytes c \<and> wf_catalog c
     \<and> c = (child_catalog name n flags kind r)\<lparr>cat_DataFork := cat_DataFork c, cat_ResourceFork := cat_DataFork c,
             cat_NextSibling := nefs_slot x (Suc k)\<rparr>
     \<and> (let p = partition_of (block s kNeFSRootCatalogStartAddress) in
        cat_DataFork c = part_DiskSize p - nefs_slot x k \<and>
        block s' kNeFSRootCatalogStartAddress =
          partition_bytes (one_catalog_more p))
     \<and> (\<forall>b. far b (nefs_slot x k) \<longrightarrow> far b kNeFSRootCatalogStartAddress \<longrightarrow> block s' b = block s b)"
proof -
  let ?k = "nefs_slot x k" and ?child = "child_catalog name n flags kind r"
  have chain: "sibling_chain (block s) (r # map (nefs_slot x) [0..<Suc k])"
    and str: "\<forall>i < Suc k. \<exists>n < 256. obj_string_len (block s (nefs_slot x i)) = Inr n"
    using wf by (fastforce simp: nefs_wf_def nefs_list_def nefs_slots_def list_all_iff simp del: upt_Suc)+
  have x: "cat_NextSibling (catalog_of (block s r)) = nefs_slot x 0"
    using chain by (simp add: upt_conv_Cons del: upt_Suc)
  have above: "kNeFSRootCatalogStartAddress < nefs_slot x j" if "j \<le> k" for j
    using chain_above [OF chain, of "nefs_slot x j"] that by (simp del: upt_Suc)
  have old: "nefs_created (block s) (nefs_slot x j) \<and> obj_Equals (block s (nefs_slot x j)) name = Inr False"
    if j: "j < k" for j
  proof -
    have cr: "nefs_created (block s) (nefs_slot x j)" using wf j by (simp add: nefs_wf_def)
    have "nefs_slot x j \<in> set (nefs_slots r x (Suc k))" using j by (simp add: nefs_slots_def)
    then have "\<not> nefs_matches (block s) name (nefs_slot x j)"
      using new by (auto simp: nefs_lookup_def find_None_iff)
    then have "obj_Equals name (block s (nefs_slot x j)) \<noteq> Inr True"
      using cr by (simp add: nefs_matches_def nefs_created_def)
    moreover obtain e where "obj_Equals name (block s (nefs_slot x j)) = Inr e"
      using str j obj_Equals_total [OF name(1)] by (meson less_Suc_eq)
    ultimately have "obj_Equals name (block s (nefs_slot x j)) = Inr False" by (cases e) simp_all
    with cr show ?thesis by (blast dest: obj_Equals_sym)
  qed
  obtain s1 where par1: "FindCatalog drv parent s = Some (Inr (s1, Some (catalog_of (block s r), r)))"
    "ok s1" "block s1 = block s" using find_parent [OF assms(1) wf par] by blast
  let ?pkt = "(fPacket drv)\<lparr>fPacketMime := copy_name ''fs/nefs-packet'' (fPacketMime (fPacket drv))\<rparr>"
  obtain s2 pkt2 where in2: "drive_in drv ?pkt r zero_block s1 = Some (Inr (s2, pkt2, block s r))"
    "ok s2" "block s2 = block s" "fPacketGood pkt2"
    using drive_in_block [OF par1(2), of zero_block ?pkt r] par1(3) good by auto
  obtain s3 pkt3 where in3: "drive_in drv pkt2 (nefs_slot x 0) (block s r) s2 = Some (Inr (s3, pkt3, block s (nefs_slot x 0)))"
    "ok s3" "block s3 = block s" "fPacketGood pkt3"
    using drive_in_block [OF in2(2) length_block [OF assms(1), of r] in2(4), of "nefs_slot x 0"] in2(3) by auto
  obtain s4 pkt4 where loop: "CreateCatalog_loop drv pkt3 name parent ?child (nefs_slot x 0) (block s (nefs_slot x 0)) s3 =
       CreateCatalog_store drv pkt4 parent (catalog_of (block s ?k)) ?child ?k s4"
    "ok s4" "block s4 = block s" "fPacketGood pkt4"
    using create_loop [OF in3(2,4), of 0 k x name parent ?child] old above in3(3) wf
    by (auto simp: nefs_wf_def nefs_free_def)
  have "CreateCatalog_under drv name n parent flags kind s =
      CreateCatalog_store drv pkt4 parent (catalog_of (block s4 ?k)) ?child ?k s4"
    using wf par1(1) in2(1) in3(1) loop(1,3) x
    by (simp add: CreateCatalog_under_def Let_def nefs_wf_def)
  moreover have "obj_Equals parent (block s4 ?k) = Inr False"
    using wf obj_Equals_trans [OF par] loop(3) by (auto simp: nefs_wf_def nefs_free_def)
  moreover have "wf_catalog ?child"
    using name by (intro child_catalog_wf) (auto simp: obj_string_len_iff)
  ultimately show ?thesis
    using create_store [OF loop(2,4) apart, of ?child parent] free loop(3) by (simp add: nefs_slot_Suc)
qed

end

text \<open>The effect of filling the free slot on the list: it is extended, and only the new name is added.\<close>

lemma slots_after_create:
  assumes wf: "nefs_wf blk r x k"
    and same: "\<forall>b \<in> set (nefs_slots r x k). blk' b = blk b" "blk' (nefs_slot x (Suc k)) = blk (nefs_slot x (Suc k))"
    and c: "blk' (nefs_slot x k) = catalog_bytes c" "wf_catalog c" "cat_NextSibling c = nefs_slot x (Suc k)"
      "cat_Flags c AND kNeFSFlagCreated \<noteq> 0" "\<exists>n < 256. obj_string_len (catalog_bytes c) = Inr n"
    and start: "part_StartCatalog (partition_of (blk' kNeFSRootCatalogStartAddress))
              = part_StartCatalog (partition_of (blk kNeFSRootCatalogStartAddress))"
    and free: "nefs_free blk (nefs_slot x (Suc k))" "kNeFSRootCatalogStartAddress < nefs_slot x (Suc k)"
  shows "nefs_wf blk' r x (Suc k)"
proof -
  let ?a = "nefs_slot x k" and ?b = "nefs_slot x (Suc k)"
  have list: "nefs_list blk (nefs_slots r x k @ [?a])" using wf by (simp add: nefs_wf_def nefs_slots_Suc)
  have "sibling_chain blk' (nefs_slots r x k @ [?a, ?b])"
    using list same c free by (intro chain_extend) (auto simp: nefs_list_def nefs_free_def)
  moreover have "hd (nefs_slots r x k @ [?a, ?b]) = hd (nefs_slots r x k @ [?a])" by (simp add: nefs_slots_def)
  moreover have "list_all (\<lambda>a. \<exists>n < 256. obj_string_len (blk' a) = Inr n) (nefs_slots r x k @ [?a, ?b])"
    using list same c free by (simp add: nefs_list_def list_all_iff nefs_free_def)
  ultimately have "nefs_list blk' (nefs_slots r x (Suc (Suc k)))"
    using list start by (simp add: nefs_list_def nefs_slots_Suc)
  moreover have "blk' r = blk r" "\<forall>i < k. blk' (nefs_slot x i) = blk (nefs_slot x i)"
    using same(1) by (auto simp: nefs_slots_def)
  moreover have "nefs_created blk' (nefs_slot x i)" if "i < Suc k" for i
    using that wf c calculation(3) by (cases "i = k") (auto simp: nefs_created_def nefs_wf_def)
  moreover have "nefs_free blk' ?b" using free(1) same(2) by (simp add: nefs_free_def nefs_created_def)
  ultimately show ?thesis using wf by (simp add: nefs_wf_def nefs_matches_def)
qed

lemma lookup_after_create:
  assumes wf: "nefs_wf blk r x k"
    and same: "\<forall>b \<in> set (nefs_slots r x k). blk' b = blk b" "blk' (nefs_slot x (Suc k)) = blk (nefs_slot x (Suc k))"
    and c: "blk' (nefs_slot x k) = catalog_bytes c" "wf_catalog c" "cat_Flags c AND kNeFSFlagCreated \<noteq> 0"
    and free: "nefs_free blk (nefs_slot x (Suc k))"
  shows "nefs_lookup blk' (nefs_slots r x (Suc (Suc k))) q =
    (case nefs_lookup blk (nefs_slots r x (Suc k)) q of
       Some found \<Rightarrow> Some found
     | None \<Rightarrow> if obj_Equals q (catalog_bytes c) = Inr True then Some (c, nefs_slot x k) else None)"
proof -
  let ?a = "nefs_slot x k" and ?b = "nefs_slot x (Suc k)"
  have m: "nefs_matches blk' q b = nefs_matches blk q b" "catalog_of (blk' b) = catalog_of (blk b)"
    if "b \<in> set (nefs_slots r x k)" for b
    using that same(1) by (simp_all add: nefs_matches_def)
  have ma: "nefs_matches blk' q ?a = (obj_Equals q (catalog_bytes c) = Inr True)"
    using c by (simp add: nefs_matches_def)
  have "\<not> nefs_matches blk q ?a" "\<not> nefs_matches blk' q ?b"
    using wf free same(2) by (simp_all add: nefs_matches_def nefs_wf_def nefs_free_def nefs_created_def)
  moreover have "find (nefs_matches blk' q) (nefs_slots r x k) = find (nefs_matches blk q) (nefs_slots r x k)"
    using m(1) by (rule find_cong [OF refl])
  moreover have "find P (as @ bs) = (case find P as of None \<Rightarrow> find P bs | Some y \<Rightarrow> Some y)"
    for P and as bs :: "u64 list" by (induction as) simp_all
  moreover have "catalog_of (blk' y) = catalog_of (blk y)"
    if "find (nefs_matches blk q) (nefs_slots r x k) = Some y" for y
    using that m(2) by (auto simp: find_Some_iff)
  ultimately show ?thesis
    using ma c by (auto simp: nefs_lookup_def nefs_slots_Suc split: option.splits)
qed

section \<open>Files below the root\<close>

text \<open>The path of a file below the root, whose name has at least two characters.\<close>

definition root_file_path :: "u8 list \<Rightarrow> bool" where
  "root_file_path name \<longleftrightarrow>
     (\<exists>leaf rest. name = Separator # leaf @ 0 # rest \<and> 0 \<notin> set leaf \<and> Separator \<notin> set leaf
                 \<and> 2 \<le> length leaf \<and> length leaf < 255)"

lemma root_path_len: "obj_string_len (0x2F # 0 # rest) = Inr 1"
  using obj_string_len_path [of "[0x2F]" rest] by simp

lemma root_path_equals: "obj_Equals (0x2F # replicate 255 0) kNeFSRoot = Inr True"
proof -
  have "0x2F # replicate 255 (0 :: u8) = 0x2F # 0 # replicate 254 0" by (simp add: replicate_pos)
  then show ?thesis
    using obj_Equals_eq [OF root_path_len [of "replicate 254 0"], of "[0x2F, 0]" 1] root_path_len [of "[]"]
    by (simp add: kNeFSRoot_def)
qed

lemma root_file_path:
  assumes "root_file_path name"
  shows "\<exists>n buf parent. obj_string_len name = Inr n \<and> n < 256 \<and> name ! (n - 1) \<noteq> Separator
     \<and> obj_Equals name kNeFSRoot = Inr False
     \<and> parent_copy name = Inr buf \<and> buf ! 0 \<noteq> 0 \<and> parent_strip buf = Inr parent \<and> parent_name name = Inr parent
     \<and> obj_Equals parent kNeFSRoot = Inr True"
proof -
  obtain leaf rest where name: "name = Separator # leaf @ 0 # rest" and leaf: "0 \<notin> set leaf"
    "Separator \<notin> set leaf" "2 \<le> length leaf" "length leaf < 255"
    using assms by (auto simp: root_file_path_def)
  have sep: "Separator \<noteq> 0" by (simp add: Separator_def)
  have len: "obj_string_len name = Inr (Suc (length leaf))"
    using obj_string_len_path [of "Separator # leaf" rest] leaf sep by (simp add: name)
  have copy: "parent_copy name = Inr (Separator # leaf @ replicate (255 - length leaf) 0)"
    using parent_copy_path [of "Separator # leaf" rest] leaf sep by (simp add: name)
  have par: "parent_name name = Inr (0x2F # replicate 255 0)"
    using parent_name_path [of "[]" leaf "[]" rest] leaf by (simp add: name Separator_def)
  have "last leaf \<in> set leaf" using leaf(3) by (intro last_in_set) auto
  then have "leaf ! (length leaf - 1) \<noteq> Separator"
    using leaf by (metis last_conv_nth length_0_conv not_numeral_le_zero)
  then have end_sep: "name ! length leaf \<noteq> Separator"
    using leaf(3) by (cases leaf) (auto simp: name nth_append nth_Cons' split: if_splits)
  have "take (Suc (length leaf)) name \<noteq> take 1 kNeFSRoot"
    using leaf(3) by (auto simp: name kNeFSRoot_def)
  then have "obj_Equals name kNeFSRoot = Inr False"
    using obj_Equals_eq [OF len, of kNeFSRoot 1] root_path_len [of "[]"] by (simp add: kNeFSRoot_def)
  with len copy par leaf end_sep sep root_path_equals show ?thesis by (simp add: parent_name_def)
qed

context nefs_drive
begin

lemma create_file:
  assumes ok: "ok (disk st)" and wf: "nefs_wf (block (disk st)) r x k" and apart: "nefs_apart far r x k"
    and name: "root_file_path name"
    and new: "nefs_lookup (block (disk st)) (nefs_slots r x (Suc k)) name = None"
    and free: "1 \<le> part_FreeCatalog (partition_of (block (disk st) kNeFSRootCatalogStartAddress))"
      "nefs_free (block (disk st)) (nefs_slot x (Suc k))" "kNeFSRootCatalogStartAddress < nefs_slot x (Suc k)"
  shows "\<exists>st' c. CreateCatalog_file drv name st = Some (Inr (st', Some c))
     \<and> ok (disk st') \<and> err_local st' = err_local st
     \<and> cat_Kind c = kNeFSCatalogKindFile \<and> obj_Equals name (catalog_bytes c) = Inr True
     \<and> nefs_wf (block (disk st')) r x (Suc k)
     \<and> (\<forall>q. nefs_lookup (block (disk st')) (nefs_slots r x (Suc (Suc k))) q =
            (case nefs_lookup (block (disk st)) (nefs_slots r x (Suc k)) q of
               Some found \<Rightarrow> Some found
             | None \<Rightarrow> if obj_Equals q (catalog_bytes c) = Inr True then Some (c, nefs_slot x k) else None))
     \<and> partition_of (block (disk st') kNeFSRootCatalogStartAddress) =
         one_catalog_more (partition_of (block (disk st) kNeFSRootCatalogStartAddress))"
proof -
  let ?s = "disk st" and ?root = "kNeFSRootCatalogStartAddress" and ?a = "nefs_slot x k"
  obtain n buf parent where n: "obj_string_len name = Inr n" "n < 256" "name ! (n - 1) \<noteq> Separator"
    and nr: "obj_Equals name kNeFSRoot = Inr False" and copy: "parent_copy name = Inr buf" "buf ! 0 \<noteq> 0"
    and par: "parent_strip buf = Inr parent" "parent_name name = Inr parent" "obj_Equals parent kNeFSRoot = Inr True"
    using root_file_path [OF name] by auto
  obtain s1 where find1: "FindCatalog drv name ?s = Some (Inr (s1, None))" "ok s1" "block s1 = block ?s"
    using find_file [OF ok wf nr par(2,3)] new by auto
  have far_a: "far ?a ?root" and far_b: "\<forall>b \<in> set (nefs_slots r x k). far b ?a \<and> far b ?root"
    "far (nefs_slot x (Suc k)) ?a" "far (nefs_slot x (Suc k)) ?root"
    using apart far_sym by (auto simp: nefs_apart_def nefs_slots_Suc sorted_wrt_append)
  obtain s2 c where create: "CreateCatalog_under drv name n parent 0 kNeFSCatalogKindFile s1 = Some (Inr (s2, Some c))"
    "ok s2" "block s2 ?a = catalog_bytes c" "wf_catalog c"
    "c = (child_catalog name n 0 kNeFSCatalogKindFile r)\<lparr>cat_DataFork := cat_DataFork c,
        cat_ResourceFork := cat_DataFork c, cat_NextSibling := nefs_slot x (Suc k)\<rparr>"
    "block s2 ?root = partition_bytes (one_catalog_more (partition_of (block ?s ?root)))"
    "\<forall>b. far b ?a \<longrightarrow> far b ?root \<longrightarrow> block s2 b = block ?s b"
    using create_under [OF find1(2) _ par(3) n(1,2) _ far_a, of r 0 kNeFSCatalogKindFile] wf new free(1) find1(3)
    by (auto simp: Let_def)
  have "CreateCatalog_file drv name st = Some (Inr (st\<lparr>disk := s2\<rparr>, Some c))"
    using n nr find1(1) copy par create(1)
    by (simp add: CreateCatalog_file_def CreateCatalog_def nefs_consts)
  moreover have "wf_partition (one_catalog_more (partition_of (block ?s ?root)))"
    using wf_structs(3) [OF length_block [OF ok]] by (simp add: wf_partition_def one_catalog_more_def)
  moreover have c: "cat_Name c = cat_Name (child_catalog name n 0 kNeFSCatalogKindFile r)"
    "cat_Kind c = kNeFSCatalogKindFile" "cat_NextSibling c = nefs_slot x (Suc k)"
    "cat_Flags c AND kNeFSFlagCreated \<noteq> 0"
    using child_catalog_created [of name n 0 kNeFSCatalogKindFile r]
    by (subst create(5); simp add: child_catalog_def)+
  moreover have named: "obj_string_len (catalog_bytes c) = Inr n" "obj_Equals name (catalog_bytes c) = Inr True"
    using child_catalog_named [OF n(1,2) c(1)] by auto
  moreover have same: "\<forall>b \<in> set (nefs_slots r x k). block s2 b = block ?s b"
    "block s2 (nefs_slot x (Suc k)) = block ?s (nefs_slot x (Suc k))"
    using create(7) far_b by auto
  moreover have "nefs_wf (block s2) r x (Suc k)"
    using slots_after_create [OF wf same create(3,4) c(3,4) _ _ free(2,3)] named(1) n(2) create(6) calculation(2)
    by (auto simp: one_catalog_more_def)
  ultimately show ?thesis
    using create lookup_after_create [OF wf same create(3,4) c(4) free(2)] by simp
qed

end

end
