(* ===== verification/NeFS_Correct.thy ===== *)
theory NeFS_Correct
  imports NeFS_Create
begin

text \<open>
  The properties of the file system on the ATA drive, and a small formatted disk on which they are
  applied: the partition block in sector 2, the root catalog in sector 5 and one file in sector 9.
\<close>

section \<open>Removal\<close>

lemma sorted_wrt_pair: "sorted_wrt P xs \<Longrightarrow> a \<in> set xs \<Longrightarrow> b \<in> set xs \<Longrightarrow> a \<noteq> b \<Longrightarrow> P a b \<or> P b a"
  by (induction xs) auto

text \<open>The partition block once a catalog is removed.\<close>

definition one_catalog_less :: "NFS_ROOT_PARTITION \<Rightarrow> NFS_ROOT_PARTITION" where
  "one_catalog_less p = p\<lparr>part_CatalogCount := part_CatalogCount p - 1, part_FreeSectors := part_FreeSectors p + 1\<rparr>"

context nefs_drive
begin

lemma remove_then_find:
  assumes ok: "ok (disk st)" and wf: "nefs_wf (block (disk st)) r x k" and apart: "nefs_apart far r x k"
    and name: "root_file_path name"
    and found: "nefs_lookup (block (disk st)) (nefs_slots r x (Suc k)) name = Some (c, a)"
  shows "\<exists>st' s'. RemoveCatalog drv (Some name) st = Some (Inr (st', True))
     \<and> FindCatalog drv name (disk st') = Some (Inr (s', Some (c\<lparr>cat_Flags := cat_Flags c OR kNeFSFlagDeleted\<rparr>, a)))
     \<and> partition_of (block (disk st') kNeFSRootCatalogStartAddress) =
         one_catalog_less (partition_of (block (disk st) kNeFSRootCatalogStartAddress))"
proof -
  let ?s = "disk st" and ?root = "kNeFSRootCatalogStartAddress" and ?as = "nefs_slots r x (Suc k)"
  let ?fl = "cat_Flags c OR kNeFSFlagDeleted"
  obtain n buf parent where nr: "obj_Equals name kNeFSRoot = Inr False"
    and par: "parent_name name = Inr parent" "obj_Equals parent kNeFSRoot = Inr True"
    using root_file_path [OF name] by auto
  have list: "nefs_list (block ?s) ?as" using wf by (simp add: nefs_wf_def)
  have a: "a \<in> set ?as" "c = catalog_of (block ?s a)" "nefs_matches (block ?s) name a"
    using found by (auto simp: nefs_lookup_def find_Some_iff)
  have sub: "set ?as \<subseteq> set (nefs_slots r x (Suc (Suc k)))" by (auto simp: nefs_slots_Suc)
  have far: "far b ?root" if "b \<in> set ?as" for b
    using apart that sub far_sym by (auto simp: nefs_apart_def)
  have far2: "far b a" if "b \<in> set ?as" "b \<noteq> a" for b
    using apart that sub a(1) far_sym sorted_wrt_pair [of far "nefs_slots r x (Suc (Suc k))" a b]
    by (auto simp: nefs_apart_def)
  obtain s1 where "FindCatalog drv name ?s = Some (Inr (s1, Some (c, a)))"
    using find_file [OF ok wf nr par] found by auto
  then obtain st' where rem: "RemoveCatalog drv (Some name) st = Some (Inr (st', True))" "ok (disk st')"
    "block (disk st') a = catalog_bytes ((catalog_of (block ?s a))\<lparr>cat_Flags := ?fl\<rparr>)"
    "block (disk st') ?root = partition_bytes (one_catalog_less (partition_of (block ?s ?root)))"
    "\<forall>b. far b a \<longrightarrow> far b ?root \<longrightarrow> block (disk st') b = block ?s b"
    using remove_found [OF ok nr] far [OF a(1)] a(2)
    by (auto simp: Let_def one_catalog_less_def)
  have "wf_partition (one_catalog_less (partition_of (block ?s ?root)))"
    using wf_structs(3) [OF length_block [OF ok]] by (simp add: wf_partition_def one_catalog_less_def)
  then have part: "partition_of (block (disk st') ?root) = one_catalog_less (partition_of (block ?s ?root))"
    using rem(4) by simp
  note after = list_after_flags [where blk' = "block (disk st')" and a = a, OF list length_block [OF ok] rem(3)]
  have rest: "\<forall>b \<in> set ?as. b \<noteq> a \<longrightarrow> block (disk st') b = block ?s b" using rem(5) far far2 by blast
  have start: "part_StartCatalog (partition_of (block (disk st') ?root)) = part_StartCatalog (partition_of (block ?s ?root))"
    by (simp add: part one_catalog_less_def)
  have same: "nefs_matches (block (disk st')) q b = nefs_matches (block ?s) q b" if b: "b \<in> set ?as" for q b
  proof -
    have eq: "obj_Equals q (block (disk st') b) = obj_Equals q (block ?s b)"
      and fl: "cat_Flags (catalog_of (block (disk st') b)) = (if b = a then ?fl else cat_Flags (catalog_of (block ?s b)))"
      using after [OF rest start, of q] b by blast+
    show ?thesis
    proof (cases "b = a")
      case True
      have "cat_Flags (catalog_of (block ?s a)) AND kNeFSFlagCreated \<noteq> 0" using a(3) by (simp add: nefs_matches_def)
      with True eq fl deleted_still_created [of "cat_Flags c"] show ?thesis by (simp add: nefs_matches_def)
    next
      case False
      with eq fl show ?thesis by (simp add: nefs_matches_def)
    qed
  qed
  have match: "nefs_lookup (block (disk st')) ?as q =
      map_option (\<lambda>b. (catalog_of (block (disk st') b), b)) (find (nefs_matches (block ?s) q) ?as)" for q
  proof -
    have "find (nefs_matches (block (disk st')) q) ?as = find (nefs_matches (block ?s) q) ?as"
      using same by (rule find_cong [OF refl])
    then show ?thesis by (simp only: nefs_lookup_def)
  qed
  have "nefs_lookup (block (disk st')) ?as name = Some (c\<lparr>cat_Flags := ?fl\<rparr>, a)"
    using found match [of name] rem(3) a(2) wf_structs(1) [OF length_block [OF ok, of a]]
    by (auto simp: nefs_lookup_def wf_catalog_def)
  moreover have "nefs_matches (block ?s) parent r"
    using wf obj_Equals_trans [OF par(2)] by (auto simp: nefs_wf_def nefs_matches_def)
  then have "nefs_lookup (block (disk st')) ?as parent \<noteq> None"
    using match [of parent] by (simp add: nefs_slots_def)
  ultimately show ?thesis
    using find_under_root [OF rem(2) _ nr par, of ?as] after [OF rest start, of name] rem(1) part by auto
qed

end

section \<open>A formatted disk\<close>

fun disk_words :: "(nat \<times> u8 list) list \<Rightarrow> nat \<Rightarrow> u16" where
  "disk_words [] w = 0"
| "disk_words ((sec, bs) # rest) w =
     (if 256 * sec \<le> w \<and> w < 256 * sec + 512 then scast (bs ! (w - 256 * sec)) else disk_words rest w)"

definition disk_of :: "(nat \<times> u8 list) list \<Rightarrow> pio_drive drv_state" where
  "disk_of blocks = \<lparr>dev = pio_example\<lparr>words := disk_words blocks\<rparr>, kATAData = [], kATAIO = ATA_PRIMARY_IO, kATAMaster = 0\<rparr>"

lemma ata_ok_disk_of [simp]: "ata_ok (disk_of blocks)"
  by (simp add: ata_ok_def disk_of_def)

lemma ata_block_disk_of_Nil: "ata_block (disk_of []) a = zero_block"
  by (simp add: ata_block_def disk_of_def map_replicate_const)

lemma ata_block_disk_of_Cons:
  assumes "length bs = 512" and "pio_sector a = sec \<or> pio_sector a + 2 \<le> sec \<or> sec + 2 \<le> pio_sector a"
  shows "ata_block (disk_of ((sec, bs) # rest)) a = (if pio_sector a = sec then bs else ata_block (disk_of rest) a)"
  using assms by (auto simp: ata_block_def disk_of_def ucast_scast_byte intro!: nth_equalityI)

definition example_partition :: NFS_ROOT_PARTITION where
  "example_partition = (partition_of zero_block)\<lparr>part_StartCatalog := 2560, part_CatalogCount := 2, part_FreeCatalog := 8\<rparr>"

definition example_root :: NFS_CATALOG where
  "example_root = (child_catalog kNeFSRoot 1 0 kNeFSCatalogKindDir 2560)\<lparr>cat_NextSibling := 4608\<rparr>"

definition example_name :: "u8 list" where
  "example_name = [0x2F, 0x61, 0x62, 0]"

definition example_file :: NFS_CATALOG where
  "example_file = (child_catalog example_name 3 0 kNeFSCatalogKindFile 2560)\<lparr>cat_NextSibling := 6656\<rparr>"

definition empty_disk :: "pio_drive drv_state" where
  "empty_disk = disk_of [(2, partition_bytes example_partition), (5, catalog_bytes example_root)]"

definition file_disk :: "pio_drive drv_state" where
  "file_disk = disk_of [(2, partition_bytes example_partition), (5, catalog_bytes example_root),
                        (9, catalog_bytes example_file)]"

lemma example_name_len: "obj_string_len example_name = Inr 3"
  using obj_string_len_path [of "[0x2F, 0x61, 0x62]" "[]"] by (simp add: example_name_def)

lemma kNeFSRoot_len: "obj_string_len kNeFSRoot = Inr 1"
  using root_path_len [of "[]"] by (simp add: kNeFSRoot_def)

lemma example_wf [simp]: "wf_partition example_partition" "wf_catalog example_root" "wf_catalog example_file"
  using wf_structs(3) [of zero_block] child_catalog_wf [of 1 kNeFSRoot 0 kNeFSCatalogKindDir 2560]
    child_catalog_wf [of 3 example_name 0 kNeFSCatalogKindFile 2560]
  by (simp_all add: example_partition_def example_root_def example_file_def wf_catalog_def wf_partition_def
      kNeFSRoot_def example_name_def)

lemma example_fields:
  "part_StartCatalog example_partition = 2560" "part_FreeCatalog example_partition = 8"
  "cat_NextSibling example_root = 4608" "cat_NextSibling example_file = 6656"
  "cat_Kind example_root = 2" "cat_Flags example_root = 71" "cat_Flags example_file = 71"
  by (simp_all add: example_partition_def example_root_def example_file_def child_catalog_def nefs_consts)

lemma example_named:
  "obj_string_len (catalog_bytes example_root) = Inr 1" "obj_Equals kNeFSRoot (catalog_bytes example_root) = Inr True"
  "obj_string_len (catalog_bytes example_file) = Inr 3" "obj_Equals example_name (catalog_bytes example_file) = Inr True"
  using child_catalog_named [OF kNeFSRoot_len, of example_root 0 kNeFSCatalogKindDir 2560]
    child_catalog_named [OF example_name_len, of example_file 0 kNeFSCatalogKindFile 2560]
  by (simp_all add: example_root_def example_file_def)

lemma zero_block_facts:
  "obj_string_len zero_block = Inr 1" "obj_Equals kNeFSRoot zero_block = Inr False"
  "cat_NextSibling (catalog_of zero_block) = 0" "cat_Flags (catalog_of zero_block) = 0"
proof -
  show len: "obj_string_len zero_block = Inr 1" by (auto simp: obj_string_len_iff)
  show "obj_Equals kNeFSRoot zero_block = Inr False"
    using obj_Equals_eq [OF kNeFSRoot_len len] by (simp add: kNeFSRoot_def)
  have "le_val (replicate n (0 :: u8)) = 0" for n by (induction n) simp_all
  then show "cat_NextSibling (catalog_of zero_block) = 0" "cat_Flags (catalog_of zero_block) = 0"
    by (simp_all add: catalog_of_def bytes_at_def)
qed

lemma empty_disk_blocks:
  "ata_block empty_disk 1024 = partition_bytes example_partition"
  "ata_block empty_disk 2560 = catalog_bytes example_root"
  "ata_block empty_disk 4608 = zero_block" "ata_block empty_disk 6656 = zero_block"
  by (simp_all add: empty_disk_def ata_block_disk_of_Cons ata_block_disk_of_Nil pio_sector_def)

lemma file_disk_blocks:
  "ata_block file_disk 1024 = partition_bytes example_partition"
  "ata_block file_disk 2560 = catalog_bytes example_root"
  "ata_block file_disk 4608 = catalog_bytes example_file" "ata_block file_disk 6656 = zero_block"
  by (simp_all add: file_disk_def ata_block_disk_of_Cons ata_block_disk_of_Nil pio_sector_def)

lemmas example_facts = example_fields example_named zero_block_facts nefs_wf_def nefs_list_def
  nefs_matches_def nefs_free_def nefs_created_def nefs_slots_def nefs_slot_def nefs_consts

lemma empty_disk_wf: "nefs_wf (ata_block empty_disk) 2560 4608 0"
  by (simp add: example_facts empty_disk_blocks)

lemma file_disk_wf: "nefs_wf (ata_block file_disk) 2560 4608 1"
  by (simp add: example_facts file_disk_blocks upt_rec)

lemma example_apart: "nefs_apart ata_far 2560 4608 0" "nefs_apart ata_far 2560 4608 1"
  by (simp_all add: nefs_apart_def nefs_slots_def nefs_slot_def nefs_consts ata_far_def pio_sector_def upt_rec)

lemma example_path: "root_file_path example_name"
  unfolding root_file_path_def example_name_def
  by (intro exI [of _ "[0x61, 0x62]"] exI [of _ "[]"]) (simp add: Separator_def)

lemma empty_disk_lookup: "nefs_lookup (ata_block empty_disk) (nefs_slots 2560 4608 1) example_name = None"
proof -
  have "obj_Equals example_name (catalog_bytes example_root) = Inr False"
    using obj_Equals_eq [OF example_name_len example_named(1)]
    by (auto simp: example_name_def catalog_bytes_def example_root_def child_catalog_def kNeFSRoot_def)
  then show ?thesis
    by (simp add: nefs_lookup_def example_facts empty_disk_blocks upt_rec)
qed

lemma file_disk_lookup:
  "nefs_lookup (ata_block file_disk) (nefs_slots 2560 4608 2) example_name = Some (example_file, 4608)"
proof -
  have "obj_Equals example_name (catalog_bytes example_root) = Inr False"
    using obj_Equals_eq [OF example_name_len example_named(1)]
    by (auto simp: example_name_def catalog_bytes_def example_root_def child_catalog_def kNeFSRoot_def)
  then show ?thesis
    by (simp add: nefs_lookup_def example_facts file_disk_blocks upt_rec)
qed

section \<open>Properties\<close>

text \<open>
  Property C1. Creating a file below the root of a well-formed partition succeeds and can be
  observed: the file is stored in the first free slot, the list of catalogs keeps its shape with one
  catalog more, a later search for the name finds exactly the catalog that was created, every name
  that was found before is still found as it was, and the partition block counts the catalog.
\<close>

theorem CreateCatalog_then_FindCatalog:
  assumes "ata_ok (disk st)" and "nefs_wf (ata_block (disk st)) r x k" and "nefs_apart ata_far r x k"
    and "root_file_path name"
    and "nefs_lookup (ata_block (disk st)) (nefs_slots r x (Suc k)) name = None"
    and "1 \<le> part_FreeCatalog (partition_of (ata_block (disk st) kNeFSRootCatalogStartAddress))"
    and "nefs_free (ata_block (disk st)) (nefs_slot x (Suc k))"
    and "kNeFSRootCatalogStartAddress < nefs_slot x (Suc k)"
  shows "\<exists>st' c s'. CreateCatalog_file (ata_mounted drv) name st = Some (Inr (st', Some c))
     \<and> FindCatalog (ata_mounted drv) name (disk st') = Some (Inr (s', Some (c, nefs_slot x k)))
     \<and> ata_ok (disk st') \<and> nefs_wf (ata_block (disk st')) r x (Suc k) \<and> cat_Kind c = kNeFSCatalogKindFile
     \<and> (\<forall>q found. nefs_lookup (ata_block (disk st)) (nefs_slots r x (Suc k)) q = Some found \<longrightarrow>
          nefs_lookup (ata_block (disk st')) (nefs_slots r x (Suc (Suc k))) q = Some found)
     \<and> partition_of (ata_block (disk st') kNeFSRootCatalogStartAddress) =
         one_catalog_more (partition_of (ata_block (disk st) kNeFSRootCatalogStartAddress))"
proof -
  obtain n buf parent where "obj_Equals name kNeFSRoot = Inr False" "parent_name name = Inr parent"
    "obj_Equals parent kNeFSRoot = Inr True" using root_file_path [OF assms(4)] by auto
  note find = nefs.find_file [OF _ _ this]
  obtain st' c where create: "CreateCatalog_file (ata_mounted drv) name st = Some (Inr (st', Some c))"
    "ata_ok (disk st')" "cat_Kind c = kNeFSCatalogKindFile" "obj_Equals name (catalog_bytes c) = Inr True"
    "nefs_wf (ata_block (disk st')) r x (Suc k)"
    and lookup: "\<And>q. nefs_lookup (ata_block (disk st')) (nefs_slots r x (Suc (Suc k))) q =
            (case nefs_lookup (ata_block (disk st)) (nefs_slots r x (Suc k)) q of
               Some found \<Rightarrow> Some found
             | None \<Rightarrow> if obj_Equals q (catalog_bytes c) = Inr True then Some (c, nefs_slot x k) else None)"
    and part: "partition_of (ata_block (disk st') kNeFSRootCatalogStartAddress) =
         one_catalog_more (partition_of (ata_block (disk st) kNeFSRootCatalogStartAddress))"
    using nefs.create_file [OF assms, of drv] by blast
  obtain s' where "FindCatalog (ata_mounted drv) name (disk st') = Some (Inr (s', Some (c, nefs_slot x k)))"
    using find [OF create(2,5), of drv] lookup [of name] create(4) assms(5) by auto
  with create lookup part show ?thesis by auto
qed

theorem CreateCatalog_then_FindCatalog_witness:
  "\<exists>st' c s'. CreateCatalog_file (ata_mounted trait_example) example_name \<lparr>disk = empty_disk, err_local = 0\<rparr> =
       Some (Inr (st', Some c))
     \<and> FindCatalog (ata_mounted trait_example) example_name (disk st') = Some (Inr (s', Some (c, 4608)))"
proof -
  have "nefs_free (ata_block empty_disk) 6656" by (simp add: example_facts empty_disk_blocks)
  then show ?thesis
    using CreateCatalog_then_FindCatalog [of "\<lparr>disk = empty_disk, err_local = 0\<rparr>" 2560 4608 0 example_name trait_example]
      empty_disk_wf example_apart(1) example_path empty_disk_lookup
    by (auto simp: empty_disk_def [THEN arg_cong [of _ _ ata_ok]] empty_disk_blocks example_fields nefs_consts nefs_slot_def)
qed

text \<open>
  Property C22. Removing a file does not remove it: \<open>RemoveCatalog\<close> reports success, marks the
  catalog with \<open>kNeFSFlagDeleted\<close> and decrements the catalog count, but since the values of the
  deleted and the created flag share bits the next search for the name still finds the catalog.
\<close>

theorem RemoveCatalog_keeps_catalog_visible:
  assumes "ata_ok (disk st)" and "nefs_wf (ata_block (disk st)) r x k" and "nefs_apart ata_far r x k"
    and "root_file_path name"
    and "nefs_lookup (ata_block (disk st)) (nefs_slots r x (Suc k)) name = Some (c, a)"
  shows "\<exists>st' s'. RemoveCatalog (ata_mounted drv) (Some name) st = Some (Inr (st', True))
     \<and> FindCatalog (ata_mounted drv) name (disk st') =
         Some (Inr (s', Some (c\<lparr>cat_Flags := cat_Flags c OR kNeFSFlagDeleted\<rparr>, a)))
     \<and> partition_of (ata_block (disk st') kNeFSRootCatalogStartAddress) =
         one_catalog_less (partition_of (ata_block (disk st) kNeFSRootCatalogStartAddress))"
  using assms by (rule nefs.remove_then_find)

theorem RemoveCatalog_keeps_catalog_visible_witness:
  "\<exists>st' s' c. RemoveCatalog (ata_mounted trait_example) (Some example_name) \<lparr>disk = file_disk, err_local = 0\<rparr> =
       Some (Inr (st', True))
     \<and> FindCatalog (ata_mounted trait_example) example_name (disk st') = Some (Inr (s', Some (c, 4608)))"
  using RemoveCatalog_keeps_catalog_visible [of "\<lparr>disk = file_disk, err_local = 0\<rparr>" 2560 4608 1 example_name
      example_file 4608 trait_example] file_disk_wf example_apart(2) example_path file_disk_lookup
  by (auto simp: file_disk_def [THEN arg_cong [of _ _ ata_ok]] numeral_2_eq_2)

text \<open>
  Property C6. Whatever \<open>FindCatalog\<close> returns is on the disk: the catalog is the one stored at the
  returned address, its name is the one searched for and it is marked as created. The search never
  changes a block. This holds for any disk contents and any path, whenever the search returns.
\<close>

theorem FindCatalog_sound:
  assumes "ata_ok s" and "FindCatalog (ata_mounted drv) name s = Some (Inr (s', r))"
  shows "ata_ok s' \<and> ata_block s' = ata_block s
     \<and> (\<forall>c a. r = Some (c, a) \<longrightarrow>
          c = catalog_of (ata_block s a) \<and> cat_Flags c AND kNeFSFlagCreated \<noteq> 0
          \<and> obj_Equals name (ata_block s a) = Inr True)"
  using nefs.find_sound [OF assms(2,1)] by (auto simp: nefs.found_ok_def nefs_matches_def)

theorem FindCatalog_sound_witness:
  "\<exists>s'. FindCatalog (ata_mounted trait_example) example_name file_disk = Some (Inr (s', Some (example_file, 4608)))
     \<and> ata_block s' = ata_block file_disk"
proof -
  have ok: "ata_ok file_disk" by (simp add: file_disk_def)
  have "obj_Equals example_name kNeFSRoot = Inr False"
    using obj_Equals_eq [OF example_name_len kNeFSRoot_len] by (simp add: example_name_def kNeFSRoot_def)
  moreover obtain parent where "parent_name example_name = Inr parent" "obj_Equals parent kNeFSRoot = Inr True"
    using root_file_path [OF example_path] by auto
  ultimately obtain s' where
    "FindCatalog (ata_mounted trait_example) example_name file_disk = Some (Inr (s', Some (example_file, 4608)))"
    using nefs.find_file [OF ok file_disk_wf, of example_name parent trait_example] file_disk_lookup
    by (auto simp: numeral_2_eq_2)
  with FindCatalog_sound [OF ok this] show ?thesis by blast
qed

text \<open>
  Property C4. On any disk with a well-formed catalog list that holds a root, searching a file below
  the root terminates and computes the abstract lookup: the first catalog of the list, in the order
  of the sibling links, with that name and the created mark, or null when there is none.
\<close>

theorem FindCatalog_refines_lookup:
  assumes "ata_ok s" and "nefs_list (ata_block s) as" and "root_file_path name"
    and "nefs_lookup (ata_block s) as kNeFSRoot \<noteq> None"
  shows "\<exists>s'. FindCatalog (ata_mounted drv) name s = Some (Inr (s', nefs_lookup (ata_block s) as name))
     \<and> ata_ok s' \<and> ata_block s' = ata_block s"
proof -
  obtain parent where nr: "obj_Equals name kNeFSRoot = Inr False"
    and par: "parent_name name = Inr parent" "obj_Equals parent kNeFSRoot = Inr True"
    using root_file_path [OF assms(3)] by auto
  have "nefs_matches (ata_block s) kNeFSRoot a \<Longrightarrow> nefs_matches (ata_block s) parent a" for a
    using obj_Equals_trans [OF par(2)] by (auto simp: nefs_matches_def)
  then have "nefs_lookup (ata_block s) as parent \<noteq> None"
    using assms(4) by (auto simp: nefs_lookup_def find_None_iff)
  with assms nr par show ?thesis by (intro nefs.find_under_root)
qed

theorem FindCatalog_refines_lookup_witness:
  "\<exists>s'. FindCatalog (ata_mounted trait_example) example_name empty_disk = Some (Inr (s', None))"
proof -
  have "nefs_list (ata_block empty_disk) (nefs_slots 2560 4608 1)"
    using empty_disk_wf by (simp add: nefs_wf_def)
  moreover have "nefs_lookup (ata_block empty_disk) (nefs_slots 2560 4608 1) kNeFSRoot \<noteq> None"
    using empty_disk_wf by (simp add: nefs_wf_def nefs_lookup_def nefs_slots_def)
  ultimately show ?thesis
    using FindCatalog_refines_lookup [of empty_disk _ example_name trait_example] example_path empty_disk_lookup
    by (fastforce simp: empty_disk_def [THEN arg_cong [of _ _ ata_ok]])
qed

text \<open>
  Remark. The parent of a path: for a directory part, a name of at least two characters and an
  optional last separator, the computed parent is the directory part with its separator; for a name
  of a single character directly below the root the computation leaves the buffer.
\<close>

theorem parent_name_spec:
  assumes "0 \<notin> set (dir @ leaf @ post)" and "Separator \<notin> set leaf" and "post = [] \<or> post = [Separator]"
    and "2 \<le> length (leaf @ post)" and "length (dir @ [Separator] @ leaf @ post) < 256"
    and "c \<noteq> 0"
  shows "parent_name (dir @ [Separator] @ leaf @ post @ 0 # rest) =
           Inr (dir @ [Separator] @ replicate (255 - length dir) 0)
       \<and> parent_name ([Separator, c] @ 0 # rest) = Inl OutOfBounds"
  using assms parent_name_path [of dir leaf post rest] parent_name_single [of c rest] by auto

theorem parent_name_spec_witness:
  "parent_name [0x2F, 0x61, 0x2F, 0x62, 0x63, 0x2F, 0] = Inr ([0x2F, 0x61, 0x2F] @ replicate 253 0)
   \<and> parent_name [0x2F, 0x61, 0] = Inl OutOfBounds"
  using parent_name_spec [of "[0x2F, 0x61]" "[0x62, 0x63]" "[0x2F]" "0x61" "[]"]
  by (simp add: Separator_def)

lemma kNeFSRoot_self: "obj_Equals kNeFSRoot kNeFSRoot = Inr True"
  using obj_Equals_eq [OF kNeFSRoot_len kNeFSRoot_len] by simp

lemma create_root:
  assumes "ata_ok (disk st)" and "nefs_list (ata_block (disk st)) as"
    and "nefs_lookup (ata_block (disk st)) as kNeFSRoot = None"
  shows "CreateCatalog (ata_mounted drv) kNeFSRoot flags kNeFSCatalogKindDir st = Some (Inl OutOfBounds)"
proof -
  obtain s' where "FindCatalog (ata_mounted drv) kNeFSRoot (disk st) = Some (Inr (s', None))"
    using nefs.find_root [OF assms(1,2) kNeFSRoot_self, of drv] assms(3) by auto
  moreover have "parent_copy kNeFSRoot = Inr (0x2F # replicate 255 0)"
    using parent_copy_path [of "[0x2F]" "[]"] by (simp add: kNeFSRoot_def)
  ultimately show ?thesis
    using kNeFSRoot_len parent_strip_root
    by (simp add: CreateCatalog_def) (simp add: kNeFSRoot_def Separator_def)
qed

lemma length_splice: "off + length xs \<le> length bs \<Longrightarrow> length (splice off xs bs) = length bs"
  by (simp add: splice_def)

lemma format_partition_ok:
  assumes "obj_string_len part_name = Inr n" and "n \<le> 504" and "length fs_buf = 512"
  shows "\<exists>p. format_partition ident8 part_name sectors dsize fs_buf = Inr p \<and> wf_partition p
     \<and> part_StartCatalog p = kNeFSCatalogStartAddress \<and> part_DiskSize p = dsize \<and> part_SectorCount p = sectors"
proof -
  let ?p1 = "(partition_of fs_buf)\<lparr>part_Version := kNeFSVersionInteger\<rparr>"
  let ?bs = "splice 8 (take n part_name) (splice 0 (kNeFSIdent ident8) (partition_bytes ?p1))"
  have "length (partition_bytes ?p1) = 512"
    using wf_structs(3) [OF assms(3)] by (simp add: wf_partition_def)
  then have "length ?bs = 512" using assms(2) by (simp add: length_splice kNeFSIdent_def)
  from wf_structs(3) [OF this] show ?thesis
    using assms by (simp add: format_partition_def Let_def wf_partition_def)
qed

text \<open>
  Remark. Formatting never completes: on a drive whose partition block is unused and whose first
  catalog block is free, \<open>Format\<close> writes the partition block and then runs out of bounds while it
  creates the root catalog, whatever the partition's name and the size of the disk are.
\<close>

theorem Format_out_of_bounds:
  assumes "ata_ok (disk st)" and "fVerify drv = io_drv_unimplemented"
    and "endLba \<noteq> 0" and "flags AND kNeFSPartitionTypeBoot = 0"
    and "obj_string_len part_name = Inr n" and "n \<le> 504" and "part_name ! 0 \<noteq> 0"
    and "part_PartitionName (partition_of (ata_block (disk st) kNeFSRootCatalogStartAddress)) ! 0 = 0"
    and "part_Ident (partition_of (ata_block (disk st) kNeFSRootCatalogStartAddress)) \<noteq> kNeFSIdent ident8"
    and "nefs_free (ata_block (disk st)) kNeFSCatalogStartAddress"
  shows "Format (ata_mounted drv) (ata_mounted drv) ident8 sectors dsize endLba flags part_name st = Some (Inl OutOfBounds)"
proof -
  let ?root = "kNeFSRootCatalogStartAddress" and ?drv = "ata_mounted drv" and ?blk = "ata_block (disk st)"
  let ?pkt = "(fPacket ?drv)\<lparr>fPacketMime := copy_name ''fs/nefs-packet'' (fPacketMime (fPacket ?drv))\<rparr>"
  obtain s1 pkt1 where in1: "drive_in ?drv ?pkt ?root zero_block (disk st) = Some (Inr (s1, pkt1, ?blk ?root))"
    "ata_ok s1" "ata_block s1 = ?blk" "fPacketGood pkt1"
    using nefs.drive_in_block [OF assms(1), of zero_block ?pkt drv ?root] by (auto simp: ata_mounted_def)
  obtain p where p: "format_partition ident8 part_name (sectors s1) (dsize s1) (?blk ?root) = Inr p"
    "wf_partition p" "part_StartCatalog p = kNeFSCatalogStartAddress"
    using format_partition_ok [OF assms(5,6) ata.length_block [OF assms(1)]] by blast
  obtain s2 pkt2 where out2: "drive_out ?drv pkt1 ?root (partition_bytes p) s1 = Some (Inr (s2, pkt2))"
    "ata_ok s2" "ata_block s2 ?root = partition_bytes p" "\<forall>a. ata_far a ?root \<longrightarrow> ata_block s2 a = ?blk a"
    using nefs.drive_out_block [OF in1(2) length_structs(3) [OF p(2)] in1(4), of drv ?root] in1(3) by auto
  have "ata_far kNeFSCatalogStartAddress ?root" by (simp add: ata_far_def pio_sector_def nefs_consts)
  then have free: "nefs_free (ata_block s2) kNeFSCatalogStartAddress"
    using out2(4) assms(10) by (simp add: nefs_free_def nefs_created_def)
  have "nefs_list (ata_block s2) [kNeFSCatalogStartAddress]"
    using free out2(3) p by (simp add: nefs_list_def nefs_free_def)
  moreover have "nefs_lookup (ata_block s2) [kNeFSCatalogStartAddress] kNeFSRoot = None"
    using free by (simp add: nefs_lookup_def nefs_matches_def nefs_free_def)
  ultimately have "CreateCatalog ?drv kNeFSRoot 0 kNeFSCatalogKindDir (st\<lparr>disk := s2\<rparr>) = Some (Inl OutOfBounds)"
    using out2(2) by (intro create_root) simp_all
  then have "Format_loop ?drv ?drv ident8 sectors dsize pkt1 part_name ?root (?blk ?root) (st\<lparr>disk := s1\<rparr>) = Some (Inl OutOfBounds)"
    using in1(4) assms(8,9) p(1) out2(1) by (subst Format_loop.simps) simp
  moreover have "fVerify ?drv = io_drv_unimplemented" "fPacketGood ?pkt"
    using assms(2) by (simp_all add: ata_mounted_def)
  moreover have "part_name \<noteq> []" using assms(5) by (auto simp: obj_string_len_iff)
  ultimately show ?thesis
    using assms(3,4,7) in1(1) by (simp add: Format_def Let_def io_drv_unimplemented_def)
qed

theorem Format_out_of_bounds_witness:
  "Format (ata_mounted trait_example) (ata_mounted trait_example) 0 (\<lambda>_. 4096) (\<lambda>_. 2097152) 4096 6 [0x48, 0x44, 0]
     \<lparr>disk = disk_of [], err_local = 0\<rparr> = Some (Inl OutOfBounds)"
proof -
  have "obj_string_len [0x48, 0x44, 0] = Inr 2" using obj_string_len_path [of "[0x48, 0x44]" "[]"] by simp
  moreover have "nefs_free (ata_block (disk_of [])) kNeFSCatalogStartAddress"
    by (simp add: ata_block_disk_of_Nil example_facts)
  moreover have "part_PartitionName (partition_of zero_block) ! 0 = 0"
    and ident: "part_Ident (partition_of zero_block) ! 0 \<noteq> kNeFSIdent 0 ! 0"
    by (simp_all add: partition_of_def bytes_at_def kNeFSIdent_def)
  moreover have "part_Ident (partition_of zero_block) \<noteq> kNeFSIdent 0" using ident by auto
  ultimately show ?thesis
    using Format_out_of_bounds [of "\<lparr>disk = disk_of [], err_local = 0\<rparr>" trait_example 4096 6 "[0x48, 0x44, 0]" 2 0
        "\<lambda>_. 4096" "\<lambda>_. 2097152"]
    by (simp add: trait_example_def ata_block_disk_of_Nil kNeFSPartitionTypeBoot_def)
qed

section \<open>Forks\<close>

lemma wf_created_fork [simp]: "wf_fork f \<Longrightarrow> wf_fork (created_fork f lba prev)"
  by (simp add: created_fork_def wf_fork_def)

text \<open>A data fork that \<open>CreateFork\<close> accepts for a catalog whose data fork zone is \<open>lba\<close>.\<close>

definition fork_request :: "NFS_CATALOG \<Rightarrow> u64 \<Rightarrow> NFS_FORK \<Rightarrow> bool" where
  "fork_request cat lba f \<longleftrightarrow>
     wf_fork f \<and> fork_ForkName f ! 0 \<noteq> 0 \<and> fork_DataSize f \<le> kNeFSForkDataSz
     \<and> fork_Kind f = kNeFSDataForkKind \<and> cat_DataFork cat = lba \<and> kNeFSCatalogStartAddress < lba"

context nefs_drive
begin

lemma create_fork_free:
  assumes "ok s" and "fork_request cat lba f" and "fork_NextSibling (fork_of (block s lba)) = 0"
    and "fork_Flags (fork_of (block s lba)) AND ucast kNeFSFlagCreated = 0"
  shows "\<exists>s'. CreateFork drv (Some cat) f s = Some (Inr (s', Some (created_fork f lba lba)))
     \<and> ok s' \<and> block s' lba = fork_bytes (created_fork f lba lba)"
proof -
  let ?g = "created_fork f lba lba" and ?z = "(fork_of zero_block)\<lparr>fork_NextSibling := lba\<rparr>"
  have lba: "\<not> lba \<le> kNeFSCatalogStartAddress" "kNeFSCatalogStartAddress \<le> lba"
    using assms(2) by (auto simp: fork_request_def not_le)
  obtain s1 pkt1 where in1: "drive_in drv (nefs_packet drv) lba zero_block s = Some (Inr (s1, pkt1, block s lba))"
    "ok s1" "fPacketGood pkt1"
    using drive_in_block [OF assms(1), of zero_block "nefs_packet drv" lba] by auto
  have "wf_fork ?z" using wf_structs(2) [of zero_block] by (simp add: wf_fork_def)
  then obtain s2 pkt2 where out2: "drive_out drv pkt1 lba (fork_bytes ?z) s1 = Some (Inr (s2, pkt2))"
    "ok s2" "fPacketGood pkt2"
    using drive_out_block [OF in1(2) _ in1(3), of "fork_bytes ?z" lba] by auto
  have "wf_fork ?g" using assms(2) by (simp add: fork_request_def)
  then obtain s3 pkt3 where out3: "drive_out drv pkt2 lba (fork_bytes ?g) s2 = Some (Inr (s3, pkt3))"
    "ok s3" "block s3 lba = fork_bytes ?g"
    using drive_out_block [OF out2(2) _ out2(3), of "fork_bytes ?g" lba] by auto
  have "CreateFork_loop drv (nefs_packet drv) cat f lba lba zero_block (fork_of zero_block) s =
      Some (Inr (s2, pkt2, Some (lba, lba)))"
    using lba assms(3,4) in1(1) out2(1) by (subst CreateFork_loop.simps) (simp add: Let_def kBadAddress_def)
  then show ?thesis
    using assms(2) lba out3 by (auto simp: CreateFork_def fork_request_def Let_def)
qed

lemma create_fork_used:
  assumes "ok s" and "fork_request cat lba f" and "fork_NextSibling (fork_of (block s lba)) \<noteq> 0"
  shows "\<exists>s'. CreateFork drv (Some cat) f s = Some (Inr (s', Some (created_fork f lba lba)))
     \<and> ok s' \<and> block s' lba = fork_bytes (created_fork f lba lba)"
proof -
  let ?g = "created_fork f lba lba"
  have lba: "\<not> lba \<le> kNeFSCatalogStartAddress" using assms(2) by (auto simp: fork_request_def not_le)
  obtain s1 pkt1 where in1: "drive_in drv (nefs_packet drv) lba zero_block s = Some (Inr (s1, pkt1, block s lba))"
    "ok s1" "fPacketGood pkt1"
    using drive_in_block [OF assms(1), of zero_block "nefs_packet drv" lba] by auto
  have "wf_fork ?g" using assms(2) by (simp add: fork_request_def)
  then obtain s2 pkt2 where out2: "drive_out drv pkt1 lba (fork_bytes ?g) s1 = Some (Inr (s2, pkt2))"
    "ok s2" "block s2 lba = fork_bytes ?g"
    using drive_out_block [OF in1(2) _ in1(3), of "fork_bytes ?g" lba] by auto
  have "0 < fork_NextSibling (fork_of (block s lba))" using assms(3) by (simp add: word_neq_0_conv)
  then have "CreateFork_loop drv (nefs_packet drv) cat f lba lba zero_block (fork_of zero_block) s =
      Some (Inr (s1, pkt1, Some (lba, lba)))"
    using lba in1(1) by (subst CreateFork_loop.simps) (simp add: Let_def kBadAddress_def)
  then show ?thesis
    using assms(2) lba out2 by (auto simp: CreateFork_def fork_request_def Let_def)
qed

end

text \<open>
  Remark. Creating a second data fork for a catalog destroys the first: both are given the same
  address, the block there holds the second fork afterwards, and neither has another fork before it.
  The next-sibling field of the first fork is taken for a bad address because it is not zero.
\<close>

theorem CreateFork_replaces_previous:
  assumes "ata_ok s" and "fork_request cat lba f" and "fork_request cat lba g"
    and "fork_NextSibling (fork_of (ata_block s lba)) = 0"
    and "fork_Flags (fork_of (ata_block s lba)) AND ucast kNeFSFlagCreated = 0"
    and "lba - 512 - fork_DataSize f - 512 \<noteq> 0"
  shows "\<exists>s1 s2. CreateFork (ata_mounted drv) (Some cat) f s = Some (Inr (s1, Some (created_fork f lba lba)))
     \<and> ata_block s1 lba = fork_bytes (created_fork f lba lba)
     \<and> CreateFork (ata_mounted drv) (Some cat) g s1 = Some (Inr (s2, Some (created_fork g lba lba)))
     \<and> ata_block s2 lba = fork_bytes (created_fork g lba lba)"
proof -
  obtain s1 where s1: "CreateFork (ata_mounted drv) (Some cat) f s = Some (Inr (s1, Some (created_fork f lba lba)))"
    "ata_ok s1" "ata_block s1 lba = fork_bytes (created_fork f lba lba)"
    using nefs.create_fork_free [OF assms(1,2,4,5), of drv] by blast
  have "wf_fork f" using assms(2) by (simp add: fork_request_def)
  then have "fork_NextSibling (fork_of (ata_block s1 lba)) = lba - 512 - fork_DataSize f - 512"
    using s1(3) by (simp add: created_fork_def wf_fork_def)
  with assms(6) obtain s2 where
    "CreateFork (ata_mounted drv) (Some cat) g s1 = Some (Inr (s2, Some (created_fork g lba lba)))"
    "ata_block s2 lba = fork_bytes (created_fork g lba lba)"
    using nefs.create_fork_used [OF s1(2) assms(3), of drv] by auto
  with s1 show ?thesis by blast
qed

definition example_fork :: "u8 \<Rightarrow> NFS_FORK" where
  "example_fork c = (fork_of zero_block)\<lparr>fork_ForkName := c # replicate 199 0, fork_Kind := kNeFSDataForkKind,
     fork_CatalogName := example_name @ replicate 252 0, fork_DataSize := 3\<rparr>"

lemma zero_fork: "fork_NextSibling (fork_of zero_block) = 0" "fork_Flags (fork_of zero_block) = 0"
proof -
  have "le_val (replicate n (0 :: u8)) = 0" for n by (induction n) simp_all
  then show "fork_NextSibling (fork_of zero_block) = 0" "fork_Flags (fork_of zero_block) = 0"
    by (simp_all add: fork_of_def bytes_at_def)
qed

lemma example_fork_size: "fork_DataSize (example_fork c) = 3"
  by (simp add: example_fork_def)

lemma example_fork_request:
  "c \<noteq> 0 \<Longrightarrow> fork_request (example_file\<lparr>cat_DataFork := 20992\<rparr>) 20992 (example_fork c)"
  using wf_structs(2) [of zero_block]
  by (simp add: fork_request_def example_fork_def wf_fork_def nefs_consts example_name_def)

theorem CreateFork_replaces_previous_witness:
  "\<exists>s1 s2. CreateFork (ata_mounted trait_example) (Some (example_file\<lparr>cat_DataFork := 20992\<rparr>)) (example_fork 0x61) (disk_of [])
       = Some (Inr (s1, Some (created_fork (example_fork 0x61) 20992 20992)))
     \<and> CreateFork (ata_mounted trait_example) (Some (example_file\<lparr>cat_DataFork := 20992\<rparr>)) (example_fork 0x62) s1
       = Some (Inr (s2, Some (created_fork (example_fork 0x62) 20992 20992)))
     \<and> ata_block s2 20992 = fork_bytes (created_fork (example_fork 0x62) 20992 20992)"
  using CreateFork_replaces_previous [of "disk_of []" "example_file\<lparr>cat_DataFork := 20992\<rparr>" 20992 "example_fork 0x61"
      "example_fork 0x62" trait_example] example_fork_request [of "0x61"] example_fork_request [of "0x62"]
  by (auto simp: ata_block_disk_of_Nil zero_fork example_fork_size)

lemma ata_output_any:
  assumes "ata_ok s" and "unat (of_nat (length bs) :: u64) = length bs"
  shows "\<exists>s'. drive_out (ata_mounted drv) pkt lba bs s =
       Some (Inr (s', pkt\<lparr>fPacketLba := lba, fPacketSize := of_nat (length bs), fPacketContent := Some bs\<rparr>)) \<and> ata_ok s'"
proof -
  obtain d' where "drv_std_write pio_ports lba ATA_PRIMARY_IO (kATAMaster s) bs kATASectorSize (of_nat (length bs)) (dev s) = Some d'"
    using pio_write [of bs "of_nat (length bs)" lba "kATAMaster s" "dev s"] assms(2) by auto
  with assms show ?thesis
    by (simp add: drive_out_def ata_mounted_def io_drv_output_def ata_ok_def)
qed

text \<open>
  Remark. Writing through a fork that \<open>CreateFork\<close> placed loses the data: the call reports
  success, but the fork's header is written to the address just before the fork, which is the address
  of the data, so that the block at the data offset holds the header and not the data.
\<close>

theorem WriteCatalog_header_replaces_data:
  assumes "ata_ok (disk st)" and "fork_of (ata_block (disk st) lba) = f" and "cat_DataFork cat = lba"
    and "kNeFSCatalogStartAddress \<le> lba" and "fork_DataOffset f = lba - 512" and "kNeFSCatalogStartAddress < lba - 512"
    and "fork_Flags f \<noteq> ucast kNeFSFlagUnallocated" and "fork_Flags f \<noteq> ucast kNeFSFlagDeleted"
    and "obj_Equals (ata_block (disk st) lba) forkName = Inr True"
    and "obj_Equals (drop 200 (ata_block (disk st) lba)) (catalog_bytes cat) = Inr True"
    and "fork_DataSize f = sz" and "0 < sz" and "sz \<le> kNeFSForkDataSz" and "unat sz \<le> length data"
  shows "\<exists>st'. WriteCatalog (ata_mounted drv) cat False data sz forkName st = Some (Inr (st', True))
     \<and> ata_block (disk st') (fork_DataOffset f) = fork_bytes (f\<lparr>fork_Flags := fork_Flags f OR ucast kNeFSFlagCreated\<rparr>)
     \<and> err_local st' = err_local st"
proof -
  let ?drv = "ata_mounted drv" and ?blk = "ata_block (disk st)"
  let ?f' = "f\<lparr>fork_Flags := fork_Flags f OR ucast kNeFSFlagCreated\<rparr>"
  let ?buf = "take (unat sz) data @ replicate (unat kNeFSForkDataSz - unat sz) 0"
  obtain s1 pkt1 where in1: "drive_in ?drv (nefs_packet ?drv) lba zero_block (disk st) = Some (Inr (s1, pkt1, ?blk lba))"
    "ata_ok s1" "fPacketGood pkt1"
    using nefs.drive_in_block [OF assms(1), of zero_block "nefs_packet ?drv" drv lba] nefs.packet_good by auto
  have "unat sz \<le> unat kNeFSForkDataSz" using assms(13) by (simp add: word_le_nat_alt)
  then have "length ?buf = 0x1000000" using assms(14) by (simp add: kNeFSForkDataSz_def)
  then have len: "unat (of_nat (length ?buf) :: u64) = length ?buf" by (simp add: unat_of_nat)
  let ?pkt2 = "pkt1\<lparr>fPacketLba := lba - 512, fPacketSize := of_nat (length ?buf), fPacketContent := Some ?buf\<rparr>"
  obtain s2 where out2: "drive_out ?drv pkt1 (lba - 512) ?buf s1 = Some (Inr (s2, ?pkt2))" "ata_ok s2"
    using ata_output_any [OF in1(2) len, of drv pkt1 "lba - 512"] by blast
  have wf: "wf_fork ?f'"
    using wf_structs(2) [OF ata.length_block [OF assms(1)], of lba] assms(2) by (simp add: wf_fork_def)
  obtain s3 pkt3 where out3: "drive_out ?drv ?pkt2 (lba - 512) (fork_bytes ?f') s2 = Some (Inr (s3, pkt3))"
    "ata_block s3 (lba - 512) = fork_bytes ?f'"
    using nefs.drive_out_block [OF out2(2) length_structs(2) [OF wf], of ?pkt2 drv "lba - 512"] in1(3) by auto
  have off: "\<not> fork_DataOffset f \<le> kNeFSCatalogStartAddress" using assms(5,6) by (simp add: not_le)
  have "WriteCatalog_loop ?drv (nefs_packet ?drv) cat forkName sz ?buf lba zero_block st = Some (Inr (st\<lparr>disk := s3\<rparr>, True))"
    using assms(2,4,5,7,8,9,10,11) off in1(1) out2(1) out3(1)
    by (subst WriteCatalog_loop.simps) (simp add: Let_def)
  moreover have "\<not> kNeFSForkDataSz < sz" "sz \<noteq> 0" "\<not> length data < unat sz"
    using assms(12-14) by (auto simp: not_less)
  ultimately show ?thesis
    using assms(3,5) out3(2) by (simp add: WriteCatalog_def Let_def)
qed

lemma path_equals:
  assumes "xs \<noteq> []" and "0 \<notin> set xs" and "obj_string_len bs = Inr (length xs)" and "take (length xs) bs = xs"
  shows "obj_Equals (xs @ 0 # rest) bs = Inr True"
  using obj_Equals_eq [OF obj_string_len_path [OF assms(1,2), of rest] assms(3)] assms(4) by simp

definition stored_fork :: NFS_FORK where
  "stored_fork = created_fork (example_fork 0x61) 20992 20992"

lemma stored_fork_fields:
  "wf_fork stored_fork" "fork_DataOffset stored_fork = 20480" "fork_Flags stored_fork = 71" "fork_DataSize stored_fork = 3"
  "\<exists>rest. fork_bytes stored_fork = [0x61] @ 0 # rest"
  "\<exists>rest. drop 200 (fork_bytes stored_fork) = [0x2F, 0x61, 0x62] @ 0 # rest"
  using example_fork_request [of "0x61"]
  by (simp_all add: stored_fork_def created_fork_def fork_request_def zero_fork example_fork_def nefs_consts wf_fork_def
      fork_bytes_def example_name_def replicate_pos [of 199])

theorem WriteCatalog_header_replaces_data_witness:
  "\<exists>st'. WriteCatalog (ata_mounted trait_example) (example_file\<lparr>cat_DataFork := 20992\<rparr>) False [1, 2, 3] 3 [0x61, 0]
       \<lparr>disk = disk_of [(41, fork_bytes stored_fork)], err_local = 0\<rparr> = Some (Inr (st', True))
     \<and> ata_block (disk st') 20480 = fork_bytes (stored_fork\<lparr>fork_Flags := 71\<rparr>)"
proof -
  let ?s = "disk_of [(41, fork_bytes stored_fork)]" and ?cat = "example_file\<lparr>cat_DataFork := 20992\<rparr>"
  have blk: "ata_block ?s 20992 = fork_bytes stored_fork"
    using stored_fork_fields(1) by (simp add: ata_block_disk_of_Cons pio_sector_def)
  obtain r1 r2 where r: "fork_bytes stored_fork = [0x61] @ 0 # r1"
    "drop 200 (fork_bytes stored_fork) = [0x2F, 0x61, 0x62] @ 0 # r2"
    using stored_fork_fields(5,6) by blast
  have "obj_Equals (fork_bytes stored_fork) [0x61, 0] = Inr True"
    unfolding r(1) using path_equals [of "[0x61]" "[0x61, 0]" r1] obj_string_len_path [of "[0x61]" "[]"] by simp
  moreover have cat: "cat_Name ?cat = cat_Name (child_catalog example_name 3 0 kNeFSCatalogKindFile 2560)"
    by (simp add: example_file_def)
  have "obj_Equals (drop 200 (fork_bytes stored_fork)) (catalog_bytes ?cat) = Inr True"
    unfolding r(2) using child_catalog_named(1) [OF example_name_len _ cat]
    by (intro path_equals) (simp_all add: catalog_bytes_def cat child_catalog_def example_name_def)
  ultimately show ?thesis
    using WriteCatalog_header_replaces_data [of "\<lparr>disk = ?s, err_local = 0\<rparr>" 20992 stored_fork ?cat "[0x61, 0]" 3
        "[1, 2, 3]" trait_example] stored_fork_fields(1-4)
    by (auto simp: blk nefs_consts)
qed

end
