(* ===== verification/File_Mgr.thy ===== *)
theory File_Mgr
  imports NeFS_Correct Kernel_Heap
begin

text \<open>
  The file manager: \<^verbatim>\<open>dev/ZKAKit/src/FileMgr.cc\<close>, \<^verbatim>\<open>NeFS+FileMgr.cc\<close> and the streams
  of \<^verbatim>\<open>KernelKit/FileMgr.h\<close>. A node is the catalog it points to. The manager reaches the
  file system through its member \<open>fImpl\<close>; a call through a null \<open>fImpl\<close> is a \<open>NullAccess\<close>. The two
  \<open>WriteAll\<close> templates call \<open>Write\<close> with an argument less than it has and cannot be instantiated,
  so they are left out.
\<close>

section \<open>The mounted file system\<close>

record NeFileSystemMgr =
  fImpl :: addr

text \<open>\<open>kMountedFilesystem\<close> is \<open>None\<close> for null.\<close>

definition GetMounted :: "'m option \<Rightarrow> 'm option" where
  "GetMounted kMountedFilesystem = kMountedFilesystem"

definition Unmount :: "'m option \<Rightarrow> 'm option \<times> 'm option" where
  "Unmount kMountedFilesystem =
     (case kMountedFilesystem of Some mount \<Rightarrow> (None, Some mount) | None \<Rightarrow> (kMountedFilesystem, None))"

definition Mount :: "'m option \<Rightarrow> 'm option \<Rightarrow> 'm option \<times> bool" where
  "Mount mount_ptr kMountedFilesystem =
     (case mount_ptr of Some mount \<Rightarrow> (Some mount, True) | None \<Rightarrow> (kMountedFilesystem, False))"

section \<open>The NeFS manager\<close>

definition kNeFSDataFork :: "u8 list" where
  "kNeFSDataFork = [0x6D, 0x61, 0x69, 0x6E, 0x5F, 0x64, 0x61, 0x74, 0x61, 0]"

definition kNeFSForkSize :: u64 where "kNeFSForkSize = 512"
definition kNeFSCatalogKindAlias :: u32 where "kNeFSCatalogKindAlias = 3"
definition kNeFSCatalogKindPage :: u32 where "kNeFSCatalogKindPage = 8"
definition kFileReadAll :: u32 where "kFileReadAll = 101"
definition kFileReadChunk :: u32 where "kFileReadChunk = 102"
definition kFileFlagRsrc :: u32 where "kFileFlagRsrc = 104"
definition kNPos :: u64 where "kNPos = -1"
definition sizeof_NeFSParser :: u64 where "sizeof_NeFSParser = 4"

text \<open>
  The constructor allocates the parser into a local variable that hides the member; \<open>garbage\<close> is what
  that variable holds before. The member keeps its initial value.
\<close>

definition NeFSParser_ctor :: "addr \<Rightarrow> mm_state \<Rightarrow> mm_state" where
  "NeFSParser_ctor p mm = mm\<lparr>memory := store_bytes (memory mm) p (le_bytes 4 0)\<rparr>"

definition NeFileSystemMgr_new ::
    "'d ports \<Rightarrow> 'd drv_state DriveTrait \<Rightarrow> u8 list \<Rightarrow> addr \<Rightarrow> mm_state \<Rightarrow> 'd drv_state
     \<Rightarrow> (abort + mm_state \<times> 'd drv_state \<times> 'd drv_state Mountpoint \<times> NeFileSystemMgr) option" where
  "NeFileSystemMgr_new P trait block_struct garbage mm s =
     ebind (fs_init_newfs P trait block_struct s) (\<lambda>(s1, mnt).
     ebind (Some (MUST_PASS (debug_build mm) True)) (\<lambda>_.
     ebind (mm_new_class sizeof_NeFSParser NeFSParser_ctor garbage kErrorSuccess mm) (\<lambda>(mm1, local_fImpl, _).
     ebind (Some (MUST_PASS (debug_build mm1) (local_fImpl \<noteq> null))) (\<lambda>_.
       Some (Inr (mm1, s1, mnt, \<lparr>fImpl = null\<rparr>))))))"

definition NeFileSystemMgr_delete :: "NeFileSystemMgr \<Rightarrow> mm_state \<Rightarrow> abort + mm_state" where
  "NeFileSystemMgr_delete mgr mm =
     (if fImpl mgr \<noteq> null
      then case mm_delete_class (fImpl mgr) mm of Inl e \<Rightarrow> Inl e | Inr (mm1, _) \<Rightarrow> Inr mm1
      else Inr mm)"

definition via_parser :: "NeFileSystemMgr \<Rightarrow> (abort + 'r) option \<Rightarrow> (abort + 'r) option" where
  "via_parser mgr call = (if fImpl mgr = null then Some (Inl NullAccess) else call)"

text \<open>A path is a string object or null; null is dereferenced by the parser.\<close>

definition deref :: "'a option \<Rightarrow> ('a \<Rightarrow> (abort + 'r) option) \<Rightarrow> (abort + 'r) option" where
  "deref ptr k = (case ptr of None \<Rightarrow> Some (Inl NullAccess) | Some x \<Rightarrow> k x)"

definition empty_string :: "u8 list option \<Rightarrow> bool" where
  "empty_string str = (case str of None \<Rightarrow> True | Some bs \<Rightarrow> bs ! 0 = 0)"

definition NeFileSystemMgr_Remove ::
    "'s DriveTrait \<Rightarrow> NeFileSystemMgr \<Rightarrow> u8 list option \<Rightarrow> 's nefs \<Rightarrow> (abort + 's nefs \<times> bool) option" where
  "NeFileSystemMgr_Remove drv mgr path st =
     (if empty_string path then Some (Inr (st, False)) else via_parser mgr (RemoveCatalog drv path st))"

definition NeFileSystemMgr_Create ::
    "'s DriveTrait \<Rightarrow> NeFileSystemMgr \<Rightarrow> u8 list option \<Rightarrow> 's nefs \<Rightarrow> (abort + 's nefs \<times> NFS_CATALOG option) option" where
  "NeFileSystemMgr_Create drv mgr path st = via_parser mgr (deref path (\<lambda>p. CreateCatalog_file drv p st))"

definition NeFileSystemMgr_CreateDirectory ::
    "'s DriveTrait \<Rightarrow> NeFileSystemMgr \<Rightarrow> u8 list option \<Rightarrow> 's nefs \<Rightarrow> (abort + 's nefs \<times> NFS_CATALOG option) option" where
  "NeFileSystemMgr_CreateDirectory drv mgr path st =
     via_parser mgr (deref path (\<lambda>p. CreateCatalog drv p 0 kNeFSCatalogKindDir st))"

definition NeFileSystemMgr_CreateAlias ::
    "'s DriveTrait \<Rightarrow> NeFileSystemMgr \<Rightarrow> u8 list option \<Rightarrow> 's nefs \<Rightarrow> (abort + 's nefs \<times> NFS_CATALOG option) option" where
  "NeFileSystemMgr_CreateAlias drv mgr path st =
     via_parser mgr (deref path (\<lambda>p. CreateCatalog drv p 0 kNeFSCatalogKindAlias st))"

definition NeFileSystemMgr_CreateSwapFile ::
    "'s DriveTrait \<Rightarrow> NeFileSystemMgr \<Rightarrow> u8 list option \<Rightarrow> 's nefs \<Rightarrow> (abort + 's nefs \<times> NFS_CATALOG option) option" where
  "NeFileSystemMgr_CreateSwapFile drv mgr path st =
     via_parser mgr (deref path (\<lambda>p. CreateCatalog drv p 0 kNeFSCatalogKindPage st))"

text \<open>The mode \<open>r\<close> is a string at an address; only whether it is empty matters here.\<close>

definition NeFileSystemMgr_Open ::
    "'s DriveTrait \<Rightarrow> NeFileSystemMgr \<Rightarrow> u8 list option \<Rightarrow> mem \<Rightarrow> addr \<Rightarrow> 's nefs
     \<Rightarrow> (abort + 's nefs \<times> NFS_CATALOG option) option" where
  "NeFileSystemMgr_Open drv mgr path m r st =
     (if empty_string path then Some (Inr (st, None))
      else if r = null \<or> m r = 0 then Some (Inr (st, None))
      else via_parser mgr (deref path (\<lambda>p.
             ebind (GetCatalog drv p (disk st)) (\<lambda>(s1, catalog). Some (Inr (st\<lparr>disk := s1\<rparr>, catalog))))))"

definition NeFileSystemMgr_Write_named ::
    "'s DriveTrait \<Rightarrow> NeFileSystemMgr \<Rightarrow> u8 list \<Rightarrow> NFS_CATALOG option \<Rightarrow> u8 list option \<Rightarrow> u32 \<Rightarrow> u64 \<Rightarrow> 's nefs
     \<Rightarrow> (abort + 's nefs) option" where
  "NeFileSystemMgr_Write_named drv mgr name node data flags sz st =
     (if sz = 0 \<or> sz > kNeFSForkSize then Some (Inr st)
      else case data of
        None \<Rightarrow> Some (Inr st)
      | Some bytes \<Rightarrow>
          deref node (\<lambda>c.
            if cat_Kind c = kNeFSCatalogKindFile then
              via_parser mgr (ebind (WriteCatalog drv c (flags AND kFileFlagRsrc \<noteq> 0) bytes sz name st)
                (\<lambda>(st1, _). Some (Inr st1)))
            else Some (Inr st)))"

definition NeFileSystemMgr_Read_named ::
    "'s DriveTrait \<Rightarrow> NeFileSystemMgr \<Rightarrow> u8 list \<Rightarrow> NFS_CATALOG option \<Rightarrow> u32 \<Rightarrow> u64 \<Rightarrow> 's nefs
     \<Rightarrow> (abort + 's nefs \<times> NFS_FORK option) option" where
  "NeFileSystemMgr_Read_named drv mgr name node flags sz st =
     (if sz > kNeFSForkSize then Some (Inr (st, None))
      else if sz = 0 then Some (Inr (st, None))
      else deref node (\<lambda>c.
             if cat_Kind c = kNeFSCatalogKindFile
             then via_parser mgr (ReadCatalog drv node (flags AND kFileFlagRsrc \<noteq> 0) sz name st)
             else Some (Inr (st, None))))"

definition NeFileSystemMgr_Write ::
    "'s DriveTrait \<Rightarrow> NeFileSystemMgr \<Rightarrow> NFS_CATALOG option \<Rightarrow> u8 list option \<Rightarrow> u32 \<Rightarrow> u64 \<Rightarrow> 's nefs
     \<Rightarrow> (abort + 's nefs) option" where
  "NeFileSystemMgr_Write drv mgr node data flags sz st =
     (if node = None then Some (Inr st)
      else if sz = 0 then Some (Inr st)
      else NeFileSystemMgr_Write_named drv mgr kNeFSDataFork node data flags sz st)"

definition NeFileSystemMgr_Read ::
    "'s DriveTrait \<Rightarrow> NeFileSystemMgr \<Rightarrow> NFS_CATALOG option \<Rightarrow> u32 \<Rightarrow> u64 \<Rightarrow> 's nefs
     \<Rightarrow> (abort + 's nefs \<times> NFS_FORK option) option" where
  "NeFileSystemMgr_Read drv mgr node flags sz st =
     (if node = None then Some (Inr (st, None))
      else if sz = 0 then Some (Inr (st, None))
      else NeFileSystemMgr_Read_named drv mgr kNeFSDataFork node flags sz st)"

definition NeFileSystemMgr_Seek ::
    "NeFileSystemMgr \<Rightarrow> NFS_CATALOG option \<Rightarrow> u64 \<Rightarrow> 's nefs \<Rightarrow> (abort + 's nefs \<times> bool) option" where
  "NeFileSystemMgr_Seek mgr node off st =
     (if node = None \<or> off = 0 then Some (Inr (st, False)) else via_parser mgr (Some (Inr (Seek node off st))))"

definition NeFileSystemMgr_Tell ::
    "NeFileSystemMgr \<Rightarrow> NFS_CATALOG option \<Rightarrow> 's nefs \<Rightarrow> (abort + 's nefs \<times> u64) option" where
  "NeFileSystemMgr_Tell mgr node st =
     (if node = None then Some (Inr (st, kNPos)) else via_parser mgr (Some (Inr (Tell node st))))"

definition NeFileSystemMgr_Rewind ::
    "NeFileSystemMgr \<Rightarrow> NFS_CATALOG option \<Rightarrow> 's nefs \<Rightarrow> (abort + 's nefs \<times> bool) option" where
  "NeFileSystemMgr_Rewind mgr node st =
     (if node = None then Some (Inr (st, False)) else NeFileSystemMgr_Seek mgr node 0 st)"

section \<open>Streams\<close>

datatype FileRestrict =
    kFileMgrRestrictRead | kFileMgrRestrictReadBinary | kFileMgrRestrictWrite | kFileMgrRestrictWriteBinary
  | kFileMgrRestrictReadWrite | kFileMgrRestrictReadWriteBinary

record FileStream =
  fFile :: "NFS_CATALOG option"
  fFileRestrict :: FileRestrict

text \<open>\<open>rt_string_cmp\<close> of the string at \<open>p\<close> with a literal, over the length of the literal.\<close>

definition cmp_literal :: "mem \<Rightarrow> addr \<Rightarrow> u8 list \<Rightarrow> u32" where
  "cmp_literal m p lit =
     (if p = null then 1 else of_nat (length (filter (\<lambda>i. m (p + of_nat i) \<noteq> lit ! i) [0..<length lit])))"

definition kRestrictList :: "(u8 list \<times> FileRestrict) list" where
  "kRestrictList =
     [([0x72], kFileMgrRestrictRead), ([0x72, 0x62], kFileMgrRestrictReadBinary),
      ([0x72, 0x77, 0x62], kFileMgrRestrictReadWriteBinary), ([0x77], kFileMgrRestrictWrite),
      ([0x72, 0x77], kFileMgrRestrictReadWrite)]"

fun restrict_of :: "mem \<Rightarrow> addr \<Rightarrow> (u8 list \<times> FileRestrict) list \<Rightarrow> FileRestrict" where
  "restrict_of m restrict_type [] = kFileMgrRestrictReadBinary"
| "restrict_of m restrict_type ((lit, mapped) # rest) =
     (if cmp_literal m restrict_type lit = 0 then mapped else restrict_of m restrict_type rest)"

definition FileStream_new ::
    "'s DriveTrait \<Rightarrow> NeFileSystemMgr option \<Rightarrow> u8 list option \<Rightarrow> mem \<Rightarrow> addr \<Rightarrow> 's nefs
     \<Rightarrow> (abort + 's nefs \<times> FileStream) option" where
  "FileStream_new drv mounted path m restrict_type st =
     deref (GetMounted mounted) (\<lambda>man.
     ebind (NeFileSystemMgr_Open drv man path m restrict_type st) (\<lambda>(st1, node).
       Some (Inr (st1, \<lparr>fFile = node, fFileRestrict = restrict_of m restrict_type kRestrictList\<rparr>))))"

definition may_read :: "FileStream \<Rightarrow> bool" where
  "may_read f = (fFileRestrict f \<in> {kFileMgrRestrictReadWrite, kFileMgrRestrictReadWriteBinary,
                                    kFileMgrRestrictRead, kFileMgrRestrictReadBinary})"

definition may_write :: "FileStream \<Rightarrow> bool" where
  "may_write f = (fFileRestrict f \<in> {kFileMgrRestrictReadWrite, kFileMgrRestrictReadWriteBinary,
                                     kFileMgrRestrictWrite, kFileMgrRestrictWriteBinary})"

definition FileStream_ReadAll ::
    "'s DriveTrait \<Rightarrow> NeFileSystemMgr option \<Rightarrow> FileStream \<Rightarrow> 's nefs \<Rightarrow> (abort + 's nefs \<times> NFS_FORK option) option" where
  "FileStream_ReadAll drv mounted f st =
     (if \<not> may_read f then Some (Inr (st, None))
      else case GetMounted mounted of
        Some man \<Rightarrow> NeFileSystemMgr_Read drv man (fFile f) kFileReadAll 0 st
      | None \<Rightarrow> Some (Inr (st, None)))"

definition FileStream_Read_named ::
    "'s DriveTrait \<Rightarrow> NeFileSystemMgr option \<Rightarrow> FileStream \<Rightarrow> u8 list \<Rightarrow> 's nefs
     \<Rightarrow> (abort + 's nefs \<times> NFS_FORK option) option" where
  "FileStream_Read_named drv mounted f fork_name st =
     (if \<not> may_read f then Some (Inr (st, None))
      else case GetMounted mounted of
        Some man \<Rightarrow> NeFileSystemMgr_Read_named drv man fork_name (fFile f) kFileReadAll 0 st
      | None \<Rightarrow> Some (Inr (st, None)))"

definition FileStream_Read_at ::
    "'s DriveTrait \<Rightarrow> NeFileSystemMgr option \<Rightarrow> FileStream \<Rightarrow> u64 \<Rightarrow> u64 \<Rightarrow> 's nefs
     \<Rightarrow> (abort + 's nefs \<times> NFS_FORK option) option" where
  "FileStream_Read_at drv mounted f offset sz st =
     (if \<not> may_read f then Some (Inr (st, None))
      else case GetMounted mounted of
        Some man \<Rightarrow>
          ebind (NeFileSystemMgr_Seek man (fFile f) offset st) (\<lambda>(st1, _).
          NeFileSystemMgr_Read drv man (fFile f) kFileReadChunk sz st1)
      | None \<Rightarrow> Some (Inr (st, None)))"

text \<open>The arguments of the manager's \<open>Write\<close> are flags, then size; they are passed the other way round.\<close>

definition FileStream_Write_at ::
    "'s DriveTrait \<Rightarrow> NeFileSystemMgr option \<Rightarrow> FileStream \<Rightarrow> u64 \<Rightarrow> u8 list option \<Rightarrow> u64 \<Rightarrow> 's nefs
     \<Rightarrow> (abort + 's nefs) option" where
  "FileStream_Write_at drv mounted f offset data sz st =
     (if \<not> may_write f then Some (Inr st)
      else case GetMounted mounted of
        Some man \<Rightarrow>
          ebind (NeFileSystemMgr_Seek man (fFile f) offset st) (\<lambda>(st1, _).
          NeFileSystemMgr_Write drv man (fFile f) data (ucast sz) (ucast kFileReadChunk) st1)
      | None \<Rightarrow> Some (Inr st))"

section \<open>Properties of the manager and of streams\<close>

text \<open>Comparing with a literal is \<open>rt_string_cmp\<close> with the literal wherever it lies.\<close>

lemma cmp_literal_eq:
  assumes "q \<noteq> null" and "load_bytes m q (length lit) = lit" and "length lit < 2 ^ 64"
  shows "rt_string_cmp m p q (of_nat (length lit)) = cmp_literal m p lit"
proof (cases "p = null")
  case False
  have "m (q + of_nat i) = lit ! i" if "i < length lit" for i
    using that arg_cong [OF assms(2), of "\<lambda>bs. bs ! i"] by (simp add: load_bytes_nth)
  then have "mismatches m p q (length lit) =
      length (filter (\<lambda>i. m (p + of_nat i) \<noteq> lit ! i) [0..<length lit])"
    unfolding mismatches_def by (intro arg_cong [of _ _ length] filter_cong) auto
  with False assms(1,3) show ?thesis
    by (simp add: rt_string_cmp_eq cmp_literal_def unat_of_nat_addr)
qed (simp add: cmp_literal_def rt_string_cmp_def)

lemma restrict_of_r: "m p = 0x72 \<Longrightarrow> p \<noteq> null \<Longrightarrow> restrict_of m p kRestrictList = kFileMgrRestrictRead"
  by (simp add: kRestrictList_def cmp_literal_def)



text \<open>
  Remark. The manager the constructor builds has no parser: the member \<open>fImpl\<close> stays null whatever was allocated,
  so creating, opening or removing any file goes through the null pointer.
\<close>

theorem NeFileSystemMgr_new_has_no_parser:
  assumes "NeFileSystemMgr_new P trait block_struct garbage mm s = Some (Inr (mm1, s1, mnt, mgr))"
    and "name ! 0 \<noteq> 0" and "mode \<noteq> null" and "m mode \<noteq> 0"
  shows "fImpl mgr = null
    \<and> NeFileSystemMgr_Create drv mgr (Some name) st = Some (Inl NullAccess)
    \<and> NeFileSystemMgr_CreateDirectory drv mgr (Some name) st = Some (Inl NullAccess)
    \<and> NeFileSystemMgr_Open drv mgr (Some name) m mode st = Some (Inl NullAccess)
    \<and> NeFileSystemMgr_Remove drv mgr (Some name) st = Some (Inl NullAccess)"
proof -
  have "fImpl mgr = null" using assms(1) by (auto simp: NeFileSystemMgr_new_def ebind_eq_Some)
  with assms(2-4) show ?thesis
    by (simp add: NeFileSystemMgr_Create_def NeFileSystemMgr_CreateDirectory_def NeFileSystemMgr_Open_def
        NeFileSystemMgr_Remove_def via_parser_def empty_string_def)
qed

theorem NeFileSystemMgr_new_has_no_parser_witness:
  "\<exists>mm1 s1 mnt mgr. NeFileSystemMgr_new pio_ports trait_example (replicate 512 0) 1 page_example drive_example =
       Some (Inr (mm1, s1, mnt, mgr))
     \<and> NeFileSystemMgr_Create (mA mnt) mgr (Some example_name) \<lparr>disk = s1, err_local = 0\<rparr> = Some (Inl NullAccess)"
proof -
  obtain mm1 s1 mnt mgr where new: "NeFileSystemMgr_new pio_ports trait_example (replicate 512 0) 1 page_example drive_example =
       Some (Inr (mm1, s1, mnt, mgr))"
    using main_drive_constructed [of "replicate 512 0" trait_example drive_example]
    by (auto simp: NeFileSystemMgr_new_def fs_init_newfs_def mm_new_class_def MUST_PASS_eq)
  have "example_name ! 0 \<noteq> 0" by (simp add: example_name_def)
  from NeFileSystemMgr_new_has_no_parser [OF new this, of 1 "\<lambda>_. 1"] new show ?thesis by auto
qed

text \<open>
  Remark. A stream opened for reading and writing can only read, and reads nothing: every mode that starts with
  \<open>r\<close> is taken for plain reading, because the mode is compared with \<open>"r"\<close> over one character first; writing
  then has no effect; and reading the whole file or a fork passes the size zero, for which the
  manager returns null.
\<close>

theorem FileStream_modes:
  assumes "FileStream_new drv mounted path m mode st = Some (Inr (st1, f))" and "m mode = 0x72" and "mode \<noteq> null"
  shows "fFileRestrict f = kFileMgrRestrictRead
    \<and> FileStream_Write_at drv' mounted f offset data sz st2 = Some (Inr st2)
    \<and> FileStream_ReadAll drv' mounted f st2 = Some (Inr (st2, None))
    \<and> FileStream_Read_named drv' mounted f fork_name st2 = Some (Inr (st2, None))"
proof -
  have "fFileRestrict f = kFileMgrRestrictRead"
    using assms by (auto simp: FileStream_new_def deref_def ebind_eq_Some restrict_of_r split: option.splits)
  then show ?thesis
    by (auto simp: FileStream_Write_at_def FileStream_ReadAll_def FileStream_Read_named_def may_write_def may_read_def
        NeFileSystemMgr_Read_def NeFileSystemMgr_Read_named_def kNeFSForkSize_def split: option.splits)
qed

theorem FileStream_modes_witness:
  "\<exists>f. FileStream_new (ata_mounted trait_example) (Some \<lparr>fImpl = 98\<rparr>) None (\<lambda>_. 0x72) 1 \<lparr>disk = empty_disk, err_local = 0\<rparr> =
       Some (Inr (\<lparr>disk = empty_disk, err_local = 0\<rparr>, f)) \<and> fFileRestrict f = kFileMgrRestrictRead"
proof -
  obtain f where f: "FileStream_new (ata_mounted trait_example) (Some \<lparr>fImpl = 98\<rparr>) None (\<lambda>_. 0x72) 1
      \<lparr>disk = empty_disk, err_local = 0\<rparr> = Some (Inr (\<lparr>disk = empty_disk, err_local = 0\<rparr>, f))"
    by (simp add: FileStream_new_def GetMounted_def deref_def NeFileSystemMgr_Open_def empty_string_def)
  have "fFileRestrict f = kFileMgrRestrictRead" by (rule FileStream_modes [OF f, THEN conjunct1]) simp_all
  with f show ?thesis by auto
qed

end
