(* ===== verification/Json_Reader.thy ===== *)
theory Json_Reader
  imports NeFS_Layout
begin

text \<open>
  The JSON reader of \<^verbatim>\<open>dev/ZKAKit/NewKit/Json.h\<close>. Key and value are the buffers of two strings
  of \<open>kMaxJsonPath\<close> bytes, which the string constructor clears; the input is a terminated string
  object. Writing past a buffer is \<open>OutOfBounds\<close>.
\<close>

section \<open>The reader\<close>

definition kMaxJsonPath :: nat where "kMaxJsonPath = 4096"

record JSON =
  fKey :: "u8 list"
  fValue :: "u8 list"

definition JSON_new :: JSON where
  "JSON_new = \<lparr>fKey = replicate kMaxJsonPath 0, fValue = replicate kMaxJsonPath 0\<rparr>"

record json_state =
  js_type :: JSON
  probe_value :: bool
  key_len :: nat
  value_len :: nat

definition put_key :: "u8 \<Rightarrow> json_state \<Rightarrow> abort + json_state" where
  "put_key c st =
     (if key_len st < length (fKey (js_type st))
      then Inr (st\<lparr>js_type := (js_type st)\<lparr>fKey := (fKey (js_type st))[key_len st := c]\<rparr>, key_len := key_len st + 1\<rparr>)
      else Inl OutOfBounds)"

definition put_value :: "u8 \<Rightarrow> json_state \<Rightarrow> abort + json_state" where
  "put_value c st =
     (if value_len st < length (fValue (js_type st))
      then Inr (st\<lparr>js_type := (js_type st)\<lparr>fValue := (fValue (js_type st))[value_len st := c]\<rparr>,
                   value_len := value_len st + 1\<rparr>)
      else Inl OutOfBounds)"

text \<open>One round of the loop, on the character \<open>c\<close>.\<close>

definition json_char :: "u8 \<Rightarrow> u8 \<Rightarrow> u8 \<Rightarrow> json_state \<Rightarrow> abort + json_state" where
  "json_char start_val end_val c st =
     (if c = 0x0D \<or> c = 0x0A then Inr st
      else if probe_value st then
        if c = end_val \<or> c = 0x2C then Inr (st\<lparr>probe_value := False, value_len := value_len st + 1\<rparr>)
        else put_value c st
      else if start_val = 0x5B then Inr st
      else if c = 0x3A then put_key 0 (st\<lparr>probe_value := True\<rparr>)
      else put_key c st)"

primrec json_loop :: "u8 \<Rightarrow> u8 \<Rightarrow> u8 list \<Rightarrow> json_state \<Rightarrow> abort + json_state" where
  "json_loop start_val end_val [] st = Inr st"
| "json_loop start_val end_val (c # cs) st =
     (case json_char start_val end_val c st of Inl e \<Rightarrow> Inl e | Inr st' \<Rightarrow> json_loop start_val end_val cs st')"

text \<open>\<open>None\<close> is the constant \<open>JSON::kNull\<close>.\<close>

definition JsonStreamReader_In :: "u8 list \<Rightarrow> abort + JSON option" where
  "JsonStreamReader_In full_array =
     (if full_array = [] then Inl OutOfBounds
      else if full_array ! 0 \<noteq> 0x7B \<and> full_array ! 0 \<noteq> 0x5B then Inr None
      else
        let is_array = (full_array ! 0 \<noteq> 0x7B);
            start_val = (if is_array then 0x5B else 0x7B);
            end_val = (if is_array then 0x5D else 0x7D)
        in case obj_string_len full_array of
             Inl e \<Rightarrow> Inl e
           | Inr len \<Rightarrow>
               (case json_loop start_val end_val (take (len - 1) (drop 1 full_array))
                       \<lparr>js_type = JSON_new, probe_value = is_array, key_len = 0, value_len = 0\<rparr> of
                  Inl e \<Rightarrow> Inl e
                | Inr st \<Rightarrow>
                    (case put_value 0 st of Inl e \<Rightarrow> Inl e | Inr st' \<Rightarrow> Inr (Some (js_type st')))))"

section \<open>What the reader computes\<close>

text \<open>A buffer of \<open>kMaxJsonPath\<close> bytes that starts with \<open>xs\<close> and is zero after it.\<close>

definition padded :: "u8 list \<Rightarrow> u8 list" where
  "padded xs = xs @ replicate (kMaxJsonPath - length xs) 0"

lemma padded_put: "length xs < kMaxJsonPath \<Longrightarrow> (padded xs)[length xs := c] = padded (xs @ [c])"
  by (simp add: padded_def list_update_append Suc_diff_Suc flip: Cons_replicate_eq)
     (metis Suc_diff_Suc list_update_code(2) replicate_Suc)

lemma length_padded: "length xs \<le> kMaxJsonPath \<Longrightarrow> length (padded xs) = kMaxJsonPath"
  by (simp add: padded_def)

lemma padded_zero: "length xs < kMaxJsonPath \<Longrightarrow> padded (xs @ [0]) = padded xs"
  by (simp add: padded_def Suc_diff_Suc flip: replicate_Suc)

definition js_at :: "bool \<Rightarrow> u8 list \<Rightarrow> u8 list \<Rightarrow> json_state" where
  "js_at probe ks vs = \<lparr>js_type = \<lparr>fKey = padded ks, fValue = padded vs\<rparr>, probe_value = probe,
     key_len = length ks, value_len = length vs\<rparr>"

lemma put_key_at: "length ks < kMaxJsonPath \<Longrightarrow> put_key c (js_at p ks vs) = Inr (js_at p (ks @ [c]) vs)"
  by (simp add: put_key_def js_at_def length_padded padded_put)

lemma put_value_at: "length vs < kMaxJsonPath \<Longrightarrow> put_value c (js_at p ks vs) = Inr (js_at p ks (vs @ [c]))"
  by (simp add: put_value_def js_at_def length_padded padded_put)

text \<open>Keys and values that contain none of the characters the reader treats specially.\<close>

definition json_key :: "u8 list \<Rightarrow> bool" where
  "json_key k \<longleftrightarrow> set k \<inter> {0, 0x0A, 0x0D, 0x3A} = {}"

definition json_value :: "u8 list \<Rightarrow> bool" where
  "json_value v \<longleftrightarrow> set v \<inter> {0, 0x0A, 0x0D, 0x2C, 0x7D} = {}"

lemma json_loop_key:
  "json_key k \<Longrightarrow> length ks + length k \<le> kMaxJsonPath \<Longrightarrow>
   json_loop 0x7B 0x7D (k @ cs) (js_at False ks vs) = json_loop 0x7B 0x7D cs (js_at False (ks @ k) vs)"
proof (induction k arbitrary: ks)
  case (Cons c k)
  have "json_char 0x7B 0x7D c (js_at False ks vs) = Inr (js_at False (ks @ [c]) vs)"
    using Cons.prems by (simp add: json_char_def json_key_def put_key_at) (simp add: js_at_def)
  with Cons show ?case by (simp add: json_key_def)
qed simp

lemma json_loop_value:
  "json_value v \<Longrightarrow> length vs + length v \<le> kMaxJsonPath \<Longrightarrow>
   json_loop 0x7B 0x7D (v @ cs) (js_at True ks vs) = json_loop 0x7B 0x7D cs (js_at True ks (vs @ v))"
proof (induction v arbitrary: vs)
  case (Cons c v)
  have "json_char 0x7B 0x7D c (js_at True ks vs) = Inr (js_at True ks (vs @ [c]))"
    using Cons.prems by (simp add: json_char_def json_value_def put_value_at) (simp add: js_at_def)
  with Cons show ?case by (simp add: json_value_def)
qed simp

lemma json_loop_colon:
  "length ks < kMaxJsonPath \<Longrightarrow>
   json_loop 0x7B 0x7D (0x3A # cs) (js_at False ks vs) = json_loop 0x7B 0x7D cs (js_at True (ks @ [0]) vs)"
proof -
  assume ks: "length ks < kMaxJsonPath"
  have "(js_at False ks vs)\<lparr>probe_value := True\<rparr> = js_at True ks vs" by (simp add: js_at_def)
  then have "json_char 0x7B 0x7D 0x3A (js_at False ks vs) = Inr (js_at True (ks @ [0]) vs)"
    using put_key_at [OF ks, of 0 True vs] by (simp add: json_char_def) (simp add: js_at_def)
  then show ?thesis by simp
qed

lemma json_loop_end:
  "length vs < kMaxJsonPath \<Longrightarrow> c = 0x2C \<or> c = 0x7D \<Longrightarrow>
   json_loop 0x7B 0x7D (c # cs) (js_at True ks vs) = json_loop 0x7B 0x7D cs (js_at False ks (vs @ [0]))"
  by (auto simp: json_char_def js_at_def padded_zero)

lemma json_loop_member:
  assumes "json_key k" "json_value v" "length (ks @ k) < kMaxJsonPath" "length (vs @ v) < kMaxJsonPath" "c = 0x2C \<or> c = 0x7D"
  shows "json_loop 0x7B 0x7D (k @ 0x3A # v @ c # cs) (js_at False ks vs) =
    json_loop 0x7B 0x7D cs (js_at False (ks @ k @ [0]) (vs @ v @ [0]))"
  using assms json_loop_key [of k ks "0x3A # v @ c # cs" vs] json_loop_colon [of "ks @ k" "v @ c # cs" vs]
    json_loop_value [of v vs "c # cs" "ks @ k @ [0]"] json_loop_end [of "vs @ v" c cs "ks @ k @ [0]"]
  by simp

text \<open>The text of an object with the given members, with its terminator.\<close>

fun json_members :: "(u8 list \<times> u8 list) list \<Rightarrow> u8 list" where
  "json_members [] = [0x7D]"
| "json_members [(k, v)] = k @ 0x3A # v @ [0x7D]"
| "json_members ((k, v) # ms) = k @ 0x3A # v @ 0x2C # json_members ms"

definition json_text :: "(u8 list \<times> u8 list) list \<Rightarrow> u8 list" where
  "json_text ms = 0x7B # json_members ms @ [0]"

definition json_keys :: "(u8 list \<times> u8 list) list \<Rightarrow> u8 list" where
  "json_keys ms = concat (map (\<lambda>(k, v). k @ [0]) ms)"

definition json_values :: "(u8 list \<times> u8 list) list \<Rightarrow> u8 list" where
  "json_values ms = concat (map (\<lambda>(k, v). v @ [0]) ms)"

lemma json_loop_members:
  assumes "ms \<noteq> []" "\<forall>(k, v) \<in> set ms. json_key k \<and> json_value v"
    and "length (ks @ json_keys ms) \<le> kMaxJsonPath" "length (vs @ json_values ms) \<le> kMaxJsonPath"
  shows "json_loop 0x7B 0x7D (json_members ms) (js_at False ks vs) =
    Inr (js_at False (ks @ json_keys ms) (vs @ json_values ms))"
  using assms
proof (induction ms arbitrary: ks vs rule: json_members.induct)
  case (2 k v)
  then show ?case using json_loop_member [of k v ks vs "0x7D" "[]"] by (simp add: json_keys_def json_values_def)
next
  case (3 k v m ms)
  have "json_loop 0x7B 0x7D (json_members ((k, v) # m # ms)) (js_at False ks vs) =
      json_loop 0x7B 0x7D (json_members (m # ms)) (js_at False (ks @ k @ [0]) (vs @ v @ [0]))"
    using 3(3-5) json_loop_member [of k v ks vs "0x2C" "json_members (m # ms)"]
    by (simp add: json_keys_def json_values_def)
  also have "\<dots> = Inr (js_at False ((ks @ k @ [0]) @ json_keys (m # ms)) ((vs @ v @ [0]) @ json_values (m # ms)))"
    using 3(3-5) by (intro 3(1)) (simp_all add: json_keys_def json_values_def)
  finally show ?case by (simp add: json_keys_def json_values_def)
qed simp

lemma json_members_no_nul:
  "\<forall>(k, v) \<in> set ms. json_key k \<and> json_value v \<Longrightarrow> 0 \<notin> set (json_members ms)"
  by (induction ms rule: json_members.induct) (auto simp: json_key_def json_value_def)

lemma json_text_len:
  assumes "\<forall>(k, v) \<in> set ms. json_key k \<and> json_value v"
  shows "obj_string_len (json_text ms) = Inr (length (json_members ms) + 1)"
proof -
  have "json_text ms ! i \<noteq> 0" if "0 < i" "i < length (json_members ms) + 1" for i
  proof -
    have "json_members ms ! (i - 1) \<in> set (json_members ms)" using that by (intro nth_mem) simp
    then have "json_members ms ! (i - 1) \<noteq> 0" using json_members_no_nul [OF assms] by metis
    with that show ?thesis by (simp add: json_text_def nth_Cons' nth_append)
  qed
  then show ?thesis by (auto simp: obj_string_len_iff json_text_def nth_append)
qed

section \<open>Properties\<close>



end
