(* ===== verification/User_Account.thy ===== *)
theory User_Account
  imports Kernel_Heap
begin

text \<open>
  Users and their passwords: \<^verbatim>\<open>dev/ZKAKit/src/User.cc\<close> and \<^verbatim>\<open>KernelKit/User.h\<close>. A user
  object lies in memory; its record holds the ring and the addresses of its two buffers.
\<close>

section \<open>Users\<close>

datatype UserRingKind = kRingInvalid | kRingStdUser | kRingSuperUser | kRingGuestUser | kRingCount

primrec ring_value :: "UserRingKind \<Rightarrow> u32" where
  "ring_value kRingInvalid = 0"
| "ring_value kRingStdUser = 1"
| "ring_value kRingSuperUser = 2"
| "ring_value kRingGuestUser = 5"
| "ring_value kRingCount = 3"

record User =
  fRing :: UserRingKind
  fUserName :: addr
  fUserToken :: addr

definition kStdUserType :: u8 where "kStdUserType = 0xCE"
definition kSuperUserType :: u8 where "kSuperUserType = 0xEC"

definition IsStdUser :: "User \<Rightarrow> bool" where
  "IsStdUser user = (fRing user = kRingStdUser)"

definition IsSuperUser :: "User \<Rightarrow> bool" where
  "IsSuperUser user = (fRing user = kRingSuperUser)"

definition User_eq :: "User \<Rightarrow> User \<Rightarrow> bool" where
  "User_eq this lhs = (fRing lhs = fRing this)"

definition User_ne :: "User \<Rightarrow> User \<Rightarrow> bool" where
  "User_ne this lhs = (fRing lhs \<noteq> fRing this)"

text \<open>Both constructors copy the name; the one from a number checks its sign.\<close>

definition User_new :: "User \<Rightarrow> addr \<Rightarrow> mm_state \<Rightarrow> mm_state option" where
  "User_new user userName mm =
     (case rt_string_len (memory mm) userName of
        None \<Rightarrow> None
      | Some len \<Rightarrow> Some (mm\<lparr>memory := fst (rt_copy_memory (memory mm) userName (fUserName user) len)\<rparr>))"

definition User_new_sel :: "u32 \<Rightarrow> User \<Rightarrow> addr \<Rightarrow> mm_state \<Rightarrow> (abort + mm_state) option" where
  "User_new_sel sel user userName mm =
     ebind (Some (MUST_PASS (debug_build mm) (sint sel \<ge> 0))) (\<lambda>_. map_option Inr (User_new user userName mm))"

section \<open>Passwords\<close>

text \<open>The loop over the characters of a password, up to its terminator, with \<open>k\<close> to go.\<close>

primrec cred_loop :: "u8 \<Rightarrow> addr \<Rightarrow> addr \<Rightarrow> u64 \<Rightarrow> nat \<Rightarrow> mem \<Rightarrow> mem" where
  "cred_loop bits password in_password i_pass 0 m = m"
| "cred_loop bits password in_password i_pass (Suc k) m =
     (let cur_chr = m (in_password + i_pass) in
      if cur_chr = 0 then m
      else cred_loop bits password in_password (i_pass + 1) k (m(password + i_pass := cur_chr OR bits)))"

definition cred_construct_token :: "addr \<Rightarrow> addr \<Rightarrow> User option \<Rightarrow> u64 \<Rightarrow> mem \<Rightarrow> mem \<times> u32" where
  "cred_construct_token password in_password user len m =
     (if password = null then (m, 1)
      else case user of
        None \<Rightarrow> (m, 1)
      | Some u \<Rightarrow>
          (cred_loop (if IsStdUser u then kStdUserType else kSuperUserType) password in_password 0 (unat len) m, 0))"

text \<open>The part \<open>Save\<close> and \<open>Matches\<close> share: a copy of the password, hashed in place.\<close>

definition hashed_copy :: "User \<Rightarrow> addr \<Rightarrow> mm_state \<Rightarrow> (abort + mm_state \<times> addr \<times> u64 \<times> u32) option" where
  "hashed_copy this password_to_fill mm =
     (case rt_string_len (memory mm) password_to_fill of
        None \<Rightarrow> None
      | Some len \<Rightarrow>
          ebind (operator_new len mm) (\<lambda>(mm1, password).
          ebind (Some (MUST_PASS (debug_build mm) (password \<noteq> null))) (\<lambda>_.
            let m2 = fst (rt_copy_memory (memory mm1) password_to_fill password len);
                (m3, failed) = cred_construct_token password password_to_fill (Some this) len m2
            in Some (Inr (mm1\<lparr>memory := m3\<rparr>, password, len, failed)))))"

definition User_Save :: "User \<Rightarrow> addr \<Rightarrow> mm_state \<Rightarrow> (abort + mm_state \<times> bool) option" where
  "User_Save this password_to_fill mm =
     (if password_to_fill = null \<or> memory mm password_to_fill = 0 then Some (Inr (mm, False))
      else
     ebind (hashed_copy this password_to_fill mm) (\<lambda>(mm1, password, len, res).
        if res = 0 then ebind (Some (operator_delete password mm1)) (\<lambda>mm2. Some (Inr (mm2, False)))
        else case rt_string_len (memory mm1) password_to_fill of
          None \<Rightarrow> None
        | Some len2 \<Rightarrow>
            ebind (Some (operator_delete password
                (mm1\<lparr>memory := fst (rt_copy_memory (memory mm1) password (fUserToken this) len2)\<rparr>))) (\<lambda>mm2.
              Some (Inr (mm2, True)))))"

definition User_Matches :: "User \<Rightarrow> addr \<Rightarrow> mm_state \<Rightarrow> (abort + mm_state \<times> bool) option" where
  "User_Matches this password_to_fill mm =
     (if password_to_fill = null \<or> memory mm password_to_fill \<noteq> 0 then Some (Inr (mm, False))
      else
     ebind (hashed_copy this password_to_fill mm) (\<lambda>(mm1, password, len, res).
        if res = 0 then ebind (Some (operator_delete password mm1)) (\<lambda>mm2. Some (Inr (mm2, False)))
        else case rt_string_len (memory mm1) (fUserToken this) of
          None \<Rightarrow> None
        | Some tlen \<Rightarrow>
            Some (Inr (mm1, rt_string_cmp (memory mm1) password (fUserToken this) tlen = 0))))"

section \<open>What hashing does\<close>

lemma cred_loop_hashes:
  assumes "\<And>j l. j < k \<Longrightarrow> l < k \<Longrightarrow> pw + i + of_nat j \<noteq> src + i + of_nat l"
    and "\<And>j. j < k \<Longrightarrow> m (src + i + of_nat j) \<noteq> 0"
  shows "cred_loop bits pw src i k m = store_bytes m (pw + i) (map (\<lambda>b. b OR bits) (load_bytes m (src + i) k))"
  using assms
proof (induction k arbitrary: i m)
  case (Suc k)
  let ?m = "m(pw + i := m (src + i) OR bits)"
  have src: "?m (src + (i + 1) + of_nat j) = m (src + (i + 1) + of_nat j)" if "j < k" for j
    using Suc.prems(1) [of 0 "Suc j"] that by (simp add: add.assoc)
  have "cred_loop bits pw src (i + 1) k ?m =
      store_bytes ?m (pw + (i + 1)) (map (\<lambda>b. b OR bits) (load_bytes ?m (src + (i + 1)) k))"
  proof (rule Suc.IH)
    fix j l assume "j < k" "l < k"
    then show "pw + (i + 1) + of_nat j \<noteq> src + (i + 1) + of_nat l"
      using Suc.prems(1) [of "Suc j" "Suc l"] by (simp add: add.assoc)
  next
    fix j assume "j < k"
    then show "?m (src + (i + 1) + of_nat j) \<noteq> 0"
      using src Suc.prems(2) [of "Suc j"] by (simp add: add.assoc)
  qed
  moreover have "load_bytes ?m (src + (i + 1)) k = load_bytes m (src + (i + 1)) k"
    using src by (rule load_bytes_cong)
  moreover have "m (src + i) \<noteq> 0" using Suc.prems(2) [of 0] by simp
  ultimately show ?case by (simp add: add.assoc)
qed simp

lemma hashed_copy_result:
  assumes "hashed_copy this pw mm = Some (Inr (mm1, password, len, res))" and "debug_build mm"
  shows "res = 0 \<and> password \<noteq> null"
  using assms
  by (auto simp: hashed_copy_def ebind_eq_Some MUST_PASS_eq cred_construct_token_def Let_def
      split: option.splits if_splits)

lemma Save_never: "User_Save this pw mm = Some (Inr (mm', ok)) \<Longrightarrow> debug_build mm \<Longrightarrow> \<not> ok"
  by (auto simp: User_Save_def ebind_eq_Some split: if_splits option.splits dest: hashed_copy_result)

lemma Matches_never: "User_Matches this pw mm = Some (Inr (mm', ok)) \<Longrightarrow> debug_build mm \<Longrightarrow> \<not> ok"
  by (auto simp: User_Matches_def ebind_eq_Some split: if_splits option.splits dest: hashed_copy_result)

section \<open>Properties\<close>

text \<open>
  Remark. No password can be set and none is ever accepted: in a debug build, whenever \<open>Save\<close> or \<open>Matches\<close>
  returns, it returns \<open>No\<close>. \<open>cred_construct_token\<close> returns zero when it succeeds, which both take for
  a failure, and \<open>Matches\<close> also turns down every password that is not empty.
\<close>

theorem no_password_is_accepted:
  assumes "debug_build mm"
  shows "(\<forall>mm' ok. User_Save this pw mm = Some (Inr (mm', ok)) \<longrightarrow> \<not> ok)
    \<and> (\<forall>mm' ok. User_Matches this pw mm = Some (Inr (mm', ok)) \<longrightarrow> \<not> ok)"
  using assms Save_never Matches_never by blast

definition user_example :: mm_state where
  "user_example = page_example\<lparr>debug_build := True, memory := (\<lambda>a. if a = 0x1000 then 0x61 else 0)\<rparr>"

theorem no_password_is_accepted_witness:
  "\<exists>mm' ok. User_Matches \<lparr>fRing = kRingStdUser, fUserName = 0x3000, fUserToken = 0x4000\<rparr> 0x1000 user_example =
     Some (Inr (mm', ok)) \<and> \<not> ok"
proof -
  have "User_Matches \<lparr>fRing = kRingStdUser, fUserName = 0x3000, fUserToken = 0x4000\<rparr> 0x1000 user_example =
     Some (Inr (user_example, False))" by (simp add: User_Matches_def user_example_def)
  with no_password_is_accepted [of user_example "\<lparr>fRing = kRingStdUser, fUserName = 0x3000, fUserToken = 0x4000\<rparr>" "0x1000"]
  show ?thesis by (auto simp: user_example_def)
qed

text \<open>
  Remark. The token of a password is the password with the bits of the user's type set in every character, written to the
  given buffer; nothing else changes. So passwords that differ only in those bits have the same token.
\<close>

theorem cred_construct_token_hashes:
  assumes "password \<noteq> null"
    and "\<And>j l. j < unat len \<Longrightarrow> l < unat len \<Longrightarrow> password + of_nat j \<noteq> src + of_nat l"
    and "\<And>j. j < unat len \<Longrightarrow> m (src + of_nat j) \<noteq> 0"
  shows "cred_construct_token password src (Some user) len m =
    (store_bytes m password
       (map (\<lambda>b. b OR (if IsStdUser user then kStdUserType else kSuperUserType)) (load_bytes m src (unat len))), 0)"
  using assms cred_loop_hashes [of "unat len" password 0 src m] by (simp add: cred_construct_token_def)

end
