(* ===== verification/Kernel_Services.thy ===== *)
theory Kernel_Services
  imports Kernel_Heap
begin

text \<open>
  Small classes of the kernel: semaphores and timers (\<^verbatim>\<open>Semaphore.cc\<close>, \<^verbatim>\<open>Timer.cc\<close> and
  their headers), the check of a thread information block (\<^verbatim>\<open>ThreadLocalStorage.cc\<close>), the file
  index (\<^verbatim>\<open>IndexableProperty.cc\<close>) and the growing array of \<^verbatim>\<open>NewKit/MutableArray.h\<close>.
\<close>

section \<open>Timers\<close>

text \<open>Signed 64-bit values as integers; a result out of their range is an overflow.\<close>

definition s64_ok :: "int \<Rightarrow> bool" where
  "s64_ok x \<longleftrightarrow> - (2 ^ 63) \<le> x \<and> x < 2 ^ 63"

definition checked :: "int \<Rightarrow> abort + int" where
  "checked x = (if s64_ok x then Inr x else Inl SignedOverflow)"

definition Milliseconds :: "int \<Rightarrow> abort + int" where
  "Milliseconds time = (if time < 0 then Inr 0 else checked (1000 * 1000 * time))"

definition Seconds :: "int \<Rightarrow> abort + int" where
  "Seconds time =
     (if time < 0 then Inr 0
      else case Milliseconds time of Inl e \<Rightarrow> Inl e | Inr ms \<Rightarrow> checked (1000 * ms))"

definition TimerInterface_Wait :: u32 where
  "TimerInterface_Wait = kErrorUnimplemented"

text \<open>The state of a software timer is the value its cell holds; \<open>w\<close> is \<open>fWaitFor\<close>.\<close>

partial_function (option) SoftwareTimer_loop :: "int \<Rightarrow> int \<Rightarrow> (abort + int) option" where
  "SoftwareTimer_loop w t =
     ebind (Some (checked (t + w))) (\<lambda>limit.
       if t < limit then ebind (Some (checked (t + 1))) (\<lambda>t'. SoftwareTimer_loop w t')
       else Some (Inr t))"

definition SoftwareTimer_Wait :: "int \<Rightarrow> int \<Rightarrow> (abort + int \<times> int) option" where
  "SoftwareTimer_Wait w t =
     (if w < 1 then Some (Inr (t, 1)) else ebind (SoftwareTimer_loop w t) (\<lambda>t'. Some (Inr (t', 0))))"

section \<open>Semaphores\<close>

text \<open>The state is \<open>fLockingProcess\<close>.\<close>

definition Semaphore_Unlock :: "addr \<Rightarrow> addr \<times> bool" where
  "Semaphore_Unlock fLockingProcess = (if fLockingProcess \<noteq> null then (null, True) else (fLockingProcess, False))"

definition Semaphore_Lock :: "addr \<Rightarrow> addr \<Rightarrow> addr \<times> bool" where
  "Semaphore_Lock process fLockingProcess =
     (if process = null \<or> fLockingProcess \<noteq> null then (fLockingProcess, False) else (process, True))"

definition Semaphore_IsLocked :: "addr \<Rightarrow> bool" where
  "Semaphore_IsLocked fLockingProcess = (fLockingProcess \<noteq> null)"

text \<open>The timer is \<open>None\<close> for null, or the effect of its virtual \<open>Wait\<close> on the timer's own state.\<close>

definition Semaphore_LockOrWait ::
    "addr \<Rightarrow> ('t \<Rightarrow> (abort + 't) option) option \<Rightarrow> addr \<Rightarrow> 't \<Rightarrow> (abort + addr \<times> 't \<times> bool) option" where
  "Semaphore_LockOrWait process timer fLockingProcess t =
     (if process = null then Some (Inr (fLockingProcess, t, False))
      else case timer of
        None \<Rightarrow> Some (Inr (fLockingProcess, t, False))
      | Some wait \<Rightarrow>
          let (l1, _) = Semaphore_Lock process fLockingProcess in
          ebind (wait t) (\<lambda>t'. let (l2, ok) = Semaphore_Lock process l1 in Some (Inr (l2, t', ok))))"

partial_function (option) Semaphore_WaitForProcess :: "addr \<Rightarrow> unit option" where
  "Semaphore_WaitForProcess fLockingProcess =
     (if fLockingProcess \<noteq> null then Semaphore_WaitForProcess fLockingProcess else Some ())"

text \<open>The semaphore as a state machine: requests of processes to lock, and unlocking.\<close>

datatype sem_op = SemLock addr | SemUnlock

primrec sem_apply :: "sem_op \<Rightarrow> addr \<Rightarrow> addr \<times> bool" where
  "sem_apply (SemLock p) s = Semaphore_Lock p s"
| "sem_apply SemUnlock s = Semaphore_Unlock s"

primrec sem_run :: "sem_op list \<Rightarrow> addr \<Rightarrow> addr \<times> bool list" where
  "sem_run [] s = (s, [])"
| "sem_run (op # ops) s = (let (s1, ok) = sem_apply op s; (s2, oks) = sem_run ops s1 in (s2, ok # oks))"

section \<open>Thread information blocks\<close>

text \<open>\<open>ICodec::AsBytes\<close> returns null whatever it is given. The record pointer follows the three cookie bytes.\<close>

definition ICodec_AsBytes :: "addr \<Rightarrow> addr" where
  "ICodec_AsBytes type = null"

definition load_char :: "mem \<Rightarrow> addr \<Rightarrow> abort + u8" where
  "load_char m p = (if p = null then Inl NullAccess else Inr (m p))"

definition tls_check_tib :: "mem \<Rightarrow> addr \<Rightarrow> abort + bool" where
  "tls_check_tib m tib_ptr =
     (if tib_ptr = null \<or> load64 m (tib_ptr + 3) = 0 then Inr False
      else
        let tib_as_bytes = ICodec_AsBytes tib_ptr in
        case load_char m tib_as_bytes of
          Inl e \<Rightarrow> Inl e
        | Inr c0 \<Rightarrow> Inr (c0 = 0x5A \<and> m (tib_as_bytes + 1) = 0x4B \<and> m (tib_as_bytes + 2) = 0x41))"

definition tls_check_syscall_impl :: "mem \<Rightarrow> addr \<Rightarrow> abort + bool" where
  "tls_check_syscall_impl m tib_ptr =
     (if tib_ptr = null then Inr False
      else case tls_check_tib m tib_ptr of Inl e \<Rightarrow> Inl e | Inr ok \<Rightarrow> if \<not> ok then Inr False else Inr True)"

section \<open>The file index\<close>

record IndexableProperty =
  ix_Path :: addr
  ix_Flags :: u32

definition kIndexerClaimed :: u16 where "kIndexerClaimed = 0xCF"

text \<open>Flags are passed as signed 16-bit numbers and widened to 32 bits.\<close>

definition AddFlag :: "u16 \<Rightarrow> IndexableProperty \<Rightarrow> IndexableProperty" where
  "AddFlag flag ix = ix\<lparr>ix_Flags := ix_Flags ix OR scast flag\<rparr>"

definition RemoveFlag :: "u16 \<Rightarrow> IndexableProperty \<Rightarrow> IndexableProperty" where
  "RemoveFlag flag ix = ix\<lparr>ix_Flags := ix_Flags ix AND scast flag\<rparr>"

definition HasFlag :: "u16 \<Rightarrow> IndexableProperty \<Rightarrow> u16" where
  "HasFlag flag ix = ucast (ix_Flags ix AND scast flag)"

definition fs_index_file :: "addr \<Rightarrow> u64 \<Rightarrow> IndexableProperty \<Rightarrow> mem \<Rightarrow> mem \<times> IndexableProperty" where
  "fs_index_file filename filenameLen indexer m =
     (if HasFlag kIndexerClaimed indexer = 0
      then (fst (rt_copy_memory m (ix_Path indexer) filename filenameLen), AddFlag kIndexerClaimed indexer)
      else (m, indexer))"

section \<open>Growing arrays\<close>

text \<open>
  The list of nodes a \<open>MutableArray\<close> reaches from its own \<open>fFirstNode\<close>, which hides the one of its
  base class. The first \<open>Add\<close> allocates a node; no operation ever links a second one.
\<close>

record 'a node =
  nd_Val :: 'a
  nd_Index :: u64
  nd_Used :: bool

record 'a marray =
  ma_nodes :: "'a node list"
  ma_count :: u64

fun Add_walk :: "'a \<Rightarrow> 'a node list \<Rightarrow> 'a node list \<times> bool" where
  "Add_walk val [] = ([], False)"
| "Add_walk val (n # ns) =
     (if \<not> nd_Used n then (n\<lparr>nd_Val := val, nd_Index := 0, nd_Used := True\<rparr> # ns, True)
      else let (ns', ok) = Add_walk val ns in (n # ns', ok))"

definition MutableArray_Add :: "'a \<Rightarrow> 'a \<Rightarrow> 'a marray \<Rightarrow> 'a marray \<times> bool" where
  "MutableArray_Add init val arr =
     (let nodes = (if ma_nodes arr = [] then [\<lparr>nd_Val = init, nd_Index = 0, nd_Used = False\<rparr>] else ma_nodes arr);
          (nodes', ok) = Add_walk val nodes
      in (\<lparr>ma_nodes = nodes', ma_count = (if ok then ma_count arr + 1 else ma_count arr)\<rparr>, ok))"

definition MutableArray_at :: "u64 \<Rightarrow> 'a marray \<Rightarrow> 'a option" where
  "MutableArray_at Index arr = map_option nd_Val (find (\<lambda>n. nd_Index n = Index) (ma_nodes arr))"

definition MutableArray_Contains :: "'a \<Rightarrow> 'a marray \<Rightarrow> bool" where
  "MutableArray_Contains value arr = list_ex (\<lambda>n. nd_Val n = value \<and> nd_Used n) (ma_nodes arr)"

section \<open>Properties\<close>

lemma SoftwareTimer_loop_overflows:
  assumes "1 \<le> w" and "s64_ok w" and "s64_ok t"
  shows "SoftwareTimer_loop w t = Some (Inl SignedOverflow)"
  using assms(3)
proof (induction "nat (2 ^ 63 - t)" arbitrary: t rule: less_induct)
  case less
  show ?case
  proof (cases "s64_ok (t + w)")
    case False
    then show ?thesis by (subst SoftwareTimer_loop.simps) (simp add: checked_def)
  next
    case True
    then have "s64_ok (t + 1)" using assms(1) less.prems by (simp add: s64_ok_def)
    moreover from this less.prems have "nat (2 ^ 63 - (t + 1)) < nat (2 ^ 63 - t)" by (simp add: s64_ok_def)
    ultimately have "SoftwareTimer_loop w (t + 1) = Some (Inl SignedOverflow)" using less.hyps by blast
    with True \<open>s64_ok (t + 1)\<close> assms(1) show ?thesis by (subst SoftwareTimer_loop.simps) (simp add: checked_def)
  qed
qed

text \<open>
  Remark. A software timer never comes to an end: for every positive waiting time the loop compares the counter with the
  counter plus that time, so it goes on until the sum overflows the signed range; \<open>Wait\<close> has no other outcome.
  With no time to wait it returns one at once.
\<close>

theorem SoftwareTimer_Wait_never_returns:
  assumes "s64_ok w" and "s64_ok t"
  shows "SoftwareTimer_Wait w t = (if w < 1 then Some (Inr (t, 1)) else Some (Inl SignedOverflow))"
  using assms SoftwareTimer_loop_overflows [of w t] by (simp add: SoftwareTimer_Wait_def)

theorem SoftwareTimer_Wait_never_returns_witness:
  "SoftwareTimer_Wait 5 0 = Some (Inl SignedOverflow)"
  using SoftwareTimer_Wait_never_returns [of 5 0] by (simp add: s64_ok_def)

text \<open>The number of successful requests of each kind in a run.\<close>

fun granted :: "sem_op list \<Rightarrow> bool list \<Rightarrow> nat" where
  "granted (SemLock p # ops) (ok # oks) = (if ok then 1 else 0) + granted ops oks"
| "granted (SemUnlock # ops) (ok # oks) = granted ops oks"
| "granted _ _ = 0"

fun released :: "sem_op list \<Rightarrow> bool list \<Rightarrow> nat" where
  "released (SemUnlock # ops) (ok # oks) = (if ok then 1 else 0) + released ops oks"
| "released (SemLock p # ops) (ok # oks) = released ops oks"
| "released _ _ = 0"

text \<open>
  Property C34. A semaphore is held by at most one process at any time: in every sequence of lock and unlock requests,
  the locks granted exceed the unlocks by one exactly when the semaphore is locked at the end, and by none otherwise
  (one more on both sides when it was locked at the start).
\<close>

theorem Semaphore_mutual_exclusion:
  "sem_run ops s = (s', oks) \<Longrightarrow>
   granted ops oks + of_bool (Semaphore_IsLocked s) = released ops oks + of_bool (Semaphore_IsLocked s')"
proof (induction ops arbitrary: s oks)
  case Nil
  then show ?case by simp
next
  case (Cons op ops)
  obtain s1 ok oks1 where step: "sem_apply op s = (s1, ok)" and run: "sem_run ops s1 = (s', oks1)" and oks: "oks = ok # oks1"
    using Cons.prems by (auto split: prod.splits)
  from Cons.IH [OF run] step oks show ?case
    by (cases op) (auto simp: Semaphore_Lock_def Semaphore_Unlock_def Semaphore_IsLocked_def split: if_splits)
qed

theorem Semaphore_mutual_exclusion_witness:
  "sem_run [SemLock 8, SemLock 16, SemUnlock, SemLock 16] null = (16, [True, False, True, True])
   \<and> granted [SemLock 8, SemLock 16, SemUnlock, SemLock 16] [True, False, True, True] = 2"
proof -
  have run: "sem_run [SemLock 8, SemLock 16, SemUnlock, SemLock 16] null = (16, [True, False, True, True])"
    by (simp add: Semaphore_Lock_def Semaphore_Unlock_def)
  from Semaphore_mutual_exclusion [OF run] run show ?thesis by (simp add: Semaphore_IsLocked_def)
qed

text \<open>
  Remark. \<open>LockOrWait\<close> never reports success: it locks, waits, and locks again, and the second attempt meets its own
  lock. When the semaphore was free the caller holds it all the same.
\<close>

lemma LockOrWait_never_succeeds:
  "Semaphore_LockOrWait p timer l t = Some (Inr (l', t', ok)) \<Longrightarrow> \<not> ok"
  by (auto simp: Semaphore_LockOrWait_def Semaphore_Lock_def ebind_eq_Some Let_def split: if_splits option.splits prod.splits)

text \<open>
  Remark. Indexing a file overwrites the file name: the copy goes from the path of the index to the caller's string, so an
  unclaimed index is marked as claimed with its path unchanged, and the name holds what the path held.
\<close>

theorem fs_index_file_overwrites_name:
  assumes "HasFlag kIndexerClaimed ix = 0" and "ix_Path ix \<noteq> null" and "filename \<noteq> null"
    and "disjoint_ranges (ix_Path ix) (unat len) filename (unat len)"
    and "fs_index_file filename len ix m = (m', ix')"
  shows "HasFlag kIndexerClaimed ix' \<noteq> 0 \<and> ix_Path ix' = ix_Path ix
    \<and> load_bytes m' filename (unat len) = load_bytes m (ix_Path ix) (unat len)
    \<and> load_bytes m' (ix_Path ix) (unat len) = load_bytes m (ix_Path ix) (unat len)"
proof -
  have copy: "m' = store_bytes m filename (load_bytes m (ix_Path ix) (unat len))" and ix: "ix' = AddFlag kIndexerClaimed ix"
    using assms rt_copy_memory_eq [of filename "ix_Path ix" len m] by (auto simp: fs_index_file_def disjoint_ranges_def)
  have "(x OR y) AND y = y" for x y :: u32 by (rule bit_eqI) (auto simp: bit_simps)
  then have "HasFlag kIndexerClaimed ix' \<noteq> 0" unfolding ix by (simp add: HasFlag_def AddFlag_def kIndexerClaimed_def)
  moreover have "unat len \<le> 2 ^ 64" using unat_u64_lt [of len] by simp
  then have "load_bytes m' filename (unat len) = load_bytes m (ix_Path ix) (unat len)"
    "load_bytes m' (ix_Path ix) (unat len) = load_bytes m (ix_Path ix) (unat len)"
    unfolding copy
    using load_store_bytes_same [of "load_bytes m (ix_Path ix) (unat len)" m filename]
      load_store_bytes_disjoint [of "ix_Path ix" "unat len" filename "load_bytes m (ix_Path ix) (unat len)" m] assms(4)
    by simp_all
  ultimately show ?thesis by (simp add: ix AddFlag_def)
qed

theorem fs_index_file_overwrites_name_witness:
  "\<exists>m' ix'. fs_index_file 0x2000 2 \<lparr>ix_Path = 0x1000, ix_Flags = 0\<rparr> (\<lambda>a. if a = 0x2000 then 0x61 else 0) = (m', ix')
     \<and> load_bytes m' 0x2000 2 = [0, 0]"
proof -
  let ?ix = "\<lparr>ix_Path = 0x1000, ix_Flags = 0\<rparr>" and ?m = "\<lambda>a :: addr. if a = 0x2000 then 0x61 else 0 :: u8"
  obtain m' ix' where f: "fs_index_file 0x2000 2 ?ix ?m = (m', ix')" by fastforce
  have "load_bytes m' 0x2000 (unat (2 :: u64)) = load_bytes ?m (ix_Path ?ix) (unat (2 :: u64))"
    using fs_index_file_overwrites_name [OF _ _ _ _ f] by (simp add: HasFlag_def disjoint_ranges_def)
  with f show ?thesis by (simp add: eval_simps)
qed

text \<open>
  Remark. The check of a thread information block faults on every block with a record: the bytes it looks at are those
  \<open>ICodec::AsBytes\<close> returns, which is null.
\<close>

lemma tls_check_tib_faults:
  "tls_check_syscall_impl m tib =
     (if tib = null \<or> load64 m (tib + 3) = 0 then Inr False else Inl NullAccess)"
  by (simp add: tls_check_syscall_impl_def tls_check_tib_def ICodec_AsBytes_def load_char_def)

text \<open>
  Remark. A growing array holds one element: the first \<open>Add\<close> succeeds and its element is found at index zero, and every
  later \<open>Add\<close> is refused and changes nothing.
\<close>

theorem MutableArray_holds_one:
  assumes "MutableArray_Add init x \<lparr>ma_nodes = [], ma_count = 0\<rparr> = (a1, ok1)" and "MutableArray_Add init y a1 = (a2, ok2)"
  shows "ok1 \<and> MutableArray_at 0 a1 = Some x \<and> MutableArray_Contains x a1 \<and> ma_count a1 = 1
    \<and> \<not> ok2 \<and> a2 = a1"
  using assms by (auto simp: MutableArray_Add_def MutableArray_at_def MutableArray_Contains_def)

theorem MutableArray_holds_one_witness:
  "\<exists>a1 a2. MutableArray_Add 0 (7 :: nat) \<lparr>ma_nodes = [], ma_count = 0\<rparr> = (a1, True)
     \<and> MutableArray_Add 0 8 a1 = (a2, False) \<and> MutableArray_at 0 a2 = Some 7"
proof -
  obtain a1 ok1 a2 ok2 where "MutableArray_Add 0 (7 :: nat) \<lparr>ma_nodes = [], ma_count = 0\<rparr> = (a1, ok1)"
    "MutableArray_Add 0 8 a1 = (a2, ok2)" by fastforce
  with MutableArray_holds_one [OF this] show ?thesis by auto
qed

end
