(* ===== verification/Code_Loader.thy ===== *)
theory Code_Loader
  imports Process_Correct File_Mgr Kernel_Strings
begin

text \<open>
  Loading programs: the container format \<^verbatim>\<open>KernelKit/PEF.h\<close>, the loader
  \<^verbatim>\<open>src/PEFCodeMgr.cc\<close>, processes made from a kernel routine (\<^verbatim>\<open>src/CodeMgr.cc\<close>),
  and libraries (\<^verbatim>\<open>src/IPEFDLLObject.cc\<close> with \<^verbatim>\<open>IPEFDLLObject.h\<close> and
  \<^verbatim>\<open>ThreadLocalStorage.inl\<close>).

  A loader reads its file through a stream class, the argument \<open>ops\<close>; \<open>nefs_streams\<close> is the one of the
  NeFS build. A pointer member without initialiser starts with an arbitrary value, the argument
  \<open>garbage\<close>. A reference made from a value is a \<open>ValueRef\<close> (see \<open>Kernel_Strings\<close>), and what reading it yields
  is the argument \<open>expired\<close>. String literals lie at the addresses of \<open>literals\<close>.
\<close>

section \<open>The container format\<close>

definition kPefMagic :: "u8 list" where "kPefMagic = [0x4A, 0x6F, 0x79, 0x21, 0]"
definition kPefMagicFat :: "u8 list" where "kPefMagicFat = [0x79, 0x6F, 0x4A, 0x21, 0]"
definition kPefMagicLen :: nat where "kPefMagicLen = 5"
definition kPefNameLen :: u64 where "kPefNameLen = 255"
definition kPefAbi :: u32 where "kPefAbi = 0x5046"
definition kPefArchAMD64 :: u32 where "kPefArchAMD64 = 1"
definition kPefCode :: u32 where "kPefCode = 0xC"
definition kPefData :: u32 where "kPefData = 0xD"
definition kPefZero :: u32 where "kPefZero = 0xE"

record PEFContainer =
  pc_Magic :: "u8 list"
  pc_Linker :: u32
  pc_Version :: u32
  pc_Kind :: u32
  pc_Abi :: u32
  pc_Cpu :: u32
  pc_SubCpu :: u32
  pc_Start :: u64
  pc_HdrSz :: u64
  pc_Count :: u64

text \<open>Both structures are packed.\<close>

definition PEFContainer_at :: "mem \<Rightarrow> addr \<Rightarrow> PEFContainer" where
  "PEFContainer_at m p =
     \<lparr>pc_Magic = load_bytes m p kPefMagicLen, pc_Linker = load32 m (p + 5), pc_Version = load32 m (p + 9),
      pc_Kind = load32 m (p + 13), pc_Abi = load32 m (p + 17), pc_Cpu = load32 m (p + 21),
      pc_SubCpu = load32 m (p + 25), pc_Start = load64 m (p + 29), pc_HdrSz = load64 m (p + 37),
      pc_Count = load64 m (p + 45)\<rparr>"

record PEFCommandHeader =
  ph_Name :: addr
  ph_Cpu :: u32
  ph_SubCpu :: u32
  ph_Flags :: u32
  ph_Kind :: u16
  ph_Offset :: u64
  ph_Size :: u64

definition sizeof_PEFCommandHeader :: u64 where "sizeof_PEFCommandHeader = 285"

definition PEFCommandHeader_at :: "mem \<Rightarrow> addr \<Rightarrow> PEFCommandHeader" where
  "PEFCommandHeader_at m p =
     \<lparr>ph_Name = p, ph_Cpu = load32 m (p + 255), ph_SubCpu = load32 m (p + 259), ph_Flags = load32 m (p + 263),
      ph_Kind = load16 m (p + 267), ph_Offset = load64 m (p + 269), ph_Size = load64 m (p + 277)\<rparr>"

definition ldr_get_platform :: u32 where
  "ldr_get_platform = kPefArchAMD64"

section \<open>The loader\<close>

record ('f, 's) stream_class =
  fs_open :: "addr \<Rightarrow> mm_state \<Rightarrow> 's \<Rightarrow> (abort + 's \<times> 'f) option"
  fs_read :: "'f \<Rightarrow> addr \<Rightarrow> mm_state \<Rightarrow> 's \<Rightarrow> (abort + 's \<times> addr) option"

record ('f, 's) pef_state =
  pf_mm :: mm_state
  pf_fs :: 's
  pf_streams :: "addr \<Rightarrow> 'f option"

record PEFLoader =
  ld_fFile :: addr
  ld_fPath :: "KString Ref"
  ld_fCachedBlob :: addr
  ld_fFatBinary :: bool
  ld_fBad :: bool

record literals =
  lit_PEF_CONTAINER :: addr
  lit_code64 :: addr
  lit_data64 :: addr
  lit_zero64 :: addr
  lit_ImageStart :: addr
  lit_SizeOfReserveStack :: addr
  lit_SizeOfReserveHeap :: addr
  lit_ProgramName :: addr

definition sizeof_FileStream :: u64 where "sizeof_FileStream = 24"

text \<open>\<open>OwnPtr::New\<close> keeps a pointer that is already set.\<close>

definition OwnPtr_New ::
    "('f, 's) stream_class \<Rightarrow> addr \<Rightarrow> addr \<Rightarrow> ('f, 's) pef_state \<Rightarrow> (abort + ('f, 's) pef_state \<times> addr) option" where
  "OwnPtr_New ops fCls path st =
     (if fCls \<noteq> null then Some (Inr (st, fCls))
      else
     ebind (operator_new sizeof_FileStream (pf_mm st)) (\<lambda>(mm1, p).
     ebind (fs_open ops path mm1 (pf_fs st)) (\<lambda>(fs1, f).
        if p = null then Some (Inl NullAccess)
        else Some (Inr (st\<lparr>pf_mm := mm1, pf_fs := fs1, pf_streams := (pf_streams st)(p \<mapsto> f)\<rparr>, p)))))"

definition OwnPtr_Delete :: "addr \<Rightarrow> ('f, 's) pef_state \<Rightarrow> abort + ('f, 's) pef_state \<times> addr" where
  "OwnPtr_Delete fCls st =
     (if fCls \<noteq> null
      then case operator_delete fCls (pf_mm st) of
             Inl e \<Rightarrow> Inl e
           | Inr mm1 \<Rightarrow> Inr (st\<lparr>pf_mm := mm1, pf_streams := (pf_streams st)(fCls := None)\<rparr>, null)
      else Inr (st, null))"

definition stream_read ::
    "('f, 's) stream_class \<Rightarrow> addr \<Rightarrow> addr \<Rightarrow> ('f, 's) pef_state \<Rightarrow> (abort + ('f, 's) pef_state \<times> addr) option" where
  "stream_read ops file name st =
     ebind (Some (get_object (pf_streams st) file)) (\<lambda>f.
     ebind (fs_read ops f name (pf_mm st) (pf_fs st)) (\<lambda>(fs1, blob). Some (Inr (st\<lparr>pf_fs := fs1\<rparr>, blob))))"

definition PEFLoader_blob :: "bool \<Rightarrow> PEFLoader \<Rightarrow> addr \<Rightarrow> abort + PEFLoader" where
  "PEFLoader_blob debug garbage blob =
     (case MUST_PASS debug (blob \<noteq> null) of
        Inl e \<Rightarrow> Inl e
      | Inr _ \<Rightarrow> Inr (garbage\<lparr>ld_fPath := NullRef, ld_fCachedBlob := blob, ld_fBad := False\<rparr>))"

definition PEFLoader_path ::
    "('f, 's) stream_class \<Rightarrow> literals \<Rightarrow> addr \<Rightarrow> addr \<Rightarrow> ('f, 's) pef_state
     \<Rightarrow> (abort + ('f, 's) pef_state \<times> PEFLoader) option" where
  "PEFLoader_path ops lits garbage path st =
     ebind (OwnPtr_New ops garbage path st) (\<lambda>(st1, file).
     ebind (StringBuilder_Construct path (pf_mm st1)) (\<lambda>(mm2, fpath).
     ebind (stream_read ops file (lit_PEF_CONTAINER lits) (st1\<lparr>pf_mm := mm2\<rparr>)) (\<lambda>(st3, blob).
       if blob = null then Some (Inl NullAccess)
       else
         let container = PEFContainer_at (memory (pf_mm st3)) blob;
             ld = \<lparr>ld_fFile = file, ld_fPath = mRef fpath, ld_fCachedBlob = blob, ld_fFatBinary = False, ld_fBad = False\<rparr>
         in if pc_Cpu container = ldr_get_platform \<and> pc_Magic container = kPefMagic \<and> pc_Abi container = kPefAbi
            then Some (Inr (st3, ld))
            else if rev (pc_Magic container) = kPefMagic \<and> pc_Abi container = kPefAbi
            then Some (Inr (st3, ld\<lparr>ld_fFatBinary := True\<rparr>))
            else
     ebind (Some (mm_delete_heap blob (pf_mm st3))) (\<lambda>(mm4, _).
              Some (Inr (st3\<lparr>pf_mm := mm4\<rparr>, ld\<lparr>ld_fBad := True, ld_fCachedBlob := null\<rparr>))))))"

definition PEFLoader_delete :: "PEFLoader \<Rightarrow> ('f, 's) pef_state \<Rightarrow> abort + ('f, 's) pef_state" where
  "PEFLoader_delete ld st =
     (case (if ld_fCachedBlob ld \<noteq> null then mm_delete_heap (ld_fCachedBlob ld) (pf_mm st)
            else Inr (pf_mm st, kErrorSuccess)) of
        Inl e \<Rightarrow> Inl e
      | Inr (mm1, _) \<Rightarrow> (case OwnPtr_Delete (ld_fFile ld) (st\<lparr>pf_mm := mm1\<rparr>) of Inl e \<Rightarrow> Inl e | Inr (st2, _) \<Rightarrow> Inr st2))"

definition PEFLoader_IsLoaded :: "PEFLoader \<Rightarrow> bool" where
  "PEFLoader_IsLoaded ld = (\<not> ld_fBad ld \<and> ld_fCachedBlob ld \<noteq> null)"

definition PEFLoader_Path :: "(KString \<Rightarrow> abort + KString) \<Rightarrow> PEFLoader \<Rightarrow> abort + addr" where
  "PEFLoader_Path expired ld = map_sum id fData (Ref_Leak expired (ld_fPath ld))"

definition PEFLoader_GetBlob :: "PEFLoader \<Rightarrow> addr ErrorOr" where
  "PEFLoader_GetBlob ld = ErrorOr_value (ld_fCachedBlob ld)"

section \<open>Symbols\<close>

text \<open>Spaces of the name are replaced in place; the length is measured anew in every round.\<close>

partial_function (option) FindSymbol_mangle :: "mem \<Rightarrow> addr \<Rightarrow> u64 \<Rightarrow> mem option" where
  "FindSymbol_mangle m name i =
     do { len \<leftarrow> rt_string_len_max m name kPefNameLen;
          if i < len
          then FindSymbol_mangle (if m (name + i) = 0x20 then m(name + i := 0x24) else m) name (i + 1)
          else Some m }"

definition FindSymbol_kind :: "literals \<Rightarrow> u32 \<Rightarrow> addr option" where
  "FindSymbol_kind lits kind =
     (if kind = kPefCode then Some (lit_code64 lits)
      else if kind = kPefData then Some (lit_data64 lits)
      else if kind = kPefZero then Some (lit_zero64 lits)
      else None)"

definition FindSymbol_load ::
    "addr \<Rightarrow> mm_state \<Rightarrow> (abort + mm_state \<times> addr) option" where
  "FindSymbol_load blob mm =
     (let sz = ph_Size (PEFCommandHeader_at (memory mm) blob) in
     ebind (operator_new sz mm) (\<lambda>(mm1, value).
       let sz' = ph_Size (PEFCommandHeader_at (memory mm1) blob);
           m2 = fst (rt_copy_memory (memory mm1) (blob + sizeof_PEFCommandHeader) value sz')
       in
     ebind (Some (mm_delete_heap blob (mm1\<lparr>memory := m2\<rparr>))) (\<lambda>(mm3, _). Some (Inr (mm3, value)))))"

text \<open>
  The loop over the containers with \<open>n\<close> of them to go. The header does not advance: every round looks
  at the header at the start of \<open>blob\<close>.
\<close>

primrec FindSymbol_loop ::
    "bool \<Rightarrow> addr \<Rightarrow> u32 \<Rightarrow> addr \<Rightarrow> nat \<Rightarrow> mm_state \<Rightarrow> (abort + mm_state \<times> addr) option" where
  "FindSymbol_loop fat blob kind symbol 0 mm =
     ebind (Some (mm_delete_heap blob mm)) (\<lambda>(mm1, _). Some (Inr (mm1, null)))"
| "FindSymbol_loop fat blob kind symbol (Suc n) mm =
     (if blob = null then Some (Inl NullAccess)
      else let container_header = PEFCommandHeader_at (memory mm) blob in
     ebind (map_option Inr (StringBuilder_Equals (memory mm) (ph_Name container_header) symbol)) (\<lambda>eq.
        if eq \<and> ucast (ph_Kind container_header) = kind then
          if ph_Cpu container_header \<noteq> ldr_get_platform \<and> \<not> fat
          then ebind (Some (mm_delete_heap blob mm)) (\<lambda>(mm1, _). Some (Inr (mm1, null)))
          else FindSymbol_load blob mm
        else FindSymbol_loop fat blob kind symbol n mm))"

definition PEFLoader_FindSymbol ::
    "('f, 's) stream_class \<Rightarrow> (KString \<Rightarrow> abort + KString) \<Rightarrow> literals \<Rightarrow> PEFLoader \<Rightarrow> addr \<Rightarrow> u32 \<Rightarrow> ('f, 's) pef_state
     \<Rightarrow> (abort + ('f, 's) pef_state \<times> addr) option" where
  "PEFLoader_FindSymbol ops expired lits ld name kind st =
     (if ld_fCachedBlob ld = null \<or> ld_fBad ld \<or> name = null then Some (Inr (st, null))
      else
     ebind (stream_read ops (ld_fFile ld) name st) (\<lambda>(st1, blob).
       case FindSymbol_kind lits kind of
         None \<Rightarrow> Some (Inr (st1, null))
       | Some section \<Rightarrow>
     ebind (StringBuilder_Construct section (pf_mm st1)) (\<lambda>(mm2, error_or_symbol).
     ebind (map_option Inr (FindSymbol_mangle (memory mm2) name 0)) (\<lambda>m3.
     ebind (Some (Ref_Leak expired (mRef error_or_symbol))) (\<lambda>symbol.
     ebind (map_option Inr (KString_append_chars m3 symbol name)) (\<lambda>(m4, symbol').
     ebind (FindSymbol_loop (ld_fFatBinary ld) blob kind (fData symbol')
              (unat (pc_Count (PEFContainer_at m4 (ld_fCachedBlob ld)))) (mm2\<lparr>memory := m4\<rparr>)) (\<lambda>(mm5, value).
       Some (Inr (st1\<lparr>pf_mm := mm5\<rparr>, value)))))))))"

definition PEFLoader_FindStart ::
    "('f, 's) stream_class \<Rightarrow> (KString \<Rightarrow> abort + KString) \<Rightarrow> literals \<Rightarrow> PEFLoader \<Rightarrow> ('f, 's) pef_state
     \<Rightarrow> (abort + ('f, 's) pef_state \<times> addr ErrorOr) option" where
  "PEFLoader_FindStart ops expired lits ld st =
     ebind (PEFLoader_FindSymbol ops expired lits ld (lit_ImageStart lits) kPefCode st) (\<lambda>(st1, sym).
       Some (Inr (st1, if sym \<noteq> null then ErrorOr_value sym else ErrorOr_error kErrorExecutable)))"

section \<open>Streams of the NeFS build\<close>

text \<open>
  \<open>obj\<close> is the string object at an address, \<open>place\<close> the address of the buffer a fork was read into, and
  \<open>rb\<close> the address of the mode.
\<close>

definition nefs_streams ::
    "'s DriveTrait \<Rightarrow> NeFileSystemMgr option \<Rightarrow> (mem \<Rightarrow> addr \<Rightarrow> u8 list) \<Rightarrow> (NFS_FORK \<Rightarrow> addr) \<Rightarrow> addr
     \<Rightarrow> (FileStream, 's nefs) stream_class" where
  "nefs_streams drv mounted obj place rb =
     \<lparr>fs_open = (\<lambda>path mm s.
        FileStream_new drv mounted (if path = null then None else Some (obj (memory mm) path)) (memory mm) rb s),
      fs_read = (\<lambda>f name mm s.
        ebind (FileStream_Read_named drv mounted f (obj (memory mm) name) s) (\<lambda>(s1, fork).
          Some (Inr (s1, case fork of None \<Rightarrow> null | Some fk \<Rightarrow> place fk))))\<rparr>"

section \<open>Creating processes\<close>

definition sizeof_UserProcess :: u64 where "sizeof_UserProcess = 296"
definition kProcessNameLen :: u64 where "kProcessNameLen = 128"
definition kSchedMaxStackSz :: u64 where "kSchedMaxStackSz = 8 * 1024 * 1024"
definition kSchedMaxMemoryLimit :: u64 where "kSchedMaxMemoryLimit = 128 * 1024 * 1024 * 1024"

text \<open>\<open>"Process (Unnamed)"\<close>\<close>

definition kProcessUnnamed :: "u8 list" where
  "kProcessUnnamed =
     [0x50, 0x72, 0x6F, 0x63, 0x65, 0x73, 0x73, 0x20, 0x28, 0x55, 0x6E, 0x6E, 0x61, 0x6D, 0x65, 0x64, 0x29]"

text \<open>The image, the signal and the team have no initialiser and keep what \<open>garbage\<close> has there.\<close>

definition UserProcess_default :: "UserProcess \<Rightarrow> UserProcess" where
  "UserProcess_default garbage =
     \<lparr>up_Name = kProcessUnnamed @ replicate 111 0, up_Owner = null, up_StackFrame = null, up_Affinity = kStandard,
      up_Status = kFinished, up_StackReserve = null, up_fCode = up_fCode garbage, up_fBlob = up_fBlob garbage,
      up_StackSize = kSchedMaxStackSz, up_PefDLLDelegate = null, up_MemoryLimit = kSchedMaxMemoryLimit,
      up_ProcessSignal = up_ProcessSignal garbage,
      up_ProcessMemoryHeap = null, up_ProcessParentTeam = up_ProcessParentTeam garbage, up_VMRegister = null,
      up_PTime = 0, up_ProcessId = kProcessInvalidID, up_Kind = kExectuableKind, up_fLastExitCode = 0, up_fLocalCode = 0\<rparr>"

definition UserProcess_new :: "UserProcess \<Rightarrow> sched \<Rightarrow> (abort + sched \<times> addr) option" where
  "UserProcess_new garbage s =
     ebind (operator_new sizeof_UserProcess (sc_mm s)) (\<lambda>(mm1, p).
       if p = null then Some (Inl NullAccess)
       else Some (Inr (set_proc p (UserProcess_default garbage) (s\<lparr>sc_mm := mm1\<rparr>), p)))"

definition UserProcess_delete :: "addr \<Rightarrow> sched \<Rightarrow> abort + sched" where
  "UserProcess_delete p s =
     (case operator_delete p (sc_mm s) of
        Inl e \<Rightarrow> Inl e
      | Inr mm1 \<Rightarrow> Inr (s\<lparr>sc_mm := mm1, sc_procs := (sc_procs s)(p := None)\<rparr>))"

text \<open>
  \<open>rt_set_memory(process->Name, 0, kProcessNameLen)\<close> stores 128 words of four bytes from the start of
  the object on, more than the whole object has.
\<close>

definition UserProcess_zero :: UserProcess where
  "UserProcess_zero =
     \<lparr>up_Name = replicate 128 0, up_Owner = null, up_StackFrame = null, up_Affinity = kAffinityZero,
      up_Status = kInvalid, up_StackReserve = null, up_fCode = null, up_fBlob = null, up_StackSize = 0,
      up_PefDLLDelegate = null, up_MemoryLimit = 0,
      up_ProcessSignal = \<lparr>SignalIP = 0, PreviousStatus = kInvalid, SignalID = 0\<rparr>, up_ProcessMemoryHeap = null, up_ProcessParentTeam = False,
      up_VMRegister = null, up_PTime = 0, up_ProcessId = 0, up_Kind = 0, up_fLastExitCode = 0, up_fLocalCode = 0\<rparr>"

definition clear_name :: "addr \<Rightarrow> sched \<Rightarrow> sched" where
  "clear_name p s =
     set_proc p UserProcess_zero
       (s\<lparr>sc_mm := (sc_mm s)\<lparr>memory := fst (rt_set_memory (memory (sc_mm s)) p 0 kProcessNameLen)\<rparr>\<rparr>)"

text \<open>Copying a C string to the name of a process; a longer one runs over the fields behind the name.\<close>

definition copy_name :: "addr \<Rightarrow> addr \<Rightarrow> sched \<Rightarrow> (abort + sched) option" where
  "copy_name src p s =
     ebind (map_option Inr (rt_string_len (memory (sc_mm s)) src)) (\<lambda>len.
     ebind (Some (get_proc s p)) (\<lambda>pr.
       if len > kProcessNameLen then Some (Inl OutOfBounds)
       else Some (Inr (set_proc p (pr\<lparr>up_Name := load_bytes (memory (sc_mm s)) src (unat len) @ drop (unat len) (up_Name pr)\<rparr>) s))))"

text \<open>The process a kernel routine \<open>main\<close> runs in.\<close>

definition rtl_create_process ::
    "(addr \<Rightarrow> sched \<Rightarrow> (abort + sched \<times> addr) option) \<Rightarrow> UserProcess \<Rightarrow> addr \<Rightarrow> addr \<Rightarrow> sched
     \<Rightarrow> (abort + sched \<times> u64) option" where
  "rtl_create_process init_dll garbage main process_name s =
     (if memory (sc_mm s) process_name = 0 then Some (Inr (s, kProcessInvalidID))
      else
     ebind (UserProcess_new garbage s) (\<lambda>(s1, p).
     ebind (Some (get_proc s1 p)) (\<lambda>pr.
       let s2 = set_proc p (pr\<lparr>up_fCode := main, up_Kind := kExectuableKind, up_StackSize := 8 * 1024\<rparr>) s1 in
     ebind (copy_name process_name p (clear_name p s2)) (\<lambda>s3.
     ebind (UserProcessScheduler_Spawn init_dll p s3) (\<lambda>(s4, pid).
       if pid = kProcessInvalidID
       then ebind (Some (UserProcess_delete p s4)) (\<lambda>s5. Some (Inr (s5, pid)))
       else Some (Inr (s4, pid)))))))"

text \<open>The process of a loaded executable. \<open>pef_on\<close> runs a routine of the loader on the scheduler's memory.\<close>

definition pef_on ::
    "(('f, 's) pef_state \<Rightarrow> (abort + ('f, 's) pef_state \<times> 'r) option) \<Rightarrow> ('f, 's) pef_state \<times> sched
     \<Rightarrow> (abort + (('f, 's) pef_state \<times> sched) \<times> 'r) option" where
  "pef_on call w =
     (case w of (st, s) \<Rightarrow>
        ebind (call (st\<lparr>pf_mm := sc_mm s\<rparr>)) (\<lambda>(st1, r). Some (Inr ((st1, s\<lparr>sc_mm := pf_mm st1\<rparr>), r))))"

definition set_fields :: "addr \<Rightarrow> (UserProcess \<Rightarrow> UserProcess) \<Rightarrow> sched \<Rightarrow> abort + sched" where
  "set_fields p f s = map_sum id (\<lambda>pr. set_proc p (f pr) s) (get_proc s p)"

text \<open>Reading a word through the pointer \<open>FindSymbol\<close> returned.\<close>

definition read_symbol ::
    "(addr \<Rightarrow> ('f, 's) pef_state \<times> sched \<Rightarrow> (abort + (('f, 's) pef_state \<times> sched) \<times> addr) option) \<Rightarrow> addr
     \<Rightarrow> ('f, 's) pef_state \<times> sched \<Rightarrow> (abort + (('f, 's) pef_state \<times> sched) \<times> u64) option" where
  "read_symbol fetch symbol w =
     ebind (fetch symbol w) (\<lambda>(w1, q).
       if q = null then Some (Inl NullAccess) else Some (Inr (w1, load64 (memory (sc_mm (snd w1))) q)))"

definition create_name ::
    "(addr \<Rightarrow> ('f, 's) pef_state \<times> sched \<Rightarrow> (abort + (('f, 's) pef_state \<times> sched) \<times> addr) option) \<Rightarrow> addr \<Rightarrow> addr
     \<Rightarrow> ('f, 's) pef_state \<times> sched \<Rightarrow> (abort + ('f, 's) pef_state \<times> sched) option" where
  "create_name fetch symbol p w =
     ebind (fetch symbol w) (\<lambda>(w1, q1).
       if q1 = null then Some (Inr w1)
       else
     ebind (fetch symbol w1) (\<lambda>(w2, q2).
     ebind (fetch symbol w2) (\<lambda>((st3, s3), q3).
       if q2 = null \<or> q3 = null then Some (Inl NullAccess)
       else
     ebind (copy_name q2 p s3) (\<lambda>s4. Some (Inr (st3, s4))))))"

definition rtl_create_process_pef ::
    "('f, 's) stream_class \<Rightarrow> (KString \<Rightarrow> abort + KString) \<Rightarrow> (addr \<Rightarrow> abort + addr) \<Rightarrow> literals
     \<Rightarrow> (addr \<Rightarrow> sched \<Rightarrow> (abort + sched \<times> addr) option) \<Rightarrow> UserProcess \<Rightarrow> PEFLoader \<Rightarrow> u32
     \<Rightarrow> ('f, 's) pef_state \<times> sched \<Rightarrow> (abort + (('f, 's) pef_state \<times> sched) \<times> u64) option" where
  "rtl_create_process_pef ops expired expired_ptr lits init_dll garbage exec procKind w =
     (let fetch = (\<lambda>name. pef_on (PEFLoader_FindSymbol ops expired lits exec name kPefData)) in
     ebind (pef_on (PEFLoader_FindStart ops expired lits exec) w) (\<lambda>((st1, s1), errOrStart).
       if mId errOrStart \<noteq> kErrorSuccess then Some (Inr ((st1, s1), kProcessInvalidID))
       else
     ebind (UserProcess_new garbage s1) (\<lambda>(s2, p).
     ebind (Some (Ref_Leak expired_ptr (mRef errOrStart))) (\<lambda>code.
     ebind (Some (Ref_Leak expired_ptr (mRef (PEFLoader_GetBlob exec)))) (\<lambda>blob.
     ebind (Some (set_fields p (\<lambda>pr. pr\<lparr>up_Kind := procKind, up_fCode := code, up_fBlob := blob\<rparr>) s2)) (\<lambda>s3.
     ebind (read_symbol fetch (lit_SizeOfReserveStack lits) (st1, s3)) (\<lambda>((st4, s4), stack_size).
     ebind (Some (set_fields p (\<lambda>pr. pr\<lparr>up_StackSize := stack_size\<rparr>) s4)) (\<lambda>s4.
     ebind (read_symbol fetch (lit_SizeOfReserveHeap lits) (st4, s4)) (\<lambda>((st5, s5), limit).
     ebind (Some (set_fields p (\<lambda>pr. pr\<lparr>up_MemoryLimit := limit, up_PTime := 0\<rparr>) s5)) (\<lambda>s5.
     ebind (create_name fetch (lit_ProgramName lits) p (st5, clear_name p s5)) (\<lambda>(st6, s6).
     ebind (Some (set_fields p (\<lambda>pr. if up_StackSize pr = 0 then pr\<lparr>up_StackSize := 8 * 1024 * 1024\<rparr> else pr) s6)) (\<lambda>s6.
     ebind (UserProcessScheduler_Spawn init_dll p s6) (\<lambda>(s7, pid).
       if pid = kProcessInvalidID
       then ebind (Some (UserProcess_delete p s7)) (\<lambda>s8. Some (Inr ((st6, s8), pid)))
       else Some (Inr ((st6, s7), pid)))))))))))))))"

section \<open>Thread-local allocation and libraries\<close>

text \<open>
  The \<open>ErrorOr\<close> of \<open>UserProcess::New\<close> holds the pointer for the first block of a process and nothing
  for a later one; its error code is zero in both cases.
\<close>

definition tls_new_ptr ::
    "(addr \<Rightarrow> abort + addr) \<Rightarrow> u64 \<Rightarrow> sched \<Rightarrow> (abort + sched \<times> addr) option" where
  "tls_new_ptr expired_ptr sz s =
     (let current = mCurrentProcess s in
     ebind (Some (MUST_PASS (debug_build (sc_mm s)) (current \<noteq> null))) (\<lambda>_.
     ebind (Some (get_proc s current)) (\<lambda>pr.
     ebind (UserProcess_New current sz 0 s) (\<lambda>(s1, ptr).
       let pointer = (if up_ProcessMemoryHeap pr = null then ErrorOr_value ptr else ErrorOr_null) in
       if mId pointer \<noteq> 0 then Some (Inr (s1, null))
       else
     ebind (Some (Ref_Leak expired_ptr (mRef pointer))) (\<lambda>obj. Some (Inr (s1, obj)))))))"

definition tls_delete_ptr :: "addr \<Rightarrow> u64 \<Rightarrow> sched \<Rightarrow> (abort + sched \<times> bool) option" where
  "tls_delete_ptr obj sz s =
     (if obj = null then Some (Inr (s, False))
      else
     ebind (Some (MUST_PASS (debug_build (sc_mm s)) (mCurrentProcess s \<noteq> null))) (\<lambda>_.
     UserProcess_Delete (mCurrentProcess s) (Some obj) sz s))"

record DLL_TRAITS =
  ImageObject :: addr
  ImageEntrypointOffset :: addr

definition DLL_TRAITS_IsValid :: "DLL_TRAITS \<Rightarrow> bool" where
  "DLL_TRAITS_IsValid t = (ImageObject t \<noteq> null \<and> ImageEntrypointOffset t \<noteq> null)"

definition sizeof_IPEFDLLObject :: u64 where "sizeof_IPEFDLLObject = 24"
definition sizeof_DLL_TRAITS :: u64 where "sizeof_DLL_TRAITS = 16"
definition kPathLen :: u64 where "kPathLen = 0x100"

text \<open>\<open>Mount\<close> on the mounted traits; the loader it makes is read by no other modelled code.\<close>

definition IPEFDLLObject_Mount :: "addr \<Rightarrow> DLL_TRAITS \<Rightarrow> addr \<Rightarrow> addr" where
  "IPEFDLLObject_Mount to_mount traits fMounted =
     (if to_mount = null \<or> ImageObject traits = null then fMounted else to_mount)"

definition IPEFDLLObject_Unmount :: "addr \<Rightarrow> addr" where
  "IPEFDLLObject_Unmount fMounted = (if fMounted \<noteq> null then null else fMounted)"

text \<open>\<open>fetch\<close> is \<open>FindSymbol\<close> of the object's loader, \<open>pure_call\<close> the address of \<open>__zka_pure_call\<close>.\<close>

definition IPEFDLLObject_Load ::
    "(addr \<Rightarrow> u32 \<Rightarrow> 'w \<Rightarrow> (abort + 'w \<times> addr) option) \<Rightarrow> addr \<Rightarrow> mem \<Rightarrow> addr \<Rightarrow> u64 \<Rightarrow> u32 \<Rightarrow> 'w
     \<Rightarrow> (abort + 'w \<times> addr) option" where
  "IPEFDLLObject_Load fetch pure_call m symbol_name len kind w =
     (if symbol_name = null \<or> m symbol_name = 0 then Some (Inr (w, null))
      else if len > kPathLen \<or> len < 1 then Some (Inr (w, null))
      else
     ebind (fetch symbol_name kind w) (\<lambda>(w1, ret).
       if ret = null then Some (Inr (w1, if kind = kPefCode then pure_call else null)) else Some (Inr (w1, ret))))"

text \<open>The failure of \<open>rtl_init_dll\<close>: the object is given back and the process crashes.\<close>

definition init_dll_fail :: "addr \<Rightarrow> addr \<Rightarrow> sched \<Rightarrow> (abort + sched \<times> addr) option" where
  "init_dll_fail dll_obj header s =
     ebind (tls_delete_ptr dll_obj sizeof_IPEFDLLObject (s\<lparr>sc_dlls := (sc_dlls s)(dll_obj := None)\<rparr>)) (\<lambda>(s1, _).
     ebind (UserProcess_Crash header s1) (\<lambda>s2. Some (Inr (s2, null))))"

definition rtl_init_dll ::
    "(addr \<Rightarrow> abort + addr) \<Rightarrow> (addr \<Rightarrow> u32 \<Rightarrow> sched \<Rightarrow> (abort + sched \<times> addr) option) \<Rightarrow> addr \<Rightarrow> literals \<Rightarrow> addr \<Rightarrow> sched
     \<Rightarrow> (abort + sched \<times> addr) option" where
  "rtl_init_dll expired_ptr fetch pure_call lits header s =
     ebind (tls_new_ptr expired_ptr sizeof_IPEFDLLObject s) (\<lambda>(s1, dll_obj).
       if dll_obj = null then ebind (UserProcess_Crash header s1) (\<lambda>s2. Some (Inr (s2, null)))
       else
         let s2 = s1\<lparr>sc_dlls := (sc_dlls s1)(dll_obj \<mapsto> null)\<rparr> in
     ebind (tls_new_ptr expired_ptr sizeof_DLL_TRAITS s2) (\<lambda>(s3, traits).
         let mounted = IPEFDLLObject_Mount traits \<lparr>ImageObject = null, ImageEntrypointOffset = null\<rparr> null;
             s4 = s3\<lparr>sc_dlls := (sc_dlls s3)(dll_obj \<mapsto> mounted)\<rparr> in
         if mounted = null then init_dll_fail dll_obj header s4
         else
     ebind (Some (get_proc s4 header)) (\<lambda>pr.
         if up_fBlob pr = null then init_dll_fail dll_obj header s4
         else
     ebind (map_option Inr (rt_string_len_max (memory (sc_mm s4)) (lit_ImageStart lits) 0)) (\<lambda>len.
     ebind (IPEFDLLObject_Load fetch pure_call (memory (sc_mm s4)) (lit_ImageStart lits) len kPefCode s4) (\<lambda>(s5, _).
         Some (Inr (s5, dll_obj)))))))"

section \<open>Mangling names\<close>

lemma rt_string_len_max_loop_cong:
  assumes "unat limit < 2 ^ 64 - 1" and "unat len \<le> Suc (unat limit)" and "\<And>a. m' a = 0 \<longleftrightarrow> m a = 0"
  shows "rt_string_len_max_loop m' str limit len = rt_string_len_max_loop m str limit len"
  using assms(2)
proof (induction "Suc (unat limit) - unat len" arbitrary: len)
  case 0
  then have "limit < len" by (simp add: word_less_nat_alt)
  then show ?case by (simp add: rt_string_len_max_loop.simps [of _ str limit len])
next
  case (Suc d)
  then have "unat (len + 1) = Suc (unat len)" using assms(1) by (simp add: unat_word_ariths)
  with Suc have "rt_string_len_max_loop m' str limit (len + 1) = rt_string_len_max_loop m str limit (len + 1)" by simp
  then show ?case by (simp add: rt_string_len_max_loop.simps [of _ str limit len] Let_def assms(3))
qed

lemma name_len_cong:
  "(\<And>a. m' a = 0 \<longleftrightarrow> m a = 0) \<Longrightarrow> rt_string_len_max m' name kPefNameLen = rt_string_len_max m name kPefNameLen"
  unfolding rt_string_len_max_def by (rule rt_string_len_max_loop_cong) (simp_all add: kPefNameLen_def)

lemma name_len_total: "\<exists>len. rt_string_len_max m name kPefNameLen = Some len \<and> unat len \<le> 256"
  using rt_string_len_max_total [of kPefNameLen m name] by (auto simp: kPefNameLen_def)

text \<open>The memory after the rounds from \<open>i\<close> on.\<close>

definition mangled :: "addr \<Rightarrow> nat \<Rightarrow> nat \<Rightarrow> mem \<Rightarrow> mem" where
  "mangled name i len m a = (if in_range a name len \<and> i \<le> unat (a - name) \<and> m a = 0x20 then 0x24 else m a)"

lemma FindSymbol_mangle_eq:
  assumes "rt_string_len_max m name kPefNameLen = Some len" and "unat len \<le> 256"
  shows "FindSymbol_mangle m name i = Some (mangled name (unat i) (unat len) m)"
  using assms(1)
proof (induction "unat len - unat i" arbitrary: i m)
  case 0
  then have "\<not> i < len" by (simp add: word_less_nat_alt)
  moreover have "mangled name (unat i) (unat len) m = m"
    using 0(1) by (auto simp: mangled_def in_range_def fun_eq_iff)
  ultimately show ?case using 0(2) by (simp add: FindSymbol_mangle.simps [of m])
next
  case (Suc d)
  let ?m = "if m (name + i) = 0x20 then m(name + i := 0x24) else m"
  have lt: "i < len" using Suc.hyps(2) by (simp add: word_less_nat_alt)
  have suc: "unat (i + 1) = Suc (unat i)" using Suc.hyps(2) assms(2) by (simp add: unat_word_ariths)
  have len: "rt_string_len_max ?m name kPefNameLen = Some len" using name_len_cong [of ?m m] Suc.prems by simp
  have at: "a = name + i \<longleftrightarrow> unat (a - name) = unat i" for a
    by (metis add_diff_cancel_left' diff_add_cancel add.commute word_unat_eq_iff)
  have "mangled name (unat (i + 1)) (unat len) ?m = mangled name (unat i) (unat len) m"
  proof (rule ext)
    fix a
    show "mangled name (unat (i + 1)) (unat len) ?m a = mangled name (unat i) (unat len) m a"
    proof (cases "a = name + i")
      case True
      with lt show ?thesis by (simp add: mangled_def in_range_def suc word_less_nat_alt)
    next
      case False
      then have "Suc (unat i) \<le> unat (a - name) \<longleftrightarrow> unat i \<le> unat (a - name)" using at [of a] by auto
      with False show ?thesis by (simp add: mangled_def suc)
    qed
  qed
  with Suc.hyps(1) [OF _ len, of "i + 1"] Suc.hyps(2) suc lt Suc.prems show ?case
    by (simp add: FindSymbol_mangle.simps [of m])
qed

section \<open>The search\<close>

lemma FindSymbol_loop_once:
  "FindSymbol_loop fat blob kind symbol (Suc n) mm = FindSymbol_loop fat blob kind symbol (Suc 0) mm"
proof (induction n)
  case (Suc n)
  show ?case
  proof (cases "StringBuilder_Equals (memory mm) (ph_Name (PEFCommandHeader_at (memory mm) blob)) symbol")
    case None
    then show ?thesis by (simp add: Let_def)
  next
    case (Some eq)
    then show ?thesis by (subst FindSymbol_loop.simps(2), subst Suc.IH) (simp add: Let_def)
  qed
qed simp

section \<open>Properties\<close>


text \<open>A stream class that hands out a fixed address, and a container at that address.\<close>

definition blob_streams :: "(unit, unit) stream_class" where
  "blob_streams = \<lparr>fs_open = (\<lambda>_ _ _. Some (Inr ((), ()))), fs_read = (\<lambda>_ _ _ _. Some (Inr ((), 0x9000)))\<rparr>"

definition blob_state :: "(unit, unit) pef_state" where
  "blob_state =
     \<lparr>pf_mm = page_example\<lparr>memory := store_bytes (\<lambda>_. 0) 0x9000
        (kPefMagic @ replicate 12 0 @ le_bytes 4 0x5046 @ le_bytes 4 1)\<rparr>,
      pf_fs = (), pf_streams = [0x100 \<mapsto> ()]\<rparr>"

definition literals_example :: literals where
  "literals_example =
     \<lparr>lit_PEF_CONTAINER = 0x3000, lit_code64 = 0x3020, lit_data64 = 0x3040, lit_zero64 = 0x3060, lit_ImageStart = 0x3080,
      lit_SizeOfReserveStack = 0x30A0, lit_SizeOfReserveHeap = 0x30C0, lit_ProgramName = 0x30E0\<rparr>"

lemma blob_container:
  "pc_Magic (PEFContainer_at (memory (pf_mm blob_state)) 0x9000) = kPefMagic"
  "pc_Abi (PEFContainer_at (memory (pf_mm blob_state)) 0x9000) = kPefAbi"
  "pc_Cpu (PEFContainer_at (memory (pf_mm blob_state)) 0x9000) = ldr_get_platform"
  by (simp_all add: PEFContainer_at_def blob_state_def store_bytes_apply in_range_def load32_def eval_simps kPefMagic_def
      kPefMagicLen_def kPefAbi_def ldr_get_platform_def kPefArchAMD64_def nth_append unat_uminus_u64)

lemma blob_stream: "pf_streams blob_state 0x100 = Some ()" "blob_state\<lparr>pf_mm := pf_mm blob_state, pf_fs := ()\<rparr> = blob_state"
  by (simp_all add: blob_state_def)

lemma blob_loads:
  "PEFLoader_path blob_streams literals_example 0x100 null blob_state = Some (Inr (blob_state,
     \<lparr>ld_fFile = 0x100, ld_fPath = NullRef, ld_fCachedBlob = 0x9000, ld_fFatBinary = False, ld_fBad = False\<rparr>))"
  by (simp add: PEFLoader_path_def OwnPtr_New_def StringBuilder_Construct_def ErrorOr_null_def stream_read_def get_object_def
      blob_streams_def Let_def blob_container blob_stream)


text \<open>
  Remark. The mangling of a symbol name always ends. It measures the name with the limit
  \<open>kPefNameLen\<close>, turns every space within that length into a dollar sign and changes nothing else.
\<close>

theorem FindSymbol_mangle_spec:
  "\<exists>len m'. rt_string_len_max m name kPefNameLen = Some len \<and> FindSymbol_mangle m name 0 = Some m'
     \<and> (\<forall>a. m' a = (if in_range a name (unat len) \<and> m a = 0x20 then 0x24 else m a))"
proof -
  obtain len where "rt_string_len_max m name kPefNameLen = Some len" "unat len \<le> 256"
    using name_len_total by blast
  with FindSymbol_mangle_eq [of m name len 0] show ?thesis by (simp add: mangled_def)
qed

text \<open>
  Remark. Only the first container of a blob can be found: whatever the number of containers, the
  search gives what it gives for one.
\<close>

theorem FindSymbol_sees_first_only:
  "0 < n \<Longrightarrow> FindSymbol_loop fat blob kind symbol n mm = FindSymbol_loop fat blob kind symbol 1 mm"
  using FindSymbol_loop_once [of fat blob kind symbol "n - 1" mm] by simp

theorem FindSymbol_sees_first_only_witness:
  "FindSymbol_loop False 0x9000 kPefCode 0xA000 3 page_example = FindSymbol_loop False 0x9000 kPefCode 0xA000 1 page_example"
  by (rule FindSymbol_sees_first_only) simp

text \<open>
  Remark. In the NeFS build no executable can be loaded from a path: reading the container asks the
  file manager for zero bytes, which yields no data, and the constructor reads through the null pointer.
\<close>

theorem PEFLoader_path_never_loads:
  "\<nexists>st' ld. PEFLoader_path (nefs_streams drv mounted obj place rb) lits garbage path st = Some (Inr (st', ld))"
proof -
  have "blob = null" if "stream_read (nefs_streams drv mounted obj place rb) fl name st1 = Some (Inr (st2, blob))"
    for fl name st1 st2 blob
    using that
    by (auto simp: stream_read_def nefs_streams_def FileStream_Read_named_def NeFileSystemMgr_Read_named_def ebind_eq_Some
        kNeFSForkSize_def split: if_splits option.splits)
  then show ?thesis by (auto simp: PEFLoader_path_def ebind_eq_Some Let_def split: if_splits)
qed

text \<open>
  Remark. No library is ever initialised: \<open>rtl_init_dll\<close> never returns an object, since the second
  allocation of a process yields no pointer and since \<open>Mount\<close> refuses traits without an image.
\<close>

theorem rtl_init_dll_never_succeeds:
  "\<nexists>s' dll. rtl_init_dll expired_ptr fetch pure_call lits header s = Some (Inr (s', dll)) \<and> dll \<noteq> null"
  by (auto simp: rtl_init_dll_def init_dll_fail_def IPEFDLLObject_Mount_def ebind_eq_Some Let_def split: if_splits)

text \<open>
  Remark. A process made from a kernel routine never runs it: clearing the name of the process, after
  the routine and the stack size were stored, clears four times the bytes of the name and with them the
  whole object. Every process \<open>rtl_create_process\<close> reports is in the store with no code and an empty
  stack, and cannot be scheduled.
\<close>

theorem rtl_create_process_loses_routine:
  assumes "rtl_create_process init_dll garbage main process_name s = Some (Inr (s', pid))" and "pid \<noteq> kProcessInvalidID"
  shows "\<exists>p pr. sc_procs s' p = Some pr \<and> up_fCode pr = null \<and> up_StackSize pr = 0 \<and> \<not> CanBeScheduled pr"
proof -
  have "\<exists>p s3. UserProcessScheduler_Spawn init_dll p s3 = Some (Inr (s', pid)) \<and> p \<noteq> null
      \<and> (\<exists>name. sc_procs s3 p = Some (UserProcess_zero\<lparr>up_Name := name\<rparr>))"
    using assms
    by (auto simp: rtl_create_process_def UserProcess_new_def copy_name_def clear_name_def ebind_eq_Some
        get_object_Inr Let_def set_proc_def split: if_splits) (intro exI conjI, assumption, simp_all)
  then obtain p s3 pr where p: "p \<noteq> null" "sc_procs s3 p = Some pr" and pr: "up_fCode pr = null" "up_StackSize pr = 0"
      "up_Kind pr = 0" "up_Status pr = kInvalid"
    and spawn: "UserProcessScheduler_Spawn init_dll p s3 = Some (Inr (s', pid))"
    by (auto simp: UserProcess_zero_def)
  have "idle_executable p s3" using p pr by (simp add: idle_executable_def kExectuableDLLKind_def)
  from Spawn_image [OF spawn this] p pr show ?thesis by (auto simp: same_image_def CanBeScheduled_def)
qed

text \<open>The example: the name at \<open>0x2000\<close> lies outside the block the allocator hands out.\<close>

definition create_example :: sched where
  "create_example = sched_example\<lparr>sc_mm := (sc_mm sched_example)\<lparr>memory := string_example\<rparr>\<rparr>"

lemma create_example_cleared:
  assumes "0x1000 \<le> unat a"
  shows "fst (rt_set_memory (hib_init string_example 49 345 True False) 98 0 kProcessNameLen) a = string_example a"
proof -
  have "unat (a - 98) = unat a - 98" "unat (a - 49) = unat a - 49" using assms by (simp_all add: unat_sub word_le_nat_alt)
  with assms have "\<not> in_range a 98 512" "\<not> in_range a 49 97" unfolding in_range_def by linarith+
  then show ?thesis
    by (simp add: rt_set_memory_def kProcessNameLen_def rt_set_memory_loop_eq store_bytes_apply hib_init_frame)
qed

lemma create_example_runs:
  "\<exists>s'. rtl_create_process no_init_dll proc_example 0x3000 0x2000 create_example = Some (Inr (s', 0))"
proof -
  let ?m = "fst (rt_set_memory (hib_init string_example 49 345 True False) 98 0 kProcessNameLen)"
  have "first_nul_after ?m 0x2000 0 3"
    by (rule first_nul_at_3; simp add: create_example_cleared; simp add: string_example_def)
  from rt_string_len_finds [OF this] have len: "rt_string_len ?m 0x2000 = Some 3" by simp
  let ?pr = "UserProcess_zero\<lparr>up_Name := load_bytes ?m 0x2000 3 @ drop 3 (up_Name UserProcess_zero)\<rparr>"
  let ?s = "create_example\<lparr>sc_mm := (sc_mm create_example)\<lparr>memory := ?m\<rparr>, sc_procs := [98 \<mapsto> ?pr]\<rparr>"
  have new: "operator_new sizeof_UserProcess (sc_mm create_example) =
      Some (Inr ((sc_mm create_example)\<lparr>memory := hib_init string_example 49 345 True False\<rparr>, 98))"
    by (simp add: operator_new_def new_heap_wrapped create_example_def sched_example_def sizeof_UserProcess_def hib_size_def
        kKernelHeapMaxSize_def)
  obtain s' where "UserProcessScheduler_Spawn no_init_dll 98 ?s = Some (Inr (s', 0))"
    using Spawn_wrapped [of ?s 98 ?pr no_init_dll] UserProcessTeam_new_null [of 32]
    by (auto simp: create_example_def sched_example_def kSchedProcessLimitPerTeam_def UserProcess_zero_def
        kKernelHeapMaxSize_def kExectuableDLLKind_def)
  moreover have "string_example 0x2000 \<noteq> 0" by (simp add: string_example_def)
  ultimately show ?thesis
    using new len
    by (simp add: rtl_create_process_def UserProcess_new_def get_object_def copy_name_def clear_name_def set_proc_def Let_def
        kProcessInvalidID_def kProcessNameLen_def create_example_def sched_example_def)
qed

theorem rtl_create_process_loses_routine_witness:
  "\<exists>s' p pr. rtl_create_process no_init_dll proc_example 0x3000 0x2000 create_example = Some (Inr (s', 0))
     \<and> sc_procs s' p = Some pr \<and> up_fCode pr = null"
proof -
  obtain s' where s': "rtl_create_process no_init_dll proc_example 0x3000 0x2000 create_example = Some (Inr (s', 0))"
    using create_example_runs by blast
  from rtl_create_process_loses_routine [OF s'] s' show ?thesis by (auto simp: kProcessInvalidID_def)
qed

end
