(* ===== verification/Interrupts.thy ===== *)
theory Interrupts
  imports Process_Correct ATA_PIO
begin

text \<open>
  Interrupts, system calls and start-up of the AMD64 layer:
  \<^verbatim>\<open>HALKit/AMD64/HalCoreInterruptHandlerAMD64.cc\<close>, \<^verbatim>\<open>HalDescriptorLoader.cc\<close>,
  the first half of \<^verbatim>\<open>HalKernelMain.cc\<close>, and the tables of \<^verbatim>\<open>Processor.h\<close>,
  \<^verbatim>\<open>ArchKit.h\<close> and \<^verbatim>\<open>Handover.h\<close>. Handlers work on the scheduler's state. What a
  system call's routine does is an argument, and so are the ports of the interrupt controller and the timer.
\<close>

section \<open>Faults\<close>

definition SIGKILL :: u64 where "SIGKILL = 0"
definition SIGTRAP :: u64 where "SIGTRAP = 3"

text \<open>The signal is recorded with the status the process had, and the process is frozen.\<close>

definition freeze_current :: "u64 \<Rightarrow> u64 \<Rightarrow> sched \<Rightarrow> abort + sched" where
  "freeze_current ip sig s =
     (if mCurrentProcess s = null then map_sum id (\<lambda>_. s) (snd (ke_stop RUNTIME_CHECK_PAGE))
      else case get_proc s (mCurrentProcess s) of
             Inl e \<Rightarrow> Inl e
           | Inr pr \<Rightarrow> Inr (set_proc (mCurrentProcess s)
               (pr\<lparr>up_ProcessSignal := \<lparr>SignalIP = ip, PreviousStatus = up_Status pr, SignalID = sig\<rparr>,
                   up_Status := kFrozen\<rparr>) s))"

text \<open>The fault handlers differ in the code they stop the kernel with.\<close>

definition idt_fault :: "RUNTIME_CHECK \<Rightarrow> sched \<Rightarrow> (abort + sched) option" where
  "idt_fault code s =
     ebind (Some (freeze_current 0 SIGKILL s)) (\<lambda>s1.
     ebind (UserProcess_Crash (mCurrentProcess s1) s1) (\<lambda>s2.
     ebind (Some (snd (ke_stop code))) (\<lambda>_. Some (Inr s2))))"

definition idt_handle_gpf :: "sched \<Rightarrow> (abort + sched) option" where
  "idt_handle_gpf = idt_fault RUNTIME_CHECK_POINTER"
definition idt_handle_pf :: "sched \<Rightarrow> (abort + sched) option" where
  "idt_handle_pf = idt_fault RUNTIME_CHECK_PAGE"
definition idt_handle_math :: "sched \<Rightarrow> (abort + sched) option" where
  "idt_handle_math = idt_fault RUNTIME_CHECK_UNEXCPECTED"
definition idt_handle_generic :: "sched \<Rightarrow> (abort + sched) option" where
  "idt_handle_generic = idt_fault RUNTIME_CHECK_UNEXCPECTED"
definition idt_handle_ud :: "sched \<Rightarrow> (abort + sched) option" where
  "idt_handle_ud = idt_fault RUNTIME_CHECK_UNEXCPECTED"

definition idt_handle_breakpoint :: "u64 \<Rightarrow> sched \<Rightarrow> abort + sched" where
  "idt_handle_breakpoint rip s = freeze_current rip SIGTRAP s"

section \<open>The scheduler interrupt\<close>

text \<open>The two static variables of the handler.\<close>

record irq_state =
  is_scheduling :: bool
  try_count_before_brute :: int

function scheduler_wait :: "bool \<Rightarrow> int \<Rightarrow> int" where
  "scheduler_wait busy tries =
     (if busy then (let tries' = tries - 1 in if tries' < 1 then tries' else scheduler_wait busy tries') else tries)"
  by pat_completeness auto
termination by (relation "measure (\<lambda>(_, tries). nat tries)") auto

declare scheduler_wait.simps [simp del]

definition idt_handle_scheduler :: "irq_state \<Rightarrow> sched \<Rightarrow> (abort + irq_state \<times> sched) option" where
  "idt_handle_scheduler st s =
     (let st1 = st\<lparr>try_count_before_brute := scheduler_wait (is_scheduling st) (try_count_before_brute st)\<rparr>;
          st2 = st1\<lparr>try_count_before_brute := 100000, is_scheduling := True\<rparr> in
     ebind (StartScheduling s) (\<lambda>(s1, _). Some (Inr (st2\<lparr>is_scheduling := False\<rparr>, s1))))"

section \<open>System calls\<close>

record HAL_SYSCALL_RECORD =
  fHash :: u64
  fHooked :: bool
  fProc :: addr

definition kKernelMaxSystemCalls :: nat where "kKernelMaxSystemCalls = 256"

text \<open>
  \<open>run\<close> is the effect of a routine on its argument. The same dispatch serves system calls and kernel
  calls, on the tables \<open>kSyscalls\<close> and \<open>kKerncalls\<close>.
\<close>

definition hal_call_enter ::
    "(addr \<Rightarrow> addr \<Rightarrow> 's \<Rightarrow> (abort + 's) option) \<Rightarrow> HAL_SYSCALL_RECORD list \<Rightarrow> u64 \<Rightarrow> addr \<Rightarrow> 's \<Rightarrow> (abort + 's) option" where
  "hal_call_enter run table index arg s =
     (if unat index < Array_Count fHooked table then
        ebind (Some (Array_at table index)) (\<lambda>entry.
          if fHooked entry then
            if fProc entry \<noteq> null then run (fProc entry) arg s else Some (Inr s)
          else Some (Inr s))
      else Some (Inr s))"

definition hal_system_call_enter ::
    "(addr \<Rightarrow> addr \<Rightarrow> 's \<Rightarrow> (abort + 's) option) \<Rightarrow> HAL_SYSCALL_RECORD list \<Rightarrow> u64 \<Rightarrow> addr \<Rightarrow> 's \<Rightarrow> (abort + 's) option" where
  "hal_system_call_enter run kSyscalls rcx_syscall_index rdx_syscall_struct s =
     hal_call_enter run kSyscalls rcx_syscall_index rdx_syscall_struct s"

definition hal_kernel_call_enter ::
    "(addr \<Rightarrow> addr \<Rightarrow> 's \<Rightarrow> (abort + 's) option) \<Rightarrow> HAL_SYSCALL_RECORD list \<Rightarrow> u64 \<Rightarrow> addr \<Rightarrow> 's \<Rightarrow> (abort + 's) option" where
  "hal_kernel_call_enter run kKerncalls rcx_kerncall_index rdx_kerncall_struct s =
     hal_call_enter run kKerncalls rcx_kerncall_index rdx_kerncall_struct s"

section \<open>The interrupt controller and the timer\<close>

definition kPITDefaultTicks :: u16 where "kPITDefaultTicks = 100"
definition kPITControlPort :: u16 where "kPITControlPort = 0x43"
definition kPITChannel0Port :: u16 where "kPITChannel0Port = 0x40"
definition kPITFrequency :: nat where "kPITFrequency = 1193180"
definition kPICData :: u16 where "kPICData = 0x21"
definition kPIC2Data :: u16 where "kPIC2Data = 0xA1"

definition irq_line :: "u8 \<Rightarrow> u16 \<times> u8" where
  "irq_line irql = (if irql < 8 then (kPICData, irql) else (kPIC2Data, irql - 8))"

text \<open>The mask is computed as an \<open>int\<close>; a shift by 32 or more is undefined, the value \<open>None\<close>.\<close>

definition hal_set_irq_mask :: "'d ports \<Rightarrow> u8 \<Rightarrow> 'd \<Rightarrow> 'd option" where
  "hal_set_irq_mask P irql d =
     (let (port, line) = irq_line irql; (v, d1) = rt_in8 P port d in
      if unat line < 32
      then Some (rt_out8 P port (ucast (ucast v OR push_bit (unat line) 1 :: u32)) d1) else None)"

definition hal_clear_irq_mask :: "'d ports \<Rightarrow> u8 \<Rightarrow> 'd \<Rightarrow> 'd option" where
  "hal_clear_irq_mask P irql d =
     (let (port, line) = irq_line irql; (v, d1) = rt_in8 P port d in
      if unat line < 32
      then Some (rt_out8 P port (ucast (ucast v AND NOT (push_bit (unat line) 1) :: u32)) d1) else None)"

definition hal_enable_pit :: "'d ports \<Rightarrow> u16 \<Rightarrow> 'd \<Rightarrow> 'd option" where
  "hal_enable_pit P ticks d =
     (let ticks = (if ticks = 0 then kPITDefaultTicks else ticks);
          cCommonDivisor = (of_nat (kPITFrequency div unat ticks) :: u16);
          d1 = rt_out8 P kPITControlPort 0x36 d;
          d2 = rt_out8 P kPITChannel0Port (ucast (cCommonDivisor AND 0xFF)) d1;
          d3 = rt_out8 P kPITChannel0Port (ucast (drop_bit 8 cCommonDivisor AND 0xFF)) d2
      in hal_clear_irq_mask P 32 d3)"

section \<open>Descriptor tables\<close>

definition kKernelIdtSize :: nat where "kKernelIdtSize = 0x100"
definition kInterruptGate :: u8 where "kInterruptGate = 0x8E"
definition kIDTSelector :: u16 where "kIDTSelector = 0x08"

record InterruptDescriptorAMD64 =
  OffsetLow :: u16
  Selector :: u16
  Ist :: u8
  TypeAttributes :: u8
  OffsetMid :: u16
  OffsetHigh :: u32
  Zero :: u32

record Register64 =
  Limit :: u16
  Base :: u64

definition idt_entry :: "u64 \<Rightarrow> InterruptDescriptorAMD64" where
  "idt_entry handler =
     \<lparr>OffsetLow = ucast (handler AND 0xFFFF), Selector = kIDTSelector, Ist = 0, TypeAttributes = kInterruptGate,
      OffsetMid = ucast (drop_bit 16 handler AND 0xFFFF), OffsetHigh = ucast (drop_bit 32 handler AND 0xFFFFFFFF),
      Zero = 0\<rparr>"

text \<open>The handlers' addresses are read from the array at \<open>idt.Base\<close>; \<open>table\<close> is the address of the static table.\<close>

definition IDTLoader_table :: "mem \<Rightarrow> Register64 \<Rightarrow> InterruptDescriptorAMD64 list" where
  "IDTLoader_table m idt = map (\<lambda>i. idt_entry (load64 m (Base idt + 8 * of_nat i))) [0..<kKernelIdtSize]"

definition IDTLoader_Load ::
    "'d ports \<Rightarrow> addr \<Rightarrow> mem \<Rightarrow> Register64 \<Rightarrow> 'd \<Rightarrow> (InterruptDescriptorAMD64 list \<times> Register64 \<times> 'd) option" where
  "IDTLoader_Load P table m idt d =
     map_option (\<lambda>d1. (IDTLoader_table m idt, \<lparr>Limit = of_nat (16 * kKernelIdtSize), Base = table\<rparr>, d1))
       (hal_enable_pit P kPITDefaultTicks d)"

record ZKA_GDT_ENTRY =
  fLimitLow :: u16
  fBaseLow :: u16
  fBaseMid :: u8
  fAccessByte :: u8
  fFlags :: u8
  fBaseHigh :: u8

definition kGDTEntriesCount :: nat where "kGDTEntriesCount = 6"

text \<open>Five entries are given; the sixth is zero.\<close>

definition kGDTArray :: "ZKA_GDT_ENTRY list" where
  "kGDTArray =
     map (\<lambda>(limit, access, flags). \<lparr>fLimitLow = limit, fBaseLow = 0, fBaseMid = 0, fAccessByte = access, fFlags = flags, fBaseHigh = 0\<rparr>)
       [(0, 0x00, 0x00), (0xFFFF, 0x9A, 0xAF), (0xFFFF, 0x92, 0xCF), (0xFFFF, 0xF2, 0xCF), (0xFFFF, 0xFA, 0xAF), (0, 0x00, 0x00)]"

section \<open>Start-up\<close>

definition kHandoverMagic :: u64 where "kHandoverMagic = 0xBADCC"
definition kHandoverVersion :: u64 where "kHandoverVersion = 0x0117"

record BootInfoHeader =
  hdr_Magic :: u64
  hdr_Version :: u64
  hdr_BitMapStart :: addr
  hdr_BitMapSize :: u64

text \<open>
  \<open>hal_init_platform\<close> up to loading the segments, which does not come back: \<open>None\<close> when the header is
  rejected, else the state with the bitmap area and the register for the table. \<open>ctors\<close> is the effect of
  the static constructors, \<open>gdt\<close> the address of the table.
\<close>

definition hal_init_platform ::
    "(mm_state \<Rightarrow> mm_state) \<Rightarrow> addr \<Rightarrow> BootInfoHeader \<Rightarrow> mm_state \<Rightarrow> (mm_state \<times> Register64) option" where
  "hal_init_platform ctors gdt hdr mm =
     (if hdr_Magic hdr \<noteq> kHandoverMagic \<and> hdr_Version hdr \<noteq> kHandoverVersion then None
      else Some ((ctors mm)\<lparr>f_BitMapSize := hdr_BitMapSize hdr, kKernelBitMpStart := hdr_BitMapStart hdr\<rparr>,
                 \<lparr>Limit = of_nat (8 * kGDTEntriesCount - 1), Base = gdt\<rparr>))"

section \<open>Properties\<close>



text \<open>
  Remark. A breakpoint freezes the current process and nothing else: its signal holds the address, the trap and
  the status it had, it cannot be scheduled, and the team and all other processes are as before.
\<close>

theorem breakpoint_freezes_current:
  assumes "mCurrentProcess s \<noteq> null" and "sc_procs s (mCurrentProcess s) = Some pr"
  shows "\<exists>s' pr'. idt_handle_breakpoint rip s = Inr s' \<and> sc_procs s' (mCurrentProcess s) = Some pr'
     \<and> up_Status pr' = kFrozen \<and> \<not> CanBeScheduled pr'
     \<and> up_ProcessSignal pr' = \<lparr>SignalIP = rip, PreviousStatus = up_Status pr, SignalID = 3\<rparr>
     \<and> same_team s s' \<and> only_proc (mCurrentProcess s) s s'"
proof -
  let ?pr = "pr\<lparr>up_ProcessSignal := \<lparr>SignalIP = rip, PreviousStatus = up_Status pr, SignalID = 3\<rparr>, up_Status := kFrozen\<rparr>"
  have "idt_handle_breakpoint rip s = Inr (set_proc (mCurrentProcess s) ?pr s)"
    using assms by (simp add: idt_handle_breakpoint_def freeze_current_def get_object_def SIGTRAP_def)
  then show ?thesis
    by (intro exI [of _ "set_proc (mCurrentProcess s) ?pr s"] exI [of _ ?pr])
      (simp add: CanBeScheduled_def, simp add: set_proc_def)
qed

theorem breakpoint_freezes_current_witness:
  "\<exists>s' pr'. idt_handle_breakpoint 0x40 (sched_created\<lparr>mCurrentProcess := 0x5000\<rparr>) = Inr s'
     \<and> sc_procs s' 0x5000 = Some pr' \<and> \<not> CanBeScheduled pr'"
  using breakpoint_freezes_current [of "sched_created\<lparr>mCurrentProcess := 0x5000\<rparr>" proc_example "0x40"]
  by (auto simp: set_proc_def)

text \<open>
  Property C36. The scheduler interrupt always completes, and its flag keeps nobody out: while a process is in the list,
  an interrupt that arrives during another one counts down and then runs like the first; afterwards the flag is clear
  and the counter is back at its start.
\<close>

theorem scheduler_interrupt_completes:
  assumes "p \<in> set (mProcessList s)" and "p \<noteq> null"
  shows "idt_handle_scheduler st s = Some (Inr (\<lparr>is_scheduling = False, try_count_before_brute = 100000\<rparr>, s))"
proof -
  have "Array_Empty (\<lambda>p. p \<noteq> null) (mProcessList s)" using assms by (auto simp: Array_Empty_iff)
  then show ?thesis by (simp add: idt_handle_scheduler_def StartScheduling_def UserProcessScheduler_Run_def)
qed

theorem scheduler_interrupt_completes_witness:
  "idt_handle_scheduler \<lparr>is_scheduling = True, try_count_before_brute = 100000\<rparr> (sched_example\<lparr>mProcessList := [0x5000]\<rparr>) =
     Some (Inr (\<lparr>is_scheduling = False, try_count_before_brute = 100000\<rparr>, sched_example\<lparr>mProcessList := [0x5000]\<rparr>))"
  by (rule scheduler_interrupt_completes [of "0x5000"]) simp_all

lemma Array_Count_length: "Array_Count f xs = length (filter f xs)"
  by (induction xs) simp_all

lemma Array_Count_card: "Array_Count f xs = card {i. i < length xs \<and> f (xs ! i)}"
  by (simp add: Array_Count_length length_filter_conv_card)

text \<open>
  Remark. A call runs a routine exactly when its index is below the number of hooked entries and the entry there is
  hooked and has a routine; in every other case nothing happens, and no index reaches outside the table.
\<close>

theorem system_call_dispatch:
  "hal_system_call_enter run table i arg s =
     (if unat i < Array_Count fHooked table \<and> fHooked (table ! unat i) \<and> fProc (table ! unat i) \<noteq> null
      then run (fProc (table ! unat i)) arg s else Some (Inr s))"
proof -
  have "unat i < length table" if "unat i < Array_Count fHooked table"
    using that Array_Count_le [of fHooked table] by linarith
  then show ?thesis by (simp add: hal_system_call_enter_def hal_call_enter_def Array_at_def)
qed

text \<open>
  Remark. Every hooked call can be reached only if the hooked entries are the first ones of the table: the bound is
  their number and not the size of the table.
\<close>

theorem system_calls_reachable_iff_prefix:
  "(\<forall>i < length table. fHooked (table ! i) \<longrightarrow> i < Array_Count fHooked table) \<longleftrightarrow>
   (\<exists>n. \<forall>i < length table. fHooked (table ! i) \<longleftrightarrow> i < n)"
proof
  let ?H = "{i. i < length table \<and> fHooked (table ! i)}"
  assume "\<forall>i < length table. fHooked (table ! i) \<longrightarrow> i < Array_Count fHooked table"
  then have "?H \<subseteq> {..<card ?H}" by (auto simp: Array_Count_card)
  then have "?H = {..<card ?H}" by (intro card_subset_eq) simp_all
  then show "\<exists>n. \<forall>i < length table. fHooked (table ! i) \<longleftrightarrow> i < n" by blast
next
  assume "\<exists>n. \<forall>i < length table. fHooked (table ! i) \<longleftrightarrow> i < n"
  then obtain n where "\<forall>i < length table. fHooked (table ! i) \<longleftrightarrow> i < n" by blast
  then have "{i. i < length table \<and> fHooked (table ! i)} = {..<min n (length table)}" by auto
  then show "\<forall>i < length table. fHooked (table ! i) \<longrightarrow> i < Array_Count fHooked table"
    using \<open>\<forall>i < length table. fHooked (table ! i) \<longleftrightarrow> i < n\<close> by (simp add: Array_Count_card)
qed

text \<open>The address a processor puts together from a descriptor.\<close>

definition descriptor_offset :: "InterruptDescriptorAMD64 \<Rightarrow> u64" where
  "descriptor_offset d = ucast (OffsetLow d) OR push_bit 16 (ucast (OffsetMid d)) OR push_bit 32 (ucast (OffsetHigh d))"

lemma descriptor_offset_entry: "descriptor_offset (idt_entry h) = h"
proof (rule bit_word_eqI)
  fix n
  assume n: "n < LENGTH(64)"
  have masks: "h AND 0xFFFF = take_bit 16 h" "drop_bit 16 h AND 0xFFFF = take_bit 16 (drop_bit 16 h)"
    "drop_bit 32 h AND 0xFFFFFFFF = take_bit 32 (drop_bit 32 h)"
    by (simp_all add: take_bit_eq_mask mask_eq_exp_minus_1)
  consider "n < 16" | "16 \<le> n" "n < 32" | "32 \<le> n" by linarith
  then show "bit (descriptor_offset (idt_entry h)) n = bit h n"
    using n by cases (simp_all add: descriptor_offset_def idt_entry_def masks bit_simps, arith+)
qed

text \<open>
  Property C37. The interrupt table sends every vector to its handler: the 256 descriptors carry, in this order, the
  addresses of the array the loader was given, as present interrupt gates of the kernel's code segment.
\<close>

theorem IDT_points_to_handlers:
  "map descriptor_offset (IDTLoader_table m idt) = map (\<lambda>i. load64 m (Base idt + 8 * of_nat i)) [0..<256]
   \<and> map Selector (IDTLoader_table m idt) = replicate 256 8
   \<and> map TypeAttributes (IDTLoader_table m idt) = replicate 256 0x8E"
proof (intro conjI)
  show "map descriptor_offset (IDTLoader_table m idt) = map (\<lambda>i. load64 m (Base idt + 8 * of_nat i)) [0..<256]"
    by (simp add: IDTLoader_table_def kKernelIdtSize_def descriptor_offset_entry)
qed (simp_all add: IDTLoader_table_def kKernelIdtSize_def idt_entry_def kIDTSelector_def kInterruptGate_def o_def map_replicate_const)

text \<open>
  Remark. Enabling the timer does not unmask its interrupt: line 32 is shifted beyond the eight bits of the mask of
  the second controller, which gets back the value it had, and the first controller's mask, which guards the timer,
  is not written at all.
\<close>

theorem enable_pit_leaves_masks:
  "hal_enable_pit P ticks d =
     (let divisor = of_nat (1193180 div unat (if ticks = 0 then 100 else ticks)) :: u16;
          d1 = rt_out8 P 0x40 (ucast (drop_bit 8 divisor AND 0xFF))
                 (rt_out8 P 0x40 (ucast (divisor AND 0xFF)) (rt_out8 P 0x43 0x36 d));
          (mask, d2) = rt_in8 P 0xA1 d1
      in Some (rt_out8 P 0xA1 mask d2))"
proof -
  have "(ucast (ucast v AND NOT 0x1000000 :: u32) :: u8) = v" for v :: u8
  proof (rule bit_word_eqI)
    fix n
    assume "n < LENGTH(8)"
    moreover have "(0x1000000 :: u32) = push_bit 24 1" by simp
    ultimately show "bit (ucast (ucast v AND NOT 0x1000000 :: u32) :: u8) n = bit v n" by (simp only: bit_simps) auto
  qed
  then show ?thesis
    by (simp add: hal_enable_pit_def hal_clear_irq_mask_def irq_line_def kPITControlPort_def kPITChannel0Port_def
        kPITFrequency_def kPITDefaultTicks_def kPIC2Data_def Let_def split: prod.splits)
qed

end
