(* ===== verification/Debug_Output.thy ===== *)
theory Debug_Output
  imports Kernel_Services ATA_PIO Rt_Utils Kernel_Errors
begin

text \<open>
  The kernel's console: \<^verbatim>\<open>HALKit/AMD64/HalDebugOutput.cc\<close>, the numbers printed by
  \<^verbatim>\<open>KernelKit/DebugOutput.h\<close> and the device interface of \<^verbatim>\<open>DeviceMgr.h\<close> that forwards to it. The
  serial line is a device with port reads and writes.
\<close>

section \<open>The serial line\<close>

datatype CommStatus = kStateInvalid | kStateReady | kStateTransmit

record 'd serial =
  kState :: CommStatus
  com :: 'd

definition PORT :: u16 where "PORT = 0x3F8"

text \<open>The order of the writes that configure the line.\<close>

definition serial_setup :: "(u16 \<times> u8) list" where
  "serial_setup = [(1, 0x00), (3, 0x80), (0, 0x03), (1, 0x00), (3, 0x03), (2, 0xC7), (4, 0x0B), (4, 0x1E), (0, 0xAE)]"

definition out_list :: "'d ports \<Rightarrow> (u16 \<times> u8) list \<Rightarrow> 'd \<Rightarrow> 'd" where
  "out_list P writes d = foldl (\<lambda>d (reg, v). rt_out8 P (PORT + reg) v d) d writes"

definition hal_serial_init :: "'d ports \<Rightarrow> bool \<Rightarrow> 'd serial \<Rightarrow> abort + 'd serial" where
  "hal_serial_init P debug st =
     (if \<not> debug then Inr st
      else if kState st = kStateReady \<or> kState st = kStateTransmit then Inr st
      else
        let d1 = out_list P serial_setup (com st); (v, d2) = rt_in8 P PORT d1 in
        case (if v \<noteq> 0xAE then snd (ke_stop RUNTIME_CHECK_HANDSHAKE) else Inr ()) of
          Inl e \<Rightarrow> Inl e
        | Inr _ \<Rightarrow> Inr \<lparr>kState = kStateReady, com = rt_out8 P (PORT + 4) 0x0F d2\<rparr>)"

text \<open>The writing loop with \<open>n\<close> characters to go.\<close>

primrec io_write_loop :: "'d ports \<Rightarrow> mem \<Rightarrow> addr \<Rightarrow> u64 \<Rightarrow> nat \<Rightarrow> 'd \<Rightarrow> 'd" where
  "io_write_loop P m bytes index 0 d = d"
| "io_write_loop P m bytes index (Suc n) d =
     (let c = m (bytes + index);
          d1 = (if c = 0x0D then rt_out8 P PORT 0x0D d else d);
          d2 = rt_out8 P PORT (if c = 0x0D then 0x0A else c) d1
      in io_write_loop P m bytes (index + 1) n d2)"

definition ke_io_write :: "'d ports \<Rightarrow> bool \<Rightarrow> mem \<Rightarrow> addr \<Rightarrow> 'd serial \<Rightarrow> (abort + 'd serial) option" where
  "ke_io_write P debug m bytes st =
     (if \<not> debug then Some (Inr st)
      else
     ebind (Some (hal_serial_init P debug st)) (\<lambda>st1.
       if bytes = null \<or> kState st1 \<noteq> kStateReady then Some (Inr st1)
       else if m bytes = 0 then Some (Inr st1)
       else
     ebind (map_option Inr (rt_string_len_max m bytes 255)) (\<lambda>len.
       Some (Inr \<lparr>kState = kStateReady, com = io_write_loop P m bytes 0 (unat len) (com st1)\<rparr>))))"

text \<open>The filter of the reading loop: the inner condition is a disjunction of inequalities.\<close>

definition io_read_skips :: "u8 \<Rightarrow> bool" where
  "io_read_skips c \<longleftrightarrow> (c < 0x30 \<or> c < 0x41 \<or> c < 0x61)
     \<and> (c \<noteq> 0x40 \<or> c \<noteq> 0x21 \<or> c \<noteq> 0x3F \<or> c \<noteq> 0x2E \<or> c \<noteq> 0x2F \<or> c \<noteq> 0x3A)"

partial_function (option) io_read_loop :: "'d ports \<Rightarrow> addr \<Rightarrow> u64 \<Rightarrow> mem \<Rightarrow> 'd \<Rightarrow> (mem \<times> u64 \<times> 'd) option" where
  "io_read_loop P bytes index m d =
     (let (c, d1) = rt_in8 P PORT d in
      if c = 0x0D then Some (m, index, d1)
      else if io_read_skips c then io_read_loop P bytes index m d1
      else io_read_loop P bytes (index + 1) (m(bytes + index := c)) d1)"

definition ke_io_read :: "'d ports \<Rightarrow> bool \<Rightarrow> addr \<Rightarrow> mem \<Rightarrow> 'd serial \<Rightarrow> (abort + mem \<times> 'd serial) option" where
  "ke_io_read P debug bytes m st =
     (if \<not> debug then Some (Inr (m, st))
      else
     ebind (Some (hal_serial_init P debug st)) (\<lambda>st1.
       if bytes = null \<or> kState st1 \<noteq> kStateReady then Some (Inr (m, st1))
       else
     ebind (map_option Inr (io_read_loop P bytes 0 m (com st1))) (\<lambda>(m1, index, d1).
       Some (Inr (m1(bytes + index := 0), \<lparr>kState = kStateReady, com = d1\<rparr>)))))"

section \<open>Numbers\<close>

text \<open>
  \<open>_write_number\<close> and \<open>_write_number_hex\<close> print one digit at a time; the model yields the characters in
  the order they are printed. The negation of the smallest number overflows.
\<close>

definition kNumbers :: "u8 list" where
  "kNumbers = [0x30, 0x31, 0x32, 0x33, 0x34, 0x35, 0x36, 0x37, 0x38, 0x39]"

definition kHexNumbers :: "u8 list" where
  "kHexNumbers = kNumbers @ [0x41, 0x42, 0x43, 0x44, 0x45, 0x46]"

function write_number :: "int \<Rightarrow> abort + u8 list" where
  "write_number x =
     (case checked (if x > 0 then x else - x) of
        Inl e \<Rightarrow> Inl e
      | Inr a \<Rightarrow>
          (case (if a div 10 \<noteq> 0 then write_number (a div 10) else Inr []) of
             Inl e \<Rightarrow> Inl e
           | Inr front \<Rightarrow>
               if a mod 10 > 10 then map_sum id (\<lambda>q. front @ q) (write_number 0x3F)
               else Inr (front @ [kNumbers ! nat (a mod 10)])))"
  by pat_completeness auto
termination
proof (relation "measure (\<lambda>x. nat \<bar>x\<bar>)", goal_cases)
  case (2 x a)
  then have "a = \<bar>x\<bar>" and "a div 10 \<noteq> 0" by (auto simp: checked_def split: if_splits)
  then show ?case by simp linarith
next
  case (3 x a front)
  then have "a mod 10 > 10" by simp
  moreover have "a mod 10 < 10" by simp
  ultimately show ?case by linarith
qed simp

declare write_number.simps [simp del]

function write_number_hex :: "int \<Rightarrow> abort + u8 list" where
  "write_number_hex x =
     (case checked (if x > 0 then x else - x) of
        Inl e \<Rightarrow> Inl e
      | Inr a \<Rightarrow>
          (case (if a div 16 \<noteq> 0 then write_number_hex (a div 16) else Inr []) of
             Inl e \<Rightarrow> Inl e
           | Inr front \<Rightarrow>
               if a mod 16 > 16 then map_sum id (\<lambda>q. front @ q) (write_number_hex 0x3F)
               else Inr (front @ [kHexNumbers ! nat (a mod 16)])))"
  by pat_completeness auto
termination
proof (relation "measure (\<lambda>x. nat \<bar>x\<bar>)", goal_cases)
  case (2 x a)
  then have "a = \<bar>x\<bar>" and "a div 16 \<noteq> 0" by (auto simp: checked_def split: if_splits)
  then show ?case by simp linarith
next
  case (3 x a front)
  then have "a mod 16 > 16" by simp
  moreover have "a mod 16 < 16" by simp
  ultimately show ?case by linarith
qed simp

declare write_number_hex.simps [simp del]

definition number :: "int \<Rightarrow> abort + u8 list" where
  "number x = write_number x"

definition hex_number :: "int \<Rightarrow> abort + u8 list" where
  "hex_number x = map_sum id (\<lambda>s. s @ [0x68]) (write_number_hex x)"

section \<open>Reading numbers back\<close>

definition number_value :: "'a list \<Rightarrow> 'a list \<Rightarrow> int" where
  "number_value digits s =
     foldl (\<lambda>n c. int (length digits) * n + int (length (takeWhile (\<lambda>d. d \<noteq> c) digits))) 0 s"

lemma number_value_snoc:
  "number_value digits (s @ [c]) = int (length digits) * number_value digits s + int (length (takeWhile (\<lambda>d. d \<noteq> c) digits))"
  by (simp add: number_value_def)

lemma takeWhile_nth_distinct: "distinct xs \<Longrightarrow> i < length xs \<Longrightarrow> length (takeWhile (\<lambda>d. d \<noteq> xs ! i) xs) = i"
proof (induction xs arbitrary: i)
  case (Cons x xs)
  then show ?case by (cases i) auto
qed simp

text \<open>What is common to the two printers: a digit is appended to what the quotient prints, and the sign is dropped.\<close>

locale number_writer =
  fixes digits :: "'a list" and printed :: "int \<Rightarrow> abort + 'a list"
  assumes two_digits: "2 \<le> length digits" and distinct_digits: "distinct digits"
    and write_sign: "s64_ok x \<Longrightarrow> s64_ok (- x) \<Longrightarrow> printed x = printed \<bar>x\<bar>"
    and write_step: "0 \<le> a \<Longrightarrow> s64_ok a \<Longrightarrow> printed a =
      map_sum id (\<lambda>front. front @ [digits ! nat (a mod int (length digits))])
        (if a div int (length digits) = 0 then Inr [] else printed (a div int (length digits)))"
begin

lemma write_value:
  assumes "0 \<le> a" and "s64_ok a"
  shows "\<exists>s. printed a = Inr s \<and> s \<noteq> [] \<and> number_value digits s = a \<and> (a \<noteq> 0 \<longrightarrow> hd s \<noteq> digits ! 0)"
  using assms
proof (induction "nat a" arbitrary: a rule: less_induct)
  case less
  let ?b = "int (length digits)"
  have b: "2 \<le> ?b" using two_digits by simp
  have m: "0 \<le> a mod ?b" "a mod ?b < ?b" using b by (intro pos_mod_sign pos_mod_bound; linarith)+
  then have idx: "nat (a mod ?b) < length digits" by linarith
  have pos: "int (length (takeWhile (\<lambda>d. d \<noteq> digits ! nat (a mod ?b)) digits)) = a mod ?b"
    using takeWhile_nth_distinct [OF distinct_digits idx] m by simp
  show ?case
  proof (cases "a div ?b = 0")
    case True
    then have "a mod ?b = a" using mult_div_mod_eq [of ?b a] by simp
    moreover have "a \<noteq> 0 \<Longrightarrow> digits ! nat a \<noteq> digits ! 0"
      using idx \<open>a mod ?b = a\<close> less.prems(1) distinct_digits two_digits by (subst nth_eq_iff_index_eq) auto
    ultimately show ?thesis
      using write_step [OF less.prems] True pos by (simp add: number_value_def)
  next
    case False
    then have q: "0 < a div ?b" using less.prems(1) b div_int_pos_iff [of a ?b] by (simp add: order.strict_iff_order)
    have lt: "a div ?b < a"
      using b less.prems(1) False by (intro int_div_less_self) (auto intro: le_neq_trans)
    then have "s64_ok (a div ?b)" using less.prems q by (simp add: s64_ok_def)
    then obtain s where s: "printed (a div ?b) = Inr s" "s \<noteq> []" "number_value digits s = a div ?b" "hd s \<noteq> digits ! 0"
      using less.hyps [of "a div ?b"] lt q less.prems(1) by auto
    then show ?thesis
      using write_step [OF less.prems] False pos by (simp add: number_value_snoc hd_append)
  qed
qed

lemma write_abs_value:
  assumes "- (2 ^ 63) < x" and "x < 2 ^ 63"
  shows "\<exists>s. printed x = Inr s \<and> number_value digits s = \<bar>x\<bar> \<and> (x \<noteq> 0 \<longrightarrow> hd s \<noteq> digits ! 0)"
proof -
  have "s64_ok x" "s64_ok (- x)" "s64_ok \<bar>x\<bar>" using assms by (auto simp: s64_ok_def)
  with write_value [of "\<bar>x\<bar>"] write_sign [of x] show ?thesis by auto
qed

end

lemma s64_ok_zero: "s64_ok 0"
  by (simp add: s64_ok_def)

lemma write_number_step:
  assumes "0 \<le> a" and "s64_ok a"
  shows "write_number a = map_sum id (\<lambda>front. front @ [kNumbers ! nat (a mod 10)])
    (if a div 10 = 0 then Inr [] else write_number (a div 10))"
proof -
  have "checked (if a > 0 then a else - a) = Inr a" using assms by (cases "a = 0") (simp_all add: checked_def s64_ok_zero)
  moreover have "\<not> 10 < a mod 10" using pos_mod_bound [of 10 a] by linarith
  ultimately show ?thesis
    by (cases "a div 10 = 0"; cases "write_number (a div 10)"; subst write_number.simps; simp)
qed

lemma write_number_hex_step:
  assumes "0 \<le> a" and "s64_ok a"
  shows "write_number_hex a = map_sum id (\<lambda>front. front @ [kHexNumbers ! nat (a mod 16)])
    (if a div 16 = 0 then Inr [] else write_number_hex (a div 16))"
proof -
  have "checked (if a > 0 then a else - a) = Inr a" using assms by (cases "a = 0") (simp_all add: checked_def s64_ok_zero)
  moreover have "\<not> 16 < a mod 16" using pos_mod_bound [of 16 a] by linarith
  ultimately show ?thesis
    by (cases "a div 16 = 0"; cases "write_number_hex (a div 16)"; subst write_number_hex.simps; simp)
qed

interpretation decimal: number_writer kNumbers write_number
proof unfold_locales
  show "write_number x = write_number \<bar>x\<bar>" if "s64_ok x" "s64_ok (- x)" for x
  proof (cases "x < 0")
    case True
    then show ?thesis by (subst (1 2) write_number.simps) simp
  qed simp
qed (simp_all add: kNumbers_def write_number_step)

interpretation hexadecimal: number_writer kHexNumbers write_number_hex
proof unfold_locales
  show "write_number_hex x = write_number_hex \<bar>x\<bar>" if "s64_ok x" "s64_ok (- x)" for x
  proof (cases "x < 0")
    case True
    then show ?thesis by (subst (1 2) write_number_hex.simps) simp
  qed simp
qed (simp_all add: kHexNumbers_def kNumbers_def write_number_hex_step)

section \<open>Properties\<close>

text \<open>
  Property C39. Printed numbers can be read back: for every 64-bit number but the smallest the decimal and the
  hexadecimal digits printed denote its absolute value, without leading zeros; the hexadecimal ones are followed by an
  \<open>h\<close>. The sign is lost, and the smallest number overflows.
\<close>

theorem number_roundtrip:
  assumes "- (2 ^ 63) < x" and "x < 2 ^ 63"
  shows "\<exists>s t. number x = Inr s \<and> number_value kNumbers s = \<bar>x\<bar> \<and> (x \<noteq> 0 \<longrightarrow> hd s \<noteq> 0x30)
     \<and> hex_number x = Inr (t @ [0x68]) \<and> number_value kHexNumbers t = \<bar>x\<bar> \<and> (x \<noteq> 0 \<longrightarrow> hd t \<noteq> 0x30)
     \<and> number (- (2 ^ 63)) = Inl SignedOverflow"
proof -
  have "checked (if - (2 ^ 63) > (0 :: int) then - (2 ^ 63) else - (- (2 ^ 63))) = Inl SignedOverflow"
    by (simp add: checked_def s64_ok_def)
  then have "number (- (2 ^ 63)) = Inl SignedOverflow" unfolding number_def by (subst write_number.simps) (simp only: sum.case)
  moreover obtain s where "write_number x = Inr s" "number_value kNumbers s = \<bar>x\<bar>" "x \<noteq> 0 \<longrightarrow> hd s \<noteq> kNumbers ! 0"
    using decimal.write_abs_value [OF assms] by blast
  moreover obtain t where "write_number_hex x = Inr t" "number_value kHexNumbers t = \<bar>x\<bar>" "x \<noteq> 0 \<longrightarrow> hd t \<noteq> kHexNumbers ! 0"
    using hexadecimal.write_abs_value [OF assms] by blast
  ultimately show ?thesis by (simp add: number_def hex_number_def) (simp add: kHexNumbers_def kNumbers_def)
qed

theorem number_roundtrip_witness:
  "\<exists>s. number (-1024) = Inr s \<and> number_value kNumbers s = 1024"
  using number_roundtrip [of "-1024"] by auto

text \<open>The bytes sent for the characters of a string.\<close>

definition crlf :: "u8 \<Rightarrow> u8 list" where
  "crlf c = (if c = 0x0D then [0x0D, 0x0A] else [c])"

definition send :: "'d ports \<Rightarrow> u8 list \<Rightarrow> 'd \<Rightarrow> 'd" where
  "send P bs d = foldl (\<lambda>d b. rt_out8 P PORT b d) d bs"

lemma io_write_loop_sends:
  "io_write_loop P m bytes index n d = send P (concat (map crlf (load_bytes m (bytes + index) n))) d"
  by (induction n arbitrary: index d) (simp_all add: send_def crlf_def Let_def add.assoc)

text \<open>
  Remark. Writing a string to a ready console sends its characters in order, each carriage return followed by a
  line feed, and nothing else, up to the first terminator but at most 256 characters; the console is ready again.
\<close>

theorem ke_io_write_sends:
  assumes "kState st = kStateReady" and "bytes \<noteq> null" and "m bytes \<noteq> 0"
  shows "\<exists>len. rt_string_len_max m bytes 255 = Some len \<and> unat len \<le> 256
     \<and> ke_io_write P True m bytes st =
         Some (Inr \<lparr>kState = kStateReady, com = send P (concat (map crlf (load_bytes m bytes (unat len)))) (com st)\<rparr>)"
proof -
  obtain len where "rt_string_len_max m bytes 255 = Some len" "unat len \<le> 256"
    using rt_string_len_max_total [of 255 m bytes] by auto
  with assms show ?thesis by (simp add: ke_io_write_def hal_serial_init_def io_write_loop_sends)
qed

text \<open>A line that records what is sent and plays back what was typed.\<close>

record line =
  sent :: "u8 list"
  typed :: "u8 list"

definition line_ports :: "line ports" where
  "line_ports =
     \<lparr>rt_in8 = (\<lambda>_ l. (case typed l of [] \<Rightarrow> 0 | c # _ \<Rightarrow> c, l\<lparr>typed := tl (typed l)\<rparr>)),
      rt_in16 = (\<lambda>_ l. (0, l)), rt_out8 = (\<lambda>_ v l. l\<lparr>sent := sent l @ [v]\<rparr>), rt_out16 = (\<lambda>_ _ l. l)\<rparr>"

lemma send_line: "send line_ports bs l = l\<lparr>sent := sent l @ bs\<rparr>"
  by (induction bs arbitrary: l) (simp_all add: send_def line_ports_def)

theorem ke_io_write_sends_witness:
  "\<exists>st. ke_io_write line_ports True ((\<lambda>_. 0)(1 := 0x41, 2 := 0x0D)) 1 \<lparr>kState = kStateReady, com = \<lparr>sent = [], typed = []\<rparr>\<rparr> =
     Some (Inr st) \<and> kState st = kStateReady"
  using ke_io_write_sends [of "\<lparr>kState = kStateReady, com = \<lparr>sent = [], typed = []\<rparr>\<rparr>" 1 "(\<lambda>_. 0)(1 := 0x41, 2 := 0x0D)" line_ports]
  by auto

lemma io_read_skips_iff: "io_read_skips c \<longleftrightarrow> c < 0x61"
proof -
  have "c \<noteq> 0x40 \<or> c \<noteq> 0x21" by auto
  moreover have "c < 0x30 \<Longrightarrow> c < 0x61" "c < 0x41 \<Longrightarrow> c < 0x61" by (simp_all add: word_less_nat_alt)
  ultimately show ?thesis by (auto simp: io_read_skips_def)
qed

lemma io_read_loop_line:
  "typed l = ks @ 0x0D # rest \<Longrightarrow> 0x0D \<notin> set ks \<Longrightarrow>
   io_read_loop line_ports bytes index m l =
     Some (store_bytes m (bytes + index) (filter (\<lambda>c. \<not> c < 0x61) ks), index + of_nat (length (filter (\<lambda>c. \<not> c < 0x61) ks)),
           l\<lparr>typed := rest\<rparr>)"
proof (induction ks arbitrary: l index m)
  case Nil
  then show ?case by (subst io_read_loop.simps) (simp add: line_ports_def)
next
  case (Cons k ks)
  have "typed (l\<lparr>typed := ks @ 0x0D # rest\<rparr>) = ks @ 0x0D # rest" by simp
  note IH = Cons.IH [OF this]
  from Cons.prems have "rt_in8 line_ports PORT l = (k, l\<lparr>typed := ks @ 0x0D # rest\<rparr>)" "k \<noteq> 0x0D" "0x0D \<notin> set ks"
    by (auto simp: line_ports_def)
  then show ?case by (subst io_read_loop.simps) (simp add: io_read_skips_iff IH fun_upd_def add.commute add.left_commute)
qed

text \<open>
  Remark. Reading a line from the console ends at the carriage return and stores what was typed before it, but only
  the characters from \<open>a\<close> on: digits, capital letters and the punctuation the code means to allow are
  dropped, because the test for the allowed characters is always true.
\<close>

theorem ke_io_read_keeps_small_letters:
  assumes "kState st = kStateReady" and "bytes \<noteq> null" and "typed (com st) = ks @ 0x0D # rest" and "0x0D \<notin> set ks"
  shows "ke_io_read line_ports True bytes m st =
     Some (Inr (let kept = filter (\<lambda>c. 0x61 \<le> c) ks in
       (store_bytes m bytes kept)(bytes + of_nat (length kept) := 0), \<lparr>kState = kStateReady, com = (com st)\<lparr>typed := rest\<rparr>\<rparr>))"
  using assms io_read_loop_line [OF assms(3,4), of bytes 0 m]
  by (simp add: ke_io_read_def hal_serial_init_def not_less Let_def)

theorem ke_io_read_keeps_small_letters_witness:
  "\<exists>m st. ke_io_read line_ports True 0x1000 (\<lambda>_. 7) \<lparr>kState = kStateReady, com = \<lparr>sent = [], typed = [0x41, 0x62, 0x31, 0x0D]\<rparr>\<rparr>
     = Some (Inr (m, st)) \<and> m 0x1000 = 0x62 \<and> m 0x1001 = 0"
  using ke_io_read_keeps_small_letters [of "\<lparr>kState = kStateReady, com = \<lparr>sent = [], typed = [0x41, 0x62, 0x31, 0x0D]\<rparr>\<rparr>" "0x1000"
      "[0x41, 0x62, 0x31]" "[]" "\<lambda>_. 7"]
  by (simp add: Let_def)

end
