(* ===== verification/Devices.thy ===== *)
theory Devices
  imports Kernel_Strings Hardware_Threads ATA_PIO
begin

text \<open>
  Device discovery: PCI configuration space (\<^verbatim>\<open>HALKit/AMD64/PCI/Device.cc\<close>,
  \<^verbatim>\<open>Iterator.cc\<close>, \<^verbatim>\<open>DMA.cc\<close>), the ACPI tables (\<^verbatim>\<open>src/ACPIFactoryInterface.cc\<close>,
  \<^verbatim>\<open>Modules/ACPI/ACPI.h\<close>), the high precision timer (\<^verbatim>\<open>HalTimerAMD64.cc\<close>) and the processors
  listed in the MADT (\<^verbatim>\<open>HalCoreScheduler.cc\<close>). Ports and device registers are arguments; the tables are in
  memory, where structures are laid out as the compiler lays them out.
\<close>

section \<open>PCI\<close>

record 'd pci_ports = "'d ports" +
  rt_in32 :: "u16 \<Rightarrow> 'd \<Rightarrow> u32 \<times> 'd"
  rt_out32 :: "u16 \<Rightarrow> u32 \<Rightarrow> 'd \<Rightarrow> 'd"

definition ConfigAddress :: u16 where "ConfigAddress = 0xCF8"
definition ConfigData :: u16 where "ConfigData = 0xCFC"
definition PciInvalid :: u16 where "PciInvalid = 0xFFF"

definition pci_target :: "u32 \<Rightarrow> u16 \<Rightarrow> u16 \<Rightarrow> u16 \<Rightarrow> u32" where
  "pci_target reg bus dev func =
     0x80000000 OR push_bit 16 (ucast bus) OR push_bit 11 (ucast dev) OR push_bit 8 (ucast func) OR reg"

definition ZKA_PCIReadRaw :: "'d pci_ports \<Rightarrow> u32 \<Rightarrow> u16 \<Rightarrow> u16 \<Rightarrow> u16 \<Rightarrow> 'd \<Rightarrow> u32 \<times> 'd" where
  "ZKA_PCIReadRaw P bar bus dev func d =
     rt_in32 P ConfigData (rt_out32 P ConfigAddress (pci_target (bar AND 0xFC) bus dev func) d)"

definition ZKA_PCISetCfgTarget :: "'d pci_ports \<Rightarrow> u32 \<Rightarrow> u16 \<Rightarrow> u16 \<Rightarrow> u16 \<Rightarrow> 'd \<Rightarrow> 'd" where
  "ZKA_PCISetCfgTarget P bar bus dev func d = rt_out32 P ConfigAddress (pci_target (bar AND NOT 3) bus dev func) d"

record Device =
  fBus :: u16
  fDevice :: u16
  fFunction :: u16
  fBar :: u32

definition Device_Read :: "'d pci_ports \<Rightarrow> Device \<Rightarrow> u32 \<Rightarrow> u64 \<Rightarrow> 'd \<Rightarrow> u32 \<times> 'd" where
  "Device_Read P this bar sz d =
     (let d1 = ZKA_PCISetCfgTarget P bar (fBus this) (fDevice this) (fFunction this) d;
          port = ConfigData + ucast (bar AND 3) in
      if sz = 4 then rt_in32 P port d1
      else if sz = 2 then map_prod ucast id (rt_in16 P port d1)
      else if sz = 1 then map_prod ucast id (rt_in8 P port d1)
      else (0xFFFF, d1))"

definition Device_Write :: "'d pci_ports \<Rightarrow> Device \<Rightarrow> u32 \<Rightarrow> u64 \<Rightarrow> u64 \<Rightarrow> 'd \<Rightarrow> 'd" where
  "Device_Write P this bar data sz d =
     (let d1 = ZKA_PCISetCfgTarget P bar (fBus this) (fDevice this) (fFunction this) d;
          port = ConfigData + ucast (fBar this AND 3) in
      if sz = 4 then rt_out32 P port (ucast data) d1
      else if sz = 2 then rt_out16 P port (ucast data) d1
      else if sz = 1 then rt_out8 P port (ucast data) d1
      else d1)"

definition Device_raw :: "'d pci_ports \<Rightarrow> Device \<Rightarrow> u32 \<Rightarrow> 'd \<Rightarrow> u32 \<times> 'd" where
  "Device_raw P this reg d = ZKA_PCIReadRaw P reg (fBus this) (fDevice this) (fFunction this) d"

definition Device_DeviceId :: "'d pci_ports \<Rightarrow> Device \<Rightarrow> 'd \<Rightarrow> u16 \<times> 'd" where
  "Device_DeviceId P this d = map_prod ucast id (Device_raw P this (drop_bit 16 0) d)"
definition Device_VendorId :: "'d pci_ports \<Rightarrow> Device \<Rightarrow> 'd \<Rightarrow> u16 \<times> 'd" where
  "Device_VendorId P this d = map_prod (\<lambda>v. ucast (drop_bit 16 v)) id (Device_raw P this 0 d)"
definition Device_InterfaceId :: "'d pci_ports \<Rightarrow> Device \<Rightarrow> 'd \<Rightarrow> u16 \<times> 'd" where
  "Device_InterfaceId P this d = map_prod (\<lambda>v. ucast (drop_bit 16 v)) id (Device_raw P this 0 d)"
definition Device_Class :: "'d pci_ports \<Rightarrow> Device \<Rightarrow> 'd \<Rightarrow> u8 \<times> 'd" where
  "Device_Class P this d = map_prod (\<lambda>v. ucast (drop_bit 24 v)) id (Device_raw P this 0x08 d)"
definition Device_Subclass :: "'d pci_ports \<Rightarrow> Device \<Rightarrow> 'd \<Rightarrow> u8 \<times> 'd" where
  "Device_Subclass P this d = map_prod (\<lambda>v. ucast (drop_bit 16 v)) id (Device_raw P this 0x08 d)"
definition Device_ProgIf :: "'d pci_ports \<Rightarrow> Device \<Rightarrow> 'd \<Rightarrow> u8 \<times> 'd" where
  "Device_ProgIf P this d = map_prod (\<lambda>v. ucast (drop_bit 8 v)) id (Device_raw P this 0x08 d)"
definition Device_HeaderType :: "'d pci_ports \<Rightarrow> Device \<Rightarrow> 'd \<Rightarrow> u8 \<times> 'd" where
  "Device_HeaderType P this d = map_prod (\<lambda>v. ucast (drop_bit 16 v)) id (Device_raw P this 0xC d)"
definition Device_Bar :: "'d pci_ports \<Rightarrow> Device \<Rightarrow> u32 \<Rightarrow> 'd \<Rightarrow> u64 \<times> 'd" where
  "Device_Bar P this bar_in d = map_prod ucast id (Device_raw P this bar_in d)"

text \<open>The value is kept in a \<open>bool\<close> before it is written back.\<close>

definition Device_EnableMmio :: "'d pci_ports \<Rightarrow> Device \<Rightarrow> u32 \<Rightarrow> 'd \<Rightarrow> 'd" where
  "Device_EnableMmio P this bar_in d =
     (let (v, d1) = Device_Read P this bar_in 1 d; enable = (v OR push_bit 1 1 \<noteq> 0)
      in Device_Write P this bar_in (of_bool enable) 2 d1)"

definition Device_BecomeBusMaster :: "'d pci_ports \<Rightarrow> Device \<Rightarrow> u32 \<Rightarrow> 'd \<Rightarrow> 'd" where
  "Device_BecomeBusMaster P this bar_in d =
     (let (v, d1) = Device_Read P this bar_in 2 d; enable = (v OR push_bit 2 1 \<noteq> 0)
      in Device_Write P this bar_in (of_bool enable) 2 d1)"

definition Device_Vendor :: "'d pci_ports \<Rightarrow> Device \<Rightarrow> 'd \<Rightarrow> u16 \<times> Device \<times> 'd" where
  "Device_Vendor P this d =
     (let (vendor, d1) = Device_VendorId P this d in
      if vendor \<noteq> PciInvalid
      then let (v, d2) = Device_Read P this 0 2 d1 in (ucast v, this\<lparr>fDevice := ucast v\<rparr>, d2)
      else (fDevice this, this, d1))"

definition Device_bool :: "'d pci_ports \<Rightarrow> Device \<Rightarrow> 'd \<Rightarrow> bool \<times> 'd" where
  "Device_bool P this d = map_prod (\<lambda>v. v \<noteq> PciInvalid) id (Device_VendorId P this d)"

definition ZKA_BUS_COUNT :: nat where "ZKA_BUS_COUNT = 256"
definition ZKA_DEVICE_COUNT :: nat where "ZKA_DEVICE_COUNT = 33"
definition ZKA_FUNCTION_COUNT :: nat where "ZKA_FUNCTION_COUNT = 8"

text \<open>The order in which the iterator looks at devices, and what it does with one of them.\<close>

definition probe_order :: "(nat \<times> nat \<times> nat) list" where
  "probe_order = concat (map (\<lambda>bus. concat (map (\<lambda>dev. map (\<lambda>fn. (bus, dev, fn)) [0..<ZKA_FUNCTION_COUNT])
     [0..<ZKA_DEVICE_COUNT])) [0..<ZKA_BUS_COUNT])"

definition device_at :: "nat \<times> nat \<times> nat \<Rightarrow> Device" where
  "device_at k = (case k of (bus, dev, fn) \<Rightarrow>
     \<lparr>fBus = of_nat bus, fDevice = of_nat dev, fFunction = of_nat fn, fBar = 0\<rparr>)"

definition Iterator_probe ::
    "'d pci_ports \<Rightarrow> u8 \<Rightarrow> nat \<times> nat \<times> nat \<Rightarrow> Device list \<times> 'd \<Rightarrow> Device list \<times> 'd" where
  "Iterator_probe P kind k w =
     (case w of (fDevices, d) \<Rightarrow>
        let (cls, d1) = Device_Class P (device_at k) d
        in (if cls = kind then fDevices[fst k := device_at k] else fDevices, d1))"

definition Iterator_new :: "'d pci_ports \<Rightarrow> u8 \<Rightarrow> Device list \<Rightarrow> 'd \<Rightarrow> Device list \<times> 'd" where
  "Iterator_new P kind garbage d = fold (Iterator_probe P kind) probe_order (garbage, d)"

definition Iterator_at :: "Device list \<Rightarrow> u64 \<Rightarrow> abort + Device Ref" where
  "Iterator_at fDevices at = map_sum id ValueRef (Array_at fDevices at)"

section \<open>Mapped registers\<close>

definition DMAWrapper_bool :: "addr \<Rightarrow> bool" where
  "DMAWrapper_bool fAddress = (fAddress \<noteq> null)"
definition DMAWrapper_not :: "addr \<Rightarrow> bool" where
  "DMAWrapper_not fAddress = (fAddress = null)"
definition DMAWrapper_Check :: "addr \<Rightarrow> u64 \<Rightarrow> bool" where
  "DMAWrapper_Check fAddress offset = (if fAddress = null then False else if offset = 0 then True else fAddress \<ge> offset)"
definition DMAWrapper_Write :: "addr \<Rightarrow> u64 \<Rightarrow> u64 \<Rightarrow> mem \<Rightarrow> mem \<times> bool" where
  "DMAWrapper_Write fAddress bits offset m =
     (if fAddress = null then (m, False) else (store64 m (fAddress + offset) bits, True))"
definition DMAWrapper_Read :: "addr \<Rightarrow> u64 \<Rightarrow> mem \<Rightarrow> u64" where
  "DMAWrapper_Read fAddress offset m = (if fAddress = null then 0 else load64 m (fAddress + offset))"

definition ke_dma_write :: "u32 \<Rightarrow> u32 \<Rightarrow> u32 \<Rightarrow> mem \<Rightarrow> mem" where
  "ke_dma_write base reg v m = store32 m (ucast base + ucast reg) v"
definition ke_dma_read :: "u32 \<Rightarrow> u32 \<Rightarrow> mem \<Rightarrow> u32" where
  "ke_dma_read base reg m = load32 m (ucast base + ucast reg)"

definition kAPIC_ICR_Low :: u32 where "kAPIC_ICR_Low = 0x300"
definition kAPIC_ICR_High :: u32 where "kAPIC_ICR_High = 0x310"
definition kAPIC_SIPI_Vector :: u32 where "kAPIC_SIPI_Vector = 0x500"
definition kAPIC_EIPI_Vector :: u32 where "kAPIC_EIPI_Vector = 0x400"

definition hal_send_start_ipi :: "u32 \<Rightarrow> u8 \<Rightarrow> u32 \<Rightarrow> mem \<Rightarrow> mem" where
  "hal_send_start_ipi apicId vector targetAddress m =
     ke_dma_write targetAddress kAPIC_ICR_Low (kAPIC_SIPI_Vector OR ucast vector)
       (ke_dma_write targetAddress kAPIC_ICR_High (push_bit 24 apicId) m)"
definition hal_send_end_ipi :: "u32 \<Rightarrow> u8 \<Rightarrow> u32 \<Rightarrow> mem \<Rightarrow> mem" where
  "hal_send_end_ipi apicId vector targetAddress m =
     ke_dma_write targetAddress kAPIC_ICR_Low (kAPIC_EIPI_Vector OR ucast vector)
       (ke_dma_write targetAddress kAPIC_ICR_High (push_bit 24 apicId) m)"

section \<open>ACPI tables\<close>

record ACPIFactoryInterface =
  fRsdp :: addr
  fEntries :: u64

definition sizeof_SDT :: u64 where "sizeof_SDT = 36"

text \<open>Fields of the packed tables: \<open>SDT\<close>, \<open>RSDP\<close> (an \<open>SDT\<close> with more fields behind it) and \<open>RSDT\<close>.\<close>

definition sdt_Signature :: "mem \<Rightarrow> addr \<Rightarrow> u8 list" where "sdt_Signature m p = load_bytes m p 4"
definition sdt_Length :: "mem \<Rightarrow> addr \<Rightarrow> u32" where "sdt_Length m p = load32 m (p + 4)"
definition sdt_Revision :: "mem \<Rightarrow> addr \<Rightarrow> u8" where "sdt_Revision m p = m (p + 8)"
definition rsdp_RsdtAddress :: "mem \<Rightarrow> addr \<Rightarrow> u32" where "rsdp_RsdtAddress m p = load32 m (p + sizeof_SDT)"
definition rsdt_Address :: "mem \<Rightarrow> addr \<Rightarrow> u64 \<Rightarrow> addr" where
  "rsdt_Address m p index = ucast (load32 m (p + sizeof_SDT + 4 * index))"

primrec signature_matches :: "mem \<Rightarrow> addr \<Rightarrow> addr \<Rightarrow> nat \<Rightarrow> nat \<Rightarrow> bool" where
  "signature_matches m sdt signature i 0 = False"
| "signature_matches m sdt signature i (Suc n) =
     (if m (sdt + of_nat i) \<noteq> m (signature + of_nat i) then False
      else if i = 4 - 1 then True
      else signature_matches m sdt signature (Suc i) n)"

primrec Find_loop :: "mem \<Rightarrow> addr \<Rightarrow> addr \<Rightarrow> u64 \<Rightarrow> nat \<Rightarrow> addr ErrorOr" where
  "Find_loop m xsdt signature index 0 = ErrorOr_error (- 1)"
| "Find_loop m xsdt signature index (Suc n) =
     (let sdt = rsdt_Address m xsdt index in
      if signature_matches m sdt signature 0 4 then ErrorOr_value sdt
      else Find_loop m xsdt signature (index + 1) n)"

text \<open>The number of entries is computed without sign and then read as a signed number.\<close>

definition acpi_entries :: "u32 \<Rightarrow> u64" where
  "acpi_entries len = (ucast len - sizeof_SDT) div 8"

definition ACPI_Find ::
    "bool \<Rightarrow> mem \<Rightarrow> addr \<Rightarrow> ACPIFactoryInterface \<Rightarrow> abort + ACPIFactoryInterface \<times> addr ErrorOr" where
  "ACPI_Find debug m signature this =
     (case MUST_PASS debug (fRsdp this \<noteq> null) of
        Inl e \<Rightarrow> Inl e
      | Inr _ \<Rightarrow>
          if signature = null then Inr (this, ErrorOr_error (- 1))
          else if m signature = 0 then Inr (this, ErrorOr_error (- 1))
          else if fRsdp this = null then Inl NullAccess
          else if sdt_Revision m (fRsdp this) \<le> 1 then Inr (this, ErrorOr_error (- 1))
          else
            let xsdt = ucast (rsdp_RsdtAddress m (fRsdp this)) in
            if xsdt = null then Inl NullAccess
            else
              let num = acpi_entries (sdt_Length m xsdt) in
              if sint num < 1
              then map_sum id (\<lambda>_. (this, ErrorOr_error (- 1))) (snd (ke_stop RUNTIME_CHECK_ACPI))
              else Inr (this\<lparr>fEntries := num\<rparr>, Find_loop m xsdt signature 0 (unat num)))"

text \<open>The counter of the sum is an \<open>int\<close>, which a longer length overflows.\<close>

definition ACPI_Checksum :: "mem \<Rightarrow> addr \<Rightarrow> int \<Rightarrow> abort + bool" where
  "ACPI_Checksum m checksum len =
     (if len = 0 then Inr True
      else if len \<ge> 2 ^ 31 then Inl SignedOverflow
      else Inr (sum_list (load_bytes m checksum (nat len)) = 0))"

section \<open>The high precision timer\<close>

record HardwareTimer =
  fDigitalTimer :: addr
  fWaitFor :: u64

definition cHPETCounterRegValue :: u64 where "cHPETCounterRegValue = 0x00"
definition cHPETConfigRegValue :: u64 where "cHPETConfigRegValue = 0x20"

text \<open>\<open>HPET_BLOCK\<close> is packed: its address structure starts at 40, the address in it at 44.\<close>

definition hpet_address :: "mem \<Rightarrow> addr \<Rightarrow> addr" where "hpet_address m p = load64 m (p + 44)"

definition HardwareTimer_new ::
    "(addr \<Rightarrow> abort + addr) \<Rightarrow> bool \<Rightarrow> mem \<Rightarrow> addr \<Rightarrow> addr \<Rightarrow> u64 \<Rightarrow> abort + HardwareTimer" where
  "HardwareTimer_new expired debug m vendor_ptr lit_HPET ms =
     (case ACPI_Find debug m lit_HPET \<lparr>fRsdp = vendor_ptr, fEntries = 0\<rparr> of
        Inl e \<Rightarrow> Inl e
      | Inr (_, res) \<Rightarrow>
          (case Ref_Leak expired (mRef res) of
             Inl e \<Rightarrow> Inl e
           | Inr hpet \<Rightarrow>
               (case MUST_PASS debug (hpet \<noteq> null) of
                  Inl e \<Rightarrow> Inl e
                | Inr _ \<Rightarrow> if hpet = null then Inl NullAccess
                            else Inr \<lparr>fDigitalTimer = hpet_address m hpet, fWaitFor = ms\<rparr>)))"

text \<open>The registers are reached through a pointer to 64-bit words, so that an offset counts words.\<close>

record 'd mmio =
  mm_rd :: "addr \<Rightarrow> 'd \<Rightarrow> u64 \<times> 'd"
  mm_wr :: "addr \<Rightarrow> u64 \<Rightarrow> 'd \<Rightarrow> 'd"

definition hpet_reg :: "HardwareTimer \<Rightarrow> u64 \<Rightarrow> addr" where
  "hpet_reg this reg = fDigitalTimer this + 8 * reg"

definition hpet_or :: "'d mmio \<Rightarrow> addr \<Rightarrow> u64 \<Rightarrow> 'd \<Rightarrow> 'd" where
  "hpet_or M a bits d = (let (v, d1) = mm_rd M a d in mm_wr M a (v OR bits) d1)"

definition hpet_enable :: "'d mmio \<Rightarrow> HardwareTimer \<Rightarrow> 'd \<Rightarrow> 'd" where
  "hpet_enable M this d =
     (let config = hpet_reg this cHPETConfigRegValue; (v, d1) = mm_rd M config d in
      if v AND 1 = 0 then hpet_or M config (push_bit 3 1) (hpet_or M config 1 d1) else d1)"

partial_function (option) hpet_spin :: "'d mmio \<Rightarrow> addr \<Rightarrow> u64 \<Rightarrow> 'd \<Rightarrow> 'd option" where
  "hpet_spin M counter ticks d =
     (let (v, d1) = mm_rd M counter d in if v < ticks then hpet_spin M counter ticks d1 else Some d1)"

definition HardwareTimer_Wait :: "'d mmio \<Rightarrow> HardwareTimer \<Rightarrow> 'd \<Rightarrow> (abort + 'd \<times> u32) option" where
  "HardwareTimer_Wait M this d =
     (if sint (fWaitFor this) < 1 then Some (Inr (d, 1))
      else
        let d1 = hpet_enable M this d;
            (caps, d2) = mm_rd M (fDigitalTimer this) d1;
            period = drop_bit 32 caps AND 0xFFFFFFFF in
        if period = 0 then Some (Inl DivisionByZero)
        else
          let ticks = fWaitFor this div period;
              (_, d3) = mm_rd M (hpet_reg this cHPETCounterRegValue) d2 in
          map_option (\<lambda>d4. Inr (d4, 0)) (hpet_spin M (hpet_reg this cHPETCounterRegValue) ticks d3))"

section \<open>Processors\<close>

record smp =
  kSMPAware :: bool
  kSMPCount :: nat
  kAPICLocales :: "u64 list"

definition cSMPMax :: nat where "cSMPMax = 32"

text \<open>
  The table is not packed: its list starts at 48, an entry has 24 bytes, and the union in it starts at 8.
  A \<open>LAPIC\<close> has its processor at the start of the union, an address override its address at 8.
\<close>

definition madt_entry :: "addr \<Rightarrow> u64 \<Rightarrow> addr" where
  "madt_entry madt index = madt + 48 + 24 * index"

partial_function (option) mp_probe ::
    "mem \<Rightarrow> addr \<Rightarrow> u64 \<Rightarrow> u64 \<Rightarrow> smp \<Rightarrow> (abort + smp \<times> u64) option" where
  "mp_probe m madt index madt_address st =
     (let kind = m (madt_entry madt index) in
      if kind > 9 \<or> kSMPCount st > cSMPMax then Some (Inr (st, madt_address))
      else if kind = 0x00 then
        if unat index < cSMPMax
        then mp_probe m madt (index + 1) madt_address
               (st\<lparr>kAPICLocales := (kAPICLocales st)[unat index := ucast (m (madt_entry madt index + 8))],
                   kSMPCount := kSMPCount st + 1\<rparr>)
        else Some (Inl OutOfBounds)
      else if kind = 0x05 then mp_probe m madt (index + 1) (load64 m (madt_entry madt index + 16)) st
      else mp_probe m madt (index + 1) madt_address st)"

definition mp_get_cores ::
    "(addr \<Rightarrow> abort + addr) \<Rightarrow> bool \<Rightarrow> mem \<Rightarrow> addr \<Rightarrow> addr \<Rightarrow> smp \<Rightarrow> (abort + smp) option" where
  "mp_get_cores expired debug m lit_APIC vendor_ptr st =
     (if vendor_ptr = null then Some (Inr st)
      else
     ebind (Some (ACPI_Find debug m lit_APIC \<lparr>fRsdp = vendor_ptr, fEntries = 0\<rparr>)) (\<lambda>(_, res).
     ebind (Some (Ref_Leak expired (mRef res))) (\<lambda>madt.
       let st1 = st\<lparr>kSMPAware := False\<rparr> in
       if madt = null then Some (Inr st1)
       else
     ebind (mp_probe m madt 0 (ucast (load32 m (madt + 36))) (st1\<lparr>kSMPCount := 0\<rparr>)) (\<lambda>(st2, _).
       Some (Inr (st2\<lparr>kSMPAware := True\<rparr>))))))"

section \<open>A configuration space\<close>

text \<open>
  The documented behaviour of the configuration ports: a word written to the address port selects a register, and the
  data port reads the selected register.
\<close>

record pci_bus =
  selected :: u32
  config :: "u32 \<Rightarrow> u32"

definition bus_ports :: "pci_bus pci_ports" where
  "bus_ports =
     \<lparr>rt_in8 = (\<lambda>p b. (ucast (drop_bit (8 * unat (p - ConfigData)) (config b (selected b))), b)),
      rt_in16 = (\<lambda>p b. (ucast (drop_bit (8 * unat (p - ConfigData)) (config b (selected b))), b)),
      rt_out8 = (\<lambda>_ _ b. b), rt_out16 = (\<lambda>_ _ b. b),
      rt_in32 = (\<lambda>p b. (config b (selected b), b)),
      rt_out32 = (\<lambda>p v b. if p = ConfigAddress then b\<lparr>selected := v\<rparr> else b)\<rparr>"

lemma Device_raw_bus:
  "Device_raw bus_ports this reg b =
     (config b (pci_target (reg AND 0xFC) (fBus this) (fDevice this) (fFunction this)),
      b\<lparr>selected := pci_target (reg AND 0xFC) (fBus this) (fDevice this) (fFunction this)\<rparr>)"
  by (simp add: Device_raw_def ZKA_PCIReadRaw_def bus_ports_def)

text \<open>The class of the device at a position.\<close>

definition bus_class :: "pci_bus \<Rightarrow> nat \<times> nat \<times> nat \<Rightarrow> u8" where
  "bus_class b k = (case k of (bus, dev, fn) \<Rightarrow>
     ucast (drop_bit 24 (config b (pci_target 8 (of_nat bus) (of_nat dev) (of_nat fn)))))"

lemma Iterator_probe_bus:
  "\<exists>sel. Iterator_probe bus_ports kind k (devs, b) =
     (if bus_class b k = kind then devs[fst k := device_at k] else devs, b\<lparr>selected := sel\<rparr>)"
proof (cases k)
  case (fields bus dev fn)
  then show ?thesis
    by (intro exI [of _ "pci_target 8 (of_nat bus) (of_nat dev) (of_nat fn)"])
      (simp add: Iterator_probe_def Device_Class_def Device_raw_bus device_at_def bus_class_def)
qed

lemma bus_class_selected [simp]: "bus_class (b\<lparr>selected := sel\<rparr>) = bus_class b"
  by (simp add: bus_class_def fun_eq_iff)

lemma Iterator_fold:
  "fst (fold (Iterator_probe bus_ports kind) ks (devs, b)) =
     fold (\<lambda>k devs. devs[fst k := device_at k]) (filter (\<lambda>k. bus_class b k = kind) ks) devs"
proof (induction ks arbitrary: devs b)
  case (Cons k ks)
  obtain sel where sel: "Iterator_probe bus_ports kind k (devs, b) =
     (if bus_class b k = kind then devs[fst k := device_at k] else devs, b\<lparr>selected := sel\<rparr>)"
    using Iterator_probe_bus by blast
  show ?case by (simp add: sel Cons.IH)
qed simp

lemma fold_update_nth:
  "i < length devs \<Longrightarrow> fold (\<lambda>k devs. devs[fst k := f k]) ks devs ! i =
     (let hits = filter (\<lambda>k. fst k = i) ks in if hits = [] then devs ! i else f (last hits))"
proof (induction ks rule: rev_induct)
  case (snoc k ks)
  have "length (fold (\<lambda>k devs. devs[fst k := f k]) ks devs) = length devs"
    by (induction ks arbitrary: devs) simp_all
  with snoc show ?case by (simp add: Let_def nth_list_update)
qed simp

section \<open>Tables and registers\<close>

lemma signature_matches_bytes:
  "signature_matches m sdt signature 0 4 \<longleftrightarrow> load_bytes m sdt 4 = load_bytes m signature 4"
  by (auto simp: numeral_eq_Suc load_bytes_def upt_rec add.commute)

lemma Find_loop_find:
  "Find_loop m xsdt signature index n =
     (case find (\<lambda>i. load_bytes m (rsdt_Address m xsdt i) 4 = load_bytes m signature 4)
             (map (\<lambda>k. index + of_nat k) [0..<n]) of
        None \<Rightarrow> ErrorOr_error (- 1) | Some i \<Rightarrow> ErrorOr_value (rsdt_Address m xsdt i))"
proof (induction n arbitrary: index)
  case (Suc n)
  have "map (\<lambda>k. index + of_nat k) [0..<Suc n] = index # map (\<lambda>k. (index + 1) + of_nat k) [0..<n]"
    by (simp add: upt_conv_Cons map_Suc_upt [symmetric] ac_simps del: upt_Suc)
  then show ?case by (simp only: Find_loop.simps find.simps Let_def signature_matches_bytes Suc.IH) simp
qed simp

lemma acpi_entries_half:
  assumes "unat len = 36 + 4 * n"
  shows "acpi_entries len = of_nat (n div 2)"
proof -
  have "n < 2 ^ 32" using assms unat_u32_lt [of len] by simp
  moreover have "(ucast len :: u64) = of_nat (36 + 4 * n)" by (simp flip: assms)
  ultimately have "acpi_entries len = of_nat (4 * n) div of_nat 8" by (simp add: acpi_entries_def sizeof_SDT_def)
  also have "\<dots> = of_nat (4 * n div 8)"
    by (rule word_unat_eq_iff [THEN iffD2])
      (use \<open>n < 2 ^ 32\<close> in \<open>simp add: unat_div unat_of_nat del: of_nat_mult of_nat_numeral of_nat_div\<close>)
  finally show ?thesis by simp
qed

lemma hpet_spin_constant:
  assumes "\<And>d. mm_rd M counter d = (v, d)"
  shows "hpet_spin M counter ticks d = (if v < ticks then None else Some d)"
proof (cases "v < ticks")
  case True
  let ?P = "\<lambda>M' c t d d'. (\<forall>d. mm_rd M' c d = (v, d)) \<longrightarrow> \<not> v < t"
  have "?P M counter ticks d d'" if "hpet_spin M counter ticks d = Some d'" for d'
  proof (rule hpet_spin.raw_induct [where P = ?P, OF _ that], goal_cases)
    case (1 f M' c t d d')
    then show ?case by (auto split: if_splits)
  qed
  with True assms show ?thesis by (cases "hpet_spin M counter ticks d") auto
qed (simp add: hpet_spin.simps assms)

text \<open>Probing \<open>k\<close> entries that have a known type counts those of type 0 and moves on.\<close>

lemma mp_probe_skip:
  assumes "\<And>i. i < k \<Longrightarrow> m (madt_entry madt (of_nat (j + i))) \<le> 9"
    and "j + k \<le> cSMPMax" "kSMPCount st \<le> j"
  shows "\<exists>a' locales. mp_probe m madt (of_nat j) a st = mp_probe m madt (of_nat (j + k)) a'
    (st\<lparr>kSMPCount := kSMPCount st + card {i. j \<le> i \<and> i < j + k \<and> m (madt_entry madt (of_nat i)) = 0}, kAPICLocales := locales\<rparr>)
    \<and> length locales = length (kAPICLocales st)"
  using assms
proof (induction k arbitrary: j a st)
  case 0
  have none: "{i. j \<le> i \<and> i < j + 0 \<and> m (madt_entry madt (of_nat i)) = 0} = {}" by auto
  show ?case unfolding none by (intro exI [of _ a] exI [of _ "kAPICLocales st"]) simp
next
  case (Suc k)
  let ?kind = "m (madt_entry madt (of_nat j))"
  define st1 where "st1 = (if ?kind = 0
    then st\<lparr>kAPICLocales := (kAPICLocales st)[j := ucast (m (madt_entry madt (of_nat j) + 8))], kSMPCount := kSMPCount st + 1\<rparr> else st)"
  define a1 where "a1 = (if ?kind = 5 then load64 m (madt_entry madt (of_nat j) + 16) else a)"
  have "?kind \<le> 9" using Suc.prems(1) [of 0] by simp
  moreover have "unat (of_nat j :: u64) = j" "j < cSMPMax" "kSMPCount st \<le> cSMPMax"
    using Suc.prems(2,3) by (simp_all add: cSMPMax_def unat_of_nat)
  moreover have "(of_nat j + 1 :: u64) = of_nat (Suc j)" by simp
  ultimately have step: "mp_probe m madt (of_nat j) a st = mp_probe m madt (of_nat (Suc j)) a1 st1"
    by (subst mp_probe.simps) (simp add: st1_def a1_def Let_def not_le [symmetric] del: of_nat_Suc)
  have "{i. j \<le> i \<and> i < j + Suc k \<and> m (madt_entry madt (of_nat i)) = 0} =
      (if ?kind = 0 then {j} else {}) \<union> {i. Suc j \<le> i \<and> i < Suc j + k \<and> m (madt_entry madt (of_nat i)) = 0}"
    by (auto simp: Suc_le_eq le_less)
  then have count: "card {i. j \<le> i \<and> i < j + Suc k \<and> m (madt_entry madt (of_nat i)) = 0} =
      of_bool (?kind = 0) + card {i. Suc j \<le> i \<and> i < Suc j + k \<and> m (madt_entry madt (of_nat i)) = 0}"
    by simp
  obtain a' locales where rest: "mp_probe m madt (of_nat (Suc j)) a1 st1 = mp_probe m madt (of_nat (Suc j + k)) a'
    (st1\<lparr>kSMPCount := kSMPCount st1 + card {i. Suc j \<le> i \<and> i < Suc j + k \<and> m (madt_entry madt (of_nat i)) = 0}, kAPICLocales := locales\<rparr>)"
    and "length locales = length (kAPICLocales st1)"
  proof (atomize_elim, rule Suc.IH)
    show "m (madt_entry madt (of_nat (Suc j + i))) \<le> 9" if "i < k" for i
      using Suc.prems(1) [of "Suc i"] that by simp
  qed (use Suc.prems(2,3) in \<open>simp_all add: st1_def\<close>)
  then show ?case unfolding step count rest by (intro exI [of _ a'] exI [of _ locales]) (simp add: st1_def)
qed

section \<open>Properties\<close>

text \<open>
  Remark. The iterator keeps one device per bus: after probing a configuration space for a class, the slot of a bus
  holds the last device of that class on the bus, in the order of device and function numbers, and keeps what it had
  when there is none.
\<close>

theorem Iterator_keeps_last_of_bus:
  assumes "length garbage = 256" and "bus < 256"
  shows "fst (Iterator_new bus_ports kind garbage b) ! bus =
    (let hits = filter (\<lambda>k. fst k = bus \<and> bus_class b k = kind) probe_order
     in if hits = [] then garbage ! bus else device_at (last hits))"
  using assms unfolding Iterator_new_def Iterator_fold
  by (subst fold_update_nth) (simp_all add: Let_def conj_commute)

theorem Iterator_keeps_last_of_bus_witness:
  "fst (Iterator_new bus_ports 1 (replicate 256 (device_at (0, 0, 0))) \<lparr>selected = 0, config = (\<lambda>_. 0)\<rparr>) ! 5 = device_at (0, 0, 0)"
proof -
  have "bus_class \<lparr>selected = 0, config = (\<lambda>_. 0)\<rparr> k = 0" for k by (cases k) (simp add: bus_class_def)
  then show ?thesis
    using Iterator_keeps_last_of_bus [of "replicate 256 (device_at (0, 0, 0))" 5 1 "\<lparr>selected = 0, config = (\<lambda>_. 0)\<rparr>"] by simp
qed

text \<open>
  Remark. The iterator looks at 33 device numbers, one more than a bus has: the read of device 32 goes to device 0 of
  the odd bus, so that this device is also found under the number 32 of the even bus.
\<close>

theorem pci_device_32_aliases:
  "ZKA_PCIReadRaw P reg bus 32 func d = ZKA_PCIReadRaw P reg (bus OR 1) 0 func d"
proof -
  have "push_bit 16 (ucast (bus OR 1) :: u32) = push_bit 16 (ucast bus) OR 0x10000"
  proof (rule bit_word_eqI)
    fix n
    assume "n < LENGTH(32)"
    moreover have "(0x10000 :: u32) = push_bit 16 1" by simp
    ultimately show "bit (push_bit 16 (ucast (bus OR 1) :: u32)) n = bit (push_bit 16 (ucast bus) OR 0x10000 :: u32) n"
      by (simp only: bit_simps) auto
  qed
  then have "pci_target (reg AND 0xFC) bus 32 func = pci_target (reg AND 0xFC) (bus OR 1) 0 func"
    by (simp add: pci_target_def or.assoc)
  then show ?thesis by (simp add: ZKA_PCIReadRaw_def)
qed

text \<open>
  Remark. The identifiers of a device are exchanged, and an absent device counts as present: register 0 has the vendor
  in its low half and the device in its high half, which \<open>DeviceId\<close> and \<open>VendorId\<close> return in this order;
  a register full of ones, which the bus returns for no device, passes the test for presence.
\<close>

theorem pci_identifiers_exchanged:
  assumes "reg0 = config b (pci_target 0 (fBus this) (fDevice this) (fFunction this))"
  shows "fst (Device_DeviceId bus_ports this b) = ucast (take_bit 16 reg0)
    \<and> fst (Device_VendorId bus_ports this b) = ucast (drop_bit 16 reg0)
    \<and> (reg0 = - 1 \<longrightarrow> fst (Device_bool bus_ports this b))"
proof -
  have low: "(ucast reg0 :: u16) = ucast (take_bit 16 reg0)" by (rule bit_word_eqI) (simp add: bit_simps)
  have "(ucast (drop_bit 16 (0xFFFFFFFF :: u32)) :: u16) \<noteq> PciInvalid" by (simp add: PciInvalid_def)
  moreover have "(- 1 :: u32) = 0xFFFFFFFF" by simp
  ultimately have ones: "(ucast (drop_bit 16 (- 1 :: u32)) :: u16) \<noteq> PciInvalid" by metis
  show ?thesis
    using assms low ones
    by (simp add: Device_DeviceId_def Device_VendorId_def Device_bool_def Device_raw_bus)
qed

theorem pci_identifiers_exchanged_witness:
  "fst (Device_DeviceId bus_ports (device_at (0, 0, 0)) \<lparr>selected = 0, config = (\<lambda>_. 0x12348086)\<rparr>) = 0x8086"
  using pci_identifiers_exchanged [OF refl, of "device_at (0, 0, 0)" "\<lparr>selected = 0, config = (\<lambda>_. 0x12348086)\<rparr>"]
  by (simp add: take_bit_eq_mod)

text \<open>
  Remark. A table is sought in the first half of the entries: for a root table with \<open>n\<close> entries of four
  bytes, the search returns the first of the entries below \<open>n div 2\<close> whose table starts with the four bytes of the
  signature, and an error when there is none among them.
\<close>

theorem ACPI_Find_first_half:
  assumes "fRsdp this \<noteq> null" "signature \<noteq> null" "m signature \<noteq> 0" "sdt_Revision m (fRsdp this) > 1"
    and "xsdt = ucast (rsdp_RsdtAddress m (fRsdp this))" "xsdt \<noteq> null"
    and "unat (sdt_Length m xsdt) = 36 + 4 * n" "n \<ge> 2"
  shows "ACPI_Find debug m signature this =
    Inr (this\<lparr>fEntries := of_nat (n div 2)\<rparr>,
      (case find (\<lambda>i. load_bytes m (rsdt_Address m xsdt i) 4 = load_bytes m signature 4) (map of_nat [0..<n div 2]) of
         None \<Rightarrow> ErrorOr_error (- 1) | Some i \<Rightarrow> ErrorOr_value (rsdt_Address m xsdt i)))"
proof -
  have "n < 2 ^ 32" using assms(7) unat_u32_lt [of "sdt_Length m xsdt"] by simp
  then have "sint (of_nat (n div 2) :: u64) = int (n div 2)" by (simp add: signed_of_nat signed_take_bit_int_eq_self)
  moreover have "unat (of_nat (n div 2) :: u64) = n div 2" using \<open>n < 2 ^ 32\<close> by (simp add: unat_of_nat del: of_nat_div)
  moreover have "\<not> sdt_Revision m (fRsdp this) \<le> 1" "n div 2 \<noteq> 0" using assms(4,8) by (simp_all add: not_le)
  ultimately show ?thesis
    using assms(1-3,6)
    by (simp add: ACPI_Find_def MUST_PASS_def ke_runtime_check_def assms(5) [symmetric] acpi_entries_half [OF assms(7)]
      Find_loop_find Let_def del: of_nat_div)
qed

theorem ACPI_Find_first_half_witness:
  "\<exists>m. ACPI_Find False m 0x50 \<lparr>fRsdp = 0x1000, fEntries = 0\<rparr> =
     Inr (\<lparr>fRsdp = 0x1000, fEntries = 1\<rparr>, ErrorOr_value 0)"
proof -
  define m :: mem where "m = (\<lambda>_. 0)(0x50 := 1, 0x1008 := 2, 0x1025 := 0x20, 0x2004 := 44, 0 := 1)"
  have "sdt_Length m 0x2000 = 44" "rsdp_RsdtAddress m 0x1000 = 0x2000" "rsdt_Address m 0x2000 0 = 0" "sdt_Revision m 0x1000 = 2"
    by (simp_all add: m_def sdt_Length_def rsdp_RsdtAddress_def rsdt_Address_def sdt_Revision_def sizeof_SDT_def
      load32_def load_bytes_def upt_rec)
  moreover have "load_bytes m 0 4 = load_bytes m 0x50 4" by (simp add: m_def load_bytes_def upt_rec)
  ultimately show ?thesis
    using ACPI_Find_first_half [of "\<lparr>fRsdp = 0x1000, fEntries = 0\<rparr>" "0x50" m "0x2000" 2 False]
    by (intro exI [of _ m]) (simp add: m_def)
qed

text \<open>
  Remark. The test for underflow does not see one: for a root table shorter than its header, the number of entries is
  positive as a signed number, and larger than \<open>2\<^sup>6\<^sup>0\<close>.
\<close>

theorem acpi_entries_underflow:
  "unat len < 36 \<Longrightarrow> sint (acpi_entries len) > 2 ^ 60"
proof -
  assume "unat len < 36"
  define x where "x = int (unat len)"
  have "unat (ucast len :: u64) = unat len"
    using \<open>unat len < 36\<close> by (simp add: unsigned_ucast_eq take_bit_nat_eq_self)
  then have x: "uint (ucast len :: u64) = x" "0 \<le> x" "x < 36"
    using \<open>unat len < 36\<close> by (simp_all only: x_def uint_nat)
  have "(ucast len :: u64) < 36" using x by (simp add: word_less_def)
  then have "uint (ucast len - 36 :: u64) = x - 36 + 2 ^ 64" using x by (simp add: uint_sub_if')
  then have "uint (acpi_entries len) = (x - 36 + 2 ^ 64) div 8"
    by (simp only: acpi_entries_def sizeof_SDT_def uint_div uint_numeral) simp
  moreover from this have "uint (acpi_entries len) < 2 ^ 63" using x by simp
  then have "sint (acpi_entries len) = uint (acpi_entries len)" by (simp add: sint_uint signed_take_bit_int_eq_self order_trans [OF _ uint_ge_0])
  ultimately show ?thesis using x by simp
qed

text \<open>
  Remark. The wait on the timer reads the capability register in place of the counter: when this register is
  constant, as the specification of the timer says, the wait ends without any time passing if the register is at least the
  number of ticks, and never ends otherwise.
\<close>

theorem HardwareTimer_waits_on_constant:
  assumes "\<And>d. mm_rd M (fDigitalTimer this) d = (caps, d)" and "sint (fWaitFor this) \<ge> 1"
    and "period = drop_bit 32 caps AND 0xFFFFFFFF" "period \<noteq> 0"
  shows "HardwareTimer_Wait M this d =
    (if caps < fWaitFor this div period then None else Some (Inr (hpet_enable M this d, 0)))"
proof -
  have "hpet_reg this cHPETCounterRegValue = fDigitalTimer this" by (simp add: hpet_reg_def cHPETCounterRegValue_def)
  then show ?thesis
    using assms(2,4) by (simp add: HardwareTimer_Wait_def assms(1) hpet_spin_constant [OF assms(1)] Let_def flip: assms(3))
qed

theorem HardwareTimer_waits_on_constant_witness:
  "HardwareTimer_Wait \<lparr>mm_rd = (\<lambda>_ d. (0x989680000000000, d)), mm_wr = (\<lambda>_ _ d. d)\<rparr>
     \<lparr>fDigitalTimer = 0xFED00000, fWaitFor = 50\<rparr> (0 :: nat) = Some (Inr (0, 0))"
  using HardwareTimer_waits_on_constant [where caps = "0x989680000000000" and M = "\<lparr>mm_rd = (\<lambda>_ d. (0x989680000000000, d)), mm_wr = (\<lambda>_ _ d. d)\<rparr>"
    and this = "\<lparr>fDigitalTimer = 0xFED00000, fWaitFor = 50\<rparr>", OF _ _ refl]
  by (simp add: hpet_enable_def hpet_or_def Let_def)

text \<open>
  Remark. The probe of the processors ends and counts them: when the list has at most 32 entries of known types in front
  of an unknown one, the number of processors found is the number of entries of type 0, and the array of their numbers keeps
  its length.
\<close>

theorem mp_probe_counts_processors:
  assumes "\<And>i. i < k \<Longrightarrow> m (madt_entry madt (of_nat i)) \<le> 9" and "m (madt_entry madt (of_nat k)) > 9"
    and "k \<le> cSMPMax" "kSMPCount st = 0"
  shows "\<exists>st' a'. mp_probe m madt 0 a st = Some (Inr (st', a'))
    \<and> kSMPCount st' = card {i. i < k \<and> m (madt_entry madt (of_nat i)) = 0}
    \<and> length (kAPICLocales st') = length (kAPICLocales st) \<and> kSMPAware st' = kSMPAware st"
proof -
  let ?C = "card {i. i < k \<and> m (madt_entry madt (of_nat i)) = 0}"
  obtain a' locales where "mp_probe m madt (of_nat 0) a st =
      mp_probe m madt (of_nat (0 + k)) a' (st\<lparr>kSMPCount := ?C, kAPICLocales := locales\<rparr>)"
    and len: "length locales = length (kAPICLocales st)"
    using mp_probe_skip [of k m madt 0 st a] assms by auto
  moreover have "mp_probe m madt (of_nat (0 + k)) a' st'' = Some (Inr (st'', a'))" for st''
    using assms(2) by (subst mp_probe.simps) (simp add: Let_def)
  ultimately show ?thesis by simp
qed

theorem mp_probe_counts_processors_witness:
  "\<exists>st' a'. mp_probe (\<lambda>a. if a = 96 then 10 else 0) 0 0 0 \<lparr>kSMPAware = False, kSMPCount = 0, kAPICLocales = replicate 32 0\<rparr> =
      Some (Inr (st', a')) \<and> kSMPCount st' = 2"
proof -
  let ?m = "(\<lambda>a. if a = 96 then 10 else 0) :: mem"
  have m: "?m (madt_entry 0 (of_nat i)) = (if i = 2 then 10 else 0)" if "i \<le> 2" for i
  proof -
    consider "i = 0" | "i = 1" | "i = 2" using \<open>i \<le> 2\<close> by linarith
    then show ?thesis by cases (simp_all add: madt_entry_def)
  qed
  then have two: "{i. i < 2 \<and> ?m (madt_entry 0 (of_nat i)) = 0} = {0, 1}" by (auto simp: madt_entry_def)
  show ?thesis
    using mp_probe_counts_processors [of 2 ?m 0 "\<lparr>kSMPAware = False, kSMPCount = 0, kAPICLocales = replicate 32 0\<rparr>" 0] m
    unfolding two by (force simp: cSMPMax_def)
qed

text \<open>
  Remark. The limit on the processors does not protect the array of their numbers: a list that starts with 33 entries of
  type 0 is written beyond its end.
\<close>

theorem mp_probe_overruns:
  assumes "\<And>i. i \<le> cSMPMax \<Longrightarrow> m (madt_entry madt (of_nat i)) = 0" and "kSMPCount st = 0"
  shows "mp_probe m madt 0 a st = Some (Inl OutOfBounds)"
proof -
  have all: "{i. i < cSMPMax \<and> m (madt_entry madt (of_nat i)) = 0} = {..<cSMPMax}" using assms(1) by auto
  obtain a' locales where "mp_probe m madt (of_nat 0) a st =
      mp_probe m madt (of_nat (0 + cSMPMax)) a' (st\<lparr>kSMPCount := cSMPMax, kAPICLocales := locales\<rparr>)"
    using mp_probe_skip [of cSMPMax m madt 0 st a] assms by (auto simp: all)
  moreover have "mp_probe m madt (of_nat (0 + cSMPMax)) a' (st\<lparr>kSMPCount := cSMPMax, kAPICLocales := locales\<rparr>) = Some (Inl OutOfBounds)"
    using assms(1) [of cSMPMax] by (subst mp_probe.simps) (simp add: Let_def cSMPMax_def)
  ultimately show ?thesis by simp
qed

end
