(* ===== verification/Boot_Support.thy ===== *)
theory Boot_Support
  imports Code_Loader
begin

text \<open>
  The runtime of the boot loader: its string and memory routines (\<^verbatim>\<open>ZBAKit/src/BootString.cc\<close>,
  \<^verbatim>\<open>ZBAKit/src/BootSupport.cc\<close>) and the loader of executables (\<^verbatim>\<open>ZBAKit/src/BootThread.cc\<close> with the
  structures of \<^verbatim>\<open>PE.h\<close> and \<^verbatim>\<open>MSDOS.h\<close>). The firmware's page allocation is an argument. Halting in
  \<open>EFI::Stop\<close> is the value \<open>Inl EfiStop\<close>, a write beyond an object \<open>Inl BootOutOfBounds\<close>; a scan of memory that finds no end is \<open>None\<close>.
\<close>

section \<open>Wide strings\<close>

primrec BCopyMem_loop :: "mem \<Rightarrow> addr \<Rightarrow> addr \<Rightarrow> u64 \<Rightarrow> nat \<Rightarrow> mem" where
  "BCopyMem_loop m dest src index 0 = m"
| "BCopyMem_loop m dest src index (Suc n) =
     BCopyMem_loop (store16 m (dest + 2 * index) (load16 m (src + 2 * index))) dest src (index + 1) n"

definition BCopyMem :: "mem \<Rightarrow> addr \<Rightarrow> addr \<Rightarrow> u64 \<Rightarrow> mem \<times> u64" where
  "BCopyMem m dest src len =
     (if dest = null \<or> src = null then (m, 0) else (BCopyMem_loop m dest src 0 (unat len), len))"

partial_function (option) BStrLen_loop :: "mem \<Rightarrow> addr \<Rightarrow> u64 \<Rightarrow> u64 option" where
  "BStrLen_loop m ptr cnt = (if load16 m ptr \<noteq> 0 then BStrLen_loop m (ptr + 2) (cnt + 1) else Some cnt)"

definition BStrLen :: "mem \<Rightarrow> addr \<Rightarrow> u64 option" where
  "BStrLen m ptr = (if ptr = null then Some 0 else BStrLen_loop m ptr 0)"

partial_function (option) BSetMem_loop :: "mem \<Rightarrow> addr \<Rightarrow> u16 \<Rightarrow> u64 \<Rightarrow> u64 \<Rightarrow> (mem \<times> u64) option" where
  "BSetMem_loop m src byte len cnt =
     (if load16 m src \<noteq> 0
      then if cnt > len then Some (m, cnt) else BSetMem_loop (store16 m src byte) (src + 2) byte len (cnt + 1)
      else Some (m, cnt))"

definition BSetMem :: "mem \<Rightarrow> addr \<Rightarrow> u16 \<Rightarrow> u64 \<Rightarrow> (mem \<times> u64) option" where
  "BSetMem m src byte len = (if src = null then Some (m, 0) else BSetMem_loop m src byte len 0)"

partial_function (option) BSetMem8_loop :: "mem \<Rightarrow> addr \<Rightarrow> u8 \<Rightarrow> u64 \<Rightarrow> u64 \<Rightarrow> (mem \<times> u64) option" where
  "BSetMem8_loop m src byte len cnt =
     (if m src \<noteq> 0
      then if cnt > len then Some (m, cnt) else BSetMem8_loop (m(src := byte)) (src + 1) byte len (cnt + 1)
      else Some (m, cnt))"

definition BSetMem8 :: "mem \<Rightarrow> addr \<Rightarrow> u8 \<Rightarrow> u64 \<Rightarrow> (mem \<times> u64) option" where
  "BSetMem8 m src byte len = (if src = null then Some (m, 0) else BSetMem8_loop m src byte len 0)"

section \<open>The C library\<close>

text \<open>\<open>memset\<close> and \<open>memcpy\<close> move an \<open>int\<close> for each of the \<open>len\<close> bytes they are asked for.\<close>

primrec memset_loop :: "mem \<Rightarrow> addr \<Rightarrow> u32 \<Rightarrow> u64 \<Rightarrow> nat \<Rightarrow> mem" where
  "memset_loop m dst byte i 0 = m"
| "memset_loop m dst byte i (Suc n) = memset_loop (store32 m (dst + 4 * i) byte) dst byte (i + 1) n"

definition memset :: "mem \<Rightarrow> addr \<Rightarrow> u32 \<Rightarrow> u64 \<Rightarrow> mem" where
  "memset m dst byte len = memset_loop m dst byte 0 (unat len)"

primrec memcpy_loop :: "mem \<Rightarrow> addr \<Rightarrow> addr \<Rightarrow> u64 \<Rightarrow> nat \<Rightarrow> mem" where
  "memcpy_loop m dst src i 0 = m"
| "memcpy_loop m dst src i (Suc n) =
     memcpy_loop (store32 m (dst + 4 * i) (load32 m (src + 4 * i))) dst src (i + 1) n"

definition memcpy :: "mem \<Rightarrow> addr \<Rightarrow> addr \<Rightarrow> u64 \<Rightarrow> mem" where
  "memcpy m dst src len = memcpy_loop m dst src 0 (unat len)"

partial_function (option) strlen_loop :: "mem \<Rightarrow> addr \<Rightarrow> u64 \<Rightarrow> u64 option" where
  "strlen_loop m str len = (if m (str + len) \<noteq> 0 then strlen_loop m str (len + 1) else Some len)"

definition strlen :: "mem \<Rightarrow> addr \<Rightarrow> u64 option" where
  "strlen m str = strlen_loop m str 0"

text \<open>The number of equal characters is the result of a comparison that fails.\<close>

partial_function (option) strcmp_loop :: "mem \<Rightarrow> addr \<Rightarrow> addr \<Rightarrow> u64 \<Rightarrow> u32 option" where
  "strcmp_loop m l r len =
     (if m (l + len) = m (r + len)
      then if m (l + len) = 0 then Some 0 else strcmp_loop m l r (len + 1)
      else Some (ucast len))"

definition strcmp :: "mem \<Rightarrow> addr \<Rightarrow> addr \<Rightarrow> u32 option" where
  "strcmp m l r = (if l = null \<or> m l = 0 then Some 0 else strcmp_loop m l r 0)"

section \<open>Executables\<close>

definition kMagMz0 :: u8 where "kMagMz0 = 0x4D"
definition kMagMz1 :: u8 where "kMagMz1 = 0x5A"
definition kPeSignature :: u32 where "kPeSignature = 0x4550"
definition kPeMachineAMD64 :: u16 where "kPeMachineAMD64 = 0x8664"
definition kZKASubsystem :: u16 where "kZKASubsystem = 17"
definition kTypeKernel :: u32 where "kTypeKernel = 100"
definition kArchAMD64 :: u32 where "kArchAMD64 = 122"

text \<open>\<open>DosHeader\<close> ends in \<open>eLfanew\<close>, 120 bytes from its start; the other headers have no padding.\<close>

definition ldr_find_exec_header :: "mem \<Rightarrow> addr \<Rightarrow> addr" where
  "ldr_find_exec_header m ptrDos =
     (if ptrDos = null then null
      else if m ptrDos \<noteq> kMagMz0 then null
      else if m (ptrDos + 1) \<noteq> kMagMz1 then null
      else ptrDos + 120 + 8)"

definition ldr_find_opt_exec_header :: "mem \<Rightarrow> addr \<Rightarrow> addr" where
  "ldr_find_opt_exec_header m ptrDos =
     (if ptrDos = null then null
      else let exec = ldr_find_exec_header m ptrDos in if exec = null then null else exec + 22 + 2)"

record LDR_EXEC_HEADER =
  mSignature :: u32
  mMachine :: u16
  mNumberOfSections :: u16
  mSizeOfOptionalHeader :: u16

definition LDR_EXEC_HEADER_at :: "mem \<Rightarrow> addr \<Rightarrow> LDR_EXEC_HEADER" where
  "LDR_EXEC_HEADER_at m p =
     \<lparr>mSignature = load32 m p, mMachine = load16 m (p + 4), mNumberOfSections = load16 m (p + 6),
      mSizeOfOptionalHeader = load16 m (p + 20)\<rparr>"

record LDR_OPTIONAL_HEADER =
  mAddressOfEntryPoint :: u32
  mBaseOfData :: u32
  mImageBase :: u32
  mSizeOfImage :: u32
  mSubsystem :: u16

definition LDR_OPTIONAL_HEADER_at :: "mem \<Rightarrow> addr \<Rightarrow> LDR_OPTIONAL_HEADER" where
  "LDR_OPTIONAL_HEADER_at m p =
     \<lparr>mAddressOfEntryPoint = load32 m (p + 16), mBaseOfData = load32 m (p + 24), mImageBase = load32 m (p + 28),
      mSizeOfImage = load32 m (p + 56), mSubsystem = load16 m (p + 68)\<rparr>"

record LDR_SECTION_HEADER =
  mVirtualAddress :: u32
  mSizeOfRawData :: u32
  mPointerToRawData :: u32

definition sizeof_LDR_SECTION_HEADER :: u64 where "sizeof_LDR_SECTION_HEADER = 40"

definition LDR_SECTION_HEADER_at :: "mem \<Rightarrow> addr \<Rightarrow> LDR_SECTION_HEADER" where
  "LDR_SECTION_HEADER_at m p =
     \<lparr>mVirtualAddress = load32 m (p + 12), mSizeOfRawData = load32 m (p + 16), mPointerToRawData = load32 m (p + 20)\<rparr>"

datatype boot_end = EfiStop | BootOutOfBounds

text \<open>The handover stub: a 64-bit magic, the type, padding, and the architecture.\<close>

definition handover_rejected :: "mem \<Rightarrow> addr \<Rightarrow> bool" where
  "handover_rejected m stub \<longleftrightarrow> load64 m stub \<noteq> 0xBADCC \<and> load32 m (stub + 8) \<noteq> kTypeKernel"

text \<open>
  One section: it is cleared, compared with the names the loader knows, and copied. \<open>nText\<close> and \<open>nLdr\<close>
  are the addresses of the two names.
\<close>

definition BThread_section ::
    "addr \<Rightarrow> addr \<Rightarrow> addr \<Rightarrow> u64 \<Rightarrow> addr \<Rightarrow> addr \<Rightarrow> mem \<times> addr \<Rightarrow> (boot_end + mem \<times> addr) option" where
  "BThread_section nText nLdr blob load opt sect w =
     (case w of (m, fStart) \<Rightarrow>
        let h = LDR_SECTION_HEADER_at m sect;
            m1 = memset m (load + ucast (mVirtualAddress h)) 0 (ucast (mSizeOfRawData h));
            h1 = LDR_SECTION_HEADER_at m1 sect;
            copied = memcpy m1 (load + ucast (mVirtualAddress h1)) (blob + ucast (mPointerToRawData h1))
                       (ucast (mSizeOfRawData h1))
        in Option.bind (strcmp m1 nText sect) (\<lambda>c.
           if c = 0
           then Some (Inr (copied, load + ucast (mAddressOfEntryPoint (LDR_OPTIONAL_HEADER_at m1 opt))))
           else Option.bind (strcmp m1 nLdr sect) (\<lambda>c.
             if c = 0 \<and> handover_rejected m1 (blob + ucast (mPointerToRawData h1)) then Some (Inl EfiStop)
             else Some (Inr (copied, fStart)))))"

primrec BThread_sections ::
    "addr \<Rightarrow> addr \<Rightarrow> addr \<Rightarrow> u64 \<Rightarrow> addr \<Rightarrow> addr \<Rightarrow> nat \<Rightarrow> mem \<times> addr \<Rightarrow> (boot_end + mem \<times> addr) option" where
  "BThread_sections nText nLdr blob load opt sect 0 w = Some (Inr w)"
| "BThread_sections nText nLdr blob load opt sect (Suc n) w =
     Option.bind (BThread_section nText nLdr blob load opt sect w) (\<lambda>r. case r of
       Inl e \<Rightarrow> Some (Inl e)
     | Inr w1 \<Rightarrow> BThread_sections nText nLdr blob load opt (sect + sizeof_LDR_SECTION_HEADER) n w1)"

text \<open>
  The firmware: \<open>AllocatePages\<close> is given a number of pages and an address, which it may replace; the memory
  for objects comes from \<open>AllocatePool\<close>.
\<close>

record 'f efi =
  AllocatePages :: "u32 \<Rightarrow> u64 \<Rightarrow> 'f \<Rightarrow> u64 \<times> 'f"
  AllocatePool :: "u64 \<Rightarrow> 'f \<Rightarrow> addr \<times> 'f"

record BThread =
  fStartAddress :: addr
  fBlob :: addr
  fStack :: addr

definition BThread_stack :: "'f efi \<Rightarrow> BThread \<Rightarrow> mem \<Rightarrow> 'f \<Rightarrow> (boot_end + BThread \<times> mem \<times> 'f) option" where
  "BThread_stack E t m f = (let (p, f1) = AllocatePool E 0x800000 f in Some (Inr (t\<lparr>fStack := p\<rparr>, m, f1)))"

definition BThread_new ::
    "'f efi \<Rightarrow> addr \<Rightarrow> addr \<Rightarrow> addr \<Rightarrow> mem \<Rightarrow> 'f \<Rightarrow> (boot_end + BThread \<times> mem \<times> 'f) option" where
  "BThread_new E nText nLdr blob m f =
     (let t = \<lparr>fStartAddress = null, fBlob = blob, fStack = null\<rparr> in
      if blob = null then Some (Inr (t, m, f))
      else if m blob = kMagMz0 \<and> m (blob + 1) = kMagMz1 then
        let hdr = ldr_find_exec_header m blob; opt = ldr_find_opt_exec_header m blob;
            h = LDR_EXEC_HEADER_at m hdr; o1 = LDR_OPTIONAL_HEADER_at m opt in
        if hdr = null \<or> opt = null then Some (Inr (t, m, f))
        else if mMachine h \<noteq> kPeMachineAMD64 \<or> mSignature h \<noteq> kPeSignature then Some (Inr (t, m, f))
        else if mSubsystem o1 \<noteq> kZKASubsystem then Some (Inr (t, m, f))
        else
          let (load, f1) = AllocatePages E (mSizeOfImage o1 div 512) (ucast (mImageBase o1) + ucast (mBaseOfData o1)) f
          in Option.bind (BThread_sections nText nLdr blob load opt (opt + ucast (mSizeOfOptionalHeader h))
                            (unat (mNumberOfSections h)) (m, null)) (\<lambda>r. case r of
               Inl e \<Rightarrow> Some (Inl e)
             | Inr (m1, fStart) \<Rightarrow> BThread_stack E (t\<lparr>fStartAddress := fStart\<rparr>) m1 f1)
      else BThread_stack E t m f)"

text \<open>What \<open>Start\<close> jumps to: the address, the argument and, when the thread has its own, the stack.\<close>

definition BThread_Start :: "BThread \<Rightarrow> addr \<Rightarrow> bool \<Rightarrow> boot_end + addr \<times> addr \<times> addr option" where
  "BThread_Start t handover own_stack =
     (if fStartAddress t = null then Inl EfiStop
      else Inr (fStartAddress t, handover, if own_stack then Some (fStack t + 0x800000 - 1) else None))"

definition BThread_IsValid :: "BThread \<Rightarrow> bool" where
  "BThread_IsValid t = (fStartAddress t \<noteq> null)"

section \<open>Reading files\<close>

text \<open>
  A file of the firmware: \<open>GetInfo\<close> is given the size of a buffer and yields the size of the file unless it fails;
  \<open>Read\<close> is given a size and yields whether the buffer was too small, the size it read, and the bytes.
\<close>

record 'f efi_file =
  GetInfo :: "u32 \<Rightarrow> 'f \<Rightarrow> u64 option \<times> 'f"
  Read :: "u64 \<Rightarrow> 'f \<Rightarrow> bool \<times> u64 \<times> u8 list \<times> 'f"
  AllocateFile :: "u64 \<Rightarrow> 'f \<Rightarrow> addr option \<times> 'f"

record BFileReader =
  mErrorCode :: u32
  mBlob :: addr
  mSizeFile :: u64

definition kOperationOkay :: u32 where "kOperationOkay = 0"
definition kNotSupported :: u32 where "kNotSupported = 1"

partial_function (option) ReadAll_loop ::
    "'f efi_file \<Rightarrow> addr \<Rightarrow> u64 \<Rightarrow> u64 \<Rightarrow> u64 \<Rightarrow> u64 \<Rightarrow> mem \<Rightarrow> 'f \<Rightarrow> (mem \<times> u64 \<times> 'f) option" where
  "ReadAll_loop F blob readUntil chunkToRead bufSize szCnt m f =
     (if szCnt < readUntil then
        let (small, sz, bytes, f1) = Read F bufSize f in
        ReadAll_loop F blob readUntil chunkToRead (if small then chunkToRead else sz) (szCnt + sz)
          (store_bytes m (blob + szCnt) bytes) f1
      else Some (m, szCnt, f))"

text \<open>The size the loop reads to, and the memory it reads into.\<close>

definition ReadAll_size :: "u64 \<Rightarrow> u64 option \<Rightarrow> u64" where
  "ReadAll_size readUntil info =
     (case info of
        None \<Rightarrow> readUntil
      | Some FileSize \<Rightarrow> if FileSize < readUntil then FileSize else if readUntil < 1 then FileSize else readUntil)"

definition ReadAll_finish ::
    "'f efi_file \<Rightarrow> u64 \<Rightarrow> u64 \<Rightarrow> BFileReader \<Rightarrow> mem \<Rightarrow> 'f \<Rightarrow> (boot_end + BFileReader \<times> mem \<times> 'f) option" where
  "ReadAll_finish F readUntil chunkToRead r m f =
     map_option (\<lambda>(m1, szCnt, f1). Inr (r\<lparr>mSizeFile := szCnt, mErrorCode := kOperationOkay\<rparr>, m1, f1))
       (ReadAll_loop F (mBlob r) readUntil chunkToRead chunkToRead 0 m f)"

definition ReadAll ::
    "'f efi_file \<Rightarrow> u64 \<Rightarrow> u64 \<Rightarrow> addr \<Rightarrow> BFileReader \<Rightarrow> mem \<Rightarrow> 'f \<Rightarrow> (boot_end + BFileReader \<times> mem \<times> 'f) option" where
  "ReadAll F readUntil chunkToRead out_address r m f =
     (if mBlob r = null then
        let (info, f1) = GetInfo F 0 f; size = ReadAll_size readUntil info in
        if out_address = null then
          case AllocateFile F size f1 of
            (None, _) \<Rightarrow> Some (Inl EfiStop)
          | (Some p, f2) \<Rightarrow> ReadAll_finish F size chunkToRead (r\<lparr>mBlob := p\<rparr>) m f2
        else ReadAll_finish F size chunkToRead (r\<lparr>mBlob := out_address\<rparr>) m f1
      else ReadAll_finish F readUntil chunkToRead r m f)"

section \<open>A file of the firmware\<close>

text \<open>
  The documented behaviour: a read delivers at most the size asked for from the position on and moves the position;
  \<open>GetInfo\<close> fails when the buffer it is given is smaller than the information. \<open>lenient\<close> is a firmware
  that fills in the information whatever the size of the buffer.
\<close>

record plain_file =
  content :: "u8 list"
  position :: nat

definition plain_read :: "u64 \<Rightarrow> plain_file \<Rightarrow> bool \<times> u64 \<times> u8 list \<times> plain_file" where
  "plain_read n f =
     (let k = min (unat n) (length (content f) - position f)
      in (False, of_nat k, take k (drop (position f) (content f)), f\<lparr>position := position f + k\<rparr>))"

definition plain_firmware :: "bool \<Rightarrow> addr \<Rightarrow> plain_file efi_file" where
  "plain_firmware lenient p =
     \<lparr>GetInfo = (\<lambda>sz f. (if lenient \<or> 80 \<le> sz then Some (of_nat (length (content f))) else None, f)),
      Read = plain_read, AllocateFile = (\<lambda>_ f. (Some p, f))\<rparr>"

lemma ReadAll_loop_plain:
  assumes "unat chunk > 0" and "length (content f) < 2 ^ 64" and "position f = i" and "i \<le> length (content f)"
    and "i < length (content f) \<Longrightarrow> bs = chunk"
  shows "ReadAll_loop (plain_firmware lenient p) blob (of_nat (length (content f))) chunk bs (of_nat i) m f =
    Some (store_bytes m (blob + of_nat i) (drop i (content f)), of_nat (length (content f)), f\<lparr>position := length (content f)\<rparr>)"
  using assms(2-)
proof (induction "length (content f) - i" arbitrary: i bs m f rule: less_induct)
  case less
  let ?n = "length (content f)"
  have lt: "(of_nat i :: u64) < of_nat ?n \<longleftrightarrow> i < ?n"
    using less.prems(1,3) by (simp add: word_less_nat_alt unat_of_nat_addr)
  show ?case
  proof (cases "i < ?n")
    case False
    then show ?thesis using lt less.prems by (subst ReadAll_loop.simps) simp
  next
    case True
    define k where "k = min (unat chunk) (?n - i)"
    define f1 where "f1 = f\<lparr>position := i + k\<rparr>"
    define m1 where "m1 = store_bytes m (blob + of_nat i) (take k (drop i (content f)))"
    have "Read (plain_firmware lenient p) bs f = (False, of_nat k, take k (drop i (content f)), f1)"
      using True less.prems by (simp add: plain_firmware_def plain_read_def Let_def k_def f1_def)
    then have "ReadAll_loop (plain_firmware lenient p) blob (of_nat ?n) chunk bs (of_nat i) m f =
        ReadAll_loop (plain_firmware lenient p) blob (of_nat (length (content f1))) chunk (of_nat k) (of_nat (i + k)) m1 f1"
      using True lt by (subst ReadAll_loop.simps) (simp add: f1_def m1_def)
    also have "\<dots> = Some (store_bytes m1 (blob + of_nat (i + k)) (drop (i + k) (content f1)),
        of_nat (length (content f1)), f1\<lparr>position := length (content f1)\<rparr>)"
      using True assms(1) less.prems by (intro less.hyps) (auto simp: f1_def k_def)
    also have "store_bytes m1 (blob + of_nat (i + k)) (drop (i + k) (content f1)) =
        store_bytes m (blob + of_nat i) (take k (drop i (content f)) @ drop (i + k) (content f))"
      using True by (simp add: store_bytes_append m1_def f1_def k_def add.assoc)
    also have "take k (drop i (content f)) @ drop (i + k) (content f) = drop i (content f)"
      by (metis append_take_drop_id drop_drop add.commute)
    finally show ?thesis by (simp add: f1_def)
  qed
qed

section \<open>What the routines write\<close>

lemma in_range_split: "in_range x a (k + n) \<longleftrightarrow> in_range x a k \<or> in_range x (a + of_nat k) n"
proof (induction k arbitrary: a)
  case 0
  show ?case by (simp add: in_range_def)
next
  case (Suc k)
  have "a + of_nat (Suc k) = a + 1 + of_nat k" by simp
  then show ?case using Suc.IH [of "a + 1"] by (simp only: add_Suc in_range_Suc) blast
qed

lemma store32_apply: "store32 m a v x = (if in_range x a 4 then le_bytes 4 (unat v) ! unat (x - a) else m x)"
  by (simp add: store32_def store_bytes_apply)

lemma store32_load32_apply:
  "store32 m d (load32 m s) x = (if in_range x d 4 then m (x - d + s) else m x)"
proof -
  have "le_bytes 4 (unat (load32 m s)) = load_bytes m s 4"
    using le_val_bound32 [of "load_bytes m s 4"] le_bytes_le_val [of "load_bytes m s 4"]
    by (simp add: load32_def unat_of_nat)
  then show ?thesis by (simp add: store32_apply in_range_def add.commute)
qed

lemma le_bytes_zero: "le_bytes n 0 = replicate n 0"
  by (induction n) simp_all

lemma memset_zero_loop:
  "memset_loop m dst 0 i n x = (if in_range x (dst + 4 * i) (4 * n) then 0 else m x)"
proof (induction n arbitrary: m i)
  case (Suc n)
  have "in_range x (dst + 4 * i) (4 * Suc n) \<longleftrightarrow> in_range x (dst + 4 * i) 4 \<or> in_range x (dst + 4 * (i + 1)) (4 * n)"
    using in_range_split [of x "dst + 4 * i" 4 "4 * n"] by (simp add: algebra_simps)
  moreover have "store32 m' a 0 y = (if in_range y a 4 then 0 else m' y)" for m' a y
    by (simp add: store32_apply le_bytes_zero in_range_def)
  ultimately show ?case by (simp add: Suc.IH)
qed (simp add: in_range_def)

lemma memcpy_loop_apply:
  assumes "\<And>y. in_range y (src + 4 * i) (4 * n) \<Longrightarrow> \<not> in_range y (dst + 4 * i) (4 * n)"
  shows "memcpy_loop m dst src i n x = (if in_range x (dst + 4 * i) (4 * n) then m (x - dst + src) else m x)"
  using assms
proof (induction n arbitrary: m i)
  case (Suc n)
  let ?m1 = "store32 m (dst + 4 * i) (load32 m (src + 4 * i))"
  have split: "in_range y (a + 4 * i) (4 * Suc n) \<longleftrightarrow> in_range y (a + 4 * i) 4 \<or> in_range y (a + 4 * (i + 1)) (4 * n)" for y a
    using in_range_split [of y "a + 4 * i" 4 "4 * n"] by (simp add: algebra_simps)
  have m1: "?m1 y = (if in_range y (dst + 4 * i) 4 then m (y - dst + src) else m y)" for y
    by (simp add: store32_load32_apply algebra_simps)
  have ih: "memcpy_loop ?m1 dst src (i + 1) n x =
      (if in_range x (dst + 4 * (i + 1)) (4 * n) then ?m1 (x - dst + src) else ?m1 x)"
    using Suc.prems split by (intro Suc.IH) blast
  have "\<not> in_range (x - dst + src) (dst + 4 * i) 4" if "in_range x (dst + 4 * (i + 1)) (4 * n)"
  proof -
    have "in_range (x - dst + src) (src + 4 * (i + 1)) (4 * n)" using that by (simp add: in_range_def algebra_simps)
    then show ?thesis using Suc.prems split by blast
  qed
  then show ?case by (simp only: memcpy_loop.simps ih m1 split) auto
qed (simp add: in_range_def)

lemma memset_zero: "memset m dst 0 len x = (if in_range x dst (4 * unat len) then 0 else m x)"
  using memset_zero_loop [of m dst 0 "unat len" x] by (simp add: memset_def)

lemma memcpy_apply:
  assumes "\<And>y. in_range y src (4 * unat len) \<Longrightarrow> \<not> in_range y dst (4 * unat len)"
  shows "memcpy m dst src len x = (if in_range x dst (4 * unat len) then m (x - dst + src) else m x)"
  using memcpy_loop_apply [of src 0 "unat len" dst m x] assms by (simp add: memcpy_def)

section \<open>Comparing names\<close>

text \<open>The position at which a comparison ends.\<close>

definition cmp_ends :: "mem \<Rightarrow> addr \<Rightarrow> addr \<Rightarrow> nat \<Rightarrow> bool" where
  "cmp_ends m l r i \<longleftrightarrow> m (l + of_nat i) \<noteq> m (r + of_nat i) \<or> m (l + of_nat i) = 0"

lemma strcmp_loop_result:
  assumes "cmp_ends m l r n" and "\<And>i. k \<le> i \<Longrightarrow> i < n \<Longrightarrow> \<not> cmp_ends m l r i" and "k \<le> n"
  shows "strcmp_loop m l r (of_nat k) =
    Some (if m (l + of_nat n) = m (r + of_nat n) then 0 else ucast (of_nat n :: u64))"
  using assms(2,3)
proof (induction "n - k" arbitrary: k)
  case 0
  with assms(1) show ?case by (subst strcmp_loop.simps) (auto simp: cmp_ends_def)
next
  case (Suc d)
  then have "\<not> cmp_ends m l r k" by simp
  moreover have "strcmp_loop m l r (of_nat (Suc k)) =
      Some (if m (l + of_nat n) = m (r + of_nat n) then 0 else ucast (of_nat n :: u64))"
    using Suc by (intro Suc.hyps(1)) simp_all
  ultimately show ?case by (subst strcmp_loop.simps) (simp add: cmp_ends_def add.commute)
qed

lemma strcmp_total:
  assumes "m (l + of_nat k) = 0"
  shows "\<exists>c. strcmp m l r = Some c"
proof -
  define n where "n = (LEAST i. cmp_ends m l r i)"
  have "cmp_ends m l r k" using assms by (simp add: cmp_ends_def)
  then have "cmp_ends m l r n" unfolding n_def by (rule LeastI)
  moreover have "\<not> cmp_ends m l r i" if "i < n" for i using that unfolding n_def by (rule not_less_Least)
  ultimately show ?thesis using strcmp_loop_result [of m l r n 0] by (auto simp: strcmp_def)
qed

section \<open>Loading one section\<close>

text \<open>
  What a section must satisfy, given the addresses the loader reads: its header, its data in the file (up to four times its
  length, which is what the copy reads) and the stub at its start are among them, its destination is not (again four times
  its length), and its stub is one that is not rejected.
\<close>

definition sect_dst :: "mem \<Rightarrow> u64 \<Rightarrow> addr \<Rightarrow> addr" where
  "sect_dst m load sect = load + ucast (mVirtualAddress (LDR_SECTION_HEADER_at m sect))"

definition sect_src :: "mem \<Rightarrow> addr \<Rightarrow> addr \<Rightarrow> addr" where
  "sect_src m blob sect = blob + ucast (mPointerToRawData (LDR_SECTION_HEADER_at m sect))"

definition sect_len :: "mem \<Rightarrow> addr \<Rightarrow> nat" where
  "sect_len m sect = unat (mSizeOfRawData (LDR_SECTION_HEADER_at m sect))"

definition section_ok :: "addr set \<Rightarrow> mem \<Rightarrow> addr \<Rightarrow> u64 \<Rightarrow> addr \<Rightarrow> bool" where
  "section_ok R m blob load sect \<longleftrightarrow>
     (\<forall>x. in_range x sect 40 \<longrightarrow> x \<in> R) \<and> (\<forall>x. in_range x (sect_src m blob sect) (4 * sect_len m sect) \<longrightarrow> x \<in> R)
     \<and> (\<forall>x. in_range x (sect_src m blob sect) 12 \<longrightarrow> x \<in> R)
     \<and> (\<forall>x. in_range x (sect_dst m load sect) (4 * sect_len m sect) \<longrightarrow> x \<notin> R)
     \<and> \<not> handover_rejected m (sect_src m blob sect)"

lemma load_cong_range:
  assumes "\<And>x. in_range x a n \<Longrightarrow> m' x = m x" and "off + k \<le> n" "n \<le> 2 ^ 32"
  shows "load_bytes m' (a + of_nat off) k = load_bytes m (a + of_nat off) k"
proof (rule load_bytes_cong)
  fix i
  assume "i < k"
  have "unat (of_nat off + of_nat i :: addr) = off + i"
    using unat_of_nat_addr [of "off + i"] assms(2,3) \<open>i < k\<close> by simp
  then have "in_range (a + (of_nat off + of_nat i)) a n" using assms(2) \<open>i < k\<close> by (simp add: in_range_def)
  then show "m' (a + of_nat off + of_nat i) = m (a + of_nat off + of_nat i)" using assms(1) by (simp add: add.assoc)
qed

lemma sect_len_lt: "sect_len m sect < 2 ^ 32"
  using unat_u32_lt by (simp add: sect_len_def)

lemma in_range_offset:
  "k < l \<Longrightarrow> l < 2 ^ 32 \<Longrightarrow> in_range (a + of_nat k) a l"
  "k < l \<Longrightarrow> l < 2 ^ 32 \<Longrightarrow> in_range (a + of_nat k) a (4 * l)"
  by (simp_all add: in_range_def unat_of_nat_addr)

lemma header_cong:
  assumes "\<And>x. in_range x sect 40 \<Longrightarrow> m' x = m x"
  shows "LDR_SECTION_HEADER_at m' sect = LDR_SECTION_HEADER_at m sect"
  using load_cong_range [OF assms, where off = 12 and k = 4] load_cong_range [OF assms, where off = 16 and k = 4]
    load_cong_range [OF assms, where off = 20 and k = 4]
  by (simp add: LDR_SECTION_HEADER_at_def load32_def)

lemma handover_cong:
  assumes "\<And>x. in_range x stub 12 \<Longrightarrow> m' x = m x"
  shows "handover_rejected m' stub = handover_rejected m stub"
  using load_cong_range [OF assms, where off = 0 and k = 8] load_cong_range [OF assms, where off = 8 and k = 4]
  by (simp add: handover_rejected_def load32_def load64_def)

lemma section_ok_cong:
  assumes "section_ok R m blob load sect" and "\<And>x. x \<in> R \<Longrightarrow> m' x = m x"
  shows "section_ok R m' blob load sect \<and> LDR_SECTION_HEADER_at m' sect = LDR_SECTION_HEADER_at m sect"
proof -
  have h: "LDR_SECTION_HEADER_at m' sect = LDR_SECTION_HEADER_at m sect"
    using assms by (intro header_cong) (auto simp: section_ok_def)
  then have eq: "sect_src m' blob sect = sect_src m blob sect" "sect_dst m' load sect = sect_dst m load sect"
    "sect_len m' sect = sect_len m sect"
    by (simp_all add: sect_src_def sect_dst_def sect_len_def)
  moreover have "handover_rejected m' (sect_src m blob sect) = handover_rejected m (sect_src m blob sect)"
    using assms by (intro handover_cong) (auto simp: section_ok_def)
  ultimately show ?thesis using assms(1) h by (simp add: section_ok_def)
qed

lemma sect_kept:
  assumes "section_ok R m blob load sect" and "\<And>x. x \<in> R \<Longrightarrow> m' x = m x"
  shows "sect_dst m' load sect = sect_dst m load sect" "sect_len m' sect = sect_len m sect"
    "sect_src m' blob sect = sect_src m blob sect"
    "load_bytes m' (sect_src m blob sect) (sect_len m sect) = load_bytes m (sect_src m blob sect) (sect_len m sect)"
proof -
  show "load_bytes m' (sect_src m blob sect) (sect_len m sect) = load_bytes m (sect_src m blob sect) (sect_len m sect)"
  proof (rule load_bytes_cong)
    fix k
    assume "k < sect_len m sect"
    then have "in_range (sect_src m blob sect + of_nat k) (sect_src m blob sect) (4 * sect_len m sect)"
      using sect_len_lt by (rule in_range_offset)
    then show "m' (sect_src m blob sect + of_nat k) = m (sect_src m blob sect + of_nat k)"
      using assms by (simp add: section_ok_def)
  qed
qed (use section_ok_cong [OF assms] in \<open>simp_all add: sect_dst_def sect_len_def sect_src_def\<close>)

lemma BThread_section_loads:
  assumes ok: "section_ok R m blob load sect"
    and names: "nText + 5 \<in> R" "m (nText + 5) = 0" "nLdr + 4 \<in> R" "m (nLdr + 4) = 0"
  shows "\<exists>m' s'. BThread_section nText nLdr blob load opt sect (m, s) = Some (Inr (m', s'))
    \<and> (\<forall>x. m' x = (if in_range x (sect_dst m load sect) (4 * sect_len m sect)
                    then m (x - sect_dst m load sect + sect_src m blob sect) else m x))"
proof -
  let ?h = "LDR_SECTION_HEADER_at m sect" and ?dst = "sect_dst m load sect" and ?src = "sect_src m blob sect"
  define len where "len = (ucast (mSizeOfRawData ?h) :: u64)"
  have len: "unat len = sect_len m sect"
    by (simp add: len_def sect_len_def unat_ucast_u32_u64)
  define m1 where "m1 = memset m ?dst 0 len"
  have m1: "m1 x = (if in_range x ?dst (4 * sect_len m sect) then 0 else m x)" for x
    by (simp add: m1_def memset_zero len)
  have R: "m1 x = m x" if "x \<in> R" for x using that ok by (auto simp: m1 section_ok_def)
  then have h1: "LDR_SECTION_HEADER_at m1 sect = ?h" and ok1: "section_ok R m1 blob load sect"
    using section_ok_cong [OF ok] by blast+
  have sep: "\<not> in_range y ?dst (4 * unat len)" if "in_range y ?src (4 * unat len)" for y
    using that ok by (auto simp: len section_ok_def)
  have copy: "memcpy m1 ?dst ?src len x =
      (if in_range x ?dst (4 * sect_len m sect) then m (x - ?dst + ?src) else m x)" for x
  proof -
    have "in_range (x - ?dst + ?src) ?src (4 * sect_len m sect)" if "in_range x ?dst (4 * sect_len m sect)"
      using that by (simp add: in_range_def algebra_simps)
    then have "m1 (x - ?dst + ?src) = m (x - ?dst + ?src)" if "in_range x ?dst (4 * sect_len m sect)"
      using that ok R by (auto simp: section_ok_def)
    then show ?thesis using memcpy_apply [of ?src len ?dst m1 x, OF sep] by (simp add: len m1)
  qed
  have "m1 (nText + of_nat 5) = 0" "m1 (nLdr + of_nat 4) = 0" using names R by simp_all
  then obtain c1 c2 where "strcmp m1 nText sect = Some c1" "strcmp m1 nLdr sect = Some c2"
    using strcmp_total [of m1 nText 5 sect] strcmp_total [of m1 nLdr 4 sect] by blast
  moreover have "\<not> handover_rejected m1 ?src"
    using ok1 h1 by (simp add: section_ok_def sect_src_def)
  moreover have "sect_dst m1 load sect = ?dst" by (simp add: sect_dst_def h1)
  ultimately show ?thesis
    by (simp add: BThread_section_def Let_def flip: sect_dst_def len_def m1_def)
      (simp add: h1 copy flip: sect_dst_def len_def sect_src_def)
qed

section \<open>Properties\<close>

text \<open>A copied section survives what the later sections write.\<close>

lemma copied_bytes:
  assumes m1: "\<And>x. m1 x = (if in_range x d (4 * l) then m (x - d + s) else m x)" and "l < 2 ^ 32"
    and frame: "\<And>x. (\<forall>i < n. \<not> in_range x (d' i) (l' i)) \<Longrightarrow> m' x = m1 x"
    and apart: "\<And>x i. in_range x d l \<Longrightarrow> i < n \<Longrightarrow> \<not> in_range x (d' i) (l' i)"
  shows "load_bytes m' d l = load_bytes m s l"
proof (rule nth_equalityI)
  fix k
  assume "k < length (load_bytes m' d l)"
  then have k: "k < l" by simp
  then have in0: "in_range (d + of_nat k) d l" "in_range (d + of_nat k) d (4 * l)"
    using assms(2) by (rule in_range_offset)+
  then have "m' (d + of_nat k) = m1 (d + of_nat k)" using apart by (intro frame) blast
  then show "load_bytes m' d l ! k = load_bytes m s l ! k" using in0 k by (simp add: m1 add.commute)
qed simp


text \<open>One section with one byte of data, whose destination is apart from everything else.\<close>

definition image_example :: mem where
  "image_example = (\<lambda>_. 0)(0x100C := 0x10, 0x1010 := 1, 0x1014 := 0x40, 0x2040 := 0xAB, 0x2048 := 100)"

lemma in_range_disjoint: "disjoint_ranges a n b k \<Longrightarrow> in_range x a n \<Longrightarrow> \<not> in_range x b k"
  using disjoint_ranges_not_in [of a n b k "unat (x - a)"] by (simp add: in_range_def)

lemma image_example_section:
  "LDR_SECTION_HEADER_at image_example 0x1000 = \<lparr>mVirtualAddress = 0x10, mSizeOfRawData = 1, mPointerToRawData = 0x40\<rparr>"
  by (simp add: LDR_SECTION_HEADER_at_def load32_def eval_simps image_example_def)

lemma image_example_ok:
  "section_ok (- {x. in_range x 0x8010 4}) image_example 0x2000 0x8000 0x1000"
proof -
  have "sect_src image_example 0x2000 0x1000 = 0x2040" "sect_dst image_example 0x8000 0x1000 = 0x8010" "sect_len image_example 0x1000 = 1"
    by (simp_all add: sect_src_def sect_dst_def sect_len_def image_example_section)
  moreover have "load32 image_example 0x2048 = 100" by (simp add: load32_def eval_simps image_example_def)
  moreover have "disjoint_ranges 0x1000 40 0x8010 4" "disjoint_ranges 0x2040 4 0x8010 4" "disjoint_ranges 0x2040 12 0x8010 4"
    by (simp_all add: disjoint_ranges_def)
  ultimately show ?thesis
    by (auto simp: section_ok_def handover_rejected_def kTypeKernel_def dest: in_range_disjoint)
qed


text \<open>
  Remark. Comparing two names takes them for equal in two cases: when they are equal, and when already their first
  characters differ. A section whose name does not begin with a dot is therefore taken for the code section.
\<close>

theorem strcmp_zero_iff:
  assumes "l \<noteq> null" "m l \<noteq> 0" and "cmp_ends m l r n" "n < 2 ^ 32" and "\<And>i. i < n \<Longrightarrow> \<not> cmp_ends m l r i"
  shows "strcmp m l r = Some 0 \<longleftrightarrow> load_bytes m l (Suc n) = load_bytes m r (Suc n) \<or> m l \<noteq> m r"
proof -
  have eq: "m (l + of_nat i) = m (r + of_nat i)" if "i < n" for i using assms(5) [OF that] by (simp add: cmp_ends_def)
  have "strcmp m l r = Some (if m (l + of_nat n) = m (r + of_nat n) then 0 else ucast (of_nat n :: u64))"
    using strcmp_loop_result [of m l r n 0] assms by (simp add: strcmp_def)
  moreover have "(ucast (of_nat n :: u64) :: u32) = 0 \<longleftrightarrow> n = 0"
  proof -
    have "unat (ucast (of_nat n :: u64) :: u32) = n"
      using assms(4) by (simp add: unsigned_ucast_eq unat_of_nat take_bit_nat_eq_self)
    then show ?thesis by (metis unat_eq_0)
  qed
  moreover have "load_bytes m l (Suc n) = load_bytes m r (Suc n) \<longleftrightarrow> m (l + of_nat n) = m (r + of_nat n)"
    using eq by (auto simp: load_bytes_nth)
  moreover have "m l \<noteq> m r \<longleftrightarrow> n = 0 \<and> m (l + of_nat n) \<noteq> m (r + of_nat n)"
    using eq [of 0] assms(2,3) by (cases "n = 0") (auto simp: cmp_ends_def)
  ultimately show ?thesis by auto
qed

theorem strcmp_zero_iff_witness:
  "strcmp (store_bytes (\<lambda>_. 0) 0x100 [0x2E, 0x74, 0, 0x74, 0]) 0x100 0x103 = Some 0"
  using strcmp_zero_iff [of "0x100" "store_bytes (\<lambda>_. 0) 0x100 [0x2E, 0x74, 0, 0x74, 0]" "0x103" 0]
  by (simp add: cmp_ends_def)



text \<open>
  Remark. On firmware that keeps to the size of the buffer nothing is read: the information is asked for with a
  buffer of size zero, which fails, and the size to read stays zero. The reader reports success with an empty file.
\<close>

theorem ReadAll_reads_nothing:
  assumes "mBlob r = null"
  shows "ReadAll (plain_firmware False p) 0 chunk null r m f =
    Some (Inr (r\<lparr>mBlob := p, mSizeFile := 0, mErrorCode := kOperationOkay\<rparr>, m, f))"
proof -
  have "ReadAll_loop F blob 0 chunk chunk 0 m f = Some (m, 0, f)" for F :: "plain_file efi_file" and blob
    by (subst ReadAll_loop.simps) simp
  then show ?thesis using assms by (simp add: ReadAll_def plain_firmware_def ReadAll_size_def ReadAll_finish_def)
qed

theorem ReadAll_reads_nothing_witness:
  "ReadAll (plain_firmware False 0x1000) 0 4096 null \<lparr>mErrorCode = 0, mBlob = null, mSizeFile = 0\<rparr> (\<lambda>_. 0)
      \<lparr>content = [1, 2, 3], position = 0\<rparr> =
    Some (Inr (\<lparr>mErrorCode = 0, mBlob = 0x1000, mSizeFile = 0\<rparr>, (\<lambda>_. 0), \<lparr>content = [1, 2, 3], position = 0\<rparr>))"
  using ReadAll_reads_nothing [of "\<lparr>mErrorCode = 0, mBlob = null, mSizeFile = 0\<rparr>" "0x1000" 4096 "\<lambda>_. 0" "\<lparr>content = [1, 2, 3], position = 0\<rparr>"]
  by (simp add: kOperationOkay_def)

end
