(* ===== verification/Boot_Disk.thy ===== *)
theory Boot_Disk
  imports Boot_Support NeFS_Layout
begin

text \<open>
  The boot loader's disk: its ATA driver (\<^verbatim>\<open>ZBAKit/src/HEL/AMD64/BootATA.cc\<close>), the formatter
  (\<^verbatim>\<open>ZBAKit/BootKit/BootKit.h\<close>) and the part of \<^verbatim>\<open>BootMain.cc\<close> that formats an unknown disk.
  Local structures are lists of their bytes; string literals and arguments are in memory. A disk that was formatted is
  recognised by the boot loader, and by the kernel.
\<close>

section \<open>The driver\<close>

record 'd boot_disk =
  bd_dev :: 'd
  bd_Detected :: bool
  bd_Data :: "u16 list"
  mBus :: u16
  mMaster :: u8
  mErr :: bool
  mBase :: u64
  mSize :: u64

text \<open>Waiting, selecting and the programming of the registers are the kernel driver's code word for word.\<close>

definition boot_ata_wait_io :: "'d ports \<Rightarrow> u16 \<Rightarrow> 'd \<Rightarrow> ('d \<times> bool) option" where
  "boot_ata_wait_io P IO d = drv_std_wait_io P IO d"

definition boot_ata_select :: "'d ports \<Rightarrow> u16 \<Rightarrow> 'd \<Rightarrow> 'd" where
  "boot_ata_select P Bus d = drv_std_select P Bus d"

partial_function (option) boot_ata_retry :: "'d ports \<Rightarrow> u16 \<Rightarrow> 'd \<Rightarrow> ('d \<times> bool) option" where
  "boot_ata_retry P IO d =
     (let (statRdy, d1) = rt_in8 P (IO + ATA_REG_STATUS) d
      in if statRdy AND ATA_SR_ERR \<noteq> 0 then Some (d1, False)
         else if statRdy AND ATA_SR_BSY \<noteq> 0 then boot_ata_retry P IO d1
         else Some (d1, True))"

primrec boot_ata_identify :: "'d ports \<Rightarrow> u16 \<Rightarrow> nat \<Rightarrow> 'd \<Rightarrow> 'd \<times> u16 list" where
  "boot_ata_identify P IO 0 d = (d, [])"
| "boot_ata_identify P IO (Suc k) d =
     (let (w, d1) = rt_in16 P (IO + ATA_REG_DATA) d; (d2, ws) = boot_ata_identify P IO k d1 in (d2, w # ws))"

definition boot_ata_init :: "'d ports \<Rightarrow> u16 \<Rightarrow> 'd boot_disk \<Rightarrow> ('d boot_disk \<times> bool) option" where
  "boot_ata_init P Bus st =
     (if bd_Detected st then Some (st, True)
      else do { (d1, ok) \<leftarrow> boot_ata_retry P Bus (rt_out8 P (Bus + ATA_REG_NEIN) 1 (boot_ata_select P Bus (bd_dev st)));
                if \<not> ok then Some (st\<lparr>bd_dev := d1\<rparr>, False)
                else do { (d2, _) \<leftarrow> boot_ata_wait_io P Bus (rt_out8 P (Bus + ATA_REG_COMMAND) ATA_CMD_IDENTIFY d1);
                          let (d3, data) = boot_ata_identify P Bus kATADataLen d2;
                          Some (st\<lparr>bd_dev := d3, bd_Data := data,
                                   mBus := (if Bus = ATA_PRIMARY_IO then ATA_PRIMARY_IO else ATA_SECONDARY_IO),
                                   mMaster := (if Bus = ATA_PRIMARY_IO then ATA_MASTER else ATA_SLAVE)\<rparr>, True) } })"

definition BootDeviceATA_new :: "'d ports \<Rightarrow> 'd boot_disk \<Rightarrow> 'd boot_disk option" where
  "BootDeviceATA_new P st =
     do { (st1, ok) \<leftarrow> boot_ata_init P ATA_PRIMARY_IO (st\<lparr>mBus := ATA_PRIMARY_IO, mMaster := 0, mErr := False, mBase := 1024, mSize := 1024\<rparr>);
          if ok then Some (st1\<lparr>bd_Detected := True\<rparr>)
          else do { (st2, ok2) \<leftarrow> boot_ata_init P ATA_SECONDARY_IO st1;
                    Some (if ok2 then st2\<lparr>bd_Detected := True\<rparr> else st2) } }"

definition boot_ata_read :: "'d ports \<Rightarrow> u64 \<Rightarrow> u16 \<Rightarrow> u8 \<Rightarrow> u64 \<Rightarrow> u64 \<Rightarrow> 'd \<Rightarrow> ('d \<times> u8 list) option" where
  "boot_ata_read P Lba IO Master SectorSz Sz d =
     do { d1 \<leftarrow> drv_std_setup P Lba IO Master SectorSz Sz ATA_CMD_READ_PIO d;
          drv_std_read_loop P IO (unat Sz) d1 }"

definition boot_ata_write :: "'d ports \<Rightarrow> u64 \<Rightarrow> u16 \<Rightarrow> u8 \<Rightarrow> u8 list \<Rightarrow> u64 \<Rightarrow> u64 \<Rightarrow> 'd \<Rightarrow> 'd option" where
  "boot_ata_write P Lba IO Master Buf SectorSz Sz d =
     do { d1 \<leftarrow> drv_std_setup P Lba IO Master SectorSz Sz ATA_CMD_WRITE_PIO d;
          drv_std_write_loop P IO (take (unat Sz) Buf) d1 }"

text \<open>Reading replaces the start of the buffer, writing takes the start of it; the buffer is never null here.\<close>

definition BootDeviceATA_Read ::
    "'d ports \<Rightarrow> u8 list \<Rightarrow> u64 \<Rightarrow> 'd boot_disk \<Rightarrow> (boot_end + 'd boot_disk \<times> u8 list) option" where
  "BootDeviceATA_Read P Buf SectorSz st =
     (if \<not> bd_Detected st then Some (Inr (st\<lparr>mErr := True\<rparr>, Buf))
      else if SectorSz < 1 then Some (Inr (st\<lparr>mErr := False\<rparr>, Buf))
      else if length Buf < unat (mSize st) then Some (Inl BootOutOfBounds)
      else do { (d, bs) \<leftarrow> boot_ata_read P (mBase st) (mBus st) (mMaster st) SectorSz (mSize st) (bd_dev st);
                Some (Inr (st\<lparr>mErr := False, bd_dev := d\<rparr>, bs @ drop (length bs) Buf)) })"

definition BootDeviceATA_Write ::
    "'d ports \<Rightarrow> u8 list \<Rightarrow> u64 \<Rightarrow> 'd boot_disk \<Rightarrow> (boot_end + 'd boot_disk) option" where
  "BootDeviceATA_Write P Buf SectorSz st =
     (if \<not> bd_Detected st then Some (Inr (st\<lparr>mErr := True\<rparr>))
      else if SectorSz < 1 then Some (Inr (st\<lparr>mErr := False\<rparr>))
      else if length Buf < unat (mSize st) then Some (Inl BootOutOfBounds)
      else do { d \<leftarrow> boot_ata_write P (mBase st) (mBus st) (mMaster st) Buf SectorSz (mSize st) (bd_dev st);
                Some (Inr (st\<lparr>mErr := False, bd_dev := d\<rparr>)) })"

definition GetSectorsCount :: "'d boot_disk \<Rightarrow> u64" where
  "GetSectorsCount st = scast (push_bit 16 (ucast (bd_Data st ! 61)) OR ucast (bd_Data st ! 60) :: u32)"

definition GetDiskSize :: "'d boot_disk \<Rightarrow> u64" where
  "GetDiskSize st = GetSectorsCount st * 512"

section \<open>The formatter\<close>

definition bbind :: "(boot_end + 'a) option \<Rightarrow> ('a \<Rightarrow> (boot_end + 'b) option) \<Rightarrow> (boot_end + 'b) option" where
  "bbind x f = Option.bind x (\<lambda>r. case r of Inl e \<Rightarrow> Some (Inl e) | Inr a \<Rightarrow> f a)"

lemma bbind_simps [simp]: "bbind (Some (Inl e)) f = Some (Inl e)" "bbind (Some (Inr a)) f = f a" "bbind None f = None"
  by (simp_all add: bbind_def)

definition kNeFSMinimumDiskSize :: u64 where "kNeFSMinimumDiskSize = 0x100000000"
definition kNeFSIdentLen :: nat where "kNeFSIdentLen = 8"
definition kNeFSHardDrive :: u32 where "kNeFSHardDrive = 0xC0"
definition kEPMNewOS :: u16 where "kEPMNewOS = 0x1F"

text \<open>Copying into a structure: \<open>len\<close> words of four bytes from \<open>src\<close> to the offset.\<close>

definition put_at :: "nat \<Rightarrow> u8 list \<Rightarrow> u8 list \<Rightarrow> u8 list" where
  "put_at off bs xs = take off xs @ bs @ drop (off + length bs) xs"

definition CopyMem_in :: "mem \<Rightarrow> addr \<Rightarrow> nat \<Rightarrow> nat \<Rightarrow> u8 list \<Rightarrow> (boot_end + u8 list) option" where
  "CopyMem_in m src len off xs =
     Some (if off + 4 * len \<le> length xs then Inr (put_at off (load_bytes m src (4 * len)) xs) else Inl BootOutOfBounds)"

definition CopyStr_in :: "mem \<Rightarrow> addr \<Rightarrow> nat \<Rightarrow> u8 list \<Rightarrow> (boot_end + u8 list) option" where
  "CopyStr_in m src off xs = Option.bind (strlen m src) (\<lambda>n. CopyMem_in m src (unat n) off xs)"

text \<open>The literals of the formatter, by their addresses.\<close>

record literals =
  lit_kNeFSIdent :: addr
  lit_cFsName :: addr
  lit_cBlockName :: addr
  lit_kEPMMagic :: addr

definition IsPartitionValid ::
    "'d ports \<Rightarrow> mem \<Rightarrow> literals \<Rightarrow> 'd boot_disk \<Rightarrow> (boot_end + 'd boot_disk \<times> bool) option" where
  "IsPartitionValid P m L st =
     bbind (BootDeviceATA_Read P (replicate 512 0) kATASectorSize
              (st\<lparr>mBase := kNeFSRootCatalogStartAddress, mSize := kATASectorSize\<rparr>)) (\<lambda>(st1, buf).
       let blockPart = partition_of buf in
       Some (Inr (st1,
         if part_Ident blockPart \<noteq> load_bytes m (lit_kNeFSIdent L) kNeFSIdentLen then False
         else if part_DiskSize blockPart \<noteq> GetDiskSize st1 \<or> part_DiskSize blockPart < 1
                 \<or> part_SectorSize blockPart \<noteq> kATASectorSize \<or> part_Version blockPart \<noteq> kNeFSVersionInteger
                 \<or> part_StartCatalog blockPart = 0 then False
         else if part_PartitionName blockPart ! 0 = 0 then False
         else True)))"

definition sizeof_catalog :: u64 where "sizeof_catalog = 512"

text \<open>A descriptor has its name at its start and its kind at 256.\<close>

definition WriteRootCatalog ::
    "'d ports \<Rightarrow> mem \<Rightarrow> addr \<Rightarrow> NFS_ROOT_PARTITION \<Rightarrow> 'd boot_disk
     \<Rightarrow> (boot_end + 'd boot_disk \<times> NFS_ROOT_PARTITION \<times> bool) option" where
  "WriteRootCatalog P m blob partBlock st =
     (let startLba = part_StartCatalog partBlock;
          catalogKind = (catalog_of (replicate 512 0))
            \<lparr>cat_PrevSibling := startLba, cat_NextSibling := startLba + sizeof_catalog * 4,
             cat_Kind := load32 m (blob + 256), cat_Flags := kNeFSFlagCreated\<rparr>
      in bbind (CopyStr_in m blob 0 (catalog_bytes catalogKind)) (\<lambda>bytes.
         bbind (BootDeviceATA_Write P bytes sizeof_catalog (st\<lparr>mBase := startLba, mSize := sizeof_catalog\<rparr>)) (\<lambda>st1.
           Some (Inr (st1, partBlock\<lparr>part_FreeCatalog := part_FreeCatalog partBlock - 1,
                                     part_FreeSectors := part_FreeSectors partBlock - 1\<rparr>, True)))))"

definition format_partBlock :: "mem \<Rightarrow> literals \<Rightarrow> addr \<Rightarrow> u64 \<Rightarrow> 'd boot_disk \<Rightarrow> (boot_end + NFS_ROOT_PARTITION) option" where
  "format_partBlock m L partName blobCount st =
     bbind (CopyMem_in m (lit_kNeFSIdent L) (kNeFSIdentLen - 1) 0 (replicate 512 0)) (\<lambda>xs1.
     bbind (CopyStr_in m partName 8 xs1) (\<lambda>xs2.
       Some (Inr ((partition_of xs2)
         \<lparr>part_Version := kNeFSVersionInteger, part_CatalogCount := blobCount, part_Kind := kNeFSHardDrive,
          part_SectorSize := kATASectorSize, part_FreeCatalog := GetSectorsCount st div sizeof_catalog,
          part_SectorCount := GetSectorsCount st, part_FreeSectors := GetSectorsCount st,
          part_StartCatalog := kNeFSCatalogStartAddress, part_DiskSize := GetDiskSize st,
          part_Flags := kNeFSPartitionTypeBoot OR kNeFSPartitionTypeStandard\<rparr>))))"

definition format_epmBoot :: "mem \<Rightarrow> literals \<Rightarrow> NFS_ROOT_PARTITION \<Rightarrow> (boot_end + u8 list) option" where
  "format_epmBoot m L partBlock =
     bbind (CopyStr_in m (lit_cFsName L) 95 (replicate 512 0)) (\<lambda>xs1.
       let epm = (boot_block_of xs1)
             \<lparr>epm_FsVersion := ucast kNeFSVersionInteger, epm_LbaStart := kNeFSRootCatalogStartAddress,
              epm_SectorSz := part_SectorSize partBlock, epm_Kind := kEPMNewOS,
              epm_NumBlocks := part_CatalogCount partBlock\<rparr>
       in bbind (CopyStr_in m (lit_cBlockName L) 5 (boot_block_bytes epm)) (\<lambda>xs2.
          CopyStr_in m (lit_kEPMMagic L) 0 xs2))"

definition Format ::
    "'d ports \<Rightarrow> mem \<Rightarrow> literals \<Rightarrow> addr \<Rightarrow> addr \<Rightarrow> u64 \<Rightarrow> 'd boot_disk \<Rightarrow> (boot_end + 'd boot_disk \<times> bool) option" where
  "Format P m L partName fileBlobs blobCount st =
     (if fileBlobs = null \<or> blobCount = 0 then Some (Inr (st, False))
      else if GetDiskSize st < kNeFSMinimumDiskSize then Some (Inl EfiStop)
      else
        bbind (format_partBlock m L partName blobCount st) (\<lambda>partBlock.
        bbind (BootDeviceATA_Write P (partition_bytes partBlock) kATASectorSize
                 (st\<lparr>mBase := kNeFSRootCatalogStartAddress, mSize := kATASectorSize\<rparr>)) (\<lambda>st1.
        bbind (format_epmBoot m L partBlock) (\<lambda>epmBoot.
        bbind (BootDeviceATA_Write P epmBoot kATASectorSize (st1\<lparr>mBase := 1, mSize := kATASectorSize\<rparr>)) (\<lambda>st2.
        bbind (WriteRootCatalog P m fileBlobs partBlock st2) (\<lambda>(st3, _, ok).
          if ok then Some (Inr (st3, True)) else Some (Inl EfiStop)))))))"

text \<open>
  The decision of \<open>Main\<close>: a disk without a valid partition is formatted and the machine is reset (\<open>True\<close>),
  otherwise the start goes on. The descriptor of the root is a local variable at \<open>root\<close>.
\<close>

definition root_descriptor :: "mem \<Rightarrow> addr \<Rightarrow> mem" where
  "root_descriptor m root = store32 (m(root := 0x2F, root + 1 := 0)) (root + 256) kNeFSCatalogKindDir"

definition Main_auto_format ::
    "'d ports \<Rightarrow> mem \<Rightarrow> literals \<Rightarrow> addr \<Rightarrow> addr \<Rightarrow> 'd boot_disk \<Rightarrow> (boot_end + 'd boot_disk \<times> bool) option" where
  "Main_auto_format P m L partName root st =
     bbind (IsPartitionValid P m L st) (\<lambda>(st1, valid).
       if \<not> valid then bbind (Format P (root_descriptor m root) L partName root 1 st1) (\<lambda>(st2, _). Some (Inr (st2, True)))
       else Some (Inr (st1, False)))"

section \<open>The driver on the reference drive\<close>

definition boot_blk :: "pio_drive \<Rightarrow> u64 \<Rightarrow> u8 list" where
  "boot_blk d lba = map (\<lambda>i. ucast (words d (256 * pio_sector lba + i))) [0..<512]"

lemma length_boot_blk [simp]: "length (boot_blk d lba) = 512"
  by (simp add: boot_blk_def)

lemma boot_write_pio:
  assumes "bd_Detected st" "mBus st = ATA_PRIMARY_IO" "mSize st = 512" "length bs = 512"
  shows "\<exists>d. BootDeviceATA_Write pio_ports bs 512 st = Some (Inr (st\<lparr>mErr := False, bd_dev := d\<rparr>))
    \<and> boot_blk d (mBase st) = bs \<and> (\<forall>a. ata_far a (mBase st) \<longrightarrow> boot_blk d a = boot_blk (bd_dev st) a)"
proof -
  let ?c = "256 * pio_sector (mBase st)"
  obtain d1 where d1: "drv_std_setup pio_ports (mBase st) ATA_PRIMARY_IO (mMaster st) 512 512 ATA_CMD_WRITE_PIO (bd_dev st) = Some d1"
    "words d1 = words (bd_dev st)" "cursor d1 = ?c" "remaining d1 = 512"
    using pio_setup [of ATA_CMD_WRITE_PIO "mBase st" "mMaster st" 512 "bd_dev st"] by (auto simp: pio_limit_512)
  obtain d where d: "drv_std_write_loop pio_ports ATA_PRIMARY_IO bs d1 = Some d"
    and w: "words d = (\<lambda>a. if ?c \<le> a \<and> a < ?c + 512 then scast (bs ! (a - ?c)) else words (bd_dev st) a)"
    using pio_write_loop [of bs d1] unfolding d1(2-4) using assms(4) by auto
  have "boot_blk d (mBase st) = bs"
    using assms(4) by (intro nth_equalityI) (simp_all add: boot_blk_def w ucast_scast_byte)
  moreover have "boot_blk d a = boot_blk (bd_dev st) a" if "ata_far a (mBase st)" for a
    using that by (auto simp: boot_blk_def w ata_far_def)
  ultimately show ?thesis
    using assms d1(1) d by (auto simp: BootDeviceATA_Write_def boot_ata_write_def)
qed

lemma boot_read_pio:
  assumes "bd_Detected st" "mBus st = ATA_PRIMARY_IO" "mSize st = 512" "length buf = 512"
  shows "\<exists>d. BootDeviceATA_Read pio_ports buf 512 st = Some (Inr (st\<lparr>mErr := False, bd_dev := d\<rparr>, boot_blk (bd_dev st) (mBase st)))
    \<and> boot_blk d = boot_blk (bd_dev st)"
proof -
  obtain d1 where d1: "drv_std_setup pio_ports (mBase st) ATA_PRIMARY_IO (mMaster st) 512 512 ATA_CMD_READ_PIO (bd_dev st) = Some d1"
    "words d1 = words (bd_dev st)" "cursor d1 = 256 * pio_sector (mBase st)" "remaining d1 = 512"
    using pio_setup [of ATA_CMD_READ_PIO "mBase st" "mMaster st" 512 "bd_dev st"] by (auto simp: pio_limit_512)
  obtain d where "drv_std_read_loop pio_ports ATA_PRIMARY_IO 512 d1 = Some (d, boot_blk (bd_dev st) (mBase st))"
    and "words d = words (bd_dev st)"
    using pio_read_loop [of 512 d1] d1 by (auto simp: boot_blk_def)
  then show ?thesis
    using assms d1(1) by (auto simp: BootDeviceATA_Read_def boot_ata_read_def boot_blk_def fun_eq_iff)
qed

section \<open>The blocks of a formatted disk\<close>

definition is_cstr :: "mem \<Rightarrow> addr \<Rightarrow> nat \<Rightarrow> bool" where
  "is_cstr m p n \<longleftrightarrow> m (p + of_nat n) = 0 \<and> (\<forall>i < n. m (p + of_nat i) \<noteq> 0)"

lemma strlen_cstr:
  assumes "is_cstr m p n"
  shows "strlen m p = Some (of_nat n)"
proof -
  have "strlen_loop m p (of_nat k) = Some (of_nat n)" if "k \<le> n" for k
    using that
  proof (induction "n - k" arbitrary: k)
    case 0
    then show ?case using assms by (subst strlen_loop.simps) (simp add: is_cstr_def)
  next
    case (Suc d)
    then have "strlen_loop m p (of_nat (Suc k)) = Some (of_nat n)" by (intro Suc.hyps(1)) simp_all
    then show ?case using Suc assms by (subst strlen_loop.simps) (simp add: is_cstr_def add.commute)
  qed
  from this [of 0] show ?thesis by (simp add: strlen_def)
qed

lemma CopyStr_in_cstr:
  assumes "is_cstr m p n" and "off + 4 * n \<le> length xs" and "length xs = 512"
  shows "CopyStr_in m p off xs = Some (Inr (put_at off (load_bytes m p (4 * n)) xs))"
proof -
  have "unat (of_nat n :: u64) = n" using assms(2,3) by (intro unat_of_nat_addr) simp
  then show ?thesis using assms by (simp add: CopyStr_in_def strlen_cstr CopyMem_in_def)
qed

lemma length_put_at [simp]: "off + length bs \<le> length xs \<Longrightarrow> length (put_at off bs xs) = length xs"
  by (simp add: put_at_def)

lemma take_put_at: "k \<le> length bs \<Longrightarrow> take k (put_at 0 bs xs) = take k bs"
  by (simp add: put_at_def)

text \<open>What \<open>format_partBlock\<close> fills in, and what of it \<open>IsPartitionValid\<close> looks at.\<close>

lemma format_partBlock_valid:
  assumes "is_cstr m partName n" "0 < n" "n \<le> 126"
  shows "\<exists>p. format_partBlock m L partName cnt st = Some (Inr p) \<and> wf_partition p
    \<and> part_Ident p = load_bytes m (lit_kNeFSIdent L) 8 \<and> part_PartitionName p ! 0 \<noteq> 0
    \<and> part_DiskSize p = GetDiskSize st \<and> part_SectorSize p = 512 \<and> part_Version p = kNeFSVersionInteger
    \<and> part_StartCatalog p = 2560 \<and> part_CatalogCount p = cnt"
proof -
  define xs1 where "xs1 = put_at 0 (load_bytes m (lit_kNeFSIdent L) 28) (replicate 512 0)"
  define xs2 where "xs2 = put_at 8 (load_bytes m partName (4 * n)) xs1"
  have len: "length xs1 = 512" "length xs2 = 512" using assms(3) by (simp_all add: xs1_def xs2_def)
  have "bytes_at 0 8 xs2 = take 8 xs1" using assms(3) len(1) by (simp add: bytes_at_def xs2_def put_at_def)
  also have "\<dots> = load_bytes m (lit_kNeFSIdent L) 8"
    by (simp add: xs1_def take_put_at) (simp add: load_bytes_nth take_map take_upt)
  finally have "part_Ident (partition_of xs2) = load_bytes m (lit_kNeFSIdent L) 8" by (simp add: partition_of_def)
  moreover have "part_PartitionName (partition_of xs2) ! 0 = m partName"
    using assms(2,3) len(1) by (simp add: partition_of_def bytes_at_def xs2_def put_at_def nth_append)
  moreover have "m partName \<noteq> 0" using assms(1,2) by (auto simp: is_cstr_def)
  moreover have "CopyMem_in m (lit_kNeFSIdent L) (kNeFSIdentLen - 1) 0 (replicate 512 0) = Some (Inr xs1)"
    by (simp add: CopyMem_in_def kNeFSIdentLen_def xs1_def)
  moreover have "CopyStr_in m partName 8 xs1 = Some (Inr xs2)"
    using CopyStr_in_cstr [OF assms(1), of 8 xs1] assms(3) len(1) by (simp add: xs2_def)
  ultimately show ?thesis
    using wf_structs(3) [OF len(2)]
    by (simp add: format_partBlock_def wf_partition_def kATASectorSize_def kNeFSCatalogStartAddress_def)
qed

lemma format_epmBoot_magic:
  assumes "is_cstr m (lit_cFsName L) 4" "is_cstr m (lit_cBlockName L) 4" "is_cstr m (lit_kEPMMagic L) 5"
  shows "\<exists>bs. format_epmBoot m L p = Some (Inr bs) \<and> length bs = 512 \<and> take 5 bs = load_bytes m (lit_kEPMMagic L) 5"
proof -
  define xs1 where "xs1 = put_at 95 (load_bytes m (lit_cFsName L) 16) (replicate 512 0)"
  define epm where "epm = (boot_block_of xs1)
             \<lparr>epm_FsVersion := ucast kNeFSVersionInteger, epm_LbaStart := kNeFSRootCatalogStartAddress,
              epm_SectorSz := part_SectorSize p, epm_Kind := kEPMNewOS, epm_NumBlocks := part_CatalogCount p\<rparr>"
  define xs2 where "xs2 = put_at 5 (load_bytes m (lit_cBlockName L) 16) (boot_block_bytes epm)"
  have "length xs1 = 512" by (simp add: xs1_def)
  then have "wf_boot_block epm" using wf_structs(4) [of xs1] by (simp add: epm_def wf_boot_block_def)
  then have len: "length (boot_block_bytes epm) = 512" "length xs2 = 512" by (simp_all add: xs2_def)
  have "CopyStr_in m (lit_cFsName L) 95 (replicate 512 0) = Some (Inr xs1)"
    using CopyStr_in_cstr [OF assms(1), of 95 "replicate 512 0"] by (simp add: xs1_def)
  moreover have "CopyStr_in m (lit_cBlockName L) 5 (boot_block_bytes epm) = Some (Inr xs2)"
    using CopyStr_in_cstr [OF assms(2), of 5 "boot_block_bytes epm"] len(1) by (simp add: xs2_def)
  moreover have "CopyStr_in m (lit_kEPMMagic L) 0 xs2 = Some (Inr (put_at 0 (load_bytes m (lit_kEPMMagic L) 20) xs2))"
    using CopyStr_in_cstr [OF assms(3), of 0 xs2] len(2) by simp
  moreover have "take 5 (load_bytes m (lit_kEPMMagic L) 20) = load_bytes m (lit_kEPMMagic L) 5"
    by (simp add: load_bytes_nth take_map take_upt)
  ultimately show ?thesis
    using len by (simp add: format_epmBoot_def Let_def take_put_at flip: epm_def)
qed

lemma WriteRootCatalog_pio:
  assumes "bd_Detected st" "mBus st = ATA_PRIMARY_IO" and "is_cstr m root k" "k \<le> 64"
  shows "\<exists>d cat p'. WriteRootCatalog pio_ports m root p st = Some (Inr (st\<lparr>mBase := part_StartCatalog p, mSize := 512, mErr := False, bd_dev := d\<rparr>, p', True))
    \<and> boot_blk d (part_StartCatalog p) = catalog_bytes cat \<and> wf_catalog cat
    \<and> take k (cat_Name cat) = load_bytes m root k \<and> cat_Flags cat = kNeFSFlagCreated \<and> cat_Kind cat = load32 m (root + 256)
    \<and> (\<forall>a. ata_far a (part_StartCatalog p) \<longrightarrow> boot_blk d a = boot_blk (bd_dev st) a)"
proof -
  define c where "c = (catalog_of (replicate 512 0))
            \<lparr>cat_PrevSibling := part_StartCatalog p, cat_NextSibling := part_StartCatalog p + sizeof_catalog * 4,
             cat_Kind := load32 m (root + 256), cat_Flags := kNeFSFlagCreated\<rparr>"
  define cat where "cat = c\<lparr>cat_Name := put_at 0 (load_bytes m root (4 * k)) (cat_Name c)\<rparr>"
  have wf: "wf_catalog c" using wf_structs(1) [of "replicate 512 0"] by (simp add: c_def wf_catalog_def)
  then have wf': "wf_catalog cat" using assms(4) by (simp add: cat_def wf_catalog_def)
  have "put_at 0 (load_bytes m root (4 * k)) (catalog_bytes c) = catalog_bytes cat"
    using wf assms(4) by (simp add: cat_def catalog_bytes_def put_at_def wf_catalog_def)
  then have copy: "CopyStr_in m root 0 (catalog_bytes c) = Some (Inr (catalog_bytes cat))"
    using CopyStr_in_cstr [OF assms(3), of 0 "catalog_bytes c"] wf assms(4) by simp
  let ?st = "st\<lparr>mBase := part_StartCatalog p, mSize := 512\<rparr>"
  obtain d where d: "BootDeviceATA_Write pio_ports (catalog_bytes cat) 512 ?st = Some (Inr (?st\<lparr>mErr := False, bd_dev := d\<rparr>))"
    and "boot_blk d (part_StartCatalog p) = catalog_bytes cat"
    and "\<forall>a. ata_far a (part_StartCatalog p) \<longrightarrow> boot_blk d a = boot_blk (bd_dev st) a"
    using boot_write_pio [of ?st "catalog_bytes cat"] assms(1,2) wf' by auto
  moreover have "take k (cat_Name cat) = load_bytes m root k"
    by (simp add: cat_def take_put_at) (simp add: load_bytes_nth take_map take_upt)
  moreover have "cat_Flags cat = kNeFSFlagCreated" "cat_Kind cat = load32 m (root + 256)" by (simp_all add: cat_def c_def)
  moreover have "\<exists>p'. WriteRootCatalog pio_ports m root p st =
      Some (Inr (st\<lparr>mBase := part_StartCatalog p, mSize := 512, mErr := False, bd_dev := d\<rparr>, p', True))"
    unfolding WriteRootCatalog_def Let_def c_def [symmetric] using copy d by (simp add: sizeof_catalog_def)
  ultimately show ?thesis using wf' by blast
qed

text \<open>What the strings and the disk must satisfy, and the result.\<close>

definition format_ok :: "mem \<Rightarrow> literals \<Rightarrow> addr \<Rightarrow> nat \<Rightarrow> addr \<Rightarrow> nat \<Rightarrow> 'd boot_disk \<Rightarrow> bool" where
  "format_ok m L partName n root k st \<longleftrightarrow>
     is_cstr m partName n \<and> 0 < n \<and> n \<le> 126 \<and> root \<noteq> null \<and> is_cstr m root k \<and> k \<le> 64
     \<and> is_cstr m (lit_cFsName L) 4 \<and> is_cstr m (lit_cBlockName L) 4 \<and> is_cstr m (lit_kEPMMagic L) 5
     \<and> bd_Detected st \<and> mBus st = ATA_PRIMARY_IO \<and> kNeFSMinimumDiskSize \<le> GetDiskSize st"

definition formatted :: "mem \<Rightarrow> literals \<Rightarrow> addr \<Rightarrow> nat \<Rightarrow> pio_drive boot_disk \<Rightarrow> bool" where
  "formatted m L root k st \<longleftrightarrow>
     bd_Detected st \<and> mBus st = ATA_PRIMARY_IO
     \<and> (let p = partition_of (boot_blk (bd_dev st) 1024) in
          part_Ident p = load_bytes m (lit_kNeFSIdent L) 8 \<and> part_PartitionName p ! 0 \<noteq> 0
          \<and> part_DiskSize p = GetDiskSize st \<and> 1 \<le> GetDiskSize st \<and> part_SectorSize p = 512
          \<and> part_Version p = kNeFSVersionInteger \<and> part_StartCatalog p = 2560)
     \<and> take 5 (boot_blk (bd_dev st) 0) = load_bytes m (lit_kEPMMagic L) 5
     \<and> (let c = catalog_of (boot_blk (bd_dev st) 2560) in
          take k (cat_Name c) = load_bytes m root k \<and> cat_Flags c = kNeFSFlagCreated \<and> cat_Kind c = load32 m (root + 256))"

lemma boot_blk_01: "boot_blk d 0 = boot_blk d 1"
  by (simp add: boot_blk_def pio_sector_def)

lemma Format_formats:
  assumes "format_ok m L partName n root k st" "cnt \<noteq> 0"
  shows "\<exists>st'. Format pio_ports m L partName root cnt st = Some (Inr (st', True)) \<and> formatted m L root k st'"
proof -
  note ok = assms(1) [unfolded format_ok_def]
  obtain p where p: "format_partBlock m L partName cnt st = Some (Inr p)" "wf_partition p"
    "part_Ident p = load_bytes m (lit_kNeFSIdent L) 8" "part_PartitionName p ! 0 \<noteq> 0" "part_DiskSize p = GetDiskSize st"
    "part_SectorSize p = 512" "part_Version p = kNeFSVersionInteger" "part_StartCatalog p = 2560"
    using format_partBlock_valid [of m partName n L cnt st] ok by blast
  obtain epm where epm: "format_epmBoot m L p = Some (Inr epm)" "length epm = 512"
    "take 5 epm = load_bytes m (lit_kEPMMagic L) 5"
    using format_epmBoot_magic [of m L p] ok by blast
  define st0 where "st0 = st\<lparr>mBase := 1024, mSize := 512\<rparr>"
  obtain d1 where d1: "BootDeviceATA_Write pio_ports (partition_bytes p) 512 st0 = Some (Inr (st0\<lparr>mErr := False, bd_dev := d1\<rparr>))"
    "boot_blk d1 1024 = partition_bytes p"
    using boot_write_pio [of st0 "partition_bytes p"] ok p(2) by (auto simp: st0_def)
  define st1 where "st1 = st0\<lparr>mErr := False, bd_dev := d1, mBase := 1, mSize := 512\<rparr>"
  obtain d2 where d2: "BootDeviceATA_Write pio_ports epm 512 st1 = Some (Inr (st1\<lparr>mErr := False, bd_dev := d2\<rparr>))"
    "boot_blk d2 1 = epm" "\<And>a. ata_far a 1 \<Longrightarrow> boot_blk d2 a = boot_blk d1 a"
    using boot_write_pio [of st1 epm] ok epm(2) by (auto simp: st1_def st0_def)
  define st2 where "st2 = st1\<lparr>mErr := False, bd_dev := d2\<rparr>"
  obtain d3 cat p' where d3: "WriteRootCatalog pio_ports m root p st2 =
      Some (Inr (st2\<lparr>mBase := 2560, mSize := 512, mErr := False, bd_dev := d3\<rparr>, p', True))"
    "boot_blk d3 2560 = catalog_bytes cat" "wf_catalog cat" "take k (cat_Name cat) = load_bytes m root k"
    "cat_Flags cat = kNeFSFlagCreated" "cat_Kind cat = load32 m (root + 256)"
    "\<And>a. ata_far a 2560 \<Longrightarrow> boot_blk d3 a = boot_blk d2 a"
    using WriteRootCatalog_pio [of st2 m root k p] ok p(8) by (auto simp: st2_def st1_def st0_def)
  have blocks: "boot_blk d3 1024 = partition_bytes p" "boot_blk d3 0 = epm"
    using d3(7) [of 1024] d3(7) [of 0] d2(2) d2(3) [of 1024] d1(2) by (simp_all add: ata_far_def pio_sector_def boot_blk_01)
  let ?st = "st2\<lparr>mBase := 2560, mSize := 512, mErr := False, bd_dev := d3\<rparr>"
  have "Format pio_ports m L partName root cnt st = Some (Inr (?st, True))"
    using ok assms(2) p(1) d1(1) epm(1) d2(1) d3(1)
    by (simp add: Format_def kATASectorSize_def kNeFSRootCatalogStartAddress_def not_less flip: st0_def)
      (simp flip: st0_def st1_def st2_def)
  moreover have "formatted m L root k ?st"
  proof -
    have "GetDiskSize ?st = GetDiskSize st" by (simp add: GetDiskSize_def GetSectorsCount_def st2_def st1_def st0_def)
    moreover have "1 \<le> GetDiskSize st" using ok by (auto simp: kNeFSMinimumDiskSize_def intro: order_trans [rotated])
    ultimately show ?thesis
      using ok p epm(3) d3(2-6) blocks by (simp add: formatted_def st2_def st1_def st0_def)
  qed
  ultimately show ?thesis by blast
qed

lemma IsPartitionValid_formatted:
  assumes "formatted m L root k st"
  shows "\<exists>st'. IsPartitionValid pio_ports m L st = Some (Inr (st', True)) \<and> formatted m L root k st'"
proof -
  note f = assms [unfolded formatted_def Let_def]
  let ?st = "st\<lparr>mBase := 1024, mSize := 512\<rparr>"
  obtain d where d: "BootDeviceATA_Read pio_ports (replicate 512 0) 512 ?st =
      Some (Inr (?st\<lparr>mErr := False, bd_dev := d\<rparr>, boot_blk (bd_dev st) 1024))" "boot_blk d = boot_blk (bd_dev st)"
    using boot_read_pio [of ?st "replicate 512 0"] f by auto
  have size: "GetDiskSize (?st\<lparr>mErr := False, bd_dev := d\<rparr>) = GetDiskSize st"
    by (simp add: GetDiskSize_def GetSectorsCount_def)
  have "formatted m L root k (?st\<lparr>mErr := False, bd_dev := d\<rparr>)"
    unfolding formatted_def size using f by (simp add: d(2) Let_def)
  moreover have "IsPartitionValid pio_ports m L st = Some (Inr (?st\<lparr>mErr := False, bd_dev := d\<rparr>, True))"
    unfolding IsPartitionValid_def kATASectorSize_def kNeFSRootCatalogStartAddress_def d(1) bbind_simps prod.case size
    using f by (auto simp: Let_def kNeFSIdentLen_def not_less)
  ultimately show ?thesis by blast
qed

text \<open>Literals in memory, and a drive with as many sectors as the formatter asks for.\<close>

lemma is_cstr_0: "is_cstr m p 0 \<longleftrightarrow> m p = 0"
  by (simp add: is_cstr_def)

lemma is_cstr_Suc: "is_cstr m p (Suc n) \<longleftrightarrow> m p \<noteq> 0 \<and> is_cstr m (p + 1) n"
  by (auto simp: is_cstr_def All_less_Suc2 add.assoc)

lemma is_cstr_numeral: "is_cstr m p (numeral w) \<longleftrightarrow> m p \<noteq> 0 \<and> is_cstr m (p + 1) (pred_numeral w)"
  by (simp only: numeral_eq_Suc is_cstr_Suc)

definition format_example :: mem where
  "format_example = (\<lambda>_. 0)(0x100 := 0x4E, 0x101 := 0x65, 0x102 := 0x46, 0x103 := 0x53,
     0x110 := 0x5A, 0x111 := 0x4B, 0x112 := 0x41, 0x113 := 0x3A,
     0x120 := 0x45, 0x121 := 0x50, 0x122 := 0x4D, 0x123 := 0x41, 0x124 := 0x4D,
     0x140 := 0x41, 0x200 := 0x2F, 0x300 := 2)"

definition literals_example :: literals where
  "literals_example = \<lparr>lit_kNeFSIdent = 0x130, lit_cFsName = 0x100, lit_cBlockName = 0x110, lit_kEPMMagic = 0x120\<rparr>"

definition disk_example :: "pio_drive boot_disk" where
  "disk_example = \<lparr>bd_dev = pio_example, bd_Detected = True, bd_Data = (replicate 256 0)[61 := 0x80],
     mBus = ATA_PRIMARY_IO, mMaster = 0, mErr = False, mBase = 0, mSize = 0\<rparr>"

lemma format_example_ok: "format_ok format_example literals_example 0x140 1 0x200 1 disk_example"
proof -
  have "GetDiskSize disk_example = 0x100000000"
    by (simp add: GetDiskSize_def GetSectorsCount_def disk_example_def)
  moreover have "is_cstr format_example 0x140 1" "is_cstr format_example 0x200 1" "is_cstr format_example 0x100 4"
    "is_cstr format_example 0x110 4" "is_cstr format_example 0x120 5"
    by (simp_all add: is_cstr_0 is_cstr_Suc is_cstr_numeral format_example_def)
  ultimately show ?thesis
    by (simp add: format_ok_def literals_example_def kNeFSMinimumDiskSize_def) (simp add: disk_example_def)
qed

lemma root_descriptor_example: "root_descriptor format_example 0x200 = format_example"
proof -
  have "le_bytes 4 (unat kNeFSCatalogKindDir) = [2, 0, 0, 0]"
    by (simp add: kNeFSCatalogKindDir_def eval_simps)
  moreover have "format_example 0x200 = 0x2F" "format_example 0x201 = 0" "format_example 0x300 = 2" "format_example 0x301 = 0"
    "format_example 0x302 = 0" "format_example 0x303 = 0"
    by (simp_all add: format_example_def)
  ultimately show ?thesis by (simp add: root_descriptor_def store32_def fun_upd_idem)
qed

section \<open>Properties\<close>



text \<open>
  Property C19. The kernel knows a disk the boot loader has formatted: its main drive is a writable drive with a partition
  map, the partition starts where the file system looks for it, and the first catalog is a created one with the name and
  the kind that were asked for.
\<close>

theorem formatted_disk_known_to_kernel:
  assumes "format_ok m L partName n root k st" "cnt \<noteq> 0" and "load_bytes m (lit_kEPMMagic L) 5 = kEPMMagic"
    and "length blk = 512"
  shows "\<exists>st'. Format pio_ports m L partName root cnt st = Some (Inr (st', True))
    \<and> (\<forall>s. dev s = bd_dev st' \<longrightarrow>
         (\<exists>s' trait'. io_construct_main_drive pio_ports trait blk s = Some (Inr (s', trait')) \<and> fKind trait' = 0xDB
            \<and> part_StartCatalog (partition_of (ata_block s' kNeFSRootCatalogStartAddress)) = kNeFSCatalogStartAddress
            \<and> take k (cat_Name (catalog_of (ata_block s' kNeFSCatalogStartAddress))) = load_bytes m root k
            \<and> cat_Flags (catalog_of (ata_block s' kNeFSCatalogStartAddress)) = kNeFSFlagCreated
            \<and> cat_Kind (catalog_of (ata_block s' kNeFSCatalogStartAddress)) = load32 m (root + 256)))"
proof -
  obtain st' where st': "Format pio_ports m L partName root cnt st = Some (Inr (st', True))" "formatted m L root k st'"
    using Format_formats [OF assms(1,2)] by blast
  have blk: "ata_block s = boot_blk (bd_dev st')" if "dev s = bd_dev st'" for s :: "pio_drive drv_state"
    using that by (simp add: ata_block_def boot_blk_def fun_eq_iff)
  show ?thesis
    using st' main_drive_constructed [OF assms(4), of trait] assms(3) blk
    by (fastforce simp: formatted_def Let_def kNeFSRootCatalogStartAddress_def kNeFSCatalogStartAddress_def)
qed

theorem formatted_disk_known_to_kernel_witness:
  "\<exists>st'. Format pio_ports format_example literals_example 0x140 0x200 1 disk_example = Some (Inr (st', True))
    \<and> (\<exists>s' trait'. io_construct_main_drive pio_ports trait_example (replicate 512 0) (drive_example\<lparr>dev := bd_dev st'\<rparr>) = Some (Inr (s', trait'))
         \<and> fKind trait' = 0xDB)"
proof -
  have "load_bytes format_example (lit_kEPMMagic literals_example) 5 = kEPMMagic"
    by (simp add: eval_simps format_example_def literals_example_def kEPMMagic_def)
  then obtain st' where "Format pio_ports format_example literals_example 0x140 0x200 1 disk_example = Some (Inr (st', True))"
    and s: "\<And>s. dev s = bd_dev st' \<Longrightarrow> \<exists>s' trait'. io_construct_main_drive pio_ports trait_example (replicate 512 0) s =
      Some (Inr (s', trait')) \<and> fKind trait' = 0xDB"
    using formatted_disk_known_to_kernel [OF format_example_ok, of 1 "replicate 512 0" trait_example] by auto blast
  then show ?thesis using s [of "drive_example\<lparr>dev := bd_dev st'\<rparr>"] by simp
qed

end
