(* ===== verification/Framebuffer.thy ===== *)
theory Framebuffer
  imports Page_Memory
begin

text \<open>
  Drawing on the screen: the macros of \<^verbatim>\<open>Modules/FB/FB.h\<close> and the text of \<^verbatim>\<open>Modules/FB/Text.h\<close>, which
  kernel and boot loader share. The screen is memory; a pixel is a 32-bit word. Coordinates of type \<open>Int32\<close> are
  words whose sign is extended where they are used as indices.
\<close>

section \<open>Regions\<close>

record gop =
  f_The :: addr
  f_Size :: u64
  f_Width :: u32
  f_Height :: u32
  f_PixelFormat :: u32
  f_PixelPerLine :: u32

definition RGB :: "u32 \<Rightarrow> u32 \<Rightarrow> u32 \<Rightarrow> u32" where
  "RGB R G B = R OR push_bit 8 G OR push_bit 16 B"

definition cg_get_clear_clr :: u32 where "cg_get_clear_clr = RGB 0xB2 0xB2 0xB2"

text \<open>The values a loop from \<open>lo\<close> runs through before it reaches \<open>hi\<close>.\<close>

definition span :: "u64 \<Rightarrow> u64 \<Rightarrow> u64 list" where
  "span lo hi = map (\<lambda>k. lo + of_nat k) [0..<(if lo < hi then unat (hi - lo) else 0)]"

text \<open>The address of a pixel: the first index selects the line. The size of a line is a 32-bit product.\<close>

definition pixel :: "gop \<Rightarrow> addr \<Rightarrow> u64 \<Rightarrow> u64 \<Rightarrow> addr" where
  "pixel g rgn i u = rgn + ucast (4 * f_PixelPerLine g) * i + 4 * u"

definition over_region :: "u64 list \<Rightarrow> u64 list \<Rightarrow> (u64 \<Rightarrow> u64 \<Rightarrow> 'a \<Rightarrow> 'a) \<Rightarrow> 'a \<Rightarrow> 'a" where
  "over_region is us f s = fold (\<lambda>i. fold (f i) us) is s"

text \<open>Pictures are copied from their start on, one word per pixel; \<open>kCGCursor\<close> is the position in the picture.\<close>

definition CGDrawBitMapInRegionA :: "gop \<Rightarrow> addr \<Rightarrow> u64 \<Rightarrow> u64 \<Rightarrow> u64 \<Rightarrow> u64 \<Rightarrow> mem \<Rightarrow> mem \<times> u64" where
  "CGDrawBitMapInRegionA g BitMp Height Width BaseX BaseY m =
     over_region (span BaseX (Height + BaseX)) (span BaseY (Width + BaseY))
       (\<lambda>i u (m, kCGCursor). (store32 m (pixel g (f_The g) i u)
          (load32 m (pixel g (f_The g) i u) OR load32 m (BitMp + 4 * kCGCursor)), kCGCursor + 1)) (m, 0)"

definition CGDrawBitMapInRegionToRgn :: "gop \<Rightarrow> addr \<Rightarrow> addr \<Rightarrow> u64 \<Rightarrow> u64 \<Rightarrow> u64 \<Rightarrow> u64 \<Rightarrow> mem \<Rightarrow> mem \<times> u64" where
  "CGDrawBitMapInRegionToRgn g Rgn BitMp Height Width BaseX BaseY m =
     over_region (span BaseX (Height + BaseX)) (span BaseY (Width + BaseY))
       (\<lambda>i u (m, kCGCursor). (store32 m (pixel g Rgn i u) (load32 m (BitMp + 4 * kCGCursor)), kCGCursor + 1)) (m, 0)"

definition CGDrawBitMapInRegion :: "gop \<Rightarrow> addr \<Rightarrow> u64 \<Rightarrow> u64 \<Rightarrow> u64 \<Rightarrow> u64 \<Rightarrow> mem \<Rightarrow> mem \<times> u64" where
  "CGDrawBitMapInRegion g BitMp Height Width BaseX BaseY m =
     over_region (span BaseX (Height + BaseX)) (span BaseY (Width + BaseY))
       (\<lambda>i u (m, kCGCursor). (store32 m (pixel g (f_The g) i u) (load32 m (BitMp + 4 * kCGCursor)), kCGCursor + 1)) (m, 0)"

definition CGClearRegion :: "gop \<Rightarrow> u64 \<Rightarrow> u64 \<Rightarrow> u64 \<Rightarrow> u64 \<Rightarrow> mem \<Rightarrow> mem" where
  "CGClearRegion g Height Width BaseX BaseY m =
     over_region (span BaseX (Height + BaseX)) (span BaseY (Width + BaseY))
       (\<lambda>i u m. store32 m (pixel g (f_The g) i u) cg_get_clear_clr) m"

text \<open>Colours: here the width counts the lines.\<close>

definition CGDrawInRegion :: "gop \<Rightarrow> u32 \<Rightarrow> u64 \<Rightarrow> u64 \<Rightarrow> u64 \<Rightarrow> u64 \<Rightarrow> mem \<Rightarrow> mem" where
  "CGDrawInRegion g Clr Height Width BaseX BaseY m =
     over_region (span BaseX (Width + BaseX)) (span BaseY (Height + BaseY))
       (\<lambda>x_base y_base m. store32 m (pixel g (f_The g) x_base y_base) Clr) m"

definition CGDrawInRegionA :: "gop \<Rightarrow> u32 \<Rightarrow> u64 \<Rightarrow> u64 \<Rightarrow> u64 \<Rightarrow> u64 \<Rightarrow> mem \<Rightarrow> mem" where
  "CGDrawInRegionA g Clr Height Width BaseX BaseY m =
     over_region (span BaseX (Width + BaseX)) (span BaseY (Height + BaseY))
       (\<lambda>x_base y_base m. let p = pixel g (f_The g) x_base y_base in store32 m p (load32 m p OR Clr)) m"

definition CGDrawInRegionToRgn :: "gop \<Rightarrow> addr \<Rightarrow> addr \<Rightarrow> u64 \<Rightarrow> u64 \<Rightarrow> u64 \<Rightarrow> u64 \<Rightarrow> mem \<Rightarrow> mem \<times> u64" where
  "CGDrawInRegionToRgn g Rgn Clr Height Width BaseX BaseY m =
     over_region (span BaseX (Width + BaseX)) (span BaseY (Height + BaseY))
       (\<lambda>x_base y_base (m, kCGCursor). (store32 m (pixel g Rgn x_base y_base) (load32 m (Clr + 4 * kCGCursor)), kCGCursor + 1)) (m, 0)"

definition CGDrawInRegionToVideoRgn :: "gop \<Rightarrow> addr \<Rightarrow> u32 \<Rightarrow> u64 \<Rightarrow> u64 \<Rightarrow> u64 \<Rightarrow> u64 \<Rightarrow> mem \<Rightarrow> mem \<times> u64" where
  "CGDrawInRegionToVideoRgn g VideoRgn Clr Height Width BaseX BaseY m =
     over_region (span BaseX (Width + BaseX)) (span BaseY (Height + BaseY))
       (\<lambda>x_base y_base (m, kCGCursor). (store32 m (pixel g VideoRgn x_base y_base) Clr, kCGCursor + 1)) (m, 0)"

definition CGDrawInRegionToVideoRgnA :: "gop \<Rightarrow> addr \<Rightarrow> u32 \<Rightarrow> u64 \<Rightarrow> u64 \<Rightarrow> u64 \<Rightarrow> u64 \<Rightarrow> mem \<Rightarrow> mem \<times> u64" where
  "CGDrawInRegionToVideoRgnA g VideoRgn Clr Height Width BaseX BaseY m =
     over_region (span BaseX (Width + BaseX)) (span BaseY (Height + BaseY))
       (\<lambda>x_base y_base (m, kCGCursor).
          let p = pixel g VideoRgn x_base y_base in (store32 m p (load32 m p OR Clr), kCGCursor + 1)) (m, 0)"

section \<open>Text\<close>

definition FONT_SIZE_X :: nat where "FONT_SIZE_X = 8"
definition FONT_SIZE_Y :: nat where "FONT_SIZE_Y = 8"

definition cFontBitmap :: "u8 list list" where
  "cFontBitmap =
    [[0x00, 0x00, 0x00, 0x00, 0x00, 0x00, 0x00, 0x00],
     [0x00, 0x00, 0x00, 0x00, 0x00, 0x00, 0x00, 0x00],
     [0x00, 0x00, 0x00, 0x00, 0x00, 0x00, 0x00, 0x00],
     [0x00, 0x00, 0x00, 0x00, 0x00, 0x00, 0x00, 0x00],
     [0x00, 0x00, 0x00, 0x00, 0x00, 0x00, 0x00, 0x00],
     [0x00, 0x00, 0x00, 0x00, 0x00, 0x00, 0x00, 0x00],
     [0x00, 0x00, 0x00, 0x00, 0x00, 0x00, 0x00, 0x00],
     [0x00, 0x00, 0x00, 0x00, 0x00, 0x00, 0x00, 0x00],
     [0x00, 0x00, 0x00, 0x00, 0x00, 0x00, 0x00, 0x00],
     [0x00, 0x00, 0x00, 0x00, 0x00, 0x00, 0x00, 0x00],
     [0x00, 0x00, 0x00, 0x00, 0x00, 0x00, 0x00, 0x00],
     [0x00, 0x00, 0x00, 0x00, 0x00, 0x00, 0x00, 0x00],
     [0x00, 0x00, 0x00, 0x00, 0x00, 0x00, 0x00, 0x00],
     [0x00, 0x00, 0x00, 0x00, 0x00, 0x00, 0x00, 0x00],
     [0x00, 0x00, 0x00, 0x00, 0x00, 0x00, 0x00, 0x00],
     [0x00, 0x00, 0x00, 0x00, 0x00, 0x00, 0x00, 0x00],
     [0x00, 0x00, 0x00, 0x00, 0x00, 0x00, 0x00, 0x00],
     [0x00, 0x00, 0x00, 0x00, 0x00, 0x00, 0x00, 0x00],
     [0x00, 0x00, 0x00, 0x00, 0x00, 0x00, 0x00, 0x00],
     [0x00, 0x00, 0x00, 0x00, 0x00, 0x00, 0x00, 0x00],
     [0x00, 0x00, 0x00, 0x00, 0x00, 0x00, 0x00, 0x00],
     [0x00, 0x00, 0x00, 0x00, 0x00, 0x00, 0x00, 0x00],
     [0x00, 0x00, 0x00, 0x00, 0x00, 0x00, 0x00, 0x00],
     [0x00, 0x00, 0x00, 0x00, 0x00, 0x00, 0x00, 0x00],
     [0x00, 0x00, 0x00, 0x00, 0x00, 0x00, 0x00, 0x00],
     [0x00, 0x00, 0x00, 0x00, 0x00, 0x00, 0x00, 0x00],
     [0x00, 0x00, 0x00, 0x00, 0x00, 0x00, 0x00, 0x00],
     [0x00, 0x00, 0x00, 0x00, 0x00, 0x00, 0x00, 0x00],
     [0x00, 0x00, 0x00, 0x00, 0x00, 0x00, 0x00, 0x00],
     [0x00, 0x00, 0x00, 0x00, 0x00, 0x00, 0x00, 0x00],
     [0x00, 0x00, 0x00, 0x00, 0x00, 0x00, 0x00, 0x00],
     [0x00, 0x00, 0x00, 0x00, 0x00, 0x00, 0x00, 0x00],
     [0x00, 0x00, 0x00, 0x00, 0x00, 0x00, 0x00, 0x00],
     [0x18, 0x3C, 0x3C, 0x18, 0x18, 0x00, 0x18, 0x00],
     [0x36, 0x36, 0x00, 0x00, 0x00, 0x00, 0x00, 0x00],
     [0x36, 0x36, 0x7F, 0x36, 0x7F, 0x36, 0x36, 0x00],
     [0x0C, 0x3E, 0x03, 0x1E, 0x30, 0x1F, 0x0C, 0x00],
     [0x00, 0x63, 0x33, 0x18, 0x0C, 0x66, 0x63, 0x00],
     [0x1C, 0x36, 0x1C, 0x6E, 0x3B, 0x33, 0x6E, 0x00],
     [0x06, 0x06, 0x03, 0x00, 0x00, 0x00, 0x00, 0x00],
     [0x18, 0x0C, 0x06, 0x06, 0x06, 0x0C, 0x18, 0x00],
     [0x06, 0x0C, 0x18, 0x18, 0x18, 0x0C, 0x06, 0x00],
     [0x00, 0x66, 0x3C, 0xFF, 0x3C, 0x66, 0x00, 0x00],
     [0x00, 0x0C, 0x0C, 0x3F, 0x0C, 0x0C, 0x00, 0x00],
     [0x00, 0x00, 0x00, 0x00, 0x00, 0x0C, 0x0C, 0x06],
     [0x00, 0x00, 0x00, 0x3F, 0x00, 0x00, 0x00, 0x00],
     [0x00, 0x00, 0x00, 0x00, 0x00, 0x0C, 0x0C, 0x00],
     [0x60, 0x30, 0x18, 0x0C, 0x06, 0x03, 0x01, 0x00],
     [0x3E, 0x63, 0x73, 0x7B, 0x6F, 0x67, 0x3E, 0x00],
     [0x0C, 0x0E, 0x0C, 0x0C, 0x0C, 0x0C, 0x3F, 0x00],
     [0x1E, 0x33, 0x30, 0x1C, 0x06, 0x33, 0x3F, 0x00],
     [0x1E, 0x33, 0x30, 0x1C, 0x30, 0x33, 0x1E, 0x00],
     [0x38, 0x3C, 0x36, 0x33, 0x7F, 0x30, 0x78, 0x00],
     [0x3F, 0x03, 0x1F, 0x30, 0x30, 0x33, 0x1E, 0x00],
     [0x1C, 0x06, 0x03, 0x1F, 0x33, 0x33, 0x1E, 0x00],
     [0x3F, 0x33, 0x30, 0x18, 0x0C, 0x0C, 0x0C, 0x00],
     [0x1E, 0x33, 0x33, 0x1E, 0x33, 0x33, 0x1E, 0x00],
     [0x1E, 0x33, 0x33, 0x3E, 0x30, 0x18, 0x0E, 0x00],
     [0x00, 0x0C, 0x0C, 0x00, 0x00, 0x0C, 0x0C, 0x00],
     [0x00, 0x0C, 0x0C, 0x00, 0x00, 0x0C, 0x0C, 0x06],
     [0x18, 0x0C, 0x06, 0x03, 0x06, 0x0C, 0x18, 0x00],
     [0x00, 0x00, 0x3F, 0x00, 0x00, 0x3F, 0x00, 0x00],
     [0x06, 0x0C, 0x18, 0x30, 0x18, 0x0C, 0x06, 0x00],
     [0x1E, 0x33, 0x30, 0x18, 0x0C, 0x00, 0x0C, 0x00],
     [0x3E, 0x63, 0x7B, 0x7B, 0x7B, 0x03, 0x1E, 0x00],
     [0x0C, 0x1E, 0x33, 0x33, 0x3F, 0x33, 0x33, 0x00],
     [0x3F, 0x66, 0x66, 0x3E, 0x66, 0x66, 0x3F, 0x00],
     [0x3C, 0x66, 0x03, 0x03, 0x03, 0x66, 0x3C, 0x00],
     [0x1F, 0x36, 0x66, 0x66, 0x66, 0x36, 0x1F, 0x00],
     [0x7F, 0x46, 0x16, 0x1E, 0x16, 0x46, 0x7F, 0x00],
     [0x7F, 0x46, 0x16, 0x1E, 0x16, 0x06, 0x0F, 0x00],
     [0x3C, 0x66, 0x03, 0x03, 0x73, 0x66, 0x7C, 0x00],
     [0x33, 0x33, 0x33, 0x3F, 0x33, 0x33, 0x33, 0x00],
     [0x1E, 0x0C, 0x0C, 0x0C, 0x0C, 0x0C, 0x1E, 0x00],
     [0x78, 0x30, 0x30, 0x30, 0x33, 0x33, 0x1E, 0x00],
     [0x67, 0x66, 0x36, 0x1E, 0x36, 0x66, 0x67, 0x00],
     [0x0F, 0x06, 0x06, 0x06, 0x46, 0x66, 0x7F, 0x00],
     [0x63, 0x77, 0x7F, 0x7F, 0x6B, 0x63, 0x63, 0x00],
     [0x63, 0x67, 0x6F, 0x7B, 0x73, 0x63, 0x63, 0x00],
     [0x1C, 0x36, 0x63, 0x63, 0x63, 0x36, 0x1C, 0x00],
     [0x3F, 0x66, 0x66, 0x3E, 0x06, 0x06, 0x0F, 0x00],
     [0x1E, 0x33, 0x33, 0x33, 0x3B, 0x1E, 0x38, 0x00],
     [0x3F, 0x66, 0x66, 0x3E, 0x36, 0x66, 0x67, 0x00],
     [0x1E, 0x33, 0x07, 0x0E, 0x38, 0x33, 0x1E, 0x00],
     [0x3F, 0x2D, 0x0C, 0x0C, 0x0C, 0x0C, 0x1E, 0x00],
     [0x33, 0x33, 0x33, 0x33, 0x33, 0x33, 0x3F, 0x00],
     [0x33, 0x33, 0x33, 0x33, 0x33, 0x1E, 0x0C, 0x00],
     [0x63, 0x63, 0x63, 0x6B, 0x7F, 0x77, 0x63, 0x00],
     [0x63, 0x63, 0x36, 0x1C, 0x1C, 0x36, 0x63, 0x00],
     [0x33, 0x33, 0x33, 0x1E, 0x0C, 0x0C, 0x1E, 0x00],
     [0x7F, 0x63, 0x31, 0x18, 0x4C, 0x66, 0x7F, 0x00],
     [0x1E, 0x06, 0x06, 0x06, 0x06, 0x06, 0x1E, 0x00],
     [0x03, 0x06, 0x0C, 0x18, 0x30, 0x60, 0x40, 0x00],
     [0x1E, 0x18, 0x18, 0x18, 0x18, 0x18, 0x1E, 0x00],
     [0x08, 0x1C, 0x36, 0x63, 0x00, 0x00, 0x00, 0x00],
     [0x00, 0x00, 0x00, 0x00, 0x00, 0x00, 0x00, 0xFF],
     [0x0C, 0x0C, 0x18, 0x00, 0x00, 0x00, 0x00, 0x00],
     [0x00, 0x00, 0x1E, 0x30, 0x3E, 0x33, 0x6E, 0x00],
     [0x07, 0x06, 0x06, 0x3E, 0x66, 0x66, 0x3B, 0x00],
     [0x00, 0x00, 0x1E, 0x33, 0x03, 0x33, 0x1E, 0x00],
     [0x38, 0x30, 0x30, 0x3e, 0x33, 0x33, 0x6E, 0x00],
     [0x00, 0x00, 0x1E, 0x33, 0x3f, 0x03, 0x1E, 0x00],
     [0x1C, 0x36, 0x06, 0x0f, 0x06, 0x06, 0x0F, 0x00],
     [0x00, 0x00, 0x6E, 0x33, 0x33, 0x3E, 0x30, 0x1F],
     [0x07, 0x06, 0x36, 0x6E, 0x66, 0x66, 0x67, 0x00],
     [0x0C, 0x00, 0x0E, 0x0C, 0x0C, 0x0C, 0x1E, 0x00],
     [0x30, 0x00, 0x30, 0x30, 0x30, 0x33, 0x33, 0x1E],
     [0x07, 0x06, 0x66, 0x36, 0x1E, 0x36, 0x67, 0x00],
     [0x0E, 0x0C, 0x0C, 0x0C, 0x0C, 0x0C, 0x1E, 0x00],
     [0x00, 0x00, 0x33, 0x7F, 0x7F, 0x6B, 0x63, 0x00],
     [0x00, 0x00, 0x1F, 0x33, 0x33, 0x33, 0x33, 0x00],
     [0x00, 0x00, 0x1E, 0x33, 0x33, 0x33, 0x1E, 0x00],
     [0x00, 0x00, 0x3B, 0x66, 0x66, 0x3E, 0x06, 0x0F],
     [0x00, 0x00, 0x6E, 0x33, 0x33, 0x3E, 0x30, 0x78],
     [0x00, 0x00, 0x3B, 0x6E, 0x66, 0x06, 0x0F, 0x00],
     [0x00, 0x00, 0x3E, 0x03, 0x1E, 0x30, 0x1F, 0x00],
     [0x08, 0x0C, 0x3E, 0x0C, 0x0C, 0x2C, 0x18, 0x00],
     [0x00, 0x00, 0x33, 0x33, 0x33, 0x33, 0x6E, 0x00],
     [0x00, 0x00, 0x33, 0x33, 0x33, 0x1E, 0x0C, 0x00],
     [0x00, 0x00, 0x63, 0x6B, 0x7F, 0x7F, 0x36, 0x00],
     [0x00, 0x00, 0x63, 0x36, 0x1C, 0x36, 0x63, 0x00],
     [0x00, 0x00, 0x33, 0x33, 0x33, 0x3E, 0x30, 0x1F],
     [0x00, 0x00, 0x3F, 0x19, 0x0C, 0x26, 0x3F, 0x00],
     [0x38, 0x0C, 0x0C, 0x07, 0x0C, 0x0C, 0x38, 0x00],
     [0x18, 0x18, 0x18, 0x00, 0x18, 0x18, 0x18, 0x00],
     [0x07, 0x0C, 0x0C, 0x38, 0x0C, 0x0C, 0x07, 0x00],
     [0x6E, 0x3B, 0x00, 0x00, 0x00, 0x00, 0x00, 0x00],
     [0x00, 0x00, 0x00, 0x00, 0x00, 0x00, 0x00, 0x00]]"

text \<open>One dot, one column, and the character: \<open>bitmap\<close> has a byte per line, its bits are the columns.\<close>

definition render_dot :: "gop \<Rightarrow> u8 list \<Rightarrow> u32 \<Rightarrow> u32 \<Rightarrow> u32 \<Rightarrow> nat \<Rightarrow> nat \<Rightarrow> mem \<Rightarrow> mem" where
  "render_dot g bitmap x_dst y_dst color y x m =
     (if (ucast (bitmap ! x) :: u32) AND push_bit y 1 \<noteq> 0
      then CGDrawInRegion g color 1 1 (scast (x_dst + of_nat x)) (scast (y_dst + of_nat y)) m
      else m)"

definition CGRenderStringFromBitMap :: "gop \<Rightarrow> u8 list \<Rightarrow> nat \<Rightarrow> nat \<Rightarrow> u32 \<Rightarrow> u32 \<Rightarrow> u32 \<Rightarrow> mem \<Rightarrow> mem" where
  "CGRenderStringFromBitMap g bitmap x_sz y_sz x_dst y_dst color m =
     fold (\<lambda>y. fold (render_dot g bitmap x_dst y_dst color y) [0..<x_sz]) [0..<y_sz] m"

text \<open>A character above 127 is negative and reads before the font. A string without an end is \<open>None\<close>.\<close>

partial_function (option) CGDrawString_loop ::
    "gop \<Rightarrow> addr \<Rightarrow> u64 \<Rightarrow> u32 \<Rightarrow> u32 \<Rightarrow> u32 \<Rightarrow> mem \<Rightarrow> (abort + mem) option" where
  "CGDrawString_loop g str i x_dst y_dst color m =
     (let c = m (str + i) in
      if c = 0 then Some (Inr m)
      else if c \<ge> 0x80 then Some (Inl OutOfBounds)
      else CGDrawString_loop g str (i + 1) x_dst (y_dst + of_nat FONT_SIZE_Y) color
             (CGRenderStringFromBitMap g (cFontBitmap ! unat c) FONT_SIZE_X FONT_SIZE_Y x_dst y_dst color m))"

definition CGDrawString :: "gop \<Rightarrow> addr \<Rightarrow> u32 \<Rightarrow> u32 \<Rightarrow> u32 \<Rightarrow> mem \<Rightarrow> (abort + mem) option" where
  "CGDrawString g str x_dst y_dst color m = CGDrawString_loop g str 0 x_dst y_dst color m"


section \<open>The screen as a table of dots\<close>

text \<open>
  The drawing is judged on the dots of the screen: line \<open>r\<close>, column \<open>c\<close>. The boot loader stores the vertical
  resolution in \<open>f_Width\<close> and the horizontal one in \<open>f_Height\<close>, so a screen has \<open>f_Width\<close> lines of \<open>f_PixelPerLine\<close> dots; it
  takes at most two gigabytes.
\<close>

definition dot :: "gop \<Rightarrow> mem \<Rightarrow> nat \<Rightarrow> nat \<Rightarrow> u32" where
  "dot g m r c = load32 m (f_The g + of_nat (4 * (unat (f_PixelPerLine g) * r + c)))"

definition screen_bytes :: "gop \<Rightarrow> nat" where
  "screen_bytes g = 4 * (unat (f_PixelPerLine g) * unat (f_Width g))"

definition screen_ok :: "gop \<Rightarrow> bool" where
  "screen_ok g \<longleftrightarrow> screen_bytes g \<le> 2 ^ 31 \<and> 0 < f_Width g"

definition visible :: "gop \<Rightarrow> nat \<Rightarrow> nat \<Rightarrow> bool" where
  "visible g r c \<longleftrightarrow> r < unat (f_Width g) \<and> c < unat (f_PixelPerLine g)"

text \<open>What a drawing may change: the dots of the screen, as \<open>F\<close> says, and nothing outside it.\<close>

definition draws :: "gop \<Rightarrow> (nat \<Rightarrow> nat \<Rightarrow> u32 \<Rightarrow> u32) \<Rightarrow> mem \<Rightarrow> mem \<Rightarrow> bool" where
  "draws g F m m' \<longleftrightarrow> (\<forall>r c. visible g r c \<longrightarrow> dot g m' r c = F r c (dot g m r c))
     \<and> (\<forall>x. \<not> in_range x (f_The g) (screen_bytes g) \<longrightarrow> m' x = m x)"

lemma line_index_inj:
  assumes "c < (n :: nat)" "c' < n"
  shows "n * r + c = n * r' + c' \<longleftrightarrow> r = r' \<and> c = c'"
proof
  assume e: "n * r + c = n * r' + c'"
  have "(n * r + c) div n = r" "(n * r' + c') div n = r'" using assms by simp_all
  with e show "r = r' \<and> c = c'" by simp
qed simp

lemma visible_bound:
  assumes "screen_ok g" "visible g r c"
  shows "4 * (unat (f_PixelPerLine g) * r + c) + 4 \<le> screen_bytes g"
proof -
  let ?n = "unat (f_PixelPerLine g)"
  have "?n * r + c + 1 \<le> ?n * (r + 1)" using assms(2) by (simp add: visible_def)
  also have "\<dots> \<le> ?n * unat (f_Width g)" using assms(2) by (intro mult_le_mono2) (simp add: visible_def)
  finally show ?thesis by (simp add: screen_bytes_def)
qed

lemma line_bytes:
  assumes "screen_ok g"
  shows "(ucast (4 * f_PixelPerLine g) :: addr) = of_nat (4 * unat (f_PixelPerLine g))"
proof -
  have "unat (f_PixelPerLine g) * 1 \<le> unat (f_PixelPerLine g) * unat (f_Width g)"
    using assms by (intro mult_le_mono2) (simp add: screen_ok_def word_less_nat_alt)
  moreover have "screen_bytes g \<le> 2 ^ 31" using assms by (simp add: screen_ok_def)
  ultimately have "4 * unat (f_PixelPerLine g) \<le> 2 ^ 31" unfolding screen_bytes_def by linarith
  then have "4 * unat (f_PixelPerLine g) < 2 ^ 32" by simp
  then have "unat (4 * f_PixelPerLine g) = 4 * unat (f_PixelPerLine g)" by (simp add: unat_word_ariths(2))
  then show ?thesis by (metis of_nat_unat)
qed

lemma pixel_eq:
  assumes "screen_ok g"
  shows "pixel g (f_The g) (of_nat r) (of_nat c) = f_The g + of_nat (4 * (unat (f_PixelPerLine g) * r + c))"
  unfolding pixel_def line_bytes [OF assms] by (simp add: algebra_simps)

lemma draws_pixel:
  assumes g: "screen_ok g" and v: "visible g i u"
  shows "draws g (\<lambda>r c old. if r = i \<and> c = u then V else old) m (store32 m (pixel g (f_The g) (of_nat i) (of_nat u)) V)"
    (is "draws g _ m ?m'")
proof -
  let ?n = "unat (f_PixelPerLine g)"
  let ?at = "\<lambda>r c. 4 * (?n * r + c)"
  have small: "?at r c + 4 \<le> 2 ^ 31" if "visible g r c" for r c
    using visible_bound [OF g that] g by (simp add: screen_ok_def)
  have "dot g ?m' r c = (if r = i \<and> c = u then V else dot g m r c)" if rc: "visible g r c" for r c
  proof (cases "r = i \<and> c = u")
    case True
    then show ?thesis by (simp add: dot_def pixel_eq [OF g] load32_store32_same del: of_nat_mult of_nat_add)
  next
    case False
    then have "?n * r + c \<noteq> ?n * i + u" using rc v by (simp add: line_index_inj visible_def)
    then have "?at r c + 4 \<le> ?at i u \<or> ?at i u + 4 \<le> ?at r c" by presburger
    then have "dot g ?m' r c = dot g m r c" unfolding dot_def pixel_eq [OF g]
      using small [OF rc] small [OF v] by (intro load32_store32_off) linarith+
    then show ?thesis using False by auto
  qed
  moreover have "?m' x = m x" if "\<not> in_range x (f_The g) (screen_bytes g)" for x
  proof (rule store32_apply_other, rule notI)
    assume "in_range x (pixel g (f_The g) (of_nat i) (of_nat u)) 4"
    then show False using that in_range_sub [of x "f_The g" "?at i u" 4 "screen_bytes g"] visible_bound [OF g v] g
      by (simp add: pixel_eq screen_ok_def)
  qed
  ultimately show ?thesis by (simp add: draws_def)
qed

lemma draws_refl: "draws g (\<lambda>r c old. old) m m"
  by (simp add: draws_def)

lemma draws_trans:
  assumes "draws g F m m'" "draws g G m' m''"
  shows "draws g (\<lambda>r c old. G r c (F r c old)) m m''"
  using assms by (simp add: draws_def)

lemma draws_cong:
  assumes "draws g F m m'" "\<And>r c old. visible g r c \<Longrightarrow> F r c old = G r c old"
  shows "draws g G m m'"
  using assms by (simp add: draws_def)

section \<open>Regions are rectangles\<close>

lemma span_of_nat:
  assumes "n < 2 ^ 64" "lo + n < 2 ^ 64"
  shows "span (of_nat lo) (of_nat n + of_nat lo) = map of_nat [lo..<lo + n]"
proof -
  have u: "unat (of_nat lo :: u64) = lo" "unat (of_nat n + of_nat lo :: u64) = n + lo"
    using assms unat_of_nat_addr [of "n + lo"] by (simp_all add: unat_of_nat_addr)
  have "unat (of_nat n :: u64) = n" using assms(1) by (rule unat_of_nat_addr)
  moreover have "(of_nat lo :: u64) < of_nat n + of_nat lo \<longleftrightarrow> 0 < n" using u by (simp add: word_less_nat_alt)
  ultimately have "span (of_nat lo) (of_nat n + of_nat lo) = map (\<lambda>k. of_nat (lo + k)) [0..<n]" by (simp add: span_def)
  also have "\<dots> = map of_nat [lo..<lo + n]" by (simp add: list_eq_iff_nth_eq)
  finally show ?thesis .
qed

text \<open>A loop over lines or columns: what its steps draw, the loop draws on the union.\<close>

definition same_outside :: "gop \<Rightarrow> mem \<Rightarrow> mem \<Rightarrow> bool" where
  "same_outside g m m' \<longleftrightarrow> (\<forall>x. \<not> in_range x (f_The g) (screen_bytes g) \<longrightarrow> m' x = m x)"

lemma draws_same_outside: "draws g F m m' \<Longrightarrow> same_outside g m m'"
  by (simp add: draws_def same_outside_def)

lemma same_outside_trans: "same_outside g m m' \<Longrightarrow> same_outside g m' m'' \<Longrightarrow> same_outside g m m''"
  by (simp add: same_outside_def)

lemma draws_fold:
  assumes "distinct is"
    and step: "\<And>i m'. i \<in> set is \<Longrightarrow> same_outside g m m' \<Longrightarrow>
      draws g (\<lambda>r c old. if P i r c then F r c old else old) m' (f i m')"
    and once: "\<And>i j r c. i \<in> set is \<Longrightarrow> j \<in> set is \<Longrightarrow> P i r c \<Longrightarrow> P j r c \<Longrightarrow> i = j"
  shows "draws g (\<lambda>r c old. if \<exists>i \<in> set is. P i r c then F r c old else old) m (fold f is m)"
  using assms
proof (induction "is" arbitrary: m)
  case Nil
  show ?case using draws_refl by simp
next
  case (Cons i "is")
  have here: "draws g (\<lambda>r c old. if P i r c then F r c old else old) m (f i m)"
    by (rule Cons.prems) (simp_all add: same_outside_def)
  moreover have "draws g (\<lambda>r c old. if \<exists>j \<in> set is. P j r c then F r c old else old) (f i m) (fold f is (f i m))"
    using Cons.prems same_outside_trans [OF draws_same_outside [OF here]] by (intro Cons.IH) auto
  ultimately have "draws g (\<lambda>r c old. if \<exists>j \<in> set is. P j r c then F r c (if P i r c then F r c old else old)
      else if P i r c then F r c old else old) m (fold f is (f i m))" by (rule draws_trans)
  then have "draws g (\<lambda>r c old. if \<exists>j \<in> set (i # is). P j r c then F r c old else old) m (fold f is (f i m))"
  proof (rule draws_cong)
    fix r c old
    have "\<not> (P i r c \<and> P j r c)" if "j \<in> set is" for j using Cons.prems(1) Cons.prems(3) [of i j r c] that by auto
    then show "(if \<exists>j \<in> set is. P j r c then F r c (if P i r c then F r c old else old) else if P i r c then F r c old else old)
      = (if \<exists>j \<in> set (i # is). P j r c then F r c old else old)" by auto
  qed
  then show ?case by simp
qed

definition in_rect :: "nat \<Rightarrow> nat \<Rightarrow> nat \<Rightarrow> nat \<Rightarrow> nat \<Rightarrow> nat \<Rightarrow> bool" where
  "in_rect x0 y0 lines columns r c \<longleftrightarrow> x0 \<le> r \<and> r < x0 + lines \<and> y0 \<le> c \<and> c < y0 + columns"

definition fits :: "gop \<Rightarrow> nat \<Rightarrow> nat \<Rightarrow> nat \<Rightarrow> nat \<Rightarrow> bool" where
  "fits g x0 y0 lines columns \<longleftrightarrow>
     screen_ok g \<and> x0 + lines \<le> unat (f_Width g) \<and> y0 + columns \<le> unat (f_PixelPerLine g)"

lemma fits_small:
  assumes "fits g x0 y0 lines columns"
  shows "x0 + lines < 2 ^ 32" "y0 + columns < 2 ^ 32"
proof -
  have "unat (w :: u32) < 2 ^ 32" for w using unsigned_less [of w] by simp
  then show "x0 + lines < 2 ^ 32" "y0 + columns < 2 ^ 32" using assms by (auto simp: fits_def intro: le_less_trans)
qed

lemma draws_rect:
  assumes f: "\<And>i u m'. in_rect x0 y0 lines columns i u \<Longrightarrow> same_outside g m m' \<Longrightarrow>
      draws g (\<lambda>r c old. if r = i \<and> c = u then F r c old else old) m' (f i u m')"
  shows "draws g (\<lambda>r c old. if in_rect x0 y0 lines columns r c then F r c old else old) m
    (fold (\<lambda>i. fold (f i) [y0..<y0 + columns]) [x0..<x0 + lines] m)"
proof -
  have "draws g (\<lambda>r c old. if r = i \<and> y0 \<le> c \<and> c < y0 + columns then F r c old else old) m'
      (fold (f i) [y0..<y0 + columns] m')" if "i \<in> set [x0..<x0 + lines]" "same_outside g m m'" for i m'
  proof -
    have "draws g (\<lambda>r c old. if \<exists>u \<in> set [y0..<y0 + columns]. r = i \<and> c = u then F r c old else old) m'
      (fold (f i) [y0..<y0 + columns] m')"
      using that f same_outside_trans [OF that(2)] by (intro draws_fold) (auto simp: in_rect_def)
    then show ?thesis by (rule draws_cong) auto
  qed
  then have "draws g (\<lambda>r c old. if \<exists>i \<in> set [x0..<x0 + lines]. r = i \<and> y0 \<le> c \<and> c < y0 + columns then F r c old else old) m
    (fold (\<lambda>i. fold (f i) [y0..<y0 + columns]) [x0..<x0 + lines] m)"
    by (intro draws_fold) auto
  then show ?thesis by (rule draws_cong) (auto simp: in_rect_def)
qed

lemma over_region_upt:
  assumes "fits g x0 y0 lines columns"
  shows "over_region (span (of_nat x0) (of_nat lines + of_nat x0)) (span (of_nat y0) (of_nat columns + of_nat y0)) f s
    = fold (\<lambda>i. fold (\<lambda>u. f (of_nat i) (of_nat u)) [y0..<y0 + columns]) [x0..<x0 + lines] s"
  using fits_small [OF assms] by (simp add: over_region_def span_of_nat fold_map comp_def)

lemma rect_visible: "fits g x0 y0 lines columns \<Longrightarrow> in_rect x0 y0 lines columns i u \<Longrightarrow> visible g i u"
  by (simp add: fits_def in_rect_def visible_def)

text \<open>Every dot of the rectangle gets \<open>F\<close> of the memory the drawing starts from and of its own old colour.\<close>

lemma over_region_store:
  assumes fit: "fits g x0 y0 lines columns"
    and V: "\<And>i u m'. in_rect x0 y0 lines columns i u \<Longrightarrow> same_outside g m m' \<Longrightarrow>
      V i u m' = F i u (dot g m' i u)"
  shows "draws g (\<lambda>r c old. if in_rect x0 y0 lines columns r c then F r c old else old) m
    (fold (\<lambda>i. fold (\<lambda>u m. store32 m (pixel g (f_The g) (of_nat i) (of_nat u)) (V i u m)) [y0..<y0 + columns])
      [x0..<x0 + lines] m)"
proof (rule draws_rect)
  fix i u m'
  assume *: "in_rect x0 y0 lines columns i u" "same_outside g m m'"
  have "draws g (\<lambda>r c old. if r = i \<and> c = u then V i u m' else old) m'
      (store32 m' (pixel g (f_The g) (of_nat i) (of_nat u)) (V i u m'))" (is "draws g _ m' ?s")
    using fit rect_visible [OF fit *(1)] by (intro draws_pixel) (simp_all add: fits_def)
  then show "draws g (\<lambda>r c old. if r = i \<and> c = u then F r c old else old) m' ?s"
    using V [OF *] by (simp add: draws_def)
qed

section \<open>What the macros draw\<close>

text \<open>
  \<open>CGDrawInRegion\<close> on a region that fits the screen gives its colour to every dot of the rectangle of \<open>Width\<close>
  lines and \<open>Height\<close> columns whose corner is line \<open>BaseX\<close> and column \<open>BaseY\<close>; every other dot and all memory outside the
  screen stay as they were. As in the handover structure the width counts the lines.
\<close>

lemma CGDrawInRegion_rectangle:
  assumes "fits g BaseX BaseY Width Height"
  shows "draws g (\<lambda>r c old. if in_rect BaseX BaseY Width Height r c then Clr else old) m
    (CGDrawInRegion g Clr (of_nat Height) (of_nat Width) (of_nat BaseX) (of_nat BaseY) m)"
  unfolding CGDrawInRegion_def over_region_upt [OF assms] by (rule over_region_store [OF assms]) simp

lemma CGDrawInRegionA_rectangle:
  assumes "fits g BaseX BaseY Width Height"
  shows "draws g (\<lambda>r c old. if in_rect BaseX BaseY Width Height r c then old OR Clr else old) m
    (CGDrawInRegionA g Clr (of_nat Height) (of_nat Width) (of_nat BaseX) (of_nat BaseY) m)"
  unfolding CGDrawInRegionA_def Let_def over_region_upt [OF assms]
  using assms by (intro over_region_store) (simp_all add: dot_def pixel_eq fits_def)

text \<open>
  Clearing counts its lines by the height, so \<open>CGClearRegion\<close> with the arguments of \<open>CGDrawInRegion\<close> clears another region
  unless it is a square.
\<close>

lemma CGClearRegion_rectangle:
  assumes "fits g BaseX BaseY Height Width"
  shows "draws g (\<lambda>r c old. if in_rect BaseX BaseY Height Width r c then cg_get_clear_clr else old) m
    (CGClearRegion g (of_nat Height) (of_nat Width) (of_nat BaseX) (of_nat BaseY) m)"
  unfolding CGClearRegion_def over_region_upt [OF assms] by (rule over_region_store [OF assms]) simp

text \<open>The cursor of a picture counts the dots drawn so far.\<close>

lemma cursor_fold:
  assumes "\<And>a m k. step a (m, k) = (h a k m, k + (d :: u64))"
  shows "fold step [a0..<a0 + n] (m, k) = (fold (\<lambda>a. h a (k + of_nat (a - a0) * d)) [a0..<a0 + n] m, k + of_nat n * d)"
  by (induction n) (simp_all add: assms algebra_simps)

lemma cursor_region:
  "fold (\<lambda>i. fold (\<lambda>u (m, k). (h i u k m, k + 1)) [y0..<y0 + columns]) [x0..<x0 + lines] (m, 0 :: u64)
    = (fold (\<lambda>i. fold (\<lambda>u. h i u (of_nat ((i - x0) * columns + (u - y0)))) [y0..<y0 + columns]) [x0..<x0 + lines] m,
       of_nat (lines * columns))"
proof -
  have row: "fold (\<lambda>u (m, k). (h i u k m, k + 1)) [y0..<y0 + columns] (m, k)
      = (fold (\<lambda>u. h i u (k + of_nat (u - y0))) [y0..<y0 + columns] m, k + of_nat columns)" for i m and k :: u64
    by (subst cursor_fold [where d = 1]) simp_all
  show ?thesis by (subst cursor_fold [OF row]) simp
qed

lemma word_offset_less: "(k :: nat) < n \<Longrightarrow> j < 4 \<Longrightarrow> 4 * k + j < 4 * n"
  by simp

definition picture :: "mem \<Rightarrow> addr \<Rightarrow> nat \<Rightarrow> nat \<Rightarrow> nat \<Rightarrow> u32" where
  "picture m BitMp Width line column = load32 m (BitMp + of_nat (4 * (line * Width + column)))"

text \<open>
  Property C26. \<open>CGDrawBitMapInRegion\<close> copies a picture of \<open>Height\<close> lines of \<open>Width\<close> dots, stored line by line outside the
  screen, to the screen: the dot \<open>(r, c)\<close> of the region becomes the dot \<open>(r - BaseX, c - BaseY)\<close> of the picture, no other dot
  and no memory outside the screen changes, and the cursor ends after the last dot.
\<close>

theorem CGDrawBitMapInRegion_copies:
  assumes fit: "fits g BaseX BaseY Height Width"
    and off: "\<forall>k < 4 * (Height * Width). \<not> in_range (BitMp + of_nat k) (f_The g) (screen_bytes g)"
  shows "draws g (\<lambda>r c old. if in_rect BaseX BaseY Height Width r c
        then picture m BitMp Width (r - BaseX) (c - BaseY) else old) m
      (fst (CGDrawBitMapInRegion g BitMp (of_nat Height) (of_nat Width) (of_nat BaseX) (of_nat BaseY) m))
    \<and> snd (CGDrawBitMapInRegion g BitMp (of_nat Height) (of_nat Width) (of_nat BaseX) (of_nat BaseY) m)
      = of_nat (Height * Width)"
proof (rule conjI)
  have same: "load32 m' (BitMp + 4 * of_nat ((i - BaseX) * Width + (u - BaseY))) = picture m BitMp Width (i - BaseX) (u - BaseY)"
    if "in_rect BaseX BaseY Height Width i u" "same_outside g m m'" for i u m'
  proof -
    let ?k = "(i - BaseX) * Width + (u - BaseY)"
    have "?k < (i - BaseX) * Width + Width" using that(1) by (auto simp: in_rect_def)
    also have "\<dots> = Suc (i - BaseX) * Width" by simp
    also have "\<dots> \<le> Height * Width" using that(1) by (intro mult_le_mono1) (auto simp: in_rect_def)
    finally have "4 * ?k + j < 4 * (Height * Width)" if "j < 4" for j using that by (rule word_offset_less)
    then have "m' (BitMp + of_nat (4 * ?k + j)) = m (BitMp + of_nat (4 * ?k + j))" if "j < 4" for j
      using off that \<open>same_outside g m m'\<close> by (simp add: same_outside_def del: of_nat_add of_nat_mult)
    then have "load32 m' (BitMp + of_nat (4 * ?k)) = load32 m (BitMp + of_nat (4 * ?k))"
      by (intro load_frame(2)) (simp add: add.assoc)
    then show ?thesis by (simp add: picture_def)
  qed
  show "draws g (\<lambda>r c old. if in_rect BaseX BaseY Height Width r c
        then picture m BitMp Width (r - BaseX) (c - BaseY) else old) m
      (fst (CGDrawBitMapInRegion g BitMp (of_nat Height) (of_nat Width) (of_nat BaseX) (of_nat BaseY) m))"
    unfolding CGDrawBitMapInRegion_def over_region_upt [OF fit] cursor_region fst_conv
    using same by (intro over_region_store [OF fit])
  show "snd (CGDrawBitMapInRegion g BitMp (of_nat Height) (of_nat Width) (of_nat BaseX) (of_nat BaseY) m)
      = of_nat (Height * Width)"
    unfolding CGDrawBitMapInRegion_def over_region_upt [OF fit] cursor_region snd_conv ..
qed

section \<open>What the text routines draw\<close>

lemma scast_small:
  assumes "n < 2 ^ 31"
  shows "(scast (of_nat n :: u32) :: u64) = of_nat n"
proof -
  have "sint (of_nat n :: u32) = int n" using assms by (simp add: signed_of_nat signed_take_bit_int_eq_self)
  then show ?thesis by (metis of_int_of_nat_eq of_int_sint)
qed

lemma mask_bit:
  assumes "y < 8"
  shows "(ucast (b :: u8) :: u32) AND push_bit y 1 \<noteq> 0 \<longleftrightarrow> bit b y"
  unfolding bit_iff_and_push_bit_not_eq_0 [symmetric] using assms by (simp add: bit_unsigned_iff)

lemma fits_signed:
  assumes "fits g x0 y0 lines columns" "0 < columns" "0 < lines"
  shows "x0 + lines < 2 ^ 31" "y0 + columns < 2 ^ 31"
proof -
  let ?h = "unat (f_Width g)" and ?n = "unat (f_PixelPerLine g)"
  have "?h * 1 \<le> ?h * ?n" "1 * ?n \<le> ?h * ?n" using assms by (intro mult_le_mono; simp add: fits_def)+
  moreover have "4 * (?h * ?n) \<le> 2 ^ 31" using assms(1) by (simp add: fits_def screen_ok_def screen_bytes_def mult.commute)
  ultimately have "4 * ?h \<le> 2 ^ 31" "4 * ?n \<le> 2 ^ 31" by linarith+
  then show "x0 + lines < 2 ^ 31" "y0 + columns < 2 ^ 31" using assms by (simp_all add: fits_def)
qed

lemma render_dot_draws:
  assumes fit: "fits g x0 y0 lines columns" and "x < lines" "y < columns" "y < 8"
  shows "draws g (\<lambda>r c old. if r = x0 + x \<and> c = y0 + y then if bit (bitmap ! x) y then color else old else old) m
    (render_dot g bitmap (of_nat x0) (of_nat y0) color y x m)"
proof -
  have "x0 + x < 2 ^ 31" "y0 + y < 2 ^ 31" using fits_signed [OF fit] assms by linarith+
  then have eq: "scast (of_nat x0 + of_nat x :: u32) = (of_nat (x0 + x) :: u64)"
      "scast (of_nat y0 + of_nat y :: u32) = (of_nat (y0 + y) :: u64)"
    by (simp_all only: of_nat_add [symmetric] scast_small)
  have "draws g (\<lambda>r c old. if in_rect (x0 + x) (y0 + y) 1 1 r c then color else old) m
    (CGDrawInRegion g color (of_nat 1) (of_nat 1) (of_nat (x0 + x)) (of_nat (y0 + y)) m)"
    using assms by (intro CGDrawInRegion_rectangle) (simp add: fits_def)
  then have "draws g (\<lambda>r c old. if r = x0 + x \<and> c = y0 + y then color else old) m
    (CGDrawInRegion g color 1 1 (of_nat (x0 + x)) (of_nat (y0 + y)) m)"
    by (auto intro: draws_cong simp: in_rect_def)
  then show ?thesis
    unfolding render_dot_def eq mask_bit [OF assms(4)] using draws_refl [of g m] by (cases "bit (bitmap ! x) y") (simp_all cong: if_cong)
qed

lemma CGRenderStringFromBitMap_draws:
  assumes fit: "fits g x0 y0 x_sz y_sz" and "y_sz \<le> 8"
  shows "draws g (\<lambda>r c old. if in_rect x0 y0 x_sz y_sz r c then if bit (bitmap ! (r - x0)) (c - y0) then color else old else old) m
    (CGRenderStringFromBitMap g bitmap x_sz y_sz (of_nat x0) (of_nat y0) color m)"
proof -
  let ?F = "\<lambda>r c old. if bit (bitmap ! (r - x0)) (c - y0) then color else old"
  have "draws g (\<lambda>r c old. if c = y0 + y \<and> x0 \<le> r \<and> r < x0 + x_sz then ?F r c old else old) m'
      (fold (render_dot g bitmap (of_nat x0) (of_nat y0) color y) [0..<x_sz] m')" if y: "y \<in> set [0..<y_sz]" for y m'
  proof -
    have "draws g (\<lambda>r c old. if r = x0 + x \<and> c = y0 + y then ?F r c old else old) m''
        (render_dot g bitmap (of_nat x0) (of_nat y0) color y x m'')" if "x \<in> set [0..<x_sz]" for x m''
      using assms y that by (intro draws_cong [OF render_dot_draws [OF fit, of x y]]) auto
    then have "draws g (\<lambda>r c old. if \<exists>x \<in> set [0..<x_sz]. r = x0 + x \<and> c = y0 + y then ?F r c old else old) m'
        (fold (render_dot g bitmap (of_nat x0) (of_nat y0) color y) [0..<x_sz] m')"
      by (intro draws_fold) auto
    moreover have "(\<exists>x \<in> set [0..<x_sz]. r = x0 + x \<and> c = y0 + y) \<longleftrightarrow> c = y0 + y \<and> x0 \<le> r \<and> r < x0 + x_sz" for r c
      by (auto intro!: exI [of _ "r - x0"] bexI [of _ "r - x0"])
    ultimately show ?thesis by simp
  qed
  then have "draws g (\<lambda>r c old. if \<exists>y \<in> set [0..<y_sz]. c = y0 + y \<and> x0 \<le> r \<and> r < x0 + x_sz then ?F r c old else old) m
      (CGRenderStringFromBitMap g bitmap x_sz y_sz (of_nat x0) (of_nat y0) color m)"
    unfolding CGRenderStringFromBitMap_def by (intro draws_fold) auto
  moreover have "(\<exists>y \<in> set [0..<y_sz]. c = y0 + y \<and> x0 \<le> r \<and> r < x0 + x_sz) \<longleftrightarrow> in_rect x0 y0 x_sz y_sz r c" for r c
    by (auto simp: in_rect_def intro!: bexI [of _ "c - y0"])
  ultimately show ?thesis by simp
qed

text \<open>The dots of a text: eight columns for each character.\<close>

definition text_dot :: "u8 list \<Rightarrow> nat \<Rightarrow> nat \<Rightarrow> bool" where
  "text_dot s line column \<longleftrightarrow> bit (cFontBitmap ! unat (s ! (column div FONT_SIZE_Y)) ! line) (column mod FONT_SIZE_Y)"

lemma CGDrawString_loop_draws:
  assumes "fits g x0 y0 8 (8 * length s)"
    and "\<And>k. k < length s \<Longrightarrow> m (str + i + of_nat k) = s ! k" "\<And>b. b \<in> set s \<Longrightarrow> b \<noteq> 0 \<and> b < 0x80"
    and "m (str + i + of_nat (length s)) = 0"
    and "\<And>k. k \<le> length s \<Longrightarrow> \<not> in_range (str + i + of_nat k) (f_The g) (screen_bytes g)"
  shows "\<exists>m'. CGDrawString_loop g str i (of_nat x0) (of_nat y0) color m = Some (Inr m')
    \<and> draws g (\<lambda>r c old. if in_rect x0 y0 8 (8 * length s) r c \<and> text_dot s (r - x0) (c - y0) then color else old) m m'"
  using assms
proof (induction s arbitrary: i y0 m)
  case Nil
  then show ?case by (auto simp: CGDrawString_loop.simps in_rect_def draws_def)
next
  case (Cons b s)
  define m1 where "m1 = CGRenderStringFromBitMap g (cFontBitmap ! unat b) FONT_SIZE_X FONT_SIZE_Y (of_nat x0) (of_nat y0) color m"
  have b: "m (str + i) = b" "b \<noteq> 0" "b < 0x80" using Cons.prems(2) [of 0] Cons.prems(3) [of b] by simp_all
  have d1: "draws g (\<lambda>r c old. if in_rect x0 y0 8 8 r c then if bit (cFontBitmap ! unat b ! (r - x0)) (c - y0) then color else old else old) m m1"
    using CGRenderStringFromBitMap_draws [of g x0 y0 8 8] Cons.prems(1) by (simp add: m1_def FONT_SIZE_X_def FONT_SIZE_Y_def fits_def)
  have keep: "m1 (str + i + of_nat k) = m (str + i + of_nat k)" if "k \<le> length (b # s)" for k
    using draws_same_outside [OF d1] Cons.prems(5) [OF that] by (simp add: same_outside_def)
  have shift: "str + (i + 1) + of_nat k = str + i + of_nat (Suc k)" for k by (simp add: ac_simps)
  have "\<exists>m'. CGDrawString_loop g str (i + 1) (of_nat x0) (of_nat (y0 + 8)) color m1 = Some (Inr m')
    \<and> draws g (\<lambda>r c old. if in_rect x0 (y0 + 8) 8 (8 * length s) r c \<and> text_dot s (r - x0) (c - (y0 + 8)) then color else old) m1 m'"
    using Cons.prems by (intro Cons.IH) (simp_all only: shift keep fits_def length_Cons list.set_intros nth_Cons_Suc, auto)
  then obtain m' where m': "CGDrawString_loop g str (i + 1) (of_nat x0) (of_nat (y0 + 8)) color m1 = Some (Inr m')"
    and d2: "draws g (\<lambda>r c old. if in_rect x0 (y0 + 8) 8 (8 * length s) r c \<and> text_dot s (r - x0) (c - (y0 + 8))
      then color else old) m1 m'" by blast
  have "CGDrawString_loop g str i (of_nat x0) (of_nat y0) color m = Some (Inr m')"
    using b m' by (subst CGDrawString_loop.simps) (simp add: m1_def FONT_SIZE_Y_def linorder_not_le)
  moreover have "draws g (\<lambda>r c old. if in_rect x0 y0 8 (8 * length (b # s)) r c \<and> text_dot (b # s) (r - x0) (c - y0)
      then color else old) m m'"
  proof (rule draws_cong [OF draws_trans [OF d1 d2]])
    fix r c old
    have first: "text_dot (b # s) (r - x0) (c - y0) \<longleftrightarrow> bit (cFontBitmap ! unat b ! (r - x0)) (c - y0)" if "c < y0 + 8"
      using that by (simp add: text_dot_def FONT_SIZE_Y_def)
    have later: "text_dot (b # s) (r - x0) (c - y0) \<longleftrightarrow> text_dot s (r - x0) (c - (y0 + 8))" if c: "y0 + 8 \<le> c"
    proof -
      obtain d where "c = y0 + 8 + d" using le_Suc_ex [OF c] by blast
      moreover have "(8 + d) div 8 = Suc (d div 8)" by presburger
      ultimately show ?thesis by (simp add: text_dot_def FONT_SIZE_Y_def)
    qed
    show "(if in_rect x0 (y0 + 8) 8 (8 * length s) r c \<and> text_dot s (r - x0) (c - (y0 + 8)) then color
        else if in_rect x0 y0 8 8 r c then if bit (cFontBitmap ! unat b ! (r - x0)) (c - y0) then color else old else old)
      = (if in_rect x0 y0 8 (8 * length (b # s)) r c \<and> text_dot (b # s) (r - x0) (c - y0) then color else old)"
      using first later by (cases "c < y0 + 8") (auto simp: in_rect_def)
  qed
  ultimately show ?case by blast
qed

text \<open>
  Property C13. \<open>CGDrawString\<close> draws a text of seven-bit characters that is stored outside the screen and fits it: it returns,
  the dot in line \<open>r\<close> and column \<open>c\<close> takes the colour exactly when the font has a dot for character \<open>(c - y) div 8\<close>
  in line \<open>r - x\<close> and column \<open>(c - y) mod 8\<close>, and nothing else changes.
\<close>

theorem CGDrawString_draws_text:
  assumes "fits g x y 8 (8 * length s)"
    and "load_bytes m str (length s) = s" "\<forall>b \<in> set s. b \<noteq> 0 \<and> b < 0x80" "m (str + of_nat (length s)) = 0"
    and "\<forall>k \<le> length s. \<not> in_range (str + of_nat k) (f_The g) (screen_bytes g)"
  shows "\<exists>m'. CGDrawString g str (of_nat x) (of_nat y) color m = Some (Inr m')
    \<and> draws g (\<lambda>r c old. if in_rect x y 8 (8 * length s) r c \<and> text_dot s (r - x) (c - y) then color else old) m m'"
proof -
  have "m (str + of_nat k) = s ! k" if "k < length s" for k
    using that arg_cong [OF assms(2), of "\<lambda>l. l ! k"] by (simp add: load_bytes_nth)
  then show ?thesis
    unfolding CGDrawString_def using assms CGDrawString_loop_draws [of g x y s m str 0 color] by simp
qed

text \<open>A small screen, sixteen dots wide and eight lines high, and the text \<open>Hi\<close> below it.\<close>

definition small_screen :: gop where
  "small_screen = \<lparr>f_The = 0x1000, f_Size = 512, f_Width = 8, f_Height = 16, f_PixelFormat = 0, f_PixelPerLine = 16\<rparr>"

definition small_text :: mem where
  "small_text = (\<lambda>_. 0)(0x800 := 0x48, 0x801 := 0x69)"

lemma small_screen_facts [simp]:
  "fits small_screen x y lines columns \<longleftrightarrow> x + lines \<le> 8 \<and> y + columns \<le> 16"
  "f_The small_screen = 0x1000" "screen_bytes small_screen = 512"
  by (simp_all add: fits_def screen_ok_def screen_bytes_def small_screen_def)

lemma below_screen: "k < 0x800 \<Longrightarrow> \<not> in_range (0x800 + of_nat k) (f_The small_screen) (screen_bytes small_screen)"
  using in_range_off [of "0x800 + k" "0x1000" 512 0] by simp

theorem CGDrawBitMapInRegion_copies_witness:
  "draws small_screen (\<lambda>r c old. if in_rect 4 2 2 3 r c then picture small_text 0x800 3 (r - 4) (c - 2) else old) small_text
       (fst (CGDrawBitMapInRegion small_screen 0x800 2 3 4 2 small_text))"
  using CGDrawBitMapInRegion_copies [of small_screen 4 2 2 3 "0x800" small_text] below_screen by simp

theorem CGDrawString_draws_text_witness:
  "\<exists>m'. CGDrawString small_screen 0x800 0 0 5 small_text = Some (Inr m')
    \<and> draws small_screen (\<lambda>r c old. if in_rect 0 0 8 16 r c \<and> text_dot [0x48, 0x69] r c then 5 else old) small_text m'"
proof -
  have "load_bytes small_text 0x800 (Suc (Suc 0)) = [0x48, 0x69]" "small_text 0x802 = 0"
    by (simp_all add: small_text_def)
  then show ?thesis
    using CGDrawString_draws_text [of small_screen 0 0 "[0x48, 0x69]" small_text "0x800" 5] below_screen by simp
qed

end
