(* ===== verification/Boot_Main.thy ===== *)
theory Boot_Main
  imports Boot_Disk Framebuffer
begin

text \<open>
  The entry point of the boot loader, \<^verbatim>\<open>ZBAKit/src/HEL/AMD64/BootMain.cc\<close>, and the readers it opens
  (\<^verbatim>\<open>BootFileReader.cc\<close>): the choice of the graphics mode and the screen it hands over, the search of the firmware
  tables and of free memory, and loading the kernel from a file. The firmware's protocols are arguments. Messages, on the
  console and on the screen, are left out.
\<close>

section \<open>The screen\<close>

record mode_info =
  HorizontalResolution :: u32
  VerticalResolution :: u32
  info_PixelFormat :: u32
  PixelsPerScanLine :: u32

text \<open>
  The graphics protocol: \<open>LocateProtocol\<close> says whether there is one, \<open>QueryMode\<close> describes a mode, \<open>SetMode\<close> selects it;
  \<open>ModeInfo\<close>, \<open>FrameBufferBase\<close> and \<open>FrameBufferSize\<close> belong to the selected mode.
\<close>

record 'p efi_gop =
  LocateProtocol :: "'p \<Rightarrow> bool \<times> 'p"
  MaxMode :: "'p \<Rightarrow> u32"
  QueryMode :: "u32 \<Rightarrow> 'p \<Rightarrow> mode_info \<times> 'p"
  SetMode :: "u32 \<Rightarrow> 'p \<Rightarrow> 'p"
  ModeInfo :: "'p \<Rightarrow> mode_info"
  FrameBufferBase :: "'p \<Rightarrow> u64"
  FrameBufferSize :: "'p \<Rightarrow> u64"

definition kExpectedWidth :: u32 where "kExpectedWidth = 1280"
definition kExpectedHeight :: u32 where "kExpectedHeight = 720"

partial_function (option) boot_init_fb_loop :: "'p efi_gop \<Rightarrow> u64 \<Rightarrow> 'p \<Rightarrow> (bool \<times> 'p) option" where
  "boot_init_fb_loop G i p =
     (if i < ucast (MaxMode G p) then
        let (info, p1) = QueryMode G (ucast i) p in
        if HorizontalResolution info = kExpectedWidth \<and> VerticalResolution info = kExpectedHeight
        then Some (True, SetMode G (ucast i) p1)
        else boot_init_fb_loop G (i + 1) p1
      else Some (False, p))"

definition boot_init_fb :: "'p efi_gop \<Rightarrow> 'p \<Rightarrow> (bool \<times> 'p) option" where
  "boot_init_fb G p =
     (case LocateProtocol G p of
        (False, p1) \<Rightarrow> Some (False, p1)
      | (True, p1) \<Rightarrow> boot_init_fb_loop G 0 p1)"

text \<open>The screen in the handover structure: the vertical resolution is stored as the width.\<close>

definition Main_gop :: "'p efi_gop \<Rightarrow> 'p \<Rightarrow> gop" where
  "Main_gop G p =
     \<lparr>f_The = FrameBufferBase G p, f_Size = FrameBufferSize G p,
      f_Width = VerticalResolution (ModeInfo G p), f_Height = HorizontalResolution (ModeInfo G p),
      f_PixelFormat = info_PixelFormat (ModeInfo G p), f_PixelPerLine = PixelsPerScanLine (ModeInfo G p)\<rparr>"

definition Main_clear :: "gop \<Rightarrow> mem \<Rightarrow> mem" where
  "Main_clear g m = CGDrawInRegion g (RGB 0x00 0x00 0x00) (ucast (f_Height g)) (ucast (f_Width g)) 0 0 m"

section \<open>Tables and memory\<close>

definition is_rsd_ptr :: "mem \<Rightarrow> addr \<Rightarrow> bool" where
  "is_rsd_ptr m t \<longleftrightarrow> m t = 0x52 \<and> m (t + 1) = 0x53 \<and> m (t + 2) = 0x44 \<and> m (t + 3) = 0x20
     \<and> m (t + 4) = 0x50 \<and> m (t + 5) = 0x54 \<and> m (t + 6) = 0x52 \<and> m (t + 7) = 0x20"

text \<open>The loop over the configuration tables, with the pointer of the handover structure.\<close>

fun Main_vendor :: "mem \<Rightarrow> addr list \<Rightarrow> addr \<Rightarrow> addr" where
  "Main_vendor m [] f_VendorPtr = f_VendorPtr"
| "Main_vendor m (vendor_table # ts) f_VendorPtr =
     (if is_rsd_ptr m vendor_table then vendor_table else Main_vendor m ts f_VendorPtr)"

definition EfiConventionalMemory :: u32 where "EfiConventionalMemory = 7"

text \<open>The search of a usable region has no bound: the kinds of the regions are those of the memory map.\<close>

partial_function (option) Main_lookup :: "(u64 \<Rightarrow> u32) \<Rightarrow> u64 \<Rightarrow> u64 option" where
  "Main_lookup Kind lookup_index =
     (if Kind lookup_index \<noteq> EfiConventionalMemory then Main_lookup Kind (lookup_index + 1) else Some lookup_index)"

definition kHandoverBitMapSz :: u64 where "kHandoverBitMapSz = 0x100000000"

text \<open>Allocating the bitmap is tried until it succeeds; a pointer a failed attempt leaves is released.\<close>

record 'p efi_pool =
  AllocateLoaderData :: "u64 \<Rightarrow> addr \<Rightarrow> 'p \<Rightarrow> bool \<times> addr \<times> 'p"
  FreeLoaderData :: "addr \<Rightarrow> 'p \<Rightarrow> 'p"

partial_function (option) Main_bitmap :: "'p efi_pool \<Rightarrow> addr \<Rightarrow> 'p \<Rightarrow> (addr \<times> 'p) option" where
  "Main_bitmap A f_BitMapStart p =
     (let (ok, start, p1) = AllocateLoaderData A kHandoverBitMapSz f_BitMapStart p in
      if ok then Some (start, p1)
      else if start \<noteq> null then Main_bitmap A null (FreeLoaderData A start p1)
      else Main_bitmap A start p1)"

section \<open>Readers\<close>

datatype boot_fault = NullPointer | Uninitialised | PathTooLong | Ended boot_end

text \<open>
  The file protocol: a device of the image, its file system, the volume, and files by their path; \<open>None\<close> is a status other
  than \<open>kEfiOk\<close>, after which the pointer keeps its value.
\<close>

record 'v efi_fs =
  HandleImage :: "'v \<Rightarrow> addr option \<times> 'v"
  HandleVolume :: "addr \<Rightarrow> 'v \<Rightarrow> addr option \<times> 'v"
  OpenVolume :: "addr \<Rightarrow> 'v \<Rightarrow> addr option \<times> 'v"
  OpenFile :: "addr \<Rightarrow> u16 list \<Rightarrow> 'v \<Rightarrow> addr option \<times> 'v"
  CloseFile :: "addr \<Rightarrow> 'v \<Rightarrow> 'v"
  FreePool :: "addr \<Rightarrow> 'v \<Rightarrow> 'v"

text \<open>The remaining members; \<open>mRootFs\<close> has no initialiser.\<close>

record file_reader = BFileReader +
  mPath :: "u16 list"
  mFile :: addr
  mRootFs :: "addr option"

definition reader_path :: "u16 list option \<Rightarrow> u16 list \<Rightarrow> boot_fault + u16 list" where
  "reader_path path old =
     (case path of
        None \<Rightarrow> Inr old
      | Some s \<Rightarrow> if unat kPathLen \<le> length s then Inl PathTooLong else Inr (s @ 0 # drop (Suc (length s)) old))"

definition BFileReader_open :: "'v efi_fs \<Rightarrow> file_reader \<Rightarrow> 'v \<Rightarrow> boot_fault + file_reader \<times> 'v" where
  "BFileReader_open V r v =
     (case HandleImage V v of
        (None, v1) \<Rightarrow> Inl NullPointer
      | (Some device, v1) \<Rightarrow>
          (case HandleVolume V device v1 of
             (None, v2) \<Rightarrow> Inr (r\<lparr>mErrorCode := kNotSupported\<rparr>, v2)
           | (Some efp, v2) \<Rightarrow>
               (case OpenVolume V efp v2 of
                  (None, v3) \<Rightarrow> Inr (r\<lparr>mErrorCode := kNotSupported\<rparr>, v3)
                | (Some root, v3) \<Rightarrow>
                    (case OpenFile V root (takeWhile (\<lambda>c. c \<noteq> 0) (mPath r)) v3 of
                       (None, v4) \<Rightarrow> Inr (r\<lparr>mErrorCode := kNotSupported, mRootFs := Some root\<rparr>, CloseFile V root v4)
                     | (Some file, v4) \<Rightarrow>
                         Inr (r\<lparr>mErrorCode := kOperationOkay, mSizeFile := 0, mFile := file, mRootFs := Some root\<rparr>, v4)))))"

definition BFileReader_new :: "'v efi_fs \<Rightarrow> u16 list option \<Rightarrow> u16 list \<Rightarrow> 'v \<Rightarrow> boot_fault + file_reader \<times> 'v" where
  "BFileReader_new V path old v =
     (case reader_path path old of
        Inl e \<Rightarrow> Inl e
      | Inr p \<Rightarrow> BFileReader_open V
          \<lparr>mErrorCode = kOperationOkay, mBlob = null, mSizeFile = 0, mPath = p, mFile = null, mRootFs = None\<rparr> v)"

text \<open>\<open>BSetMem\<close> ends at the first zero of the path.\<close>

definition BFileReader_delete :: "'v efi_fs \<Rightarrow> file_reader \<Rightarrow> 'v \<Rightarrow> boot_fault + file_reader \<times> 'v" where
  "BFileReader_delete V r v =
     (let v1 = (if mFile r \<noteq> null then CloseFile V (mFile r) v else v) in
      case mRootFs r of
        None \<Rightarrow> Inl Uninitialised
      | Some root \<Rightarrow>
          let v2 = (if root \<noteq> null then CloseFile V root v1 else v1);
              v3 = (if mBlob r \<noteq> null then FreePool V (mBlob r) v2 else v2);
              p = mPath r
          in Inr (r\<lparr>mFile := null, mRootFs := Some null, mBlob := null,
                    mPath := map (\<lambda>_. 0) (takeWhile (\<lambda>c. c \<noteq> 0) p) @ dropWhile (\<lambda>c. c \<noteq> 0) p\<rparr>, v3))"

text \<open>Reading through \<open>mFile\<close>, whose operations are \<open>F\<close>.\<close>

definition reader_ReadAll ::
    "'f efi_file \<Rightarrow> u64 \<Rightarrow> u64 \<Rightarrow> addr \<Rightarrow> file_reader \<Rightarrow> mem \<Rightarrow> 'f \<Rightarrow> (boot_fault + file_reader \<times> mem \<times> 'f) option" where
  "reader_ReadAll F readUntil chunkToRead out_address r m f =
     (if mFile r = null \<and> (mBlob r = null \<or> 0 < readUntil) then Some (Inl NullPointer)
      else map_option (map_sum Ended (\<lambda>(b, m1, f1). (r\<lparr>mErrorCode := mErrorCode b, mBlob := mBlob b, mSizeFile := mSizeFile b\<rparr>, m1, f1)))
             (ReadAll F readUntil chunkToRead out_address (BFileReader.truncate r) m f))"

text \<open>Loading the kernel: the file \<open>minoskrnl.exe\<close> is read, and a thread is made of it.\<close>

definition kMinoskrnl :: "u16 list" where
  "kMinoskrnl = [0x6D, 0x69, 0x6E, 0x6F, 0x73, 0x6B, 0x72, 0x6E, 0x6C, 0x2E, 0x65, 0x78, 0x65]"

definition Main_kernel ::
    "'v efi_fs \<Rightarrow> 'f efi_file \<Rightarrow> 'e efi \<Rightarrow> addr \<Rightarrow> addr \<Rightarrow> u16 list \<Rightarrow> mem \<Rightarrow> 'v \<Rightarrow> 'f \<Rightarrow> 'e
     \<Rightarrow> (boot_fault + file_reader \<times> BThread \<times> mem) option" where
  "Main_kernel V F E nText nLdr old m v f e =
     (case BFileReader_new V (Some kMinoskrnl) old v of
        Inl x \<Rightarrow> Some (Inl x)
      | Inr (r, v1) \<Rightarrow>
          Option.bind (reader_ReadAll F 0 4096 null r m f) (\<lambda>q. case q of
            Inl x \<Rightarrow> Some (Inl x)
          | Inr (r1, m1, f1) \<Rightarrow>
              if mBlob r1 \<noteq> null
              then map_option (map_sum Ended (\<lambda>(t, m2, e1). (r1, t, m2))) (BThread_new E nText nLdr (mBlob r1) m1 e)
              else Some (Inl (Ended EfiStop))))"

section \<open>A graphics card\<close>

text \<open>The documented behaviour: modes are numbered from zero, querying leaves the card alone, the selected mode is the one set.\<close>

record card =
  modes :: "mode_info list"
  current :: nat
  card_base :: u64
  card_size :: u64

definition card_gop :: "card efi_gop" where
  "card_gop = \<lparr>LocateProtocol = (\<lambda>c. (True, c)), MaxMode = (\<lambda>c. of_nat (length (modes c))),
     QueryMode = (\<lambda>i c. (modes c ! unat i, c)), SetMode = (\<lambda>i c. c\<lparr>current := unat i\<rparr>),
     ModeInfo = (\<lambda>c. modes c ! current c), FrameBufferBase = card_base, FrameBufferSize = card_size\<rparr>"

definition expected_mode :: "mode_info \<Rightarrow> bool" where
  "expected_mode info \<longleftrightarrow> HorizontalResolution info = kExpectedWidth \<and> VerticalResolution info = kExpectedHeight"

lemma unat_ucast_mode: "i < 2 ^ 32 \<Longrightarrow> unat (ucast (of_nat i :: u64) :: u32) = i"
  by (simp add: unsigned_ucast_eq unsigned_of_nat take_bit_nat_eq_self)

lemma boot_init_fb_loop_step:
  assumes "length (modes c) < 2 ^ 32" "i \<le> length (modes c)"
  shows "boot_init_fb_loop card_gop (of_nat i) c =
    (if i < length (modes c) then
       if expected_mode (modes c ! i) then Some (True, c\<lparr>current := i\<rparr>) else boot_init_fb_loop card_gop (of_nat (Suc i)) c
     else Some (False, c))"
proof -
  have "unat (ucast (of_nat (length (modes c)) :: u32) :: u64) = length (modes c)"
    using assms(1) by (simp add: unat_ucast_u32_u64 unat_of_nat)
  moreover have "unat (of_nat i :: u64) = i" using assms by (intro unat_of_nat_addr) simp
  ultimately have "(of_nat i :: u64) < ucast (MaxMode card_gop c) \<longleftrightarrow> i < length (modes c)"
    by (simp add: word_less_nat_alt card_gop_def)
  moreover have "unat (ucast (of_nat i :: u64) :: u32) = i" using assms by (intro unat_ucast_mode) simp
  ultimately show ?thesis
    by (subst boot_init_fb_loop.simps) (simp add: card_gop_def expected_mode_def add.commute)
qed

lemma boot_init_fb_finds:
  assumes small: "length (modes c) < 2 ^ 32" and i: "i < length (modes c)" "expected_mode (modes c ! i)"
    and first: "\<And>j. j < i \<Longrightarrow> \<not> expected_mode (modes c ! j)"
  shows "boot_init_fb card_gop c = Some (True, c\<lparr>current := i\<rparr>)"
proof -
  have "boot_init_fb_loop card_gop (of_nat j) c = Some (True, c\<lparr>current := i\<rparr>)" if "j \<le> i" for j
    using that
  proof (induction rule: inc_induct)
    case base
    show ?case using boot_init_fb_loop_step [OF small, of i] i by simp
  next
    case (step j)
    then show ?case using boot_init_fb_loop_step [OF small, of j] i first [of j] by simp
  qed
  from this [of 0] show ?thesis by (simp add: boot_init_fb_def card_gop_def)
qed

text \<open>
  Property C18. On a card that offers the mode of 1280 by 720 dots the boot loader selects its first such mode and hands it over, and its clearing
  of the screen blackens exactly the 1280 visible dots of each of the 720 lines: the exchange of width and height in the
  handover structure and the one in the drawing macro cancel.
\<close>

theorem boot_screen_cleared:
  assumes "length (modes c) < 2 ^ 32" "i < length (modes c)" "expected_mode (modes c ! i)" "\<forall>j < i. \<not> expected_mode (modes c ! j)"
    and "1280 \<le> unat (PixelsPerScanLine (modes c ! i))" "4 * (unat (PixelsPerScanLine (modes c ! i)) * 720) \<le> 2 ^ 31"
  shows "\<exists>c'. boot_init_fb card_gop c = Some (True, c') \<and> current c' = i
    \<and> draws (Main_gop card_gop c') (\<lambda>r k old. if k < 1280 then 0 else old) m (Main_clear (Main_gop card_gop c') m)"
proof -
  define g where "g = Main_gop card_gop (c\<lparr>current := i\<rparr>)"
  have g: "f_Width g = 720" "f_Height g = 1280" "f_PixelPerLine g = PixelsPerScanLine (modes c ! i)"
    using assms(3) by (simp_all add: g_def Main_gop_def card_gop_def expected_mode_def kExpectedWidth_def kExpectedHeight_def)
  have fit: "fits g 0 0 720 1280" using assms(5,6) by (simp add: fits_def screen_ok_def screen_bytes_def g)
  have "draws g (\<lambda>r k old. if in_rect 0 0 720 1280 r k then 0 else old) m (Main_clear g m)"
    using CGDrawInRegion_rectangle [OF fit, of 0 m] by (simp add: Main_clear_def g RGB_def)
  then have "draws g (\<lambda>r k old. if k < 1280 then 0 else old) m (Main_clear g m)"
    by (rule draws_cong) (simp add: in_rect_def visible_def g)
  moreover have "boot_init_fb card_gop c = Some (True, c\<lparr>current := i\<rparr>)"
    using assms(1-4) by (intro boot_init_fb_finds) simp_all
  ultimately show ?thesis by (intro exI [of _ "c\<lparr>current := i\<rparr>"]) (simp add: g_def)
qed

definition card_example :: card where
  "card_example = \<lparr>modes = [\<lparr>HorizontalResolution = 640, VerticalResolution = 480, info_PixelFormat = 1, PixelsPerScanLine = 640\<rparr>,
       \<lparr>HorizontalResolution = 1280, VerticalResolution = 720, info_PixelFormat = 1, PixelsPerScanLine = 1280\<rparr>],
     current = 0, card_base = 0x80000000, card_size = 0x384000\<rparr>"

theorem boot_screen_cleared_witness:
  "\<exists>c'. boot_init_fb card_gop card_example = Some (True, c') \<and> current c' = 1
    \<and> draws (Main_gop card_gop c') (\<lambda>r k old. if k < 1280 then 0 else old) (\<lambda>_. 0) (Main_clear (Main_gop card_gop c') (\<lambda>_. 0))"
  using boot_screen_cleared [of card_example 1 "\<lambda>_. 0"]
  by (simp add: card_example_def expected_mode_def kExpectedWidth_def kExpectedHeight_def)

section \<open>Files that are missing, and files that are there\<close>

lemma takeWhile_path: "0 \<notin> set s \<Longrightarrow> takeWhile (\<lambda>c. c \<noteq> 0) (s @ 0 # rest) = (s :: u16 list)"
  by (induction s) auto

lemma BFileReader_new_path:
  assumes "length s < 256" "0 \<notin> set s"
  shows "\<exists>r. BFileReader_new V (Some s) old v = BFileReader_open V r v \<and> mBlob r = null \<and> mFile r = null
    \<and> takeWhile (\<lambda>c. c \<noteq> 0) (mPath r) = s"
  using assms
  by (intro exI [of _ "\<lparr>mErrorCode = kOperationOkay, mBlob = null, mSizeFile = 0, mPath = s @ 0 # drop (Suc (length s)) old,
      mFile = null, mRootFs = None\<rparr>"]) (simp add: BFileReader_new_def reader_path_def kPathLen_def takeWhile_path)

text \<open>
  Property C28. A file that does not exist: the constructor notes the error and closes the volume, reading through the reader then
  dereferences a null pointer, so that the callers' test for a missing blob is never reached, and the destructor closes the
  volume a second time.
\<close>

theorem BFileReader_missing_file:
  assumes "HandleImage V v = (Some device, v1)" "HandleVolume V device v1 = (Some efp, v2)" "OpenVolume V efp v2 = (Some root, v3)"
    and "OpenFile V root s v3 = (None, v4)" "root \<noteq> null" "length s < 256" "0 \<notin> set s"
  shows "\<exists>r. BFileReader_new V (Some s) old v = Inr (r, CloseFile V root v4) \<and> mErrorCode r = kNotSupported
    \<and> reader_ReadAll F 0 chunk null r m f = Some (Inl NullPointer)
    \<and> (\<exists>r'. BFileReader_delete V r w = Inr (r', CloseFile V root w))"
proof -
  obtain r where r: "BFileReader_new V (Some s) old v = BFileReader_open V r v" "mBlob r = null" "mFile r = null"
      "takeWhile (\<lambda>c. c \<noteq> 0) (mPath r) = s"
    using BFileReader_new_path [OF assms(6,7), of V old v] by blast
  then show ?thesis
    using assms(1-5)
    by (intro exI [of _ "r\<lparr>mErrorCode := kNotSupported, mRootFs := Some root\<rparr>"])
      (simp add: BFileReader_open_def reader_ReadAll_def BFileReader_delete_def Let_def)
qed

text \<open>A volume with one file: paths and the handles that were closed.\<close>

definition one_file :: "u16 list \<Rightarrow> (addr list) efi_fs" where
  "one_file s = \<lparr>HandleImage = (\<lambda>v. (Some 1, v)), HandleVolume = (\<lambda>h v. (Some 2, v)), OpenVolume = (\<lambda>h v. (Some 3, v)),
     OpenFile = (\<lambda>h p v. (if p = s then Some 4 else None, v)), CloseFile = (\<lambda>h v. v @ [h]), FreePool = (\<lambda>h v. v)\<rparr>"

theorem BFileReader_missing_file_witness:
  "\<exists>r. BFileReader_new (one_file [0x61]) (Some [0x62]) [] [] = Inr (r, [3]) \<and> mErrorCode r = kNotSupported
    \<and> reader_ReadAll (plain_firmware True 0x1000) 0 4096 null r (\<lambda>_. 0) \<lparr>content = [], position = 0\<rparr> = Some (Inl NullPointer)
    \<and> (\<exists>r'. BFileReader_delete (one_file [0x61]) r [3] = Inr (r', [3, 3]))"
  using BFileReader_missing_file [of "one_file [0x61]" "[]" 1 "[]" 2 "[]" 3 "[]" "[0x62]" "[]" "[]"
      "plain_firmware True 0x1000" 4096 "\<lambda>_. 0" "\<lparr>content = [], position = 0\<rparr>" "[3]"]
  by (simp add: one_file_def)



section \<open>Searches\<close>

text \<open>The first table that is the root pointer of ACPI is handed over; without one the pointer stays as it is.\<close>

lemma Main_vendor_first:
  "Main_vendor m ts p = (case find (is_rsd_ptr m) ts of Some t \<Rightarrow> t | None \<Rightarrow> p)"
  by (induction ts) simp_all

text \<open>The search of free memory ends at the first free region, if the map has one.\<close>

lemma Main_lookup_first:
  assumes "Kind (i + of_nat n) = EfiConventionalMemory" "\<And>j. j < n \<Longrightarrow> Kind (i + of_nat j) \<noteq> EfiConventionalMemory"
  shows "Main_lookup Kind i = Some (i + of_nat n)"
  using assms
proof (induction n arbitrary: i)
  case 0
  then show ?case by (subst Main_lookup.simps) simp
next
  case (Suc n)
  have "Main_lookup Kind (i + 1) = Some (i + 1 + of_nat n)"
    using Suc.prems(1) Suc.prems(2) [of "Suc _"] by (intro Suc.IH) (simp_all add: add.assoc)
  then show ?case using Suc.prems(2) [of 0] by (subst Main_lookup.simps) (simp add: add.assoc)
qed

end
