(* ===== verification/Boot_Numbers.thy ===== *)
theory Boot_Numbers
  imports ZKA_Prelude "HOL-Library.Monad_Syntax"
begin

text \<open>
  Reading numbers in the boot loader: \<open>StringToLong\<close> and its helpers of \<^verbatim>\<open>ZBAKit/BootKit/Support.h\<close>. The loader is
  built for a target whose \<open>long\<close> has 32 bits. A scan that never meets a character that ends it is \<open>None\<close>.
\<close>

section \<open>The routines\<close>

definition kLongMax :: int where "kLongMax = 2 ^ 31 - 1"
definition kLongMin :: int where "kLongMin = - (2 ^ 31)"

definition IsSpace :: "u8 \<Rightarrow> bool" where "IsSpace c = (c = 0x20)"

primrec StringNCompare_loop :: "mem \<Rightarrow> addr \<Rightarrow> addr \<Rightarrow> u64 \<Rightarrow> nat \<Rightarrow> nat" where
  "StringNCompare_loop m destination source i 0 = 0"
| "StringNCompare_loop m destination source i (Suc n) =
     (if m (source + i) \<noteq> m (destination + i) then 1 else 0) + StringNCompare_loop m destination source (i + 1) n"

definition StringNCompare :: "mem \<Rightarrow> addr \<Rightarrow> addr \<Rightarrow> int \<Rightarrow> nat" where
  "StringNCompare m destination source len = StringNCompare_loop m destination source 0 (nat len)"

partial_function (option) skip_spaces :: "mem \<Rightarrow> addr \<Rightarrow> addr option" where
  "skip_spaces m p = (if IsSpace (m p) then skip_spaces m (p + 1) else Some p)"

text \<open>The value of a character; characters above 127 are negative, those between the digits and the letters have none.\<close>

definition digit_of :: "u8 \<Rightarrow> int option" where
  "digit_of ch =
     (let c = sint ch in
      if c \<ge> 0x41 then Some (((c - 0x41) AND NOT 0x20) + 10)
      else if c \<le> 0x39 then Some (c - 0x30)
      else None)"

text \<open>The prefix of the digits: the position after it, where \<open>endptr\<close> points so far, and the base.\<close>

definition number_prefix :: "mem \<Rightarrow> addr \<Rightarrow> addr \<Rightarrow> int \<Rightarrow> addr \<times> addr \<times> int" where
  "number_prefix m nptr p base =
     (if m p = 0x30 then
        let q = p + 1; ch = m q; hex = (ch = 0x58 \<or> ch = 0x78); bin = (ch = 0x42 \<or> ch = 0x62) in
        if base = 16 \<and> hex then (q + 1, q, base)
        else if base = 2 \<and> bin then (q + 1, q, base)
        else if base = 0 then if hex then (q + 1, q, 16) else if bin then (q + 1, q, 2) else (q, q, 8)
        else (q, q, base)
      else (p, nptr, if base = 0 then 10 else base))"

partial_function (option) number_loop ::
    "mem \<Rightarrow> bool \<Rightarrow> int \<Rightarrow> u32 \<Rightarrow> int \<Rightarrow> addr \<Rightarrow> addr \<Rightarrow> u32 \<Rightarrow> bool \<Rightarrow> (addr \<times> u32 \<times> bool) option" where
  "number_loop m endptr base cutoff cutlim p endp n overflow =
     (case digit_of (m p) of
        None \<Rightarrow> Some (endp, n, overflow)
      | Some c \<Rightarrow>
          if c < 0 \<or> c \<ge> base then Some (endp, n, overflow)
          else if overflow then
            if endptr then number_loop m endptr base cutoff cutlim (p + 1) (p + 1) n overflow else Some (p + 1, n, overflow)
          else if n > cutoff \<or> n = cutoff \<and> c > cutlim
          then number_loop m endptr base cutoff cutlim (p + 1) (p + 1) n True
          else number_loop m endptr base cutoff cutlim (p + 1) (p + 1) (n * word_of_int base + word_of_int c) overflow)"

text \<open>The result is the number and, when \<open>endptr\<close> is not null, what is stored there.\<close>

definition StringToLong :: "mem \<Rightarrow> addr \<Rightarrow> bool \<Rightarrow> int \<Rightarrow> (u32 \<times> addr option) option" where
  "StringToLong m nptr endptr base =
     (if base < 0 \<or> base = 1 \<or> base > 36 then Some (0, None)
      else do {
        p \<leftarrow> skip_spaces m nptr;
        let is_neg = (m p = 0x2D);
        let p1 = (if m p = 0x2B \<or> m p = 0x2D then p + 1 else p);
        let (p2, endp, b) = number_prefix m nptr p1 base;
        let limit = (if is_neg then - kLongMin else kLongMax);
        (endp', n, overflow) \<leftarrow> number_loop m endptr b (word_of_int (limit div b)) (limit mod b) p2 endp 0 False;
        Some (if overflow then word_of_int (if is_neg then kLongMin else kLongMax) else if is_neg then - n else n,
              if endptr then Some endp' else None) })"

section \<open>Digits\<close>

text \<open>The value of a list of digits, and the text of a number at an address.\<close>

definition digits_value :: "int \<Rightarrow> int \<Rightarrow> int list \<Rightarrow> int" where
  "digits_value base n ds = foldl (\<lambda>v d. v * base + d) n ds"

fun digits_at :: "mem \<Rightarrow> addr \<Rightarrow> int \<Rightarrow> int list \<Rightarrow> bool" where
  "digits_at m p base [] = (case digit_of (m p) of None \<Rightarrow> True | Some c \<Rightarrow> c < 0 \<or> c \<ge> base)"
| "digits_at m p base (d # ds) = (digit_of (m p) = Some d \<and> 0 \<le> d \<and> d < base \<and> digits_at m (p + 1) base ds)"

lemma digits_value_ge:
  "2 \<le> base \<Longrightarrow> 0 \<le> n \<Longrightarrow> digits_at m p base ds \<Longrightarrow> n \<le> digits_value base n ds"
proof (induction ds arbitrary: n p)
  case (Cons d ds)
  have "n * 1 \<le> n * base" using Cons.prems by (intro mult_left_mono) simp_all
  then have "n \<le> n * base + d" using Cons.prems by simp
  also have "\<dots> \<le> digits_value base (n * base + d) ds"
    using Cons.prems Cons.IH [of "n * base + d" "p + 1"] by simp
  finally show ?case by (simp add: digits_value_def)
qed (simp add: digits_value_def)

lemma exceeds_limit:
  assumes "0 \<le> (c :: int)" "c < base"
  shows "n * base + c > limit \<longleftrightarrow> n > limit div base \<or> n = limit div base \<and> c > limit mod base"
proof -
  define q r where "q = limit div base" and "r = limit mod base"
  have l: "limit = q * base + r" by (simp add: q_def r_def)
  have r: "0 \<le> r" "r < base" using assms by (simp_all add: r_def)
  consider "n < q" | "n = q" | "n > q" by linarith
  then have "n * base + c > limit \<longleftrightarrow> n > q \<or> n = q \<and> c > r"
  proof cases
    case 1
    then have "(n + 1) * base \<le> q * base" using assms by (intro mult_right_mono) simp_all
    then have "n * base + base \<le> q * base" by (simp add: distrib_right)
    then show ?thesis using 1 l r assms by linarith
  next
    case 3
    then have "(q + 1) * base \<le> n * base" using assms by (intro mult_right_mono) simp_all
    then have "q * base + base \<le> n * base" by (simp add: distrib_right)
    then show ?thesis using 3 l r assms by linarith
  qed (simp add: l)
  then show ?thesis by (simp add: q_def r_def)
qed

lemma number_loop_overflow:
  assumes "digits_at m p base ds"
  shows "\<exists>e. number_loop m endptr base cutoff cutlim p endp n True = Some (e, n, True) \<and> (endptr \<and> ds \<noteq> [] \<longrightarrow> e = p + of_nat (length ds))
    \<and> (ds = [] \<longrightarrow> e = endp)"
  using assms
proof (induction ds arbitrary: p endp)
  case Nil
  then show ?case by (subst number_loop.simps) (auto split: option.splits)
next
  case (Cons d ds)
  show ?case
  proof (cases endptr)
    case True
    with Cons.IH [of "p + 1" "p + 1"] Cons.prems show ?thesis
      by (subst number_loop.simps) (cases ds; auto simp: algebra_simps)
  next
    case False
    with Cons.prems show ?thesis by (subst number_loop.simps) auto
  qed
qed

lemma word_less_iff_u32: "0 \<le> a \<Longrightarrow> a \<le> 2 ^ 31 \<Longrightarrow> 0 \<le> b \<Longrightarrow> b \<le> 2 ^ 31 \<Longrightarrow> (word_of_int a < (word_of_int b :: u32)) = (a < b)"
  by (simp add: word_less_def uint_word_of_int)

lemma word_eq_iff_u32: "0 \<le> a \<Longrightarrow> a \<le> 2 ^ 31 \<Longrightarrow> 0 \<le> b \<Longrightarrow> b \<le> 2 ^ 31 \<Longrightarrow> (word_of_int a = (word_of_int b :: u32)) = (a = b)"
  by (simp add: word_uint_eq_iff uint_word_of_int)

text \<open>The loop computes the value of the digits as long as it is within the limit.\<close>

lemma number_loop_value:
  assumes "digits_at m p base ds" "2 \<le> base" "0 \<le> n" "n \<le> limit" "limit \<le> 2 ^ 31"
  shows "\<exists>e w ov. number_loop m endptr base (word_of_int (limit div base)) (limit mod base) p endp (word_of_int n) False = Some (e, w, ov)
    \<and> ov = (digits_value base n ds > limit) \<and> (\<not> ov \<longrightarrow> w = word_of_int (digits_value base n ds))
    \<and> (endptr \<and> ds \<noteq> [] \<longrightarrow> e = p + of_nat (length ds)) \<and> (ds = [] \<longrightarrow> e = endp)"
  using assms
proof (induction ds arbitrary: p endp n)
  case Nil
  then show ?case by (subst number_loop.simps) (auto simp: digits_value_def split: option.splits)
next
  case (Cons d ds)
  let ?W = "word_of_int :: int \<Rightarrow> u32"
  let ?over = "?W n > ?W (limit div base) \<or> ?W n = ?W (limit div base) \<and> d > limit mod base"
  have d: "digit_of (m p) = Some d" "0 \<le> d" "d < base" "digits_at m (p + 1) base ds" using Cons.prems by simp_all
  have "limit div base \<le> limit" using Cons.prems zdiv_mono2 [of limit 1 base] by simp
  then have over: "?over \<longleftrightarrow> n * base + d > limit"
    using Cons.prems exceeds_limit [OF d(2,3), of limit n]
    by (simp add: word_less_iff_u32 word_eq_iff_u32 pos_imp_zdiv_nonneg_iff)
  have step: "number_loop m endptr base (?W (limit div base)) (limit mod base) p endp (?W n) False =
    (if ?over then number_loop m endptr base (?W (limit div base)) (limit mod base) (p + 1) (p + 1) (?W n) True
     else number_loop m endptr base (?W (limit div base)) (limit mod base) (p + 1) (p + 1) (?W (n * base + d)) False)"
    using d by (subst number_loop.simps) (simp add: wi_hom_syms)
  show ?case
  proof (cases ?over)
    case True
    have "limit < digits_value base (n * base + d) ds"
      using True over digits_value_ge [OF Cons.prems(2) _ d(4), of "n * base + d"] Cons.prems d by (simp add: add_nonneg_nonneg)
    then show ?thesis
      using number_loop_overflow [OF d(4), of endptr "?W (limit div base)" "limit mod base" "p + 1" "?W n"] True step
      by (cases ds) (auto simp: digits_value_def algebra_simps)
  next
    case False
    then have "n * base + d \<le> limit" "0 \<le> n * base + d" using over Cons.prems d by (simp_all add: add_nonneg_nonneg)
    with Cons.IH [OF d(4) Cons.prems(2), of "n * base + d" "p + 1"] Cons.prems(5) False step show ?thesis
      by (cases ds) (auto simp: digits_value_def algebra_simps)
  qed
qed

section \<open>Reading a number\<close>

lemma skip_spaces_spec:
  "(\<forall>i < k. m (p + of_nat i) = 0x20) \<Longrightarrow> m (p + of_nat k) \<noteq> 0x20 \<Longrightarrow> skip_spaces m p = Some (p + of_nat k)"
proof (induction k arbitrary: p)
  case 0
  then show ?case by (subst skip_spaces.simps) (simp add: IsSpace_def)
next
  case (Suc k)
  have "\<forall>i < k. m ((p + 1) + of_nat i) = 0x20" using Suc.prems(1) by (auto simp: ac_simps dest: spec [of _ "Suc _"])
  moreover have "m p = 0x20" using Suc.prems(1) by (auto dest: spec [of _ 0])
  ultimately show ?case using Suc.IH [of "p + 1"] Suc.prems(2) by (subst skip_spaces.simps) (simp add: IsSpace_def ac_simps)
qed

lemma digits_value_nonneg: "2 \<le> base \<Longrightarrow> digits_at m p base ds \<Longrightarrow> 0 \<le> digits_value base 0 ds"
  using digits_value_ge [of base 0] by simp

text \<open>After the prefix a number in a base without one is read to its end, whether or not it starts with a zero.\<close>

lemma number_after_prefix:
  assumes d: "digits_at m q base ds" and ne: "ds \<noteq> []" and b: "2 \<le> base" "base \<noteq> 2" "base \<noteq> 16"
    and l: "0 \<le> limit" "limit \<le> 2 ^ 31"
  shows "\<exists>e w ov. (let (p2, endp, b) = number_prefix m nptr q base in
      number_loop m endptr b (word_of_int (limit div b)) (limit mod b) p2 endp 0 False) = Some (e, w, ov)
    \<and> ov = (digits_value base 0 ds > limit) \<and> (\<not> ov \<longrightarrow> w = word_of_int (digits_value base 0 ds))
    \<and> (endptr \<longrightarrow> e = q + of_nat (length ds))"
proof (cases "m q = 0x30")
  case True
  obtain d0 ds' where ds: "ds = d0 # ds'" using ne by (cases ds) auto
  with d True have "d0 = 0" "digits_at m (q + 1) base ds'" by (simp_all add: digit_of_def)
  with number_loop_value [of m "q + 1" base ds' 0 limit endptr "q + 1"] b l True ds show ?thesis
    by (cases ds') (auto simp: number_prefix_def Let_def digits_value_def algebra_simps)
next
  case False
  with number_loop_value [OF d b(1), of 0 limit endptr nptr] ne b l show ?thesis
    by (auto simp: number_prefix_def)
qed

lemma clamped:
  assumes "ov = ((v :: int) > (if neg then - kLongMin else kLongMax))" "\<not> ov \<Longrightarrow> w = (word_of_int v :: u32)" "0 \<le> v"
  shows "(if ov then word_of_int (if neg then kLongMin else kLongMax) else if neg then - w else w) =
    word_of_int (max kLongMin (min kLongMax ((if neg then -1 else 1) * v)))"
proof -
  have "max kLongMin (min kLongMax ((if neg then -1 else 1) * v)) = (if ov then if neg then kLongMin else kLongMax else if neg then - v else v)"
    unfolding assms(1) kLongMin_def kLongMax_def max_def min_def using assms(3) by simp
  then show ?thesis using assms(2) by (cases ov; cases neg) (simp_all only: if_True if_False wi_hom_neg simp_thms)
qed

text \<open>
  Remark. A number written as spaces, an optional sign and digits of a base other than 2 and 16 is read to its end
  and gives its value, cut to the range of a signed 32-bit integer; \<open>endptr\<close> points behind the last digit.
\<close>

theorem StringToLong_value:
  assumes sp: "\<forall>i < k. m (nptr + of_nat i) = 0x20"
    and p: "p = nptr + of_nat k" "m p \<noteq> 0x20"
    and q: "q = (if m p = 0x2B \<or> m p = 0x2D then p + 1 else p)"
    and ds: "digits_at m q base ds" "ds \<noteq> []"
    and b: "3 \<le> base" "base \<le> 36" "base \<noteq> 16"
  shows "StringToLong m nptr endptr base =
    Some (word_of_int (max kLongMin (min kLongMax ((if m p = 0x2D then -1 else 1) * digits_value base 0 ds))),
          if endptr then Some (q + of_nat (length ds)) else None)"
proof -
  let ?v = "digits_value base 0 ds"
  define limit where "limit = (if m p = 0x2D then - kLongMin else kLongMax)"
  have "0 \<le> limit" "limit \<le> 2 ^ 31" by (simp_all add: limit_def kLongMin_def kLongMax_def)
  then obtain e w ov where r: "(let (p2, endp, b) = number_prefix m nptr q base in
      number_loop m endptr b (word_of_int (limit div b)) (limit mod b) p2 endp 0 False) = Some (e, w, ov)"
    and ov: "ov = (?v > limit)" "\<not> ov \<Longrightarrow> w = word_of_int ?v" "endptr \<Longrightarrow> e = q + of_nat (length ds)"
    using number_after_prefix [OF ds, of limit nptr endptr] b by auto
  have v: "0 \<le> ?v" using digits_value_nonneg [OF _ ds(1)] b by simp
  have "skip_spaces m nptr = Some p" using skip_spaces_spec [OF sp] p by simp
  moreover obtain p2 en b' where np: "number_prefix m nptr q base = (p2, en, b')" by (metis prod_cases3)
  with r have "number_loop m endptr b' (word_of_int (limit div b')) (limit mod b') p2 en 0 False = Some (e, w, ov)" by simp
  ultimately have "StringToLong m nptr endptr base =
      Some (if ov then word_of_int (if m p = 0x2D then kLongMin else kLongMax) else if m p = 0x2D then - w else w,
            if endptr then Some e else None)"
    using b np q by (cases "m p = 0x2D"; cases "m p = 0x2B") (simp_all add: StringToLong_def limit_def)
  also have "(if ov then word_of_int (if m p = 0x2D then kLongMin else kLongMax) else if m p = 0x2D then - w else w) =
      word_of_int (max kLongMin (min kLongMax ((if m p = 0x2D then -1 else 1) * ?v)))"
    by (rule clamped) (use ov v in \<open>simp_all add: limit_def\<close>)
  also have "(if endptr then Some e else None) = (if endptr then Some (q + of_nat (length ds)) else None)"
    using ov(3) by simp
  finally show ?thesis .
qed

definition sample_number :: mem where
  "sample_number = (\<lambda>a. if a = 0 then 0x20 else if a = 1 then 0x2D else if a = 2 then 0x34 else if a = 3 then 0x32 else 0)"

theorem StringToLong_value_witness:
  "StringToLong sample_number 0 True 10 = Some (- 42, Some 4)"
  using StringToLong_value [of 1 sample_number 0 1 2 10 "[4, 2]" True]
  by (simp add: sample_number_def digit_of_def digits_value_def kLongMin_def kLongMax_def)

end
