(* ===== verification/Boot_Text.thy ===== *)
theory Boot_Text
  imports Debug_Output
begin

text \<open>
  Text output of the boot loader, \<^verbatim>\<open>ZBAKit/src/BootTextWriter.cc\<close>. The output is the list of the characters
  handed to the firmware one by one; the build without \<open>__DEBUG__\<close> prints nothing. A string without an end is
  printed forever, which is \<open>None\<close>.
\<close>

section \<open>The writer\<close>

definition WriteCharacter :: "bool \<Rightarrow> u16 \<Rightarrow> u16 list \<Rightarrow> u16 list" where
  "WriteCharacter debug c out = (if debug then out @ [c] else out)"

text \<open>The three overloads for strings differ in the element \<open>str[i]\<close>, here \<open>elem i\<close>.\<close>

partial_function (option) Write_loop :: "(u64 \<Rightarrow> u16) \<Rightarrow> u64 \<Rightarrow> u16 list \<Rightarrow> u16 list option" where
  "Write_loop elem i out =
     (if elem i = 0 then Some out
      else Write_loop elem (i + 1) (if elem i = 0x0D then out @ [0x0D, 0x0A] else out @ [elem i]))"

definition Write_utf16 :: "bool \<Rightarrow> mem \<Rightarrow> addr \<Rightarrow> u16 list \<Rightarrow> u16 list option" where
  "Write_utf16 debug m str out =
     (if \<not> debug \<or> str = null \<or> load16 m str = 0 then Some out
      else Write_loop (\<lambda>i. load16 m (str + 2 * i)) 0 out)"

text \<open>A \<open>Char\<close> is signed: its sign is extended.\<close>

definition Write_char :: "bool \<Rightarrow> mem \<Rightarrow> addr \<Rightarrow> u16 list \<Rightarrow> u16 list option" where
  "Write_char debug m str out =
     (if \<not> debug \<or> str = null \<or> m str = 0 then Some out
      else Write_loop (\<lambda>i. scast (m (str + i))) 0 out)"

definition Write_uchar :: "bool \<Rightarrow> mem \<Rightarrow> addr \<Rightarrow> u16 list \<Rightarrow> u16 list option" where
  "Write_uchar debug m str out =
     (if \<not> debug \<or> str = null \<or> m str = 0 then Some out
      else Write_loop (\<lambda>i. ucast (m (str + i))) 0 out)"

definition cNumbers :: "u16 list" where
  "cNumbers = [0x30, 0x31, 0x32, 0x33, 0x34, 0x35, 0x36, 0x37, 0x38, 0x39, 0x41, 0x42, 0x43, 0x44, 0x45, 0x46]"

text \<open>What \<open>_Write\<close> prints for a number, and \<open>Write\<close> with the letter behind it.\<close>

function number_text :: "int \<Rightarrow> abort + u16 list" where
  "number_text x =
     (case checked (if x > 0 then x else - x) of
        Inl e \<Rightarrow> Inl e
      | Inr a \<Rightarrow>
          (case (if a div 16 \<noteq> 0 then number_text (a div 16) else Inr []) of
             Inl e \<Rightarrow> Inl e
           | Inr front \<Rightarrow> if a mod 16 > 16 then Inr (front @ [0x3F]) else Inr (front @ [cNumbers ! nat (a mod 16)])))"
  by pat_completeness auto
termination
proof (relation "measure (\<lambda>x. nat \<bar>x\<bar>)", goal_cases)
  case (2 x a)
  then have "a = \<bar>x\<bar>" and "a div 16 \<noteq> 0" by (auto simp: checked_def split: if_splits)
  then show ?case by simp linarith
qed simp

declare number_text.simps [simp del]

definition Write_number :: "bool \<Rightarrow> int \<Rightarrow> u16 list \<Rightarrow> abort + u16 list" where
  "Write_number debug x out = (if debug then map_sum id (\<lambda>s. out @ s @ [0x68]) (number_text x) else Inr out)"

section \<open>Strings\<close>

text \<open>A carriage return is printed with a line feed behind it.\<close>

definition text_of :: "u16 list \<Rightarrow> u16 list" where
  "text_of cs = concat (map (\<lambda>c. if c = 0x0D then [0x0D, 0x0A] else [c]) cs)"

lemma Write_loop_text:
  assumes "elem (i + of_nat (length cs)) = 0" and "\<And>k. k < length cs \<Longrightarrow> elem (i + of_nat k) = cs ! k" and "0 \<notin> set cs"
  shows "Write_loop elem i out = Some (out @ text_of cs)"
  using assms
proof (induction cs arbitrary: i out)
  case Nil
  then show ?case by (subst Write_loop.simps) (simp add: text_of_def)
next
  case (Cons c cs)
  have "elem i = c" using Cons.prems(2) [of 0] by simp
  moreover have "Write_loop elem (i + 1) out' = Some (out' @ text_of cs)" for out'
    using Cons.prems(1,3) Cons.prems(2) [of "Suc _"] by (intro Cons.IH) (simp_all add: ac_simps)
  ultimately show ?case using Cons.prems(3) by (subst Write_loop.simps) (auto simp: text_of_def)
qed

lemma number_text_step:
  assumes "0 \<le> a" and "s64_ok a"
  shows "number_text a = map_sum id (\<lambda>front. front @ [cNumbers ! nat (a mod 16)])
    (if a div 16 = 0 then Inr [] else number_text (a div 16))"
proof -
  have "checked (if a > 0 then a else - a) = Inr a" using assms by (cases "a = 0") (simp_all add: checked_def s64_ok_zero)
  moreover have "\<not> 16 < a mod 16" using pos_mod_bound [of 16 a] by linarith
  ultimately show ?thesis
    by (cases "a div 16 = 0"; cases "number_text (a div 16)"; subst number_text.simps; simp)
qed

interpretation boot_hexadecimal: number_writer cNumbers number_text
proof unfold_locales
  show "number_text x = number_text \<bar>x\<bar>" if "s64_ok x" "s64_ok (- x)" for x
  proof (cases "x < 0")
    case True
    then show ?thesis by (subst (1 2) number_text.simps) simp
  qed simp
qed (simp_all add: cNumbers_def number_text_step)

section \<open>Properties\<close>

text \<open>
  Remark. The boot loader prints a number other than the smallest one as hexadecimal digits without leading zeros, followed by
  the letter h, whose value is the number without its sign; nothing else is printed and what was printed before stays.
\<close>

theorem Write_number_roundtrip:
  assumes "- (2 ^ 63) < x" and "x < 2 ^ 63"
  shows "\<exists>s. Write_number True x out = Inr (out @ s @ [0x68]) \<and> number_value cNumbers s = \<bar>x\<bar> \<and> (x \<noteq> 0 \<longrightarrow> hd s \<noteq> 0x30)"
  using boot_hexadecimal.write_abs_value [OF assms] by (auto simp: Write_number_def cNumbers_def)

theorem Write_number_roundtrip_witness:
  "\<exists>s. Write_number True (- 255) [] = Inr (s @ [0x68]) \<and> number_value cNumbers s = 255"
  using Write_number_roundtrip [of "- 255" "[]"] by auto

text \<open>
  Remark. A string of 16-bit characters is printed up to its end with a line feed behind every carriage return.
\<close>

theorem Write_utf16_prints:
  assumes "str \<noteq> null" "0 \<notin> set cs"
    and "\<And>k. k < length cs \<Longrightarrow> load16 m (str + 2 * of_nat k) = cs ! k" "load16 m (str + 2 * of_nat (length cs)) = 0"
  shows "Write_utf16 True m str out = Some (out @ text_of cs)"
proof (cases cs)
  case Nil
  with assms(4) show ?thesis by (simp add: Write_utf16_def text_of_def)
next
  case (Cons c cs')
  then have "load16 m str \<noteq> 0" using assms(2) assms(3) [of 0] by auto
  with Write_loop_text [of "\<lambda>i. load16 m (str + 2 * i)" 0 cs out] assms show ?thesis by (simp add: Write_utf16_def)
qed

theorem Write_utf16_prints_witness:
  "Write_utf16 True (\<lambda>a. if a = 0x1000 then 0x41 else if a = 0x1002 then 0x0D else 0) 0x1000 [] = Some [0x41, 0x0D, 0x0A]"
proof -
  let ?m = "\<lambda>a :: addr. if a = 0x1000 then 0x41 else if a = 0x1002 then 0x0D else 0 :: u8"
  have "load16 ?m (0x1000 + 2 * of_nat k) = [0x41, 0x0D] ! k" if "k < 2" for k
    using that by (cases "k = 0") (simp_all add: load16_def eval_simps less_2_cases_iff)
  moreover have "load16 ?m 0x1004 = 0" by (simp add: load16_def eval_simps)
  ultimately show ?thesis
    using Write_utf16_prints [of "0x1000" "[0x41, 0x0D]" ?m "[]"] by (simp add: text_of_def)
qed

end
