(* ===== verification/Kernel_Start.thy ===== *)
theory Kernel_Start
  imports File_Mgr
begin

text \<open>
  The kernel's entry point: the installer of \<^verbatim>\<open>dev/ZKAKit/src/KernelMain.cc\<close>, which creates the system's directories
  and its page file on the mounted file system. It composes the file manager, the parser, strings and the heap. Drawing on
  the kernel's window is left out; file managers and catalogs are values, and \<open>lit\<close> gives the address of a literal.
\<close>

section \<open>Names\<close>

definition cFolderInfo :: "u8 list" where
  "cFolderInfo = [0x4D, 0x45, 0x54, 0x41, 0x2D, 0x49, 0x4E, 0x46, 0]"

definition cDirStr :: "u8 list list" where
  "cDirStr =
     [[0x2F, 0x42, 0x6F, 0x6F, 0x74, 0x2F, 0],
      [0x2F, 0x53, 0x79, 0x73, 0x74, 0x65, 0x6D, 0x2F, 0],
      [0x2F, 0x53, 0x75, 0x70, 0x70, 0x6F, 0x72, 0x74, 0x2F, 0],
      [0x2F, 0x41, 0x70, 0x70, 0x6C, 0x69, 0x63, 0x61, 0x74, 0x69, 0x6F, 0x6E, 0x73, 0x2F, 0],
      [0x2F, 0x55, 0x73, 0x65, 0x72, 0x73, 0x2F, 0],
      [0x2F, 0x4C, 0x69, 0x62, 0x72, 0x61, 0x72, 0x79, 0x2F, 0],
      [0x2F, 0x4D, 0x6F, 0x75, 0x6E, 0x74, 0x2F, 0]]"

definition kSysPage :: "u8 list" where
  "kSysPage = [0x2F, 0x53, 0x79, 0x73, 0x74, 0x65, 0x6D, 0x2F, 0x73, 0x79, 0x73, 0x70, 0x61, 0x67, 0x65, 0x2E, 0x73, 0x79, 0x73, 0]"

definition cPageName :: "u8 list" where
  "cPageName = [0x38, 0x4B, 0x5F, 0x53, 0x59, 0x53, 0x5F, 0x50, 0x41, 0x47, 0x45, 0x5F, 0x4B, 0x45, 0x52, 0x4E, 0x45, 0x4C, 0]"

definition kNeFSRsrcForkKind :: u32 where "kNeFSRsrcForkKind = 0"
definition kNeFSCatalogKindExecutable :: u64 where "kNeFSCatalogKindExecutable = 6"
definition kNeFSSectorSz :: u64 where "kNeFSSectorSz = 512"

section \<open>Forks and properties\<close>

text \<open>
  A fork with the name of a literal and the name of the catalog, each copied without its terminator. The length of the
  catalog's name is measured from its start, over the whole structure if there is no terminator in the name.
\<close>

definition install_fork :: "u8 list \<Rightarrow> NFS_CATALOG \<Rightarrow> u64 \<Rightarrow> u32 \<Rightarrow> abort + NFS_FORK" where
  "install_fork cSrcName cat resourceId resourceKind =
     (case obj_string_len cSrcName of
        Inl e \<Rightarrow> Inl e
      | Inr k \<Rightarrow>
          (case obj_string_len (catalog_bytes cat) of
             Inl e \<Rightarrow> Inl e
           | Inr n \<Rightarrow>
               if 200 + n > 512 then Inl OutOfBounds
               else Inr ((fork_of (splice 200 (take n (catalog_bytes cat)) (splice 0 (take k cSrcName) zero_block)))
                 \<lparr>fork_DataSize := kNeFSForkSize, fork_ResourceId := resourceId,
                  fork_ResourceKind := resourceKind, fork_Kind := kNeFSDataForkKind\<rparr>)))"

definition append_literal :: "addr \<Rightarrow> mm_state \<times> KString \<Rightarrow> (abort + mm_state \<times> KString) option" where
  "append_literal p w =
     (case w of (mm, str) \<Rightarrow>
        map_option (\<lambda>(m1, str1). Inr (mm\<lparr>memory := m1\<rparr>, str1)) (KString_append_chars (memory mm) str p))"

text \<open>The properties of a folder: four pieces of text in a string of one sector.\<close>

definition install_metadata :: "addr \<Rightarrow> addr \<Rightarrow> addr \<Rightarrow> addr \<Rightarrow> mm_state \<Rightarrow> (abort + mm_state \<times> KString) option" where
  "install_metadata properties path_open dir path_close mm =
     ebind (KString_new kNeFSSectorSz mm) (\<lambda>w1.
     ebind (append_literal properties w1) (\<lambda>w2.
     ebind (append_literal path_open w2) (\<lambda>w3.
     ebind (append_literal dir w3) (\<lambda>w4.
     append_literal path_close w4))))"

section \<open>The installer\<close>

record folder_text =
  ft_properties :: addr
  ft_path_open :: addr
  ft_path_close :: addr

definition install_dir ::
    "'s DriveTrait \<Rightarrow> (u8 list \<Rightarrow> addr) \<Rightarrow> folder_text \<Rightarrow> u8 list \<Rightarrow> mm_state \<Rightarrow> 's nefs \<Rightarrow> (abort + mm_state \<times> 's nefs) option" where
  "install_dir drv lit txt dir mm st =
     ebind (GetCatalog drv dir (disk st)) (\<lambda>(s1, found).
       if found \<noteq> None then Some (Inr (mm, st\<lparr>disk := s1\<rparr>))
       else
     ebind (CreateCatalog drv dir 0 kNeFSCatalogKindDir (st\<lparr>disk := s1\<rparr>)) (\<lambda>(st2, catalogDir).
     deref catalogDir (\<lambda>cat.
     ebind (Some (install_fork cFolderInfo cat 0 kNeFSRsrcForkKind)) (\<lambda>theFork.
     ebind (install_metadata (ft_properties txt) (ft_path_open txt) (lit dir) (ft_path_close txt) mm) (\<lambda>(mm1, metadataFolder).
     ebind (CreateFork drv catalogDir theFork (disk st2)) (\<lambda>(s3, _).
     ebind (WriteCatalog drv cat True (load_bytes (memory mm1) (fData metadataFolder) 512) kNeFSSectorSz cFolderInfo
              (st2\<lparr>disk := s3\<rparr>)) (\<lambda>(st4, _).
     ebind (Some (KString_destroy metadataFolder mm1)) (\<lambda>(mm2, _).
       Some (Inr (mm2, st4))))))))))"

primrec install_dirs ::
    "'s DriveTrait \<Rightarrow> (u8 list \<Rightarrow> addr) \<Rightarrow> folder_text \<Rightarrow> u8 list list \<Rightarrow> mm_state \<Rightarrow> 's nefs \<Rightarrow> (abort + mm_state \<times> 's nefs) option" where
  "install_dirs drv lit txt [] mm st = Some (Inr (mm, st))"
| "install_dirs drv lit txt (dir # dirs) mm st =
     ebind (install_dir drv lit txt dir mm st) (\<lambda>(mm1, st1). install_dirs drv lit txt dirs mm1 st1)"

definition install_page :: "'s DriveTrait \<Rightarrow> NeFileSystemMgr \<Rightarrow> 's nefs \<Rightarrow> (abort + 's nefs) option" where
  "install_page drv fNeFS st =
     ebind (via_parser fNeFS (GetCatalog drv kSysPage (disk st))) (\<lambda>(s1, catalogDisk).
       if catalogDisk \<noteq> None then Some (Inr (st\<lparr>disk := s1\<rparr>))
       else
     ebind (NeFileSystemMgr_CreateAlias drv fNeFS (Some kSysPage) (st\<lparr>disk := s1\<rparr>)) (\<lambda>(st2, created).
     deref created (\<lambda>cat.
     ebind (Some (install_fork cPageName cat (kNeFSCatalogKindExecutable OR ucast kNeFSCatalogKindPage) kNeFSDataForkKind)) (\<lambda>theDiskFork.
     via_parser fNeFS (ebind (CreateFork drv created theDiskFork (disk st2)) (\<lambda>(s3, _).
       Some (Inr (st2\<lparr>disk := s3\<rparr>))))))))"

definition install ::
    "'s DriveTrait \<Rightarrow> (u8 list \<Rightarrow> addr) \<Rightarrow> folder_text \<Rightarrow> NeFileSystemMgr \<Rightarrow> mm_state \<Rightarrow> 's nefs \<Rightarrow> (abort + mm_state \<times> 's nefs) option" where
  "install drv lit txt fNeFS mm st =
     ebind (if fImpl fNeFS \<noteq> null then install_dirs drv lit txt cDirStr mm st else Some (Inr (mm, st))) (\<lambda>(mm1, st1).
     ebind (install_page drv fNeFS st1) (\<lambda>st2. Some (Inr (mm1, st2))))"

text \<open>
  Without a mounted file system a manager is made and mounted, whose drive is the first of its mount point; otherwise the
  mounted one is used, with the drive \<open>drv\<close> of the mount point that was made with it.
\<close>

definition FilesystemInstaller_new ::
    "'d ports \<Rightarrow> 'd drv_state DriveTrait \<Rightarrow> u8 list \<Rightarrow> addr \<Rightarrow> 'd drv_state DriveTrait \<Rightarrow> (u8 list \<Rightarrow> addr) \<Rightarrow> folder_text
     \<Rightarrow> NeFileSystemMgr option \<Rightarrow> mm_state \<Rightarrow> 'd drv_state nefs
     \<Rightarrow> (abort + NeFileSystemMgr option \<times> mm_state \<times> 'd drv_state nefs) option" where
  "FilesystemInstaller_new P trait block_struct garbage drv lit txt kMountedFilesystem mm st =
     (case GetMounted kMountedFilesystem of
        Some fNeFS \<Rightarrow> ebind (install drv lit txt fNeFS mm st) (\<lambda>(mm1, st1). Some (Inr (kMountedFilesystem, mm1, st1)))
      | None \<Rightarrow>
          ebind (NeFileSystemMgr_new P trait block_struct garbage mm (disk st)) (\<lambda>(mm1, s1, mnt, fNeFS).
          ebind (install (mA mnt) lit txt fNeFS mm1 (st\<lparr>disk := s1\<rparr>)) (\<lambda>(mm2, st2).
            Some (Inr (fst (Mount (Some fNeFS) kMountedFilesystem), mm2, st2)))))"

section \<open>Properties\<close>

lemma install_without_parser: "fImpl fNeFS = null \<Longrightarrow> install drv lit txt fNeFS mm st = Some (Inl NullAccess)"
  by (simp add: install_def install_page_def via_parser_def)

lemma NeFileSystemMgr_new_fImpl:
  "NeFileSystemMgr_new P trait block_struct garbage mm s = Some (Inr (mm1, s1, mnt, mgr)) \<Longrightarrow> fImpl mgr = null"
  by (auto simp: NeFileSystemMgr_new_def ebind_eq_Some)

text \<open>
  Remark. The entry point of the kernel ends in an access through a null pointer: whether the file system was mounted
  by the start-up code, which mounts a manager it has just made, or is mounted by the installer, the manager has no parser.
  The installer tests for that before it makes the directories, but not before it looks for the page file.
\<close>

theorem FilesystemInstaller_faults:
  assumes "NeFileSystemMgr_new P trait block_struct garbage mm s = Some (Inr (mm1, s1, mnt, mgr))"
  shows "FilesystemInstaller_new P trait block_struct garbage drv lit txt (fst (Mount (Some mgr) None)) mm2 st = Some (Inl NullAccess)
    \<and> FilesystemInstaller_new P trait block_struct garbage drv lit txt None mm (st\<lparr>disk := s\<rparr>) = Some (Inl NullAccess)"
  using NeFileSystemMgr_new_fImpl [OF assms] assms
  by (simp add: FilesystemInstaller_new_def GetMounted_def Mount_def install_without_parser)

theorem FilesystemInstaller_faults_witness:
  "FilesystemInstaller_new pio_ports trait_example (replicate 512 0) 1 trait_example (\<lambda>_. 1)
     \<lparr>ft_properties = 1, ft_path_open = 1, ft_path_close = 1\<rparr> None page_example \<lparr>disk = drive_example, err_local = 0\<rparr> = Some (Inl NullAccess)"
proof -
  obtain mm1 s1 mnt mgr where "NeFileSystemMgr_new pio_ports trait_example (replicate 512 0) 1 page_example drive_example =
       Some (Inr (mm1, s1, mnt, mgr))"
    using main_drive_constructed [of "replicate 512 0" trait_example drive_example]
    by (auto simp: NeFileSystemMgr_new_def fs_init_newfs_def mm_new_class_def MUST_PASS_eq)
  from FilesystemInstaller_faults [OF this, of _ _ _ _ "\<lparr>disk = drive_example, err_local = 0\<rparr>"] show ?thesis by simp
qed

end
