(* ===== verification/Cxx_Abi.thy ===== *)
theory Cxx_Abi
  imports ZKA_Prelude
begin

text \<open>
  The run-time support of the C++ language, \<^verbatim>\<open>src/CxxAbi-AMD64.cc\<close> and \<^verbatim>\<open>NewKit/CxxAbi.h\<close>: the table of
  destructors of static objects and the guards of local ones. A destructor is an address; \<open>run\<close> is what calling it
  does to the state, of which the table is a part.
\<close>

section \<open>The table of destructors\<close>

definition kAtExitMacDestructors :: u32 where "kAtExitMacDestructors = 128"

record atexit_func_entry =
  destructor_func :: addr
  obj_ptr :: addr
  dso_handle :: addr

record 's cxx =
  atexit_funcs :: "atexit_func_entry list"
  atexit_func_count :: u32
  program :: 's

definition atexit :: "addr \<Rightarrow> addr \<Rightarrow> addr \<Rightarrow> 's cxx \<Rightarrow> 's cxx \<times> u32" where
  "atexit f arg dso st =
     (if atexit_func_count st \<ge> kAtExitMacDestructors then (st, 1)
      else (st\<lparr>atexit_funcs := (atexit_funcs st)[unat (atexit_func_count st) := \<lparr>destructor_func = f, obj_ptr = arg, dso_handle = dso\<rparr>],
               atexit_func_count := atexit_func_count st + 1\<rparr>, 0))"

text \<open>The loop of \<open>__cxa_finalize\<close> with \<open>i\<close> entries to go, last one first; \<open>clear\<close> when its argument is not null.\<close>

primrec finalize_loop :: "(addr \<Rightarrow> addr \<Rightarrow> 's cxx \<Rightarrow> 's cxx) \<Rightarrow> bool \<Rightarrow> nat \<Rightarrow> 's cxx \<Rightarrow> abort + 's cxx" where
  "finalize_loop run clear 0 st = Inr st"
| "finalize_loop run clear (Suc i) st =
     (if length (atexit_funcs st) \<le> i then Inl OutOfBounds
      else
        let e = atexit_funcs st ! i in
        if destructor_func e = null then finalize_loop run clear i st
        else
          let st1 = run (destructor_func e) (obj_ptr e) st in
          finalize_loop run clear i
            (if clear then st1\<lparr>atexit_funcs := (atexit_funcs st1)[i := (atexit_funcs st1 ! i)\<lparr>destructor_func := null\<rparr>]\<rparr> else st1))"

definition cxa_finalize :: "(addr \<Rightarrow> addr \<Rightarrow> 's cxx \<Rightarrow> 's cxx) \<Rightarrow> addr \<Rightarrow> 's cxx \<Rightarrow> abort + 's cxx" where
  "cxa_finalize run f st = finalize_loop run (f \<noteq> null) (unat (atexit_func_count st)) st"

definition cxa_guard_acquire :: "mem \<Rightarrow> addr \<Rightarrow> u32" where "cxa_guard_acquire m g = 0"
definition cxa_guard_release :: "mem \<Rightarrow> addr \<Rightarrow> mem \<times> u32" where "cxa_guard_release m g = (m(g := 1), 0)"

section \<open>Registered destructors\<close>

text \<open>A destructor that does not touch the table and is noted in a list; the table after registering a list of them.\<close>

definition note_run :: "addr \<Rightarrow> addr \<Rightarrow> (addr \<times> addr) list cxx \<Rightarrow> (addr \<times> addr) list cxx" where
  "note_run f arg st = st\<lparr>program := program st @ [(f, arg)]\<rparr>"

definition cxx_start :: "'s \<Rightarrow> 's cxx" where
  "cxx_start s = \<lparr>atexit_funcs = replicate 128 \<lparr>destructor_func = null, obj_ptr = null, dso_handle = null\<rparr>,
                  atexit_func_count = 0, program = s\<rparr>"

definition register :: "(addr \<times> addr \<times> addr) list \<Rightarrow> 's cxx \<Rightarrow> 's cxx" where
  "register es st = foldl (\<lambda>st (f, arg, dso). fst (atexit f arg dso st)) st es"

definition entry_of :: "addr \<times> addr \<times> addr \<Rightarrow> atexit_func_entry" where
  "entry_of e = (case e of (f, arg, dso) \<Rightarrow> \<lparr>destructor_func = f, obj_ptr = arg, dso_handle = dso\<rparr>)"

definition registered :: "(addr \<times> addr \<times> addr) list \<Rightarrow> 's cxx \<Rightarrow> bool" where
  "registered es st \<longleftrightarrow> length (atexit_funcs st) = 128 \<and> atexit_func_count st = of_nat (length es) \<and> length es \<le> 128
     \<and> take (length es) (atexit_funcs st) = map entry_of es"

lemma unat_of_nat_u32_small: "n \<le> 128 \<Longrightarrow> unat (of_nat n :: u32) = n"
  by (simp add: unat_of_nat)

lemma atexit_registered:
  assumes "registered es st" "length es < 128"
  shows "registered (es @ [e]) (fst (atexit (fst e) (fst (snd e)) (snd (snd e)) st))"
    and "program (fst (atexit (fst e) (fst (snd e)) (snd (snd e)) st)) = program st"
proof -
  have "unat (of_nat (length es) :: u32) < 128" using assms by (simp add: unat_of_nat_u32_small)
  then have "\<not> kAtExitMacDestructors \<le> of_nat (length es)"
    by (simp add: kAtExitMacDestructors_def word_le_nat_alt)
  then show "registered (es @ [e]) (fst (atexit (fst e) (fst (snd e)) (snd (snd e)) st))"
    using assms by (auto simp: registered_def atexit_def entry_of_def unat_of_nat_u32_small take_Suc_conv_app_nth add.commute split: prod.split)
  show "program (fst (atexit (fst e) (fst (snd e)) (snd (snd e)) st)) = program st" by (simp add: atexit_def)
qed

lemma register_all:
  assumes "registered es0 st" "length es0 + length es \<le> 128"
  shows "registered (es0 @ es) (register es st) \<and> program (register es st) = program st"
  using assms
proof (induction es arbitrary: es0 st)
  case (Cons e es)
  let ?st = "fst (atexit (fst e) (fst (snd e)) (snd (snd e)) st)"
  have "registered (es0 @ [e]) ?st" "program ?st = program st" using atexit_registered [OF Cons.prems(1)] Cons.prems(2) by auto
  with Cons.IH [of "es0 @ [e]" ?st] Cons.prems(2) show ?case by (simp add: register_def split_def)
qed (simp add: register_def)

lemma register_start: "length es \<le> 128 \<Longrightarrow> registered es (register es (cxx_start s)) \<and> program (register es (cxx_start s)) = s"
  using register_all [of "[]" "cxx_start s" es] by (simp add: registered_def cxx_start_def)

text \<open>The calls made, and the table left behind.\<close>

definition calls :: "(addr \<times> addr \<times> addr) list \<Rightarrow> (addr \<times> addr) list" where
  "calls es = rev (map (\<lambda>(f, arg, dso). (f, arg)) (filter (\<lambda>(f, _). f \<noteq> null) es))"

lemma finalize_loop_calls:
  assumes "registered es st" "i \<le> length es"
  shows "\<exists>st'. finalize_loop note_run clear i st = Inr st' \<and> program st' = program st @ calls (take i es)
    \<and> registered (if clear then map (\<lambda>(_, r). (null, r)) (take i es) @ drop i es else es) st'"
  using assms
proof (induction i arbitrary: es st)
  case (Suc i)
  obtain f arg dso where e: "es ! i = (f, arg, dso)" by (cases "es ! i") auto
  have len: "i < length (atexit_funcs st)" "i < length es" using Suc.prems by (auto simp: registered_def)
  have "atexit_funcs st ! i = take (length es) (atexit_funcs st) ! i" using len by simp
  also have "\<dots> = entry_of (es ! i)" using Suc.prems len by (simp add: registered_def)
  finally have entry: "atexit_funcs st ! i = \<lparr>destructor_func = f, obj_ptr = arg, dso_handle = dso\<rparr>" by (simp add: entry_of_def e)
  have take: "take (Suc i) es = take i es @ [(f, arg, dso)]" using len e by (simp add: take_Suc_conv_app_nth)
  have drop: "drop i es = (f, arg, dso) # drop (Suc i) es" using Cons_nth_drop_Suc [OF len(2)] e by simp
  show ?case
  proof (cases "f = null")
    case True
    with Suc.IH [OF Suc.prems(1)] len entry take drop show ?thesis by (auto simp: calls_def)
  next
    case False
    define st1 where "st1 = note_run f arg st"
    define st2 where "st2 = (if clear then st1\<lparr>atexit_funcs := (atexit_funcs st1)[i := (atexit_funcs st1 ! i)\<lparr>destructor_func := null\<rparr>]\<rparr> else st1)"
    define es2 where "es2 = (if clear then es[i := (null, arg, dso)] else es)"
    have "registered es2 st2"
      using Suc.prems(1) entry len
      by (auto simp: st2_def es2_def st1_def note_run_def registered_def take_update_swap map_update entry_of_def)
    moreover have "i \<le> length es2" "take i es2 = take i es" "drop i es2 = (if clear then null else f, arg, dso) # drop (Suc i) es"
      using len drop Cons_nth_drop_Suc [of i "es[i := (null, arg, dso)]"] by (simp_all add: es2_def)
    ultimately obtain st' where "finalize_loop note_run clear i st2 = Inr st'" "program st' = program st2 @ calls (take i es)"
      "registered (if clear then map (\<lambda>(_, r). (null, r)) (take i es) @ (null, arg, dso) # drop (Suc i) es else es2) st'"
      using Suc.IH [of es2 st2] by (cases clear) auto
    moreover have "program st2 = program st @ [(f, arg)]" by (simp add: st2_def st1_def note_run_def)
    moreover have "finalize_loop note_run clear (Suc i) st = finalize_loop note_run clear i st2"
      using len False entry by (simp add: st2_def st1_def Let_def)
    ultimately show ?thesis using False take by (auto simp: calls_def es2_def)
  qed
qed (simp add: calls_def)

section \<open>Properties\<close>

text \<open>
  Property C27. The destructors registered with \<open>atexit\<close>, up to the 128 the table holds, are called in the reverse order of
  their registration by \<open>__cxa_finalize\<close>. When its argument is not null a second call calls none of them, whatever object they belong
  to; when it is null the second call calls all of them again.
\<close>

theorem cxa_finalize_reverses:
  assumes "length es \<le> 128"
  shows "\<exists>st1 st2. cxa_finalize note_run f (register es (cxx_start [])) = Inr st1 \<and> program st1 = calls es
    \<and> cxa_finalize note_run f st1 = Inr st2 \<and> program st2 = (if f \<noteq> null then calls es else calls es @ calls es)"
proof -
  let ?st = "register es (cxx_start ([] :: (addr \<times> addr) list))" and ?es = "if f \<noteq> null then map (\<lambda>(_, r). (null, r)) es else es"
  have r: "registered es ?st" "program ?st = []" using register_start [OF assms, of "[] :: (addr \<times> addr) list"] by simp_all
  have fin: "\<exists>st'. cxa_finalize note_run f st = Inr st' \<and> program st' = program st @ calls es'
      \<and> registered (if f \<noteq> null then map (\<lambda>(_, r). (null, r)) es' else es') st'" if "registered es' st" for es' st
    using finalize_loop_calls [OF that order.refl, of "f \<noteq> null"] that
    by (auto simp: cxa_finalize_def registered_def unat_of_nat_u32_small)
  obtain st1 where "cxa_finalize note_run f ?st = Inr st1" "program st1 = calls es" "registered ?es st1"
    using fin [OF r(1)] r(2) by auto
  moreover obtain st2 where "cxa_finalize note_run f st1 = Inr st2" "program st2 = calls es @ calls ?es"
    using fin [OF \<open>registered ?es st1\<close>] \<open>program st1 = calls es\<close> by auto
  moreover have "calls (map (\<lambda>(_, r). (null, r)) es) = []" by (induction es) (auto simp: calls_def)
  ultimately show ?thesis by auto
qed

theorem cxa_finalize_reverses_witness:
  "\<exists>st1. cxa_finalize note_run 1 (register [(0x10, 1, 0), (0x20, 2, 0)] (cxx_start [])) = Inr st1
     \<and> program st1 = [(0x20, 2), (0x10, 1)]"
  using cxa_finalize_reverses [of "[(0x10, 1, 0), (0x20, 2, 0)]" 1] by (auto simp: calls_def)

end
