(* ===== verification/Device_Objects.thy ===== *)
theory Device_Objects
  imports Drive_Mgr
begin

text \<open>
  Devices as objects: \<open>IDeviceObject\<close> of \<^verbatim>\<open>KernelKit/DeviceMgr.h\<close> and the interfaces of
  \<^verbatim>\<open>src/Storage/\<close> on top of it. A null function pointer is \<open>None\<close>; what a function of the device does
  to the state \<open>'s\<close> is an argument.
\<close>

section \<open>Device objects\<close>

type_synonym ('t, 's) device_fun = "'t \<Rightarrow> 's \<Rightarrow> (abort + 's) option"

record ('t, 's) IDeviceObject =
  fOut :: "('t, 's) device_fun option"
  fIn :: "('t, 's) device_fun option"

definition call_device :: "('t, 's) device_fun option \<Rightarrow> 't \<Rightarrow> 's \<Rightarrow> (abort + 's) option" where
  "call_device f x s = (case f of None \<Rightarrow> Some (Inl NullAccess) | Some g \<Rightarrow> g x s)"

definition IDeviceObject_out :: "('t, 's) IDeviceObject \<Rightarrow> 't \<Rightarrow> 's \<Rightarrow> (abort + 's) option" where
  "IDeviceObject_out this Data s = call_device (fOut this) Data s"

definition IDeviceObject_in :: "('t, 's) IDeviceObject \<Rightarrow> 't \<Rightarrow> 's \<Rightarrow> (abort + 's) option" where
  "IDeviceObject_in this Data s = call_device (fIn this) Data s"

definition IDeviceObject_bool :: "('t, 's) IDeviceObject \<Rightarrow> bool" where
  "IDeviceObject_bool this \<longleftrightarrow> fOut this \<noteq> None \<and> fIn this \<noteq> None"

definition IDeviceObject_not :: "('t, 's) IDeviceObject \<Rightarrow> bool" where
  "IDeviceObject_not this \<longleftrightarrow> fOut this = None \<or> fIn this = None"

definition IOBuf_new :: "bool \<Rightarrow> addr \<Rightarrow> abort + addr" where
  "IOBuf_new debug dma_addr = map_sum id (\<lambda>_. dma_addr) (MUST_PASS debug (dma_addr \<noteq> null))"

section \<open>The storage interfaces\<close>

text \<open>All of them add a function that cleans up; the destructors call it.\<close>

record ('t, 's) StorageInterface = "('t, 's) IDeviceObject" +
  fCleanup :: "('s \<Rightarrow> (abort + 's) option) option"

definition StorageInterface_new ::
    "('t, 's) device_fun option \<Rightarrow> ('t, 's) device_fun option \<Rightarrow> ('s \<Rightarrow> (abort + 's) option) option \<Rightarrow> ('t, 's) StorageInterface" where
  "StorageInterface_new Out In Cleanup = \<lparr>fOut = Out, fIn = In, fCleanup = Cleanup\<rparr>"

definition ATADeviceInterface_delete :: "bool \<Rightarrow> ('t, 's) StorageInterface \<Rightarrow> 's \<Rightarrow> (abort + 's) option" where
  "ATADeviceInterface_delete debug this s =
     ebind (Some (MUST_PASS debug (fCleanup this \<noteq> None))) (\<lambda>_.
       case fCleanup this of None \<Rightarrow> Some (Inr s) | Some f \<Rightarrow> f s)"

definition AHCIDeviceInterface_delete :: "bool \<Rightarrow> ('t, 's) StorageInterface \<Rightarrow> 's \<Rightarrow> (abort + 's) option" where
  "AHCIDeviceInterface_delete debug this s =
     ebind (Some (MUST_PASS debug (fCleanup this \<noteq> None))) (\<lambda>_.
       case fCleanup this of None \<Rightarrow> Some (Inr s) | Some f \<Rightarrow> f s)"

definition NVMEDeviceInterface_delete :: "('t, 's) StorageInterface \<Rightarrow> 's \<Rightarrow> (abort + 's) option" where
  "NVMEDeviceInterface_delete this s = (case fCleanup this of None \<Rightarrow> Some (Inr s) | Some f \<Rightarrow> f s)"

definition ATADeviceInterface_Name :: string where "ATADeviceInterface_Name = ''ATADeviceInterface''"
definition AHCIDeviceInterface_Name :: string where "AHCIDeviceInterface_Name = ''AHCIDeviceInterface''"
definition NVMEDeviceInterface_Name :: string where "NVMEDeviceInterface_Name = ''NVMEDeviceInterface''"

definition kDriveMaxCount :: nat where "kDriveMaxCount = 4"

text \<open>
  The comparison of a drive's kind with the five characters of \<open>"ATA-"\<close>, the terminator among them: the number of
  positions that differ.
\<close>

definition ata_kind_cmp :: "string \<Rightarrow> abort + nat" where
  "ata_kind_cmp kind =
     (if length kind + 1 < 5 then Inl OutOfBounds
      else Inr (length (filter (\<lambda>(a, b). a \<noteq> b) (zip (take 5 (kind @ [CHR 0x00])) (''ATA-'' @ [CHR 0x00])))))"

text \<open>The loop over the drives: whether the transfer goes on, and the error code left by \<open>GetAddressOf\<close>.\<close>

primrec ata_drives :: "'m Mountpoint \<Rightarrow> nat \<Rightarrow> nat \<Rightarrow> HError \<Rightarrow> abort + bool \<times> HError" where
  "ata_drives Data driveCount 0 err = Inr (True, err)"
| "ata_drives Data driveCount (Suc n) err =
     (case GetAddressOf Data (of_nat driveCount) of
        (None, err1) \<Rightarrow> ata_drives Data (Suc driveCount) n err1
      | (Some drive, err1) \<Rightarrow>
          (case ata_kind_cmp (fDriveKind drive) of
             Inl e \<Rightarrow> Inl e
           | Inr c \<Rightarrow> if c = 0 then ata_drives Data (Suc driveCount) n err1 else Inr (False, err1)))"

definition ATADeviceInterface_out ::
    "('m Mountpoint, 's) StorageInterface \<Rightarrow> 'm Mountpoint option \<Rightarrow> 's \<times> HError \<Rightarrow> (abort + 's \<times> HError) option" where
  "ATADeviceInterface_out this Data w =
     (case Data of
        None \<Rightarrow> Some (Inr w)
      | Some mnt \<Rightarrow>
          ebind (Some (ata_drives mnt 0 kDriveMaxCount (snd w))) (\<lambda>(go, err).
            if \<not> go then Some (Inr (fst w, err))
            else ebind (call_device (fOut this) mnt (fst w)) (\<lambda>s. Some (Inr (s, err)))))"

definition ATADeviceInterface_in ::
    "('m Mountpoint, 's) StorageInterface \<Rightarrow> 'm Mountpoint option \<Rightarrow> 's \<times> HError \<Rightarrow> (abort + 's \<times> HError) option" where
  "ATADeviceInterface_in this Data w =
     (case Data of
        None \<Rightarrow> Some (Inr w)
      | Some mnt \<Rightarrow>
          ebind (Some (ata_drives mnt 0 kDriveMaxCount (snd w))) (\<lambda>(go, err).
            if \<not> go then Some (Inr (fst w, err))
            else ebind (call_device (fIn this) mnt (fst w)) (\<lambda>s. Some (Inr (s, err)))))"

section \<open>Properties\<close>

lemma length_filter_zip_0:
  "length xs = length ys \<Longrightarrow> length (filter (\<lambda>(a, b). a \<noteq> b) (zip xs ys)) = 0 \<longleftrightarrow> xs = ys"
  by (induction xs ys rule: list_induct2) auto

lemma ata_kind_cmp_zero:
  assumes "CHR 0x00 \<notin> set kind"
  shows "ata_kind_cmp kind = Inr 0 \<longleftrightarrow> kind = ''ATA-''"
proof (cases "length kind \<ge> 4")
  case True
  have "take 5 (kind @ [CHR 0x00]) = ''ATA-'' @ [CHR 0x00] \<longleftrightarrow> kind = ''ATA-''" (is "?l \<longleftrightarrow> _")
  proof
    assume t: ?l
    show "kind = ''ATA-''"
    proof (cases "length kind = 4")
      case False
      then have "take 5 kind = ''ATA-'' @ [CHR 0x00]" using t True by simp
      then have "CHR 0x00 \<in> set (take 5 kind)" by simp
      then show ?thesis using assms by (meson in_set_takeD)
    qed (use t in simp)
  qed simp
  moreover have "length (take 5 (kind @ [CHR 0x00])) = length (''ATA-'' @ [CHR 0x00])" using True by simp
  ultimately show ?thesis using True length_filter_zip_0 [of "take 5 (kind @ [CHR 0x00])" "''ATA-'' @ [CHR 0x00]"]
    by (simp add: ata_kind_cmp_def)
qed (auto simp: ata_kind_cmp_def)

text \<open>
  Remark. The ATA interface sends something to its device only if the kind of each of the four drives of the mount point
  is exactly the prefix, because the comparison includes the terminator of the string it looks for. With a drive the drive manager
  constructs, whose kind is longer, nothing is sent and nothing changes but the error code.
\<close>

theorem ATADeviceInterface_out_needs_prefix:
  assumes "\<And>t. t \<in> {mA mnt, mB mnt, mC mnt, mD mnt} \<Longrightarrow> CHR 0x00 \<notin> set (fDriveKind t) \<and> 4 \<le> length (fDriveKind t)"
    and "s' \<noteq> s"
  shows "ATADeviceInterface_out this (Some mnt) (s, err) = Some (Inr (s', err'))
    \<longleftrightarrow> (\<forall>t \<in> {mA mnt, mB mnt, mC mnt, mD mnt}. fDriveKind t = ''ATA-'') \<and> err' = kErrorSuccess
      \<and> call_device (fOut this) mnt s = Some (Inr s')"
proof -
  have cmp: "\<exists>c. ata_kind_cmp (fDriveKind t) = Inr c \<and> (c = 0 \<longleftrightarrow> fDriveKind t = ''ATA-'')"
    if "t \<in> {mA mnt, mB mnt, mC mnt, mD mnt}" for t
    using assms(1) [OF that] ata_kind_cmp_zero [of "fDriveKind t"] by (auto simp: ata_kind_cmp_def)
  have drives: "kDriveMaxCount = Suc (Suc (Suc (Suc 0)))" by (simp add: kDriveMaxCount_def)
  have "\<exists>e. ata_drives mnt 0 kDriveMaxCount err = Inr (\<forall>t \<in> {mA mnt, mB mnt, mC mnt, mD mnt}. fDriveKind t = ''ATA-'', e)
      \<and> e = kErrorSuccess"
    using cmp [of "mA mnt"] cmp [of "mB mnt"] cmp [of "mC mnt"] cmp [of "mD mnt"]
    by (auto simp: drives GetAddressOf_def)
  then show ?thesis
    using assms(2) by (auto simp: ATADeviceInterface_out_def ebind_eq_Some)
qed

definition mount_example :: "pio_drive drv_state Mountpoint" where
  "mount_example = (let t = io_construct_blank_drive trait_example in \<lparr>mA = t, mB = t, mC = t, mD = t\<rparr>)"

theorem ATADeviceInterface_out_needs_prefix_witness:
  "ATADeviceInterface_out (StorageInterface_new (Some (\<lambda>_ s. Some (Inr (Suc s)))) None None) (Some mount_example) (0, 0)
     \<noteq> Some (Inr (1, 0))"
  using ATADeviceInterface_out_needs_prefix [of mount_example 1 0
      "StorageInterface_new (Some (\<lambda>_ s. Some (Inr (Suc s)))) None None" 0 0]
  by (simp add: mount_example_def Let_def io_construct_blank_drive_def io_drv_kind_def)

end
