(* ===== verification/Ahci.thy ===== *)
theory Ahci
  imports Devices Rt_Utils
begin

text \<open>
  The AHCI driver, \<^verbatim>\<open>HALKit/AMD64/Storage/AHCI-DMA.cc\<close> on the structures of \<^verbatim>\<open>Modules/AHCI/AHCI.h\<close>. The
  registers of the controller are read and written through an argument, which may use the memory, as a controller
  does; command headers, command tables and buffers are in memory. A reference controller executes a command the way the
  structures ask for it.
\<close>

section \<open>Registers and structures\<close>

record 'h hba =
  hba_in :: "addr \<Rightarrow> mem \<times> 'h \<Rightarrow> u32 \<times> mem \<times> 'h"
  hba_out :: "addr \<Rightarrow> u32 \<Rightarrow> mem \<times> 'h \<Rightarrow> mem \<times> 'h"

definition hba_modify :: "'h hba \<Rightarrow> addr \<Rightarrow> (u32 \<Rightarrow> u32) \<Rightarrow> mem \<times> 'h \<Rightarrow> mem \<times> 'h" where
  "hba_modify H a f w = (let (v, w1) = hba_in H a w in hba_out H a (f v) w1)"

text \<open>Offsets of the fields of \<open>HbaPort\<close> and \<open>HbaMem\<close>.\<close>

definition Port_Clb :: addr where "Port_Clb = 0x00"
definition Port_Clbu :: addr where "Port_Clbu = 0x04"
definition Port_Fb :: addr where "Port_Fb = 0x08"
definition Port_Fbu :: addr where "Port_Fbu = 0x0C"
definition Port_Is :: addr where "Port_Is = 0x10"
definition Port_Cmd :: addr where "Port_Cmd = 0x18"
definition Port_Tfd :: addr where "Port_Tfd = 0x20"
definition Port_Sig :: addr where "Port_Sig = 0x24"
definition Port_Ssts :: addr where "Port_Ssts = 0x28"
definition Port_Sact :: addr where "Port_Sact = 0x34"
definition Port_Ci :: addr where "Port_Ci = 0x38"
definition Hba_Pi :: addr where "Hba_Pi = 0x0C"
definition Hba_Ports :: addr where "Hba_Ports = 0x100"
definition sizeof_HbaPort :: addr where "sizeof_HbaPort = 0x80"

lemmas port_offsets = Port_Clb_def Port_Clbu_def Port_Fb_def Port_Fbu_def Port_Is_def Port_Cmd_def Port_Tfd_def
  Port_Sig_def Port_Ssts_def Port_Sact_def Port_Ci_def

definition HBA_ERR_TFE :: u32 where "HBA_ERR_TFE = 0x40000000"
definition HBA_PxCMD_ST :: u32 where "HBA_PxCMD_ST = 0x0001"
definition HBA_PxCMD_FRE :: u32 where "HBA_PxCMD_FRE = 0x0010"
definition HBA_PxCMD_FR :: u32 where "HBA_PxCMD_FR = 0x4000"
definition HBA_PxCMD_CR :: u32 where "HBA_PxCMD_CR = 0x8000"
definition kAhciStartAddress :: u64 where "kAhciStartAddress = 0x400000"
definition kAhciMaxPoll :: nat where "kAhciMaxPoll = 100000"
definition kSATASubClass :: u8 where "kSATASubClass = 0x06"
definition kSATAProgIfAHCI :: u8 where "kSATAProgIfAHCI = 0x01"
definition kSATASignature :: u32 where "kSATASignature = 0x101"
definition kFISTypeRegH2D :: u8 where "kFISTypeRegH2D = 0x27"
definition kAHCICmdReadDmaEx :: u8 where "kAHCICmdReadDmaEx = 0x25"
definition kAHCISectorSize :: u64 where "kAHCISectorSize = 512"
definition kErrorUnrecoverableDisk :: u32 where "kErrorUnrecoverableDisk = 63"

text \<open>The address a pair of registers gives: the halves are added, not joined.\<close>

definition port_pointer :: "'h hba \<Rightarrow> addr \<Rightarrow> addr \<Rightarrow> addr \<Rightarrow> mem \<times> 'h \<Rightarrow> addr \<times> mem \<times> 'h" where
  "port_pointer H port lo hi w =
     (let (a, w1) = hba_in H (port + lo) w; (b, w2) = hba_in H (port + hi) w1 in (ucast a + ucast b, w2))"

section \<open>Starting a port\<close>

partial_function (option) ahci_wait_stopped :: "'h hba \<Rightarrow> addr \<Rightarrow> mem \<times> 'h \<Rightarrow> (mem \<times> 'h) option" where
  "ahci_wait_stopped H port w =
     (let (v, w1) = hba_in H (port + Port_Cmd) w in
      if v AND HBA_PxCMD_CR \<noteq> 0 then ahci_wait_stopped H port w1
      else let (v2, w2) = hba_in H (port + Port_Cmd) w1 in
           if v2 AND HBA_PxCMD_FR \<noteq> 0 then ahci_wait_stopped H port w2 else Some w2)"

partial_function (option) ahci_wait_start :: "'h hba \<Rightarrow> addr \<Rightarrow> mem \<times> 'h \<Rightarrow> (mem \<times> 'h) option" where
  "ahci_wait_start H port w =
     (let (v, w1) = hba_in H (port + Port_Cmd) w in
      if v AND HBA_PxCMD_FR \<noteq> 0 then ahci_wait_start H port w1 else Some w1)"

definition ahci_Ctba :: "u16 \<Rightarrow> nat \<Rightarrow> u32" where
  "ahci_Ctba ahci_index i =
     ucast (kAhciStartAddress + 0xA000 + push_bit 13 (ucast ahci_index) + push_bit 8 (of_nat i) :: u64)"

text \<open>One command header with its table, and the loop over the headers, with \<open>n\<close> of them to go.\<close>

definition ahci_header_init :: "u16 \<Rightarrow> nat \<Rightarrow> addr \<Rightarrow> mem \<Rightarrow> mem" where
  "ahci_header_init ahci_index i h m =
     (let m1 = store16 m (h + 2) 8;
          m2 = store32 m1 (h + 8) (ahci_Ctba ahci_index i);
          m3 = store32 m2 (h + 12) 0
      in fst (rt_set_memory m3 (ucast (load32 m3 (h + 8)) + ucast (load32 m3 (h + 12))) 0 256))"

primrec ahci_headers :: "u16 \<Rightarrow> addr \<Rightarrow> nat \<Rightarrow> nat \<Rightarrow> mem \<Rightarrow> mem" where
  "ahci_headers ahci_index cmd_header i 0 m = m"
| "ahci_headers ahci_index cmd_header i (Suc n) m =
     ahci_headers ahci_index cmd_header (Suc i) n (ahci_header_init ahci_index i (cmd_header + 32 * of_nat i) m)"

definition ahci_port_setup :: "'h hba \<Rightarrow> addr \<Rightarrow> u16 \<Rightarrow> mem \<times> 'h \<Rightarrow> (mem \<times> 'h) option" where
  "ahci_port_setup H port ahci_index w =
     do { w1 \<leftarrow> ahci_wait_stopped H port
                 (hba_modify H (port + Port_Cmd) (\<lambda>v. v AND NOT HBA_PxCMD_ST)
                   (hba_modify H (port + Port_Cmd) (\<lambda>v. v AND NOT HBA_PxCMD_FRE) w));
          let w2 = hba_out H (port + Port_Clbu) 0
                     (hba_out H (port + Port_Clb) (ucast (kAhciStartAddress + push_bit 10 (ucast ahci_index))) w1);
          let (clb, w3) = port_pointer H port Port_Clb Port_Clbu w2;
          let w4 = (fst (rt_set_memory (fst w3) clb 0 1024), snd w3);
          let w5 = hba_out H (port + Port_Fbu) 0
                     (hba_out H (port + Port_Fb) (ucast (kAhciStartAddress + 0x8000 + push_bit 8 (ucast ahci_index))) w4);
          let (fb, w6) = port_pointer H port Port_Fb Port_Fbu w5;
          let w7 = (fst (rt_set_memory (fst w6) fb 0 256), snd w6);
          let (cmd_header, w8) = port_pointer H port Port_Clb Port_Clbu w7;
          w9 \<leftarrow> ahci_wait_start H port (ahci_headers ahci_index cmd_header 0 32 (fst w8), snd w8);
          Some (hba_modify H (port + Port_Cmd) (\<lambda>v. v OR HBA_PxCMD_ST)
                  (hba_modify H (port + Port_Cmd) (\<lambda>v. v OR HBA_PxCMD_FRE) w9)) }"

text \<open>The search for a port with a disk: any remaining port counts as implemented as long as a later one is.\<close>

primrec ahci_ports ::
    "'h hba \<Rightarrow> addr \<Rightarrow> nat \<Rightarrow> u32 \<Rightarrow> u16 \<Rightarrow> mem \<times> 'h \<Rightarrow> (addr option \<times> mem \<times> 'h) option" where
  "ahci_ports H mem_ahci 0 ports_implemented ahci_index w = Some (None, w)"
| "ahci_ports H mem_ahci (Suc n) ports_implemented ahci_index w =
     (if ports_implemented = 0 then ahci_ports H mem_ahci n (drop_bit 1 ports_implemented) (ahci_index + 1) w
      else
        let port = mem_ahci + Hba_Ports + sizeof_HbaPort * ucast ahci_index;
            (_, w1) = hba_in H (port + Port_Ssts) w; (_, w2) = hba_in H (port + Port_Ssts) w1;
            (sig, w3) = hba_in H (port + Port_Sig) w2 in
        if sig = kSATASignature
        then do { w4 \<leftarrow> ahci_port_setup H port ahci_index w3; Some (Some port, w4) }
        else ahci_ports H mem_ahci n (drop_bit 1 ports_implemented) (ahci_index + 1) w3)"

record ahci_globals =
  kAhciDevice :: Device
  kAhciPort :: addr
  kCurrentDiskSectorCount :: u64

definition drv_calculate_disk_geometry :: "ahci_globals \<Rightarrow> ahci_globals" where
  "drv_calculate_disk_geometry g = g\<lparr>kCurrentDiskSectorCount := 0\<rparr>"

text \<open>One device of the iterator: \<open>None\<close> when the search goes on.\<close>

definition ahci_probe ::
    "'h pci_ports \<Rightarrow> 'h hba \<Rightarrow> ahci_globals \<Rightarrow> mem \<times> 'h \<Rightarrow> (bool option \<times> ahci_globals \<times> mem \<times> 'h) option" where
  "ahci_probe P H g w =
     (let dev = kAhciDevice g; (m, h) = w; (sub, h1) = Device_Subclass P dev h in
      if sub \<noteq> kSATASubClass then Some (None, g, m, h1)
      else let (prog, h2) = Device_ProgIf P dev h1 in
        if prog \<noteq> kSATAProgIfAHCI then Some (None, g, m, h2)
        else
          let h3 = Device_BecomeBusMaster P dev 0x24 (Device_EnableMmio P dev 0x24 h2);
              (mem_ahci, h4) = Device_Bar P dev 0x24 h3;
              (pi, w5) = hba_in H (mem_ahci + Hba_Pi) (m, h4)
          in do { (found, w6) \<leftarrow> ahci_ports H mem_ahci 32 pi 0 w5;
                  Some (Some (found \<noteq> None),
                        (case found of None \<Rightarrow> g | Some port \<Rightarrow> drv_calculate_disk_geometry (g\<lparr>kAhciPort := port\<rparr>)), w6) })"

primrec ahci_devices ::
    "'h pci_ports \<Rightarrow> 'h hba \<Rightarrow> (Device \<Rightarrow> abort + Device) \<Rightarrow> Device list \<Rightarrow> nat \<Rightarrow> nat \<Rightarrow> ahci_globals \<Rightarrow> mem \<times> 'h
     \<Rightarrow> (abort + ahci_globals \<times> bool \<times> mem \<times> 'h) option" where
  "ahci_devices P H expired iterator device_index 0 g w = Some (Inr (g, False, w))"
| "ahci_devices P H expired iterator device_index (Suc n) g w =
     (case Iterator_at iterator (of_nat device_index) of
        Inl e \<Rightarrow> Some (Inl e)
      | Inr r \<Rightarrow>
          (case Ref_Leak expired r of
             Inl e \<Rightarrow> Some (Inl e)
           | Inr dev \<Rightarrow>
               Option.bind (ahci_probe P H (g\<lparr>kAhciDevice := dev\<rparr>) w) (\<lambda>(res, g1, w1).
                 case res of
                   Some detected \<Rightarrow> Some (Inr (g1, detected, w1))
                 | None \<Rightarrow> ahci_devices P H expired iterator (Suc device_index) n g1 w1)))"

text \<open>\<open>garbage\<close> is what the iterator's storage holds, \<open>expired\<close> what a reference to its result yields.\<close>

definition ahci_drv_std_init ::
    "'h pci_ports \<Rightarrow> 'h hba \<Rightarrow> (Device \<Rightarrow> abort + Device) \<Rightarrow> Device list \<Rightarrow> ahci_globals \<Rightarrow> mem \<times> 'h
     \<Rightarrow> (abort + ahci_globals \<times> bool \<times> mem \<times> 'h) option" where
  "ahci_drv_std_init P H expired garbage g w =
     (let (iterator, h1) = Iterator_new P 0x01 garbage (snd w)
      in ahci_devices P H expired iterator 0 ZKA_BUS_COUNT g (fst w, h1))"

definition ahci_drv_std_detected :: "'h pci_ports \<Rightarrow> ahci_globals \<Rightarrow> 'h \<Rightarrow> bool \<times> 'h" where
  "ahci_drv_std_detected P g h = map_prod (\<lambda>v. v \<noteq> 0xFFFF) id (Device_DeviceId P (kAhciDevice g) h)"

definition ahci_drv_get_sector_count :: "ahci_globals \<Rightarrow> u64" where
  "ahci_drv_get_sector_count g = kCurrentDiskSectorCount g"

definition ahci_drv_get_size :: "ahci_globals \<Rightarrow> u64" where
  "ahci_drv_get_size g = ahci_drv_get_sector_count g * kAHCISectorSize"

section \<open>Reading\<close>

text \<open>The search for a free command slot compares the slot's number with the shrinking mask.\<close>

function ahci_slot :: "u64 \<Rightarrow> u32 \<Rightarrow> u64" where
  "ahci_slot port slots =
     (if \<not> port < ucast slots then port
      else if slots AND 1 = 0 then port
      else ahci_slot (port + 1) (drop_bit 1 slots))"
  by pat_completeness auto
termination
proof (relation "measure (\<lambda>(_, slots). unat slots)", goal_cases)
  case (2 port slots)
  then have "slots \<noteq> 0" by auto
  then have "0 < unat slots" by (simp add: unat_gt_0)
  then show ?case by (simp add: drop_bit_eq_div unat_div)
qed simp

declare ahci_slot.simps [simp del]

text \<open>The command header: the length of the frame, the direction, and the number of regions.\<close>

definition ahci_header :: "addr \<Rightarrow> u64 \<Rightarrow> mem \<Rightarrow> mem" where
  "ahci_header cmd_hdr sector_cnt m =
     store16 (m(cmd_hdr := ((m cmd_hdr AND NOT 0x1F) OR 5) AND NOT 0x40)) (cmd_hdr + 2)
       (ucast (drop_bit 4 (sector_cnt - 1)) + 1)"

text \<open>One region: the address and the size of the buffer, and the interrupt bit.\<close>

definition ahci_prdt_entry :: "addr \<Rightarrow> u64 \<Rightarrow> addr \<Rightarrow> mem \<Rightarrow> mem" where
  "ahci_prdt_entry buffer size_buffer entry m =
     (let m1 = store32 m entry (ucast buffer);
          m2 = store32 m1 (entry + 4) (ucast (drop_bit 32 buffer));
          m3 = store32 m2 (entry + 12) ((load32 m2 (entry + 12) AND NOT 0x3FFFFF) OR (ucast (size_buffer - 1) AND 0x3FFFFF))
      in store32 m3 (entry + 12) (load32 m3 (entry + 12) OR 0x80000000))"

partial_function (option) ahci_prdt_loop :: "addr \<Rightarrow> u64 \<Rightarrow> addr \<Rightarrow> addr \<Rightarrow> u64 \<Rightarrow> mem \<Rightarrow> mem option" where
  "ahci_prdt_loop buffer size_buffer cmd_hdr cmd_tbl i m =
     (if i < ucast (load16 m (cmd_hdr + 2)) - 1
      then ahci_prdt_loop buffer size_buffer cmd_hdr cmd_tbl (i + 1)
             (ahci_prdt_entry buffer size_buffer (cmd_tbl + 0x80 + 16 * i) m)
      else Some m)"

text \<open>The command frame.\<close>

definition ahci_fis :: "u64 \<Rightarrow> u64 \<Rightarrow> addr \<Rightarrow> mem \<Rightarrow> mem" where
  "ahci_fis lba sector_cnt fis m =
     m(fis := kFISTypeRegH2D, fis + 1 := m (fis + 1) OR 0x80, fis + 2 := kAHCICmdReadDmaEx,
       fis + 4 := ucast (ucast lba :: u32), fis + 5 := ucast (drop_bit 8 (ucast lba :: u32)),
       fis + 6 := ucast (drop_bit 16 (ucast lba :: u32)), fis + 7 := 0x40,
       fis + 8 := ucast (drop_bit 24 (ucast lba :: u32)), fis + 9 := ucast (drop_bit 32 lba),
       fis + 10 := ucast (drop_bit 8 (drop_bit 32 lba)),
       fis + 12 := ucast (sector_cnt AND 0xFF), fis + 13 := ucast (drop_bit 8 sector_cnt AND 0xFF))"

definition ahci_command ::
    "u64 \<Rightarrow> addr \<Rightarrow> u64 \<Rightarrow> u64 \<Rightarrow> addr \<Rightarrow> mem \<Rightarrow> mem option" where
  "ahci_command lba buffer sector_cnt size_buffer cmd_hdr m =
     (let m1 = ahci_header cmd_hdr sector_cnt m;
          cmd_tbl = ucast (load32 m1 (cmd_hdr + 8)) + ucast (load32 m1 (cmd_hdr + 12));
          m2 = fst (rt_set_memory m1 cmd_tbl 0 ((ucast (load16 m1 (cmd_hdr + 2)) - 1) * 16))
      in Option.bind (ahci_prdt_loop buffer size_buffer cmd_hdr cmd_tbl 0 m2) (\<lambda>m3.
         Some (ahci_fis lba sector_cnt cmd_tbl (ahci_prdt_entry buffer size_buffer (cmd_tbl + 0x80) m3))))"

primrec ahci_spin :: "'h hba \<Rightarrow> addr \<Rightarrow> nat \<Rightarrow> nat \<Rightarrow> mem \<times> 'h \<Rightarrow> nat \<times> mem \<times> 'h" where
  "ahci_spin H port spin 0 w = (spin, snd (hba_in H (port + Port_Tfd) w))"
| "ahci_spin H port spin (Suc n) w =
     (let (v, w1) = hba_in H (port + Port_Tfd) w in
      if v AND 0x88 \<noteq> 0 then ahci_spin H port (Suc spin) n w1 else (spin, w1))"

text \<open>Waiting for the command: \<open>False\<close> when the task file reports an error.\<close>

partial_function (option) ahci_wait_done :: "'h hba \<Rightarrow> addr \<Rightarrow> u32 \<Rightarrow> mem \<times> 'h \<Rightarrow> (bool \<times> mem \<times> 'h) option" where
  "ahci_wait_done H port slot_bit w =
     (let (ci, w1) = hba_in H (port + Port_Ci) w in
      if ci AND slot_bit = 0 then Some (True, w1)
      else let (is, w2) = hba_in H (port + Port_Is) w1 in
           if is AND HBA_ERR_TFE \<noteq> 0 then Some (False, w2) else ahci_wait_done H port slot_bit w2)"

text \<open>The result is the state and the global error code.\<close>

definition ahci_drv_std_read ::
    "'h hba \<Rightarrow> ahci_globals \<Rightarrow> u64 \<Rightarrow> addr \<Rightarrow> u64 \<Rightarrow> u64 \<Rightarrow> mem \<times> 'h \<Rightarrow> u32 \<Rightarrow> ((mem \<times> 'h) \<times> u32) option" where
  "ahci_drv_std_read H g lba buffer sector_cnt size_buffer w err =
     (let p = kAhciPort g;
          w1 = hba_out H (p + Port_Is) (- 1) w;
          (sact, w2) = hba_in H (p + Port_Sact) w1;
          (ci, w3) = hba_in H (p + Port_Ci) w2;
          port = ahci_slot 0 (sact OR ci);
          (clb, w4) = port_pointer H p Port_Clb Port_Clbu w3
      in do { m5 \<leftarrow> ahci_command lba buffer sector_cnt size_buffer (clb + 32 * port) (fst w4);
              let (spin, w6) = ahci_spin H p 0 kAhciMaxPoll (m5, snd w4);
              if spin = 1000000 then Some (w6, err)
              else do {
                (ok, w7) \<leftarrow> ahci_wait_done H p (push_bit (unat port) 1) (hba_out H (p + Port_Ci) (push_bit (unat port) 1) w6);
                if \<not> ok then Some (w7, kErrorUnrecoverableDisk)
                else let (is, w8) = hba_in H (p + Port_Is) w7 in
                  if is AND HBA_ERR_TFE \<noteq> 0 then Some (((fst w8)(buffer := 0), snd w8), kErrorUnrecoverableDisk)
                  else Some (w8, err) } })"

text \<open>Writing does nothing.\<close>

definition ahci_drv_std_write :: "u64 \<Rightarrow> addr \<Rightarrow> u64 \<Rightarrow> u64 \<Rightarrow> mem \<times> 'h \<Rightarrow> mem \<times> 'h" where
  "ahci_drv_std_write lba buffer sector_cnt size_buffer w = w"

section \<open>A reference controller\<close>

text \<open>
  One port with a disk behind it: registers, and sectors of 512 bytes. A command is executed when it is issued: the frame
  gives the first sector and the number of sectors, and the data go to the regions of the table one after the other.
  Data left over set the overflow bit, a frame that is no read command the error bit.
\<close>

record sata =
  sr_Clb :: u32
  sr_Clbu :: u32
  sr_Fb :: u32
  sr_Fbu :: u32
  sr_Is :: u32
  sr_Cmd :: u32
  sectors :: "nat \<Rightarrow> u8 list"

primrec dma_fill :: "nat \<Rightarrow> addr \<Rightarrow> u8 list \<Rightarrow> mem \<Rightarrow> mem \<times> u8 list" where
  "dma_fill 0 e data m = (m, data)"
| "dma_fill (Suc n) e data m =
     (let len = unat (load32 m (e + 12) AND 0x3FFFFF) + 1;
          p = ucast (load32 m e) + push_bit 32 (ucast (load32 m (e + 4)))
      in dma_fill n (e + 16) (drop len data) (store_bytes m p (take len data)))"

definition sata_execute :: "nat \<Rightarrow> mem \<times> sata \<Rightarrow> mem \<times> sata" where
  "sata_execute slot w =
     (let (m, h) = w;
          hdr = ucast (sr_Clb h) + push_bit 32 (ucast (sr_Clbu h)) + 32 * of_nat slot;
          tbl = ucast (load32 m (hdr + 8)) + push_bit 32 (ucast (load32 m (hdr + 12)));
          lba = le_val [m (tbl + 4), m (tbl + 5), m (tbl + 6), m (tbl + 8), m (tbl + 9), m (tbl + 10)];
          cnt = le_val [m (tbl + 12), m (tbl + 13)]
      in if m tbl = 0x27 \<and> m (tbl + 1) AND 0x80 \<noteq> 0 \<and> m (tbl + 2) = 0x25 then
           let (m1, rest) = dma_fill (unat (load16 m (hdr + 2))) (tbl + 0x80) (concat (map (sectors h) [lba..<lba + cnt])) m
           in (m1, if rest = [] then h else h\<lparr>sr_Is := sr_Is h OR 0x01000000\<rparr>)
         else (m, h\<lparr>sr_Is := sr_Is h OR 0x40000000\<rparr>))"

definition sata_in :: "addr \<Rightarrow> addr \<Rightarrow> mem \<times> sata \<Rightarrow> u32 \<times> mem \<times> sata" where
  "sata_in base a w =
     (let h = snd w in
      (if a = base + Port_Clb then sr_Clb h else if a = base + Port_Clbu then sr_Clbu h
       else if a = base + Port_Fb then sr_Fb h else if a = base + Port_Fbu then sr_Fbu h
       else if a = base + Port_Is then sr_Is h
       else if a = base + Port_Cmd then
         sr_Cmd h OR (if sr_Cmd h AND HBA_PxCMD_FRE \<noteq> 0 then HBA_PxCMD_FR else 0)
           OR (if sr_Cmd h AND HBA_PxCMD_ST \<noteq> 0 then HBA_PxCMD_CR else 0)
       else if a = base + Port_Tfd then 0x50
       else if a = base + Port_Sig then 0x101
       else 0, w))"

definition sata_out :: "addr \<Rightarrow> addr \<Rightarrow> u32 \<Rightarrow> mem \<times> sata \<Rightarrow> mem \<times> sata" where
  "sata_out base a v w =
     (let (m, h) = w in
      if a = base + Port_Clb then (m, h\<lparr>sr_Clb := v\<rparr>) else if a = base + Port_Clbu then (m, h\<lparr>sr_Clbu := v\<rparr>)
      else if a = base + Port_Fb then (m, h\<lparr>sr_Fb := v\<rparr>) else if a = base + Port_Fbu then (m, h\<lparr>sr_Fbu := v\<rparr>)
      else if a = base + Port_Is then (m, h\<lparr>sr_Is := sr_Is h AND NOT v\<rparr>)
      else if a = base + Port_Cmd then (m, h\<lparr>sr_Cmd := v AND NOT (HBA_PxCMD_FR OR HBA_PxCMD_CR)\<rparr>)
      else if a = base + Port_Ci then fold sata_execute (filter (bit v) [0..<32]) w
      else w)"

definition sata_hba :: "addr \<Rightarrow> sata hba" where
  "sata_hba base = \<lparr>hba_in = sata_in base, hba_out = sata_out base\<rparr>"

lemma sata_reads [simp]:
  "hba_in (sata_hba base) (base + Port_Clb) w = (sr_Clb (snd w), w)"
  "hba_in (sata_hba base) (base + Port_Clbu) w = (sr_Clbu (snd w), w)"
  "hba_in (sata_hba base) (base + Port_Fb) w = (sr_Fb (snd w), w)"
  "hba_in (sata_hba base) (base + Port_Fbu) w = (sr_Fbu (snd w), w)"
  "hba_in (sata_hba base) (base + Port_Is) w = (sr_Is (snd w), w)"
  "hba_in (sata_hba base) (base + Port_Tfd) w = (0x50, w)"
  "hba_in (sata_hba base) (base + Port_Sact) w = (0, w)"
  "hba_in (sata_hba base) (base + Port_Ci) w = (0, w)"
  by (simp_all add: sata_hba_def sata_in_def port_offsets)

lemma sata_writes [simp]:
  "hba_out (sata_hba base) (base + Port_Clb) v w = (fst w, snd w\<lparr>sr_Clb := v\<rparr>)"
  "hba_out (sata_hba base) (base + Port_Clbu) v w = (fst w, snd w\<lparr>sr_Clbu := v\<rparr>)"
  "hba_out (sata_hba base) (base + Port_Fb) v w = (fst w, snd w\<lparr>sr_Fb := v\<rparr>)"
  "hba_out (sata_hba base) (base + Port_Fbu) v w = (fst w, snd w\<lparr>sr_Fbu := v\<rparr>)"
  "hba_out (sata_hba base) (base + Port_Is) v w = (fst w, snd w\<lparr>sr_Is := sr_Is (snd w) AND NOT v\<rparr>)"
  "hba_out (sata_hba base) (base + Port_Cmd) v w = (fst w, snd w\<lparr>sr_Cmd := v AND NOT (HBA_PxCMD_FR OR HBA_PxCMD_CR)\<rparr>)"
  "hba_out (sata_hba base) (base + Port_Ci) v w = fold sata_execute (filter (bit v) [0..<32]) w"
  by (simp_all add: sata_hba_def sata_out_def port_offsets split_def)

section \<open>The structures a read prepares\<close>

definition entry_ok :: "addr \<Rightarrow> u64 \<Rightarrow> addr \<Rightarrow> mem \<Rightarrow> bool" where
  "entry_ok buffer sz e m \<longleftrightarrow> load32 m e = ucast buffer \<and> load32 m (e + 4) = ucast (drop_bit 32 buffer)
     \<and> load32 m (e + 12) AND 0x3FFFFF = ucast (sz - 1) AND 0x3FFFFF"

lemma load32_store32_near [simp]:
  "load32 (store32 m (e + 4) v) e = load32 m e" "load32 (store32 m (e + 12) v) e = load32 m e"
  "load32 (store32 m (e + 12) v) (e + 4) = load32 m (e + 4)"
  "load32 (store32 m e v) (e + 12) = load32 m (e + 12)" "load32 (store32 m (e + 4) v) (e + 12) = load32 m (e + 12)"
  using load32_store32_off [of 0 4 m e v] load32_store32_off [of 0 12 m e v] load32_store32_off [of 4 12 m e v]
    load32_store32_off [of 12 0 m e v] load32_store32_off [of 12 4 m e v]
  by simp_all

lemma region_bits: "(((x :: u32) AND NOT 0x3FFFFF OR v AND 0x3FFFFF) OR 0x80000000) AND 0x3FFFFF = v AND 0x3FFFFF"
  by (simp add: bit.conj_disj_distrib2 bit.conj_disj_distrib and.assoc)

lemma ahci_prdt_entry_ok: "entry_ok b sz e (ahci_prdt_entry b sz e m)"
  unfolding entry_ok_def ahci_prdt_entry_def Let_def load32_store32_same load32_store32_near region_bits by simp

lemma ahci_prdt_entry_frame:
  assumes "\<not> in_range x e 16"
  shows "ahci_prdt_entry b sz e m x = m x"
proof -
  have "\<not> in_range x e 4" "\<not> in_range x (e + 4) 4" "\<not> in_range x (e + 12) 4"
    using in_range_sub [of x e 0 4 16] in_range_sub [of x e 4 4 16] in_range_sub [of x e 12 4 16] assms by auto
  then show ?thesis by (simp add: ahci_prdt_entry_def Let_def store32_apply_other)
qed

lemma load32_between:
  assumes "\<And>i. lo \<le> i \<Longrightarrow> i < n \<Longrightarrow> m' (e + of_nat i) = m (e + of_nat i)" and "lo \<le> k" "k + 4 \<le> n"
  shows "load32 m' (e + of_nat k) = load32 m (e + of_nat k)"
  using assms(1) [of "k + _"] assms(2,3) by (auto intro!: load_frame simp: add.assoc)

lemma load_frame_off:
  assumes "\<And>i. i < n \<Longrightarrow> m' (e + of_nat i) = m (e + of_nat i)"
  shows "k + 4 \<le> n \<Longrightarrow> load32 m' (e + of_nat k) = load32 m (e + of_nat k)"
    and "k + 2 \<le> n \<Longrightarrow> load16 m' (e + of_nat k) = load16 m (e + of_nat k)"
  using assms [of "k + _"] by (auto intro!: load_frame simp: add.assoc)

lemma entry_ok_frame:
  assumes "entry_ok b sz e m" and same: "\<And>i. i < 16 \<Longrightarrow> m' (e + of_nat i) = m (e + of_nat i)"
  shows "entry_ok b sz e m'"
  using assms(1) load_frame_off(1) [of 16 m' e m 0] load_frame_off(1) [of 16 m' e m 4] load_frame_off(1) [of 16 m' e m 12] same
  by (simp add: entry_ok_def)

text \<open>The offset of an entry in its table, and the room the tables need.\<close>

definition entry_off :: "nat \<Rightarrow> nat" where "entry_off k = 0x80 + 16 * k"

lemma entry_off_addr: "tbl + 0x80 + 16 * of_nat k = tbl + (of_nat (entry_off k) :: addr)"
  by (simp add: entry_off_def)

lemma of_nat_entry_less:
  assumes "1 \<le> n" "n < 2 ^ 16" "i < 2 ^ 16"
  shows "(of_nat i :: u64) < ucast (of_nat n :: u16) - 1 \<longleftrightarrow> i < n - 1"
proof -
  have "unat (of_nat n :: u16) = n" using assms(2) by (simp add: unat_of_nat)
  then have "(ucast (of_nat n :: u16) :: u64) = of_nat n" by (metis of_nat_unat)
  then have "(ucast (of_nat n :: u16) :: u64) - 1 = of_nat (n - 1)" using assms(1) by (simp add: of_nat_diff)
  moreover have "unat (of_nat i :: u64) = i" "unat (of_nat (n - 1) :: u64) = n - 1"
    using assms by (intro unat_of_nat_addr; simp)+
  ultimately show ?thesis by (simp add: word_less_nat_alt)
qed

lemma outside_table:
  assumes "disjoint_ranges hdr 32 tbl 2048" "j < 32" "a + n \<le> 2048"
  shows "\<not> in_range (hdr + of_nat j) (tbl + of_nat a) n"
  using disjoint_ranges_not_in [OF assms(1,2)] in_range_sub [of "hdr + of_nat j" tbl a n 2048] assms(3) by auto

lemma ahci_prdt_loop_ok:
  assumes "load16 m (hdr + 2) = of_nat n" "1 \<le> n" "n \<le> 120" "i \<le> n - 1" "disjoint_ranges hdr 32 tbl 2048"
  shows "\<exists>m'. ahci_prdt_loop b sz hdr tbl (of_nat i) m = Some m'
    \<and> (\<forall>k. i \<le> k \<longrightarrow> k < n - 1 \<longrightarrow> entry_ok b sz (tbl + of_nat (entry_off k)) m')
    \<and> (\<forall>x. \<not> in_range x (tbl + of_nat (entry_off i)) (16 * (n - 1 - i)) \<longrightarrow> m' x = m x)"
  using assms
proof (induction "n - 1 - i" arbitrary: i m)
  case 0
  then have "\<not> (of_nat i :: u64) < ucast (load16 m (hdr + 2)) - 1" by (subst 0(2)) (subst of_nat_entry_less; simp)
  then show ?case using 0 by (subst ahci_prdt_loop.simps) auto
next
  case (Suc d)
  let ?e = "tbl + of_nat (entry_off i)"
  define m1 where "m1 = ahci_prdt_entry b sz ?e m"
  have i: "i < n - 1" using Suc.hyps(2) by simp
  have step: "ahci_prdt_loop b sz hdr tbl (of_nat i) m = ahci_prdt_loop b sz hdr tbl (of_nat (Suc i)) m1"
    using Suc.prems i by (subst ahci_prdt_loop.simps) (simp add: of_nat_entry_less m1_def entry_off_def ac_simps)
  have "m1 (hdr + of_nat j) = m (hdr + of_nat j)" if "j < 32" for j
    using outside_table [OF Suc.prems(5) that, of "entry_off i" 16] i Suc.prems(3)
    by (simp add: m1_def ahci_prdt_entry_frame entry_off_def)
  then have "load16 m1 (hdr + 2) = of_nat n" using load_frame_off(2) [of 32 m1 hdr m 2] Suc.prems(1) by simp
  moreover have "d = n - 1 - Suc i" "Suc i \<le> n - 1" using Suc.hyps(2) by simp_all
  ultimately obtain m' where m': "ahci_prdt_loop b sz hdr tbl (of_nat (Suc i)) m1 = Some m'"
    "\<And>k. Suc i \<le> k \<Longrightarrow> k < n - 1 \<Longrightarrow> entry_ok b sz (tbl + of_nat (entry_off k)) m'"
    "\<And>x. \<not> in_range x (tbl + of_nat (entry_off (Suc i))) (16 * (n - 1 - Suc i)) \<Longrightarrow> m' x = m1 x"
    using Suc.hyps(1) [of "Suc i" m1] Suc.prems by blast
  have "m' (?e + of_nat j) = m1 (?e + of_nat j)" if "j < 16" for j
  proof (rule m'(3))
    show "\<not> in_range (?e + of_nat j) (tbl + of_nat (entry_off (Suc i))) (16 * (n - 1 - Suc i))"
      using in_range_off [of "entry_off i + j" "entry_off (Suc i)" "16 * (n - 1 - Suc i)" tbl] that i Suc.prems(3)
      by (simp add: entry_off_def add.assoc)
  qed
  then have here: "entry_ok b sz ?e m'" using entry_ok_frame [OF ahci_prdt_entry_ok, of m' ?e b sz m] by (simp add: m1_def)
  have frame: "m' x = m x" if x: "\<not> in_range x ?e (16 * (n - 1 - i))" for x
  proof -
    have "tbl + of_nat (entry_off (Suc i)) = ?e + of_nat 16" by (simp add: entry_off_def)
    moreover have small: "n - Suc (Suc i) \<le> 1152921504606846975" using Suc.prems(3) by simp
    moreover have "16 * (n - 1 - i) = 16 + 16 * (n - 1 - Suc i)" using i by simp
    then have "\<not> in_range x ?e (16 + 16 * (n - 1 - Suc i))" using x by simp
    then have "\<not> in_range x (?e + of_nat 16) (16 * (n - 1 - Suc i))" "\<not> in_range x ?e 16"
      using in_range_sub [of x ?e 16 "16 * (n - 1 - Suc i)" "16 + 16 * (n - 1 - Suc i)"]
        in_range_sub [of x ?e 0 16 "16 + 16 * (n - 1 - Suc i)"] Suc.prems(3) small by auto
    ultimately show ?thesis using m'(3) [of x] by (simp add: m1_def ahci_prdt_entry_frame add.assoc)
  qed
  have "entry_ok b sz (tbl + of_nat (entry_off k)) m'" if "i \<le> k" "k < n - 1" for k
    using that here m'(2) [of k] by (cases "k = i") auto
  with step m'(1) frame show ?case by auto
qed

lemma ahci_fis_frame: "\<not> in_range x fis 16 \<Longrightarrow> ahci_fis lba cnt fis m x = m x"
  using not_in_range_neq [of x fis 16] not_in_range_neq [of x fis 16 0]
  by (simp add: ahci_fis_def not_in_range_neq [of x fis 16 1, simplified] not_in_range_neq [of x fis 16 2, simplified]
      not_in_range_neq [of x fis 16 4, simplified] not_in_range_neq [of x fis 16 5, simplified]
      not_in_range_neq [of x fis 16 6, simplified] not_in_range_neq [of x fis 16 7, simplified]
      not_in_range_neq [of x fis 16 8, simplified] not_in_range_neq [of x fis 16 9, simplified]
      not_in_range_neq [of x fis 16 10, simplified] not_in_range_neq [of x fis 16 12, simplified]
      not_in_range_neq [of x fis 16 13, simplified])

lemma byte_of_u64: "(of_nat (unat (v :: u64) div 2 ^ k mod 256) :: u8) = ucast (drop_bit k v)"
proof -
  have "unat v div 2 ^ k = unat (drop_bit k v)" using unat_drop_bit_eq [of k v] by (simp add: drop_bit_eq_div)
  then have "(of_nat (unat v div 2 ^ k mod 256) :: u8) = of_nat (unat (drop_bit k v))"
    by (simp only: word_unat_eq_iff unat_of_nat_u8 mod_mod_trivial)
  then show ?thesis by (simp only: of_nat_unat)
qed

lemma le_bytes_u64:
  "le_bytes 6 (unat (v :: u64)) = [ucast v, ucast (drop_bit 8 v), ucast (drop_bit 16 v), ucast (drop_bit 24 v),
     ucast (drop_bit 32 v), ucast (drop_bit 40 v)]"
  "le_bytes 2 (unat (v :: u64)) = [ucast v, ucast (drop_bit 8 v)]"
  using byte_of_u64 [of v 0] byte_of_u64 [of v 8] byte_of_u64 [of v 16] byte_of_u64 [of v 24] byte_of_u64 [of v 32]
    byte_of_u64 [of v 40]
  by (simp_all add: eval_simps div_mult2_eq [symmetric])

lemma ucast_drop_u32: "k + 8 \<le> 32 \<Longrightarrow> (ucast (drop_bit k (ucast (v :: u64) :: u32)) :: u8) = ucast (drop_bit k v)"
  by (rule bit_word_eqI) (auto simp: bit_simps)

lemma ucast_and_byte: "(ucast ((v :: u64) AND 0xFF) :: u8) = ucast v"
proof -
  have "v AND 0xFF = take_bit 8 v" by (simp add: take_bit_eq_mask mask_eq_exp_minus_1)
  then show ?thesis by (simp add: unsigned_take_bit_eq) (rule bit_word_eqI, auto simp: bit_simps)
qed

lemma ahci_fis_lba:
  assumes "unat lba < 2 ^ 48"
  shows "le_val [ahci_fis lba cnt t m (t + 4), ahci_fis lba cnt t m (t + 5), ahci_fis lba cnt t m (t + 6),
    ahci_fis lba cnt t m (t + 8), ahci_fis lba cnt t m (t + 9), ahci_fis lba cnt t m (t + 10)] = unat lba"
proof -
  have "[ahci_fis lba cnt t m (t + 4), ahci_fis lba cnt t m (t + 5), ahci_fis lba cnt t m (t + 6),
    ahci_fis lba cnt t m (t + 8), ahci_fis lba cnt t m (t + 9), ahci_fis lba cnt t m (t + 10)] = le_bytes 6 (unat lba)"
    using ucast_drop_u32 [of 0 lba] ucast_drop_u32 [of 8 lba] ucast_drop_u32 [of 16 lba] ucast_drop_u32 [of 24 lba]
    by (simp add: le_bytes_u64 ahci_fis_def)
  then show ?thesis using assms by (simp only: le_val_le_bytes) simp
qed

lemma ahci_fis_cnt:
  assumes "unat cnt < 2 ^ 16"
  shows "le_val [ahci_fis lba cnt t m (t + 12), ahci_fis lba cnt t m (t + 13)] = unat cnt"
proof -
  have "[ahci_fis lba cnt t m (t + 12), ahci_fis lba cnt t m (t + 13)] = le_bytes 2 (unat cnt)"
    by (simp add: le_bytes_u64 ahci_fis_def ucast_and_byte)
  then show ?thesis using assms by (simp only: le_val_le_bytes) simp
qed

lemma ahci_fis_command:
  "ahci_fis lba cnt t m t = 0x27" "ahci_fis lba cnt t m (t + 1) AND 0x80 \<noteq> 0" "ahci_fis lba cnt t m (t + 2) = 0x25"
  by (simp_all add: ahci_fis_def kFISTypeRegH2D_def kAHCICmdReadDmaEx_def bit.conj_disj_distrib2)

lemma ahci_header_ok:
  shows "load16 (ahci_header hdr cnt m) (hdr + 2) = ucast (drop_bit 4 (cnt - 1)) + 1"
    and "4 \<le> j \<Longrightarrow> j < 32 \<Longrightarrow> ahci_header hdr cnt m (hdr + of_nat j) = m (hdr + of_nat j)"
proof -
  show "load16 (ahci_header hdr cnt m) (hdr + 2) = ucast (drop_bit 4 (cnt - 1)) + 1"
    by (simp add: ahci_header_def load16_store16_same)
  assume j: "4 \<le> j" "j < 32"
  have "\<not> in_range (hdr + of_nat j) (hdr + of_nat 2) 2" "hdr + of_nat j \<noteq> hdr"
    using in_range_off [of j 2 2 hdr] j of_nat_addr_inj [of j 0] by auto
  then show "ahci_header hdr cnt m (hdr + of_nat j) = m (hdr + of_nat j)"
    by (simp add: ahci_header_def store16_apply_other)
qed

lemma rt_set_memory_zero:
  assumes "p \<noteq> null" "4 * unat len \<le> 2 ^ 64"
  shows "fst (rt_set_memory m p 0 len) x = (if in_range x p (4 * unat len) then 0 else m x)"
proof -
  have "le_bytes 4 (unat (0 :: u32)) = [0, 0, 0, 0]" by (simp add: eval_simps)
  then have "\<forall>b \<in> set (le_bytes 4 (unat (0 :: u32))). b = 0" by simp
  then have "le_bytes 4 (unat (0 :: u32)) ! k = 0" if "k < 4" for k using that by (metis nth_mem length_le_bytes)
  then show ?thesis
    using assms by (simp add: rt_set_memory_def word_less_1 rt_set_memory_loop_eq store_bytes_apply nth_fill in_range_def)
qed

text \<open>The memory after a command has been prepared: \<open>n\<close> regions are announced.\<close>

lemma ahci_command_ok:
  assumes "load32 m (hdr + 8) = t" "load32 m (hdr + 12) = 0" and tbl: "tbl = ucast t" "tbl \<noteq> null"
    and dis: "disjoint_ranges hdr 32 tbl 2048" and n: "n = unat (drop_bit 4 (cnt - 1)) + 1" "n \<le> 33"
  shows "\<exists>m' m''. ahci_command lba b cnt sz hdr m = Some m' \<and> m' = ahci_fis lba cnt tbl m''
    \<and> load32 m' (hdr + 8) = t \<and> load32 m' (hdr + 12) = 0 \<and> load16 m' (hdr + 2) = of_nat n
    \<and> (\<forall>k < max 1 (n - 1). entry_ok b sz (tbl + of_nat (entry_off k)) m')
    \<and> (4 \<le> n \<longrightarrow> (\<forall>j < 16. m' (tbl + of_nat (entry_off (n - 1)) + of_nat j) = 0))"
proof -
  define m1 where "m1 = ahci_header hdr cnt m"
  have keep1: "m1 (hdr + of_nat j) = m (hdr + of_nat j)" if "4 \<le> j" "j < 32" for j
    using ahci_header_ok(2) that by (simp add: m1_def)
  have ptr1: "load32 m1 (hdr + 8) = t" "load32 m1 (hdr + 12) = 0"
    using load32_between [of 4 32 m1 hdr m 8] load32_between [of 4 32 m1 hdr m 12] keep1 assms(1,2) by simp_all
  then have ptr: "ucast (load32 m1 (hdr + 8)) + ucast (load32 m1 (hdr + 12)) = tbl" by (simp add: tbl(1))
  have prdtl: "load16 m1 (hdr + 2) = of_nat n"
    using ahci_header_ok(1) n(1) by (simp add: m1_def add.commute)
  have un: "unat (of_nat n :: u16) = n" using n(2) by (simp add: unat_of_nat)
  then have "(ucast (of_nat n :: u16) :: u64) = of_nat n" by (metis of_nat_unat)
  moreover have "(of_nat n - 1 :: u64) = of_nat (n - 1)" by (subst of_nat_diff) (simp_all add: n(1))
  ultimately have len: "((ucast (load16 m1 (hdr + 2)) - 1) * 16 :: u64) = of_nat (16 * (n - 1))"
    unfolding prdtl by (simp only: of_nat_mult of_nat_numeral mult.commute)
  define m2 where "m2 = fst (rt_set_memory m1 tbl 0 (of_nat (16 * (n - 1))))"
  have ulen: "unat (of_nat (16 * (n - 1)) :: u64) = 16 * (n - 1)" using n(2) by (intro unat_of_nat_addr) simp
  have m2: "m2 x = (if in_range x tbl (64 * (n - 1)) then 0 else m1 x)" for x
    using rt_set_memory_zero [OF tbl(2), of "of_nat (16 * (n - 1))" m1 x] n(2) unfolding m2_def ulen by simp
  have keep2: "m2 (hdr + of_nat j) = m1 (hdr + of_nat j)" if "j < 32" for j
    using outside_table [OF dis that, of 0 "64 * (n - 1)"] n(2) by (simp add: m2)
  have "load16 m2 (hdr + 2) = of_nat n" using load_frame_off(2) [of 32 m2 hdr m1 2] keep2 prdtl by simp
  then obtain m3 where m3: "ahci_prdt_loop b sz hdr tbl 0 m2 = Some m3"
    "\<And>k. k < n - 1 \<Longrightarrow> entry_ok b sz (tbl + of_nat (entry_off k)) m3"
    "\<And>x. \<not> in_range x (tbl + of_nat (entry_off 0)) (16 * (n - 1)) \<Longrightarrow> m3 x = m2 x"
    using ahci_prdt_loop_ok [of m2 hdr n 0 tbl b sz] n dis by auto
  define m4 where "m4 = ahci_prdt_entry b sz (tbl + of_nat (entry_off 0)) m3"
  define m5 where "m5 = ahci_fis lba cnt tbl m4"
  have "ahci_command lba b cnt sz hdr m = Some m5"
    unfolding ahci_command_def Let_def m1_def [symmetric] ptr len m2_def [symmetric] m3(1)
    by (simp add: m5_def m4_def entry_off_def)
  moreover have keep5: "m5 (hdr + of_nat j) = m1 (hdr + of_nat j)" if "j < 32" for j
    using outside_table [OF dis that, of 0 16] outside_table [OF dis that, of "entry_off 0" 16]
      outside_table [OF dis that, of "entry_off 0" "16 * (n - 1)"] n(2) m3(3) [of "hdr + of_nat j"] keep2 [OF that]
    by (simp add: m5_def m4_def ahci_fis_frame ahci_prdt_entry_frame entry_off_def)
  moreover have "load32 m5 (hdr + 8) = t" "load32 m5 (hdr + 12) = 0" "load16 m5 (hdr + 2) = of_nat n"
    using load_frame_off(1) [of 32 m5 hdr m1 8] load_frame_off(1) [of 32 m5 hdr m1 12] load_frame_off(2) [of 32 m5 hdr m1 2]
      keep5 ptr1 prdtl by simp_all
  moreover have "entry_ok b sz (tbl + of_nat (entry_off k)) m5" if k: "k < max 1 (n - 1)" for k
  proof -
    have same: "m5 (tbl + of_nat (entry_off k) + of_nat j) = m4 (tbl + of_nat (entry_off k) + of_nat j)" if "j < 16" for j
      using in_range_off [of "entry_off k + j" 0 16 tbl] that k n(2)
      by (simp add: m5_def ahci_fis_frame entry_off_def add.assoc)
    have "entry_ok b sz (tbl + of_nat (entry_off k)) m4"
    proof (cases "k = 0")
      case False
      have "m4 (tbl + of_nat (entry_off k) + of_nat j) = m3 (tbl + of_nat (entry_off k) + of_nat j)" if "j < 16" for j
        using in_range_off [of "entry_off k + j" "entry_off 0" 16 tbl] that k n(2) False
        by (simp add: m4_def ahci_prdt_entry_frame entry_off_def add.assoc)
      then show ?thesis using m3(2) [of k] k False by (intro entry_ok_frame [OF m3(2)]) auto
    qed (simp add: m4_def ahci_prdt_entry_ok)
    then show ?thesis by (rule entry_ok_frame) (rule same)
  qed
  moreover have "m5 (tbl + of_nat (entry_off (n - 1)) + of_nat j) = 0" if "4 \<le> n" "j < 16" for j
  proof -
    let ?x = "tbl + of_nat (entry_off (n - 1) + j)"
    have o: "entry_off (n - 1) + j = 128 + 16 * (n - 1) + j" "entry_off 0 = 128" by (simp_all add: entry_off_def)
    have r: "in_range ?x (tbl + of_nat a) l \<longleftrightarrow> a \<le> 128 + 16 * (n - 1) + j \<and> 128 + 16 * (n - 1) + j < a + l"
      if "a \<le> 128" "l \<le> 64 * (n - 1) + 16" for a l
      unfolding o(1) using that n(2) \<open>j < 16\<close> by (intro in_range_off) simp_all
    have "\<not> in_range ?x (tbl + of_nat 0) 16" using r [of 0 16] by simp
    moreover have "\<not> in_range ?x (tbl + of_nat (entry_off 0)) 16" using r [of 128 16] \<open>4 \<le> n\<close> unfolding o(2) by simp
    moreover have "\<not> in_range ?x (tbl + of_nat (entry_off 0)) (16 * (n - 1))" using r [of 128 "16 * (n - 1)"] unfolding o(2) by simp
    moreover have "128 + 16 * (n - 1) + j < 64 * (n - 1)" using that by linarith
    then have "in_range ?x (tbl + of_nat 0) (64 * (n - 1))" using r [of 0 "64 * (n - 1)"] by simp
    ultimately have "m5 ?x = 0" using m3(3) [of ?x] by (simp add: m5_def m4_def ahci_fis_frame ahci_prdt_entry_frame m2)
    then show ?thesis by (simp add: add.assoc)
  qed
  ultimately show ?thesis unfolding m5_def by blast
qed

section \<open>What the controller does with them\<close>

lemma region_address: "ucast (ucast (b :: u64) :: u32) + push_bit 32 (ucast (ucast (drop_bit 32 b) :: u32)) = b"
proof -
  have "ucast (ucast b :: u32) = take_bit 32 b" by (rule bit_word_eqI) (auto simp: bit_simps)
  moreover have "ucast (ucast (drop_bit 32 b) :: u32) = drop_bit 32 b" by (rule bit_word_eqI) (auto simp: bit_simps dest: bit_imp_le_length)
  ultimately show ?thesis using bits_ident [of 32 b] by (simp add: add.commute)
qed

lemma region_length:
  assumes "1 \<le> unat sz" "unat sz \<le> 2 ^ 22"
  shows "unat (ucast ((sz :: u64) - 1) AND 0x3FFFFF :: u32) + 1 = unat sz"
proof -
  have u: "unat (sz - 1) = unat sz - 1" using assms(1) by (intro unat_minus_one) auto
  have "(ucast (sz - 1) AND 0x3FFFFF :: u32) = take_bit 22 (ucast (sz - 1))" by (simp add: take_bit_eq_mask mask_eq_exp_minus_1)
  then have "unat (ucast (sz - 1) AND 0x3FFFFF :: u32) = take_bit 22 (unat (ucast (sz - 1) :: u32))" by (simp add: unsigned_take_bit_eq)
  also have "unat (ucast (sz - 1) :: u32) = unat sz - 1" using u assms(2) by (simp add: unsigned_ucast_eq take_bit_eq_mod)
  finally show ?thesis using assms by (simp add: take_bit_eq_mod)
qed

lemma dma_fill_entry:
  assumes "entry_ok b sz e m" "1 \<le> unat sz" "unat sz \<le> 2 ^ 22"
  shows "dma_fill (Suc n) e data m = dma_fill n (e + 16) (drop (unat sz) data) (store_bytes m b (take (unat sz) data))"
  using assms region_length [OF assms(2,3)] by (simp add: entry_ok_def region_address Let_def)

lemma concat_block:
  "(\<And>x. x \<in> set xs \<Longrightarrow> length (f x) = c) \<Longrightarrow> i < length xs \<Longrightarrow> take c (drop (c * i) (concat (map f xs))) = f (xs ! i)"
proof (induction xs arbitrary: i)
  case (Cons x xs)
  then show ?case by (cases i) simp_all
qed simp

lemma length_concat_block: "(\<And>x. x \<in> set xs \<Longrightarrow> length (f x) = c) \<Longrightarrow> length (concat (map f xs)) = c * length xs"
  by (induction xs) simp_all

text \<open>Entries that all point to one buffer outside the table leave the data of the last one there.\<close>

lemma dma_fill_same_buffer:
  assumes "\<And>k. i \<le> k \<Longrightarrow> k < i + Suc n \<Longrightarrow> entry_ok b 512 (tbl + of_nat (entry_off k)) m"
    and "disjoint_ranges tbl 2048 b 512" "i + Suc n \<le> 120" "512 * Suc n \<le> length data"
  shows "\<exists>m'. dma_fill (Suc n + j) (tbl + of_nat (entry_off i)) data m =
      dma_fill j (tbl + of_nat (entry_off (i + Suc n))) (drop (512 * Suc n) data) m'
    \<and> load_bytes m' b 512 = take 512 (drop (512 * n) data) \<and> (\<forall>x. \<not> in_range x b 512 \<longrightarrow> m' x = m x)"
  using assms
proof (induction n arbitrary: i m data)
  case 0
  let ?m = "store_bytes m b (take 512 data)"
  have len: "length (take 512 data) = 512" using 0(4) by simp
  have "tbl + of_nat (entry_off i) + 16 = tbl + of_nat (entry_off (Suc i))" by (simp add: entry_off_def)
  then have "dma_fill (Suc j) (tbl + of_nat (entry_off i)) data m = dma_fill j (tbl + of_nat (entry_off (Suc i))) (drop 512 data) ?m"
    using dma_fill_entry [of b 512 "tbl + of_nat (entry_off i)" m j data] 0(1) [of i] by (simp add: add.assoc del: dma_fill.simps)
  moreover have "load_bytes ?m b 512 = take 512 data" using load_store_bytes_same [of "take 512 data" m b] len by simp
  moreover have "\<forall>x. \<not> in_range x b 512 \<longrightarrow> ?m x = m x" using len by (simp add: store_bytes_apply)
  ultimately show ?case by (intro exI [of _ ?m]) (simp del: dma_fill.simps)
next
  case (Suc n)
  let ?m = "store_bytes m b (take 512 data)"
  have len: "length (take 512 data) = 512" using Suc.prems(4) by simp
  have next_entry: "tbl + of_nat (entry_off i) + 16 = tbl + of_nat (entry_off (Suc i))" by (simp add: entry_off_def)
  have step: "dma_fill (Suc (Suc n) + j) (tbl + of_nat (entry_off i)) data m =
      dma_fill (Suc n + j) (tbl + of_nat (entry_off (Suc i))) (drop 512 data) ?m"
    using dma_fill_entry [of b 512 "tbl + of_nat (entry_off i)" m "Suc n + j" data] Suc.prems(1) [of i] next_entry
    by (simp add: add.assoc del: dma_fill.simps)
  have frame: "?m x = m x" if "\<not> in_range x b 512" for x using that len by (simp add: store_bytes_apply)
  have entries: "entry_ok b 512 (tbl + of_nat (entry_off k)) ?m" if "Suc i \<le> k" "k < Suc i + Suc n" for k
  proof (rule entry_ok_frame)
    show "entry_ok b 512 (tbl + of_nat (entry_off k)) m" using Suc.prems(1) [of k] that by simp
    fix j :: nat
    assume "j < 16"
    then have "entry_off k + j < 2048" using that Suc.prems(3) by (simp add: entry_off_def)
    from disjoint_ranges_not_in [OF Suc.prems(2) this] show "?m (tbl + of_nat (entry_off k) + of_nat j) = m (tbl + of_nat (entry_off k) + of_nat j)"
      by (intro frame) (simp add: add.assoc)
  qed
  moreover have "Suc i + Suc n \<le> 120" "512 * Suc n \<le> length (drop 512 data)" using Suc.prems(3,4) by simp_all
  ultimately obtain m' where m': "dma_fill (Suc n + j) (tbl + of_nat (entry_off (Suc i))) (drop 512 data) ?m =
      dma_fill j (tbl + of_nat (entry_off (Suc i + Suc n))) (drop (512 * Suc n) (drop 512 data)) m'"
    "load_bytes m' b 512 = take 512 (drop (512 * n) (drop 512 data))" "\<And>x. \<not> in_range x b 512 \<Longrightarrow> m' x = ?m x"
    using Suc.IH [of "Suc i" ?m "drop 512 data"] Suc.prems(2) by blast
  have "dma_fill (Suc (Suc n) + j) (tbl + of_nat (entry_off i)) data m =
      dma_fill j (tbl + of_nat (entry_off (i + Suc (Suc n)))) (drop (512 * Suc (Suc n)) data) m'"
    unfolding step m'(1) by (simp add: ac_simps)
  moreover have "load_bytes m' b 512 = take 512 (drop (512 * Suc n) data)" using m'(2) by (simp add: ac_simps)
  ultimately show ?case using m'(3) frame by auto
qed

section \<open>Properties\<close>

text \<open>A port whose first command header has its table at \<open>t\<close>, with room for the entries.\<close>

definition sata_ready :: "u32 \<Rightarrow> mem \<times> sata \<Rightarrow> bool" where
  "sata_ready t w \<longleftrightarrow> (let hdr = ucast (sr_Clb (snd w)) in
     sr_Clbu (snd w) = 0 \<and> load32 (fst w) (hdr + 8) = t \<and> load32 (fst w) (hdr + 12) = 0 \<and> t \<noteq> 0
     \<and> disjoint_ranges hdr 32 (ucast t) 2048)"

definition read_data :: "sata \<Rightarrow> u64 \<Rightarrow> u64 \<Rightarrow> u8 list" where
  "read_data h lba cnt = concat (map (sectors h) [unat lba..<unat lba + unat cnt])"

lemma ucast_u32_eq_0: "(ucast (t :: u32) :: u64) = 0 \<longleftrightarrow> t = 0"
  by transfer (auto simp: take_bit_take_bit)

lemma ahci_slot_free: "ahci_slot 0 0 = 0"
  by (subst ahci_slot.simps) simp

lemma ahci_spin_ready: "ahci_spin (sata_hba base) base spin n w = (spin, w)"
  by (cases n) simp_all

lemma first_slot: "filter (bit (1 :: u32)) [0..<32] = [0]"
proof -
  have "[0..<32] = 0 # [1..<32]" by (simp add: upt_conv_Cons)
  then show ?thesis by (auto simp: bit_1_iff filter_empty_conv)
qed

text \<open>A read up to the execution of its command by the controller.\<close>

lemma ahci_read_executes:
  assumes ready: "sata_ready t (m, h)" and n: "n = unat (drop_bit 4 (cnt - 1)) + 1" "n \<le> 33"
    and small: "unat lba < 2 ^ 48" "unat cnt < 2 ^ 16"
  shows "\<exists>m'. (\<forall>k < max 1 (n - 1). entry_ok b sz (ucast t + of_nat (entry_off k)) m')
    \<and> (4 \<le> n \<longrightarrow> (\<forall>j < 16. m' (ucast t + of_nat (entry_off (n - 1)) + of_nat j) = 0))
    \<and> ahci_drv_std_read (sata_hba (kAhciPort g)) g lba b cnt sz (m, h) err =
        (case dma_fill n (ucast t + of_nat (entry_off 0)) (read_data h lba cnt) m' of (m'', rest) \<Rightarrow>
           Some ((m'', h\<lparr>sr_Is := if rest = [] then 0 else 0x01000000\<rparr>), err))"
proof -
  let ?hdr = "ucast (sr_Clb h) :: addr" and ?tbl = "ucast t :: addr" and ?H = "sata_hba (kAhciPort g)"
  note r = ready [unfolded sata_ready_def Let_def fst_conv snd_conv]
  have tbl: "?tbl \<noteq> null" using r by (simp add: ucast_u32_eq_0)
  obtain m' m0 where c: "ahci_command lba b cnt sz ?hdr m = Some m'" "m' = ahci_fis lba cnt ?tbl m0"
    "load32 m' (?hdr + 8) = t" "load32 m' (?hdr + 12) = 0" "load16 m' (?hdr + 2) = of_nat n"
    "\<forall>k < max 1 (n - 1). entry_ok b sz (?tbl + of_nat (entry_off k)) m'"
    "4 \<le> n \<longrightarrow> (\<forall>j < 16. m' (?tbl + of_nat (entry_off (n - 1)) + of_nat j) = 0)"
    using ahci_command_ok [of m ?hdr t ?tbl n cnt lba b sz] r n tbl by blast
  let ?h = "h\<lparr>sr_Is := 0\<rparr>"
  have un: "unat (of_nat n :: u16) = n" using n(2) by (simp add: unat_of_nat)
  have "sata_execute 0 (m', ?h) =
      (case dma_fill n (?tbl + 0x80) (read_data h lba cnt) m' of (m'', rest) \<Rightarrow> (m'', ?h\<lparr>sr_Is := if rest = [] then 0 else 0x01000000\<rparr>))"
    using c(3-5) r ahci_fis_command [of lba cnt ?tbl m0] ahci_fis_lba [OF small(1), of cnt ?tbl m0] ahci_fis_cnt [OF small(2), of lba ?tbl m0]
    unfolding c(2) [symmetric]
    by (simp add: sata_execute_def Let_def un read_data_def del: le_val.simps split: prod.split)
  then have exec: "hba_out ?H (kAhciPort g + Port_Ci) 1 (m', ?h) =
      (case dma_fill n (?tbl + of_nat (entry_off 0)) (read_data h lba cnt) m' of (m'', rest) \<Rightarrow> (m'', ?h\<lparr>sr_Is := if rest = [] then 0 else 0x01000000\<rparr>))"
    by (simp add: first_slot entry_off_def)
  have completed: "ahci_wait_done ?H (kAhciPort g) 1 w = Some (True, w)" for w by (subst ahci_wait_done.simps) simp
  have "ahci_drv_std_read ?H g lba b cnt sz (m, h) err =
        (case dma_fill n (?tbl + of_nat (entry_off 0)) (read_data h lba cnt) m' of (m'', rest) \<Rightarrow>
           Some ((m'', h\<lparr>sr_Is := if rest = [] then 0 else 0x01000000\<rparr>), err))"
    using c(1) r exec
    by (simp add: ahci_drv_std_read_def Let_def port_pointer_def ahci_slot_free ahci_spin_ready completed HBA_ERR_TFE_def split: prod.split)
  with c(6,7) show ?thesis by blast
qed

lemma length_read_data: "(\<And>i. length (sectors h i) = 512) \<Longrightarrow> length (read_data h lba cnt) = 512 * unat cnt"
  unfolding read_data_def by (subst length_concat_block [where c = 512]) simp_all


definition sata_example :: sata where
  "sata_example = \<lparr>sr_Clb = 0x400000, sr_Clbu = 0, sr_Fb = 0, sr_Fbu = 0, sr_Is = 0, sr_Cmd = 0, sectors = \<lambda>i. replicate 512 (of_nat i)\<rparr>"

definition ahci_mem_example :: mem where
  "ahci_mem_example = store32 (\<lambda>_. 0) 0x400008 0x40A000"

definition ahci_globals_example :: ahci_globals where
  "ahci_globals_example = \<lparr>kAhciDevice = \<lparr>fBus = 0, fDevice = 0, fFunction = 0, fBar = 0\<rparr>, kAhciPort = 0xF0000100, kCurrentDiskSectorCount = 0\<rparr>"

lemma sata_example_ready: "sata_ready 0x40A000 (ahci_mem_example, sata_example)"
  using load32_store32_off [of 12 8 "\<lambda>_. 0" "0x400000" "0x40A000"]
  by (simp add: sata_ready_def sata_example_def ahci_mem_example_def load32_store32_same disjoint_ranges_def)
    (simp add: load32_def eval_simps)

lemma sata_example_sectors: "length (sectors sata_example i) = 512"
  by (simp add: sata_example_def)




section \<open>A port after its start\<close>

lemma sata_in_Cmd [simp]:
  "hba_in (sata_hba base) (base + Port_Cmd) w =
     (sr_Cmd (snd w) OR (if sr_Cmd (snd w) AND HBA_PxCMD_FRE \<noteq> 0 then HBA_PxCMD_FR else 0)
        OR (if sr_Cmd (snd w) AND HBA_PxCMD_ST \<noteq> 0 then HBA_PxCMD_CR else 0), w)"
  by (simp add: sata_hba_def sata_in_def port_offsets)

lemmas cmd_bits = HBA_PxCMD_FRE_def HBA_PxCMD_ST_def HBA_PxCMD_FR_def HBA_PxCMD_CR_def

definition stopped :: "sata \<Rightarrow> bool" where
  "stopped h \<longleftrightarrow> sr_Cmd h AND HBA_PxCMD_FRE = 0 \<and> sr_Cmd h AND HBA_PxCMD_ST = 0
     \<and> sr_Cmd h AND HBA_PxCMD_FR = 0 \<and> sr_Cmd h AND HBA_PxCMD_CR = 0"

lemma stop_commands:
  "\<exists>h'. hba_modify (sata_hba base) (base + Port_Cmd) (\<lambda>v. v AND NOT HBA_PxCMD_ST)
     (hba_modify (sata_hba base) (base + Port_Cmd) (\<lambda>v. v AND NOT HBA_PxCMD_FRE) (m, h)) = (m, h')
   \<and> stopped h' \<and> sectors h' = sectors h"
  by (auto simp: hba_modify_def stopped_def cmd_bits bit.conj_disj_distrib2 bit.conj_disj_distrib and.assoc)

lemma stopped_waits:
  assumes "stopped h"
  shows "ahci_wait_stopped (sata_hba base) base (m, h) = Some (m, h)" "ahci_wait_start (sata_hba base) base (m, h) = Some (m, h)"
  using assms by (subst ahci_wait_stopped.simps ahci_wait_start.simps, simp add: stopped_def)+

text \<open>The offsets of the structures of port \<open>k\<close> from the start of the driver's memory.\<close>

lemma ucast_ucast_u32: "unat (x :: u64) < 2 ^ 32 \<Longrightarrow> ucast (ucast x :: u32) = x"
  by (simp add: word_unat_eq_iff unsigned_ucast_eq unsigned_take_bit_eq take_bit_nat_eq_self)

lemma unat_start: "n < 2 ^ 20 \<Longrightarrow> unat (kAhciStartAddress + of_nat n) = 0x400000 + n"
  by (simp add: kAhciStartAddress_def unat_word_ariths unat_of_nat)

lemma ahci_addresses:
  assumes "idx < 32" and "i < 32"
  shows "ucast (ucast (kAhciStartAddress + push_bit 10 (ucast idx)) :: u32) = kAhciStartAddress + of_nat (1024 * unat idx)"
    and "ucast (ahci_Ctba idx i) = kAhciStartAddress + of_nat (0xA000 + 8192 * unat idx + 256 * i)"
    and "unat idx < 32"
proof -
  have k: "unat idx < 32" using assms(1) by (simp add: word_less_nat_alt)
  have u: "(ucast idx :: u64) = of_nat (unat idx)" by simp
  have small: "unat (kAhciStartAddress + of_nat n) < 2 ^ 32" if "n < 2 ^ 20" for n
    using that by (simp add: unat_start)
  show "unat idx < 32" by (fact k)
  have "kAhciStartAddress + push_bit 10 (ucast idx) = kAhciStartAddress + of_nat (1024 * unat idx)"
    by (simp add: push_bit_eq_mult mult.commute)
  then show "ucast (ucast (kAhciStartAddress + push_bit 10 (ucast idx)) :: u32) = kAhciStartAddress + of_nat (1024 * unat idx)"
    using ucast_ucast_u32 [OF small [of "1024 * unat idx"]] k by simp
  have c: "kAhciStartAddress + 0xA000 + push_bit 13 (ucast idx) + push_bit 8 (of_nat i) =
      kAhciStartAddress + of_nat (0xA000 + 8192 * unat idx + 256 * i)"
    by (simp add: push_bit_eq_mult mult.commute)
  show "ucast (ahci_Ctba idx i) = kAhciStartAddress + of_nat (0xA000 + 8192 * unat idx + 256 * i)"
    unfolding ahci_Ctba_def c using ucast_ucast_u32 [OF small [of "0xA000 + 8192 * unat idx + 256 * i"]] k assms(2) by simp
qed

text \<open>Filling in a header changes its words and clears its table.\<close>

lemma ahci_header_init_memory:
  assumes idx: "idx < 32" "i < 32" and h: "h = kAhciStartAddress + of_nat a" "a + 32 \<le> 0xA000"
  shows "load32 (ahci_header_init idx i h m) (h + 8) = ahci_Ctba idx i" "load32 (ahci_header_init idx i h m) (h + 12) = 0"
    and "\<And>c. c < 0xA000 \<Longrightarrow> c < a \<or> a + 16 \<le> c \<Longrightarrow>
      ahci_header_init idx i h m (kAhciStartAddress + of_nat c) = m (kAhciStartAddress + of_nat c)"
proof -
  let ?S = "kAhciStartAddress" and ?o = "0xA000 + 8192 * unat idx + 256 * i"
  define m3 where "m3 = store32 (store32 (store16 m (h + 2) 8) (h + 8) (ahci_Ctba idx i)) (h + 12) 0"
  note addr = ahci_addresses [OF idx]
  have "load32 m3 (h + 8) = ahci_Ctba idx i" "load32 m3 (h + 12) = 0"
    using load32_store32_off [of 8 12 _ h 0] by (simp_all add: m3_def load32_store32_same)
  moreover have "?S + of_nat ?o \<noteq> 0"
  proof -
    have "unat (?S + of_nat ?o) = 0x400000 + ?o" using addr(3) idx(2) by (intro unat_start) simp
    then show ?thesis by (metis add_is_0 unat_0 zero_neq_numeral)
  qed
  ultimately have m4: "ahci_header_init idx i h m x = (if in_range x (?S + of_nat ?o) 1024 then 0 else m3 x)" for x
    using rt_set_memory_zero [of "?S + of_nat ?o" 256 m3 x] addr(2)
    by (simp add: ahci_header_init_def Let_def flip: m3_def)
  have below: "ahci_header_init idx i h m (?S + of_nat c) = m3 (?S + of_nat c)" if "c < 0xA000" for c
    using that in_range_off [of c ?o 1024 ?S] addr(3) idx(2) by (simp add: m4)
  have "load32 (ahci_header_init idx i h m) (h + of_nat k) = load32 m3 (h + of_nat k)" if "k + 4 \<le> 32" for k
    using load_frame_off(1) [of 32 "ahci_header_init idx i h m" h m3 k] below [of "a + _"] h that by (simp add: add.assoc)
  from this [of 8] this [of 12] show "load32 (ahci_header_init idx i h m) (h + 8) = ahci_Ctba idx i"
    "load32 (ahci_header_init idx i h m) (h + 12) = 0"
    using \<open>load32 m3 (h + 8) = ahci_Ctba idx i\<close> \<open>load32 m3 (h + 12) = 0\<close> by simp_all
  fix c
  assume c: "c < 0xA000" "c < a \<or> a + 16 \<le> c"
  have "\<not> in_range (?S + of_nat c) (h + of_nat d) l" if "d + l \<le> 16" for d l
    using in_range_off [of c "a + d" l ?S] c h that by (auto simp: add.assoc)
  from this [of 2 2] this [of 8 4] this [of 12 4] have "m3 (?S + of_nat c) = m (?S + of_nat c)"
    by (simp add: m3_def store32_apply_other store16_apply_other)
  then show "ahci_header_init idx i h m (?S + of_nat c) = m (?S + of_nat c)" using below [OF c(1)] by simp
qed

lemma ahci_headers_keep:
  assumes "idx < 32" "1 \<le> i" "i + n \<le> 32" "c < 16"
  shows "ahci_headers idx (kAhciStartAddress + of_nat (1024 * unat idx)) i n m (kAhciStartAddress + of_nat (1024 * unat idx + c)) =
    m (kAhciStartAddress + of_nat (1024 * unat idx + c))"
  using assms(2,3)
proof (induction n arbitrary: i m)
  case (Suc n)
  have k: "unat idx < 32" using ahci_addresses(3) [OF assms(1), of 0] by simp
  have "kAhciStartAddress + of_nat (1024 * unat idx) + 32 * of_nat i = kAhciStartAddress + of_nat (1024 * unat idx + 32 * i)"
    by simp
  then have "ahci_header_init idx i (kAhciStartAddress + of_nat (1024 * unat idx) + 32 * of_nat i) m (kAhciStartAddress + of_nat (1024 * unat idx + c)) =
      m (kAhciStartAddress + of_nat (1024 * unat idx + c))"
    using Suc.prems assms(1,4) k by (intro ahci_header_init_memory(3) [of idx i _ "1024 * unat idx + 32 * i"]) simp_all
  then show ?case using Suc.IH [of "Suc i"] Suc.prems by simp
qed simp



text \<open>
  Remark. The slot that is chosen has only slots in use below it, but it may be in use itself: the search stops when the number of the
  slot reaches the remaining mask. With the first two slots in use it takes the second of them.
\<close>

theorem ahci_slot_in_use: "ahci_slot 0 1 = 1 \<and> ahci_slot 0 3 = 1 \<and> ahci_slot 0 0xFFFFFFFF = 28"
  by (simp add: ahci_slot.simps)

end
