(* ===== verification/Windows.thy ===== *)
theory Windows
  imports Kernel_Heap Framebuffer
begin

text \<open>
  Windows, \<^verbatim>\<open>Modules/FB/KWindow.h\<close>: creating and destroying them on the kernel heap and drawing them with the macros of
  the frame buffer. A window is a structure in memory at its natural alignment, so that unbounded names and child lists
  overwrite what lies behind them as in the kernel. The drawing macros read their arguments again in every iteration; the
  model reads them once per statement, which is the same unless a window lies in the memory of the screen.
\<close>

section \<open>The structure\<close>

definition kWndFlagNoShow :: u32 where "kWndFlagNoShow = 0x02"
definition kWndFlagButton :: u32 where "kWndFlagButton = 0x04"
definition kWndFlagWindow :: u32 where "kWndFlagWindow = 0x06"
definition kWndFlagButtonSelect :: u32 where "kWndFlagButtonSelect = 0x08"
definition kWndFlagHideCloseControl :: u32 where "kWndFlagHideCloseControl = 0x10"
definition kWndFlagCloseControlSelect :: u32 where "kWndFlagCloseControlSelect = 0x12"

definition FLATCONTROLS_HEIGHT :: u32 where "FLATCONTROLS_HEIGHT = 24"
definition FLATCONTROLS_WIDTH :: u32 where "FLATCONTROLS_WIDTH = 44"

text \<open>Offsets in \<open>ML_WINDOW_STRUCT\<close>; the window name is at offset 0.\<close>

definition w_class_name :: addr where "w_class_name = 255"
definition w_type :: addr where "w_type = 512"
definition w_sub_type :: addr where "w_sub_type = 516"
definition w_x :: addr where "w_x = 520"
definition w_y :: addr where "w_y = 524"
definition w_w :: addr where "w_w = 528"
definition w_h :: addr where "w_h = 532"
definition w_child_count :: addr where "w_child_count = 536"
definition w_child_elements :: addr where "w_child_elements = 544"
definition w_parent :: addr where "w_parent = 2584"
definition display_ptr :: addr where "display_ptr = 2592"
definition w_needs_repaint :: addr where "w_needs_repaint = 2600"
definition sizeof_ML_WINDOW_STRUCT :: nat where "sizeof_ML_WINDOW_STRUCT = 2608"

lemmas wnd_offsets = w_class_name_def w_type_def w_sub_type_def w_x_def w_y_def w_w_def w_h_def w_child_count_def
  w_child_elements_def w_parent_def display_ptr_def w_needs_repaint_def

section \<open>Creating and destroying\<close>

definition kErrorHeapOutOfMemory :: HError where "kErrorHeapOutOfMemory = 44"

definition CGDrawBackground :: "gop \<Rightarrow> mem \<Rightarrow> mem" where
  "CGDrawBackground g m = CGDrawInRegion g (RGB 0x45 0x00 0x06) (ucast (f_Height g)) (ucast (f_Width g)) 0 0 m"

text \<open>Copying a name: its length is not compared with the 255 characters of the field.\<close>

definition wnd_copy_name :: "addr \<Rightarrow> addr \<Rightarrow> mem \<Rightarrow> mem option" where
  "wnd_copy_name name dst m = map_option (\<lambda>len. fst (rt_copy_memory m name dst len)) (rt_string_len m name)"

definition wnd_link_parent :: "addr \<Rightarrow> addr \<Rightarrow> mem \<Rightarrow> mem" where
  "wnd_link_parent wnd parent m =
     (if parent = null then m
      else let m1 = store64 m (wnd + w_parent) parent;
               m2 = store64 m1 (parent + w_child_count) (load64 m1 (parent + w_child_count) + 1)
           in store64 m2 (parent + w_child_elements + 8 * (load64 m2 (parent + w_child_count) - 1)) wnd)"

definition wnd_set_fields :: "addr \<Rightarrow> u32 \<Rightarrow> u32 \<Rightarrow> u32 \<Rightarrow> u32 \<Rightarrow> u32 \<Rightarrow> mem \<Rightarrow> mem" where
  "wnd_set_fields wnd kind x y width height m =
     (let m = store32 m (wnd + w_sub_type) 0;
          m = store32 m (wnd + w_type) kind;
          m = store32 m (wnd + w_x) x;
          m = store32 m (wnd + w_y) y;
          m = store32 m (wnd + w_w) width
      in store32 m (wnd + w_h) height)"

text \<open>
  The new object is cleared by its initialisers. The size of the display is a product of type \<open>Int32\<close>; a negative one is
  not a length an array can have.
\<close>

definition CGCreateWindow ::
    "u32 \<Rightarrow> addr \<Rightarrow> addr \<Rightarrow> u32 \<Rightarrow> u32 \<Rightarrow> u32 \<Rightarrow> u32 \<Rightarrow> addr \<Rightarrow> HError \<Rightarrow> mm_state \<Rightarrow> (abort + mm_state \<times> addr \<times> HError) option" where
  "CGCreateWindow kind window_name class_name x y width height parent err st =
     ebind (operator_new (of_nat sizeof_ML_WINDOW_STRUCT) st) (\<lambda>(st, wnd).
       if wnd = null then Some (Inr (st, null, kErrorHeapOutOfMemory))
       else case wnd_copy_name window_name wnd (store_bytes (memory st) wnd (replicate sizeof_ML_WINDOW_STRUCT 0)) of
         None \<Rightarrow> None
       | Some m \<Rightarrow>
           (case wnd_copy_name class_name (wnd + w_class_name) m of
              None \<Rightarrow> None
            | Some m \<Rightarrow>
                let m = wnd_set_fields wnd kind x y width height (wnd_link_parent wnd parent m);
                    n = sint width * sint height
                in if n < - (2 ^ 31) \<or> 2 ^ 31 \<le> n then Some (Inl SignedOverflow)
                   else if n < 0 then Some (Inl OutOfBounds)
                   else ebind (operator_new (4 * word_of_int n) (st\<lparr>memory := m\<rparr>)) (\<lambda>(st, display).
                     Some (Inr (st\<lparr>memory := fst (rt_set_memory (store64 (memory st) (wnd + display_ptr) display) display
                                    (RGB 0xF5 0xF5 0xF5) (word_of_int n))\<rparr>, wnd, err)))))"

definition CGDestroyWindow :: "addr \<Rightarrow> mm_state \<Rightarrow> abort + mm_state \<times> bool" where
  "CGDestroyWindow wnd st =
     (if wnd \<noteq> null then
        case operator_delete wnd st of Inl e \<Rightarrow> Inl e | Inr st' \<Rightarrow> Inr (st', \<not> mm_is_valid_heap wnd st')
      else Inr (st, False))"

section \<open>Drawing\<close>

partial_function (option) CGDrawStringToWnd_loop ::
    "gop \<Rightarrow> addr \<Rightarrow> addr \<Rightarrow> u64 \<Rightarrow> u32 \<Rightarrow> u32 \<Rightarrow> u32 \<Rightarrow> mem \<Rightarrow> (abort + mem) option" where
  "CGDrawStringToWnd_loop g wnd str i y_dst x_dst color m =
     (let c = m (str + i) in
      if c = 0 then Some (Inr m)
      else if sint x_dst > sint (load32 m (wnd + w_w) + load32 m (wnd + w_x)) then Some (Inr m)
      else if c \<ge> 0x80 then Some (Inl OutOfBounds)
      else CGDrawStringToWnd_loop g wnd str (i + 1) y_dst (x_dst + of_nat FONT_SIZE_Y) color
             (CGRenderStringFromBitMap g (cFontBitmap ! unat c) FONT_SIZE_X FONT_SIZE_Y y_dst x_dst color m))"

definition CGDrawStringToWnd :: "gop \<Rightarrow> addr \<Rightarrow> addr \<Rightarrow> u32 \<Rightarrow> u32 \<Rightarrow> u32 \<Rightarrow> mem \<Rightarrow> (abort + mem) option" where
  "CGDrawStringToWnd g wnd str y_dst x_dst color m =
     (let y_dst = y_dst + (load32 m (wnd + w_y) + FLATCONTROLS_HEIGHT);
          x_dst = x_dst + load32 m (wnd + w_x)
      in if sint y_dst > sint (load32 m (wnd + w_h) + load32 m (wnd + w_y)) then Some (Inr m)
         else CGDrawStringToWnd_loop g wnd str 0 y_dst x_dst color m)"

text \<open>A window beyond the right or the lower edge is moved; the screen is measured in 64 bits.\<close>

definition wnd_clip_x :: "gop \<Rightarrow> addr \<Rightarrow> mem \<Rightarrow> mem" where
  "wnd_clip_x g wnd m =
     (let x = sint (load32 m (wnd + w_x)); width = uint (f_Width g) in
      if width < x then store32 m (wnd + w_x) (if x - width > 1 then word_of_int (x - (x - width)) else 0) else m)"

definition wnd_clip_y :: "gop \<Rightarrow> addr \<Rightarrow> mem \<Rightarrow> mem" where
  "wnd_clip_y g wnd m =
     (let y = sint (load32 m (wnd + w_y)); height = uint (f_Height g) in
      if height < y then store32 m (wnd + w_y) (if y - height > 1 then word_of_int (y - (y - uint (f_Width g))) else 0) else m)"

definition draw_title :: "gop \<Rightarrow> addr \<Rightarrow> addr \<Rightarrow> addr \<Rightarrow> mem \<Rightarrow> (abort + mem) option" where
  "draw_title g FlatControls FlatControlsClose wnd m =
     (let m1 = fst (CGDrawBitMapInRegion g (load64 m (wnd + display_ptr)) (scast (load32 m (wnd + w_h))) (scast (load32 m (wnd + w_w)))
                      (scast (load32 m (wnd + w_y))) (scast (load32 m (wnd + w_x))) m);
          m2 = CGDrawInRegion g (RGB 0xFF 0xFF 0xFF) (scast (load32 m1 (wnd + w_w))) (ucast FLATCONTROLS_HEIGHT)
                 (scast (load32 m1 (wnd + w_y))) (scast (load32 m1 (wnd + w_x))) m1;
          picture_at = (\<lambda>BitMp. fst (CGDrawBitMapInRegion g BitMp (ucast FLATCONTROLS_HEIGHT) (ucast FLATCONTROLS_WIDTH)
                 (scast (load32 m2 (wnd + w_y))) (scast (load32 m2 (wnd + w_x) + load32 m2 (wnd + w_w) - FLATCONTROLS_WIDTH)) m2));
          m3 = (if load32 m2 (wnd + w_sub_type) \<noteq> kWndFlagHideCloseControl
                then if load32 m2 (wnd + w_sub_type) = kWndFlagCloseControlSelect then picture_at FlatControlsClose
                     else picture_at FlatControls
                else m2)
      in CGDrawString g wnd (load32 m3 (wnd + w_y) + 8) (load32 m3 (wnd + w_x) + 8) (RGB 0x00 0x00 0x00) m3)"

text \<open>The two rectangles of a button.\<close>

definition draw_button :: "gop \<Rightarrow> u32 \<Rightarrow> addr \<Rightarrow> mem \<Rightarrow> mem" where
  "draw_button g border wnd m =
     (let m1 = CGDrawInRegion g border (scast (load32 m (wnd + w_w) + 1)) (scast (load32 m (wnd + w_h) + 1))
                 (scast (load32 m (wnd + w_y))) (scast (load32 m (wnd + w_x))) m
      in CGDrawInRegion g (RGB 0xFF 0xFF 0xFF) (scast (load32 m1 (wnd + w_w) - 1)) (scast (load32 m1 (wnd + w_h) - 1))
           (scast (load32 m1 (wnd + w_y) + 1)) (scast (load32 m1 (wnd + w_x) + 1)) m1)"

definition draw_control :: "gop \<Rightarrow> addr \<Rightarrow> addr \<Rightarrow> addr \<Rightarrow> mem \<Rightarrow> (abort + mem) option" where
  "draw_control g FlatControls FlatControlsClose wnd m =
     (let kind = load32 m (wnd + w_type);
          x_center = load32 m (wnd + w_x) + 6; y_center = load32 m (wnd + w_y) + 7
      in if kind = kWndFlagWindow then draw_title g FlatControls FlatControlsClose wnd m
         else if kind = kWndFlagButtonSelect
           then CGDrawStringToWnd g wnd wnd y_center x_center (RGB 0x00 0x00 0x00) (draw_button g (RGB 0xD3 0x74 0x00) wnd m)
         else if kind = kWndFlagButton
           then CGDrawString g wnd y_center x_center (RGB 0x00 0x00 0x00) (draw_button g (RGB 0xDC 0xDC 0xDC) wnd m)
         else Some (Inr m))"

text \<open>
  \<open>CGDrawWindowList\<close> is a loop over windows with a loop over the children of each, which calls it again. The first argument
  of the recursion says which loop is running: \<open>WndList wnd index wnd_cnt cnt\<close> or \<open>WndChildren wnd child\<close>. A cycle of children
  is \<open>None\<close>.
\<close>

datatype wnd_loop = WndList addr u64 u64 u64 | WndChildren addr u64

definition wnd_move_child :: "addr \<Rightarrow> addr \<Rightarrow> mem \<Rightarrow> mem" where
  "wnd_move_child wnd child m =
     (let m = store32 m (child + w_x) (load32 m (child + w_x) + load32 m (wnd + w_x))
      in store32 m (child + w_y) (load32 m (child + w_y) + (load32 m (wnd + w_y) + FLATCONTROLS_HEIGHT)))"

definition wnd_outside :: "addr \<Rightarrow> addr \<Rightarrow> mem \<Rightarrow> bool" where
  "wnd_outside wnd child m \<longleftrightarrow>
     sint (load32 m (child + w_w) + load32 m (child + w_x)) > sint (load32 m (wnd + w_x) + load32 m (wnd + w_w))
     \<or> sint (load32 m (child + w_h) + load32 m (child + w_y)) > sint (load32 m (wnd + w_y) + load32 m (wnd + w_h))"

definition wnd_skipped :: "addr \<Rightarrow> mem \<Rightarrow> bool" where
  "wnd_skipped wnd m \<longleftrightarrow> wnd = null \<or> load32 m (wnd + w_type) = kWndFlagNoShow \<or> m (wnd + w_needs_repaint) = 0"

partial_function (option) CGDrawWindowList_loop ::
    "gop \<Rightarrow> addr \<Rightarrow> addr \<Rightarrow> wnd_loop \<Rightarrow> mem \<Rightarrow> (abort + mem \<times> u64) option" where
  "CGDrawWindowList_loop g fc fcc t m =
     (case t of
        WndList wnd index wnd_cnt cnt \<Rightarrow>
          if \<not> index < wnd_cnt then Some (Inr (m, cnt))
          else
            let w = load64 m (wnd + 8 * index) in
            if wnd_skipped w m then CGDrawWindowList_loop g fc fcc (WndList wnd (index + 1) wnd_cnt cnt) m
            else
              ebind (draw_control g fc fcc w (wnd_clip_y g w (wnd_clip_x g w (m(w + w_needs_repaint := 0))))) (\<lambda>m1.
              ebind (CGDrawWindowList_loop g fc fcc (WndChildren w 0) m1) (\<lambda>(m2, _).
              CGDrawWindowList_loop g fc fcc (WndList wnd (index + 1) wnd_cnt (cnt + 1)) m2))
      | WndChildren w child \<Rightarrow>
          if \<not> child < load64 m (w + w_child_count) then Some (Inr (m, 0))
          else if child \<ge> 255 then Some (Inl OutOfBounds)
          else
            let at = w + w_child_elements + 8 * child; c = load64 m at in
            if c = null then Some (Inl NullAccess)
            else
              let m1 = wnd_move_child w c m in
              if wnd_outside w c m1 then CGDrawWindowList_loop g fc fcc (WndChildren w (child + 1)) m1
              else
                ebind (CGDrawWindowList_loop g fc fcc (WndList at 0 1 0) m1) (\<lambda>(m2, _).
                CGDrawWindowList_loop g fc fcc (WndChildren w (child + 1)) m2))"

definition CGDrawWindowList :: "gop \<Rightarrow> addr \<Rightarrow> addr \<Rightarrow> addr \<Rightarrow> u64 \<Rightarrow> mem \<Rightarrow> (abort + mem \<times> u64) option" where
  "CGDrawWindowList g FlatControls FlatControlsClose wnd wnd_cnt m =
     (if wnd_cnt = 0 \<or> wnd = null then Some (Inr (m, 0))
      else CGDrawWindowList_loop g FlatControls FlatControlsClose (WndList wnd 0 wnd_cnt 0) m)"

text \<open>
  The kernel's own window, the first part of \<open>ke_dll_entrypoint\<close>: \<open>kKernelWnd\<close> is the address of the variable, the two
  strings are literals. The boot loader's exchange of the resolutions gives the window its width and height back.
\<close>

definition ke_window :: "gop \<Rightarrow> addr \<Rightarrow> addr \<Rightarrow> addr \<Rightarrow> addr \<Rightarrow> addr \<Rightarrow> HError \<Rightarrow> mm_state \<Rightarrow> (abort + mm_state \<times> HError) option" where
  "ke_window g FlatControls FlatControlsClose window_name class_name kKernelWnd err st =
     (let m = store64 (CGDrawBackground g (memory st)) kKernelWnd null in
      ebind (CGCreateWindow kWndFlagWindow window_name class_name 20 20 (f_Height g - 20) (f_Width g - 20) null err (st\<lparr>memory := m\<rparr>))
        (\<lambda>(st1, wnd, err1).
          let m1 = store64 (memory st1) kKernelWnd wnd in
          if wnd = null then Some (Inl NullAccess)
          else
            let m2 = store32 m1 (wnd + w_sub_type) kWndFlagCloseControlSelect;
                m3 = store32 m2 (wnd + w_x) 10;
                m4 = (store32 m3 (wnd + w_y) 10)(wnd + w_needs_repaint := 1)
            in ebind (CGDrawWindowList g FlatControls FlatControlsClose kKernelWnd 1 m4)
                 (\<lambda>(m5, _). Some (Inr (st1\<lparr>memory := m5\<rparr>, err1)))))"

section \<open>Reading a window while drawing\<close>

text \<open>Memory agrees on the fields of a window in front of the repaint flag.\<close>

definition same_wnd :: "addr \<Rightarrow> mem \<Rightarrow> mem \<Rightarrow> bool" where
  "same_wnd w m m' \<longleftrightarrow> (\<forall>k < 2600. m' (w + of_nat k) = m (w + of_nat k))"

definition wnd_off_screen :: "gop \<Rightarrow> addr \<Rightarrow> bool" where
  "wnd_off_screen g w \<longleftrightarrow> (\<forall>k < sizeof_ML_WINDOW_STRUCT. \<not> in_range (w + of_nat k) (f_The g) (screen_bytes g))"

lemma same_wnd_trans: "same_wnd w m m' \<Longrightarrow> same_wnd w m' m'' \<Longrightarrow> same_wnd w m m''"
  by (simp add: same_wnd_def)

lemma draws_same_wnd: "draws g F m m' \<Longrightarrow> wnd_off_screen g w \<Longrightarrow> same_wnd w m m'"
  by (simp add: draws_def same_wnd_def wnd_off_screen_def sizeof_ML_WINDOW_STRUCT_def)

lemma same_wnd_flag: "same_wnd w m (m(w + w_needs_repaint := v))"
  unfolding same_wnd_def
proof (intro allI impI)
  fix k :: nat
  assume "k < 2600"
  then have "(of_nat k :: addr) \<noteq> of_nat 2600" by (subst of_nat_addr_inj) simp_all
  then show "(m(w + w_needs_repaint := v)) (w + of_nat k) = m (w + of_nat k)" by (simp add: w_needs_repaint_def)
qed

lemma same_wnd_load:
  assumes "same_wnd w m m'"
  shows "k + 4 \<le> 2600 \<Longrightarrow> load32 m' (w + of_nat k) = load32 m (w + of_nat k)"
    and "k + 8 \<le> 2600 \<Longrightarrow> load64 m' (w + of_nat k) = load64 m (w + of_nat k)"
proof -
  show "load32 m' (w + of_nat k) = load32 m (w + of_nat k)" if "k + 4 \<le> 2600"
  proof (rule load_frame(2))
    fix i :: nat
    assume "i < 4"
    then have "m' (w + of_nat (k + i)) = m (w + of_nat (k + i))"
      using assms that unfolding same_wnd_def by (metis add_less_cancel_left less_le_trans)
    then show "m' (w + of_nat k + of_nat i) = m (w + of_nat k + of_nat i)" by (simp add: add.assoc)
  qed
  show "load64 m' (w + of_nat k) = load64 m (w + of_nat k)" if "k + 8 \<le> 2600"
    using assms that by (intro load64_range_cong [where w = 2600]) (simp_all add: same_wnd_def)
qed

lemma same_wnd_fields:
  assumes "same_wnd w m m'"
  shows "load32 m' (w + w_type) = load32 m (w + w_type)" "load32 m' (w + w_x) = load32 m (w + w_x)"
    "load32 m' (w + w_y) = load32 m (w + w_y)" "load32 m' (w + w_w) = load32 m (w + w_w)"
    "load32 m' (w + w_h) = load32 m (w + w_h)" "load64 m' (w + w_child_count) = load64 m (w + w_child_count)"
  using same_wnd_load(1) [OF assms, of 512] same_wnd_load(1) [OF assms, of 520] same_wnd_load(1) [OF assms, of 524]
    same_wnd_load(1) [OF assms, of 528] same_wnd_load(1) [OF assms, of 532] same_wnd_load(2) [OF assms, of 536]
  by (simp_all add: wnd_offsets)

section \<open>Buttons\<close>

text \<open>A button in memory: its place and size, its title, and that it fits the screen with its title.\<close>

definition button_at :: "gop \<Rightarrow> addr \<Rightarrow> nat \<Rightarrow> nat \<Rightarrow> nat \<Rightarrow> nat \<Rightarrow> u8 list \<Rightarrow> mem \<Rightarrow> bool" where
  "button_at g w x y width height s m \<longleftrightarrow>
     load32 m (w + w_x) = of_nat x \<and> load32 m (w + w_y) = of_nat y
     \<and> load32 m (w + w_w) = of_nat width \<and> load32 m (w + w_h) = of_nat height \<and> 1 \<le> width \<and> 1 \<le> height
     \<and> fits g y x (height + 1) (width + 1) \<and> fits g (y + 7) (x + 6) 8 (8 * length s) \<and> x \<le> unat (f_Width g) \<and> y \<le> unat (f_Height g)
     \<and> wnd_off_screen g w \<and> length s < 255
     \<and> load_bytes m w (length s) = s \<and> (\<forall>b \<in> set s. b \<noteq> 0 \<and> b < 0x80) \<and> m (w + of_nat (length s)) = 0"

lemma button_at_cong:
  assumes "same_wnd w m m'" "button_at g w x y width height s m"
  shows "button_at g w x y width height s m'"
proof -
  have "length s < 255" using assms(2) by (simp add: button_at_def)
  then have "load_bytes m' w (length s) = load_bytes m w (length s)" "m' (w + of_nat (length s)) = m (w + of_nat (length s))"
    using assms(1) by (auto intro!: load_bytes_cong simp: same_wnd_def)
  then show ?thesis using assms(2) same_wnd_fields [OF assms(1)] by (simp add: button_at_def)
qed

text \<open>The picture of a button: the title over white over the border.\<close>

definition button_picture :: "u32 \<Rightarrow> nat \<Rightarrow> nat \<Rightarrow> nat \<Rightarrow> nat \<Rightarrow> u8 list \<Rightarrow> nat \<Rightarrow> nat \<Rightarrow> u32 \<Rightarrow> u32" where
  "button_picture border x y width height s r c old =
     (if in_rect (y + 7) (x + 6) 8 (8 * length s) r c \<and> text_dot s (r - (y + 7)) (c - (x + 6)) then RGB 0x00 0x00 0x00
      else if in_rect (y + 1) (x + 1) (height - 1) (width - 1) r c then RGB 0xFF 0xFF 0xFF
      else if in_rect y x (height + 1) (width + 1) r c then border
      else old)"

lemma draw_button_draws:
  assumes b: "button_at g w x y width height s m"
  shows "draws g (\<lambda>r c old. if in_rect (y + 1) (x + 1) (height - 1) (width - 1) r c then RGB 0xFF 0xFF 0xFF
      else if in_rect y x (height + 1) (width + 1) r c then border else old) m (draw_button g border w m)"
proof -
  have fit: "fits g y x (height + 1) (width + 1)" and pos: "1 \<le> width" "1 \<le> height" using b by (simp_all add: button_at_def)
  have small: "y + (height + 1) < 2 ^ 31" "x + (width + 1) < 2 ^ 31" using fits_signed [OF fit] by simp_all
  define m1 where "m1 = CGDrawInRegion g border (of_nat (width + 1)) (of_nat (height + 1)) (of_nat y) (of_nat x) m"
  have d1: "draws g (\<lambda>r c old. if in_rect y x (height + 1) (width + 1) r c then border else old) m m1"
    unfolding m1_def by (rule CGDrawInRegion_rectangle [OF fit])
  have "button_at g w x y width height s m1"
    using button_at_cong [OF draws_same_wnd [OF d1] b] b by (simp add: button_at_def)
  then have m1: "load32 m1 (w + w_x) = of_nat x" "load32 m1 (w + w_y) = of_nat y" "load32 m1 (w + w_w) = of_nat width"
      "load32 m1 (w + w_h) = of_nat height" by (simp_all add: button_at_def)
  have "scast (of_nat width - 1 :: u32) = (of_nat (width - 1) :: u64)" "scast (of_nat height - 1 :: u32) = (of_nat (height - 1) :: u64)"
    using scast_small [of "width - 1"] scast_small [of "height - 1"] small pos by (simp_all add: of_nat_diff)
  moreover have "scast (of_nat n + 1 :: u32) = (of_nat (n + 1) :: u64)" "scast (of_nat n :: u32) = (of_nat n :: u64)" if "n + 1 < 2 ^ 31" for n
    using scast_small [of "n + 1"] scast_small [of n] that by (simp_all add: add.commute)
  ultimately have "draw_button g border w m
      = CGDrawInRegion g (RGB 0xFF 0xFF 0xFF) (of_nat (width - 1)) (of_nat (height - 1)) (of_nat (y + 1)) (of_nat (x + 1)) m1"
    using b small m1 by (simp add: draw_button_def button_at_def Let_def m1_def del: of_nat_add of_nat_Suc of_nat_diff)
  moreover have "fits g (y + 1) (x + 1) (height - 1) (width - 1)" using fit by (auto simp: fits_def)
  ultimately have "draws g (\<lambda>r c old. if in_rect (y + 1) (x + 1) (height - 1) (width - 1) r c then RGB 0xFF 0xFF 0xFF else old) m1
      (draw_button g border w m)" by (simp only: CGDrawInRegion_rectangle)
  from draws_trans [OF d1 this] show ?thesis .
qed

lemma draw_control_button:
  assumes b: "button_at g w x y width height s m" and kind: "load32 m (w + w_type) = kWndFlagButton"
  shows "\<exists>m'. draw_control g fc fcc w m = Some (Inr m')
    \<and> draws g (button_picture (RGB 0xDC 0xDC 0xDC) x y width height s) m m'"
proof -
  let ?m1 = "draw_button g (RGB 0xDC 0xDC 0xDC) w m"
  note d1 = draw_button_draws [OF b, of "RGB 0xDC 0xDC 0xDC"]
  have b1: "button_at g w x y width height s ?m1"
    using button_at_cong [OF draws_same_wnd [OF d1] b] b by (simp add: button_at_def)
  have nth: "?m1 (w + of_nat k) = s ! k" if "k < length s" for k
  proof -
    have "load_bytes ?m1 w (length s) = s" using b1 by (simp add: button_at_def)
    then show ?thesis using that by (metis nth_load_bytes)
  qed
  have "\<exists>m'. CGDrawString g w (of_nat (y + 7)) (of_nat (x + 6)) (RGB 0 0 0) ?m1 = Some (Inr m')
    \<and> draws g (\<lambda>r c old. if in_rect (y + 7) (x + 6) 8 (8 * length s) r c \<and> text_dot s (r - (y + 7)) (c - (x + 6))
        then RGB 0 0 0 else old) ?m1 m'"
    using b1 nth unfolding CGDrawString_def button_at_def
    by (intro CGDrawString_loop_draws) (simp_all add: wnd_off_screen_def sizeof_ML_WINDOW_STRUCT_def)
  then obtain m' where m': "CGDrawString g w (of_nat (y + 7)) (of_nat (x + 6)) (RGB 0 0 0) ?m1 = Some (Inr m')"
    and d2: "draws g (\<lambda>r c old. if in_rect (y + 7) (x + 6) 8 (8 * length s) r c \<and> text_dot s (r - (y + 7)) (c - (x + 6))
        then RGB 0 0 0 else old) ?m1 m'" by blast
  have "draw_control g fc fcc w m = Some (Inr m')"
    using m' b kind by (simp add: draw_control_def button_at_def Let_def kWndFlagButton_def kWndFlagWindow_def
      kWndFlagButtonSelect_def)
  moreover have "draws g (button_picture (RGB 0xDC 0xDC 0xDC) x y width height s) m m'"
    using draws_trans [OF d1 d2] by (rule draws_cong) (simp add: button_picture_def)
  ultimately show ?thesis by blast
qed

lemma wnd_clip_none:
  assumes "button_at g w x y width height s m"
  shows "wnd_clip_x g w m = m" "wnd_clip_y g w m = m"
proof -
  have fit: "fits g y x (height + 1) (width + 1)" using assms by (simp add: button_at_def)
  then have "x < 2 ^ 31" "y < 2 ^ 31" using fits_signed [OF fit] by simp_all
  then have s: "sint (of_nat x :: u32) = int x" "sint (of_nat y :: u32) = int y"
    by (simp_all add: signed_of_nat signed_take_bit_int_eq_self)
  have "x \<le> unat (f_Width g)" "y \<le> unat (f_Height g)" using assms by (simp_all add: button_at_def)
  then have "int x \<le> int (unat (f_Width g))" "int y \<le> int (unat (f_Height g))" by (simp_all only: of_nat_le_iff)
  then have "\<not> uint (f_Width g) < int x" "\<not> uint (f_Height g) < int y" by simp_all
  then show "wnd_clip_x g w m = m" "wnd_clip_y g w m = m"
    using assms s by (simp_all add: button_at_def wnd_clip_x_def wnd_clip_y_def)
qed

lemma load64_frame: "(\<And>i. i < 8 \<Longrightarrow> m' (a + of_nat i) = m (a + of_nat i)) \<Longrightarrow> load64 m' a = load64 m a"
  by (rule load64_cong)

text \<open>
  Property C15. Drawing a list with one button that asks to be repainted: the button appears with its border, its white
  face and its title, nothing else on the screen changes, one window is counted and the request is cleared, so that drawing
  the list again draws nothing.
\<close>

theorem CGDrawWindowList_button:
  assumes b: "button_at g w x y width height s m" and kind: "load32 m (w + w_type) = kWndFlagButton"
    and flag: "m (w + w_needs_repaint) \<noteq> 0" and leaf: "load64 m (w + w_child_count) = 0"
    and cell: "load64 m wnds = w" "w \<noteq> null" "wnds \<noteq> null"
    and apart: "\<forall>k < 8. \<not> in_range (wnds + of_nat k) (f_The g) (screen_bytes g) \<and> wnds + of_nat k \<noteq> w + w_needs_repaint"
  shows "\<exists>m'. CGDrawWindowList g fc fcc wnds 1 m = Some (Inr (m', 1))
    \<and> draws g (button_picture (RGB 0xDC 0xDC 0xDC) x y width height s) (m(w + w_needs_repaint := 0)) m'
    \<and> CGDrawWindowList g fc fcc wnds 1 m' = Some (Inr (m', 0))"
proof -
  let ?m0 = "m(w + w_needs_repaint := 0)"
  note f0 = same_wnd_flag [of w m 0]
  have b0: "button_at g w x y width height s ?m0" by (rule button_at_cong [OF f0 b])
  obtain m' where m': "draw_control g fc fcc w ?m0 = Some (Inr m')"
    and d: "draws g (button_picture (RGB 0xDC 0xDC 0xDC) x y width height s) ?m0 m'"
    using draw_control_button [OF b0] same_wnd_fields(1) [OF f0] kind by metis
  have off: "wnd_off_screen g w" using b by (simp add: button_at_def)
  note f1 = draws_same_wnd [OF d off]
  have leaf': "load64 m' (w + w_child_count) = 0"
    using same_wnd_fields(6) [OF f1] same_wnd_fields(6) [OF f0] leaf by metis
  have "\<not> in_range (w + w_needs_repaint) (f_The g) (screen_bytes g)"
    using off unfolding wnd_off_screen_def by (auto simp: w_needs_repaint_def sizeof_ML_WINDOW_STRUCT_def dest: spec [of _ 2600])
  then have flag': "m' (w + w_needs_repaint) = 0" using d by (simp add: draws_def)
  have cell': "load64 m' wnds = w"
    using cell(1) apart d load64_frame [of m' wnds m] by (simp add: draws_def)
  have "CGDrawWindowList_loop g fc fcc (WndChildren w 0) m' = Some (Inr (m', 0))"
    using leaf' by (simp add: CGDrawWindowList_loop.simps)
  moreover have "CGDrawWindowList_loop g fc fcc (WndList wnds 1 1 n) m'' = Some (Inr (m'', n))" for n m''
    by (simp add: CGDrawWindowList_loop.simps)
  moreover have "\<not> wnd_skipped w m" "wnd_skipped w m'"
    using kind flag flag' cell by (simp_all add: wnd_skipped_def kWndFlagButton_def kWndFlagNoShow_def)
  ultimately have "CGDrawWindowList g fc fcc wnds 1 m = Some (Inr (m', 1))" "CGDrawWindowList g fc fcc wnds 1 m' = Some (Inr (m', 0))"
    using cell cell' m' wnd_clip_none [OF b0]
    by (simp_all add: CGDrawWindowList_def CGDrawWindowList_loop.simps [of _ _ _ "WndList wnds 0 1 0"])
  with d show ?thesis by blast
qed

text \<open>A screen of 32 lines, and a button with the title \<open>A\<close> in memory behind it.\<close>

definition wnd_screen :: gop where
  "wnd_screen = \<lparr>f_The = 0x1000, f_Size = 4096, f_Width = 32, f_Height = 32, f_PixelFormat = 0, f_PixelPerLine = 32\<rparr>"

definition button_mem :: mem where
  "button_mem = (\<lambda>_. 0)(0x3001 := 0x40, 0x4000 := 0x41, 0x4200 := 4, 0x4208 := 2, 0x420C := 3, 0x4210 := 20, 0x4214 := 18, 0x4A28 := 1)"

lemma wnd_screen_facts [simp]:
  "fits wnd_screen x y lines columns \<longleftrightarrow> x + lines \<le> 32 \<and> y + columns \<le> 32"
  "f_The wnd_screen = 0x1000" "screen_bytes wnd_screen = 4096" "f_Width wnd_screen = 32" "f_Height wnd_screen = 32"
  by (simp_all add: fits_def screen_ok_def screen_bytes_def wnd_screen_def)

lemma behind_screen: "k < 0x3000 \<Longrightarrow> \<not> in_range (0x3000 + of_nat k) (f_The wnd_screen) (screen_bytes wnd_screen)"
  using in_range_off [of "0x3000 + k" "0x1000" 4096 0] by simp

lemma button_mem_off_screen: "wnd_off_screen wnd_screen 0x4000"
  unfolding wnd_off_screen_def
proof (intro allI impI)
  fix k
  assume "k < sizeof_ML_WINDOW_STRUCT"
  then show "\<not> in_range (0x4000 + of_nat k) (f_The wnd_screen) (screen_bytes wnd_screen)"
    using behind_screen [of "0x1000 + k"] by (simp add: sizeof_ML_WINDOW_STRUCT_def add.assoc [symmetric])
qed

lemma button_mem_fields:
  "load32 button_mem (0x4000 + w_type) = 4" "load32 button_mem (0x4000 + w_x) = 2" "load32 button_mem (0x4000 + w_y) = 3"
  "load32 button_mem (0x4000 + w_w) = 20" "load32 button_mem (0x4000 + w_h) = 18" "load64 button_mem (0x4000 + w_child_count) = 0"
  "button_mem (0x4000 + w_needs_repaint) = 1" "load64 button_mem 0x3000 = 0x4000"
  by (simp_all add: button_mem_def wnd_offsets load32_def load64_def eval_simps)

theorem CGDrawWindowList_button_witness:
  "\<exists>m'. CGDrawWindowList wnd_screen 0 0 0x3000 1 button_mem = Some (Inr (m', 1))
    \<and> draws wnd_screen (button_picture (RGB 0xDC 0xDC 0xDC) 2 3 20 18 [0x41]) (button_mem(0x4000 + w_needs_repaint := 0)) m'
    \<and> CGDrawWindowList wnd_screen 0 0 0x3000 1 m' = Some (Inr (m', 0))"
proof -
  have "button_at wnd_screen 0x4000 2 3 20 18 [0x41] button_mem"
    by (simp add: button_at_def button_mem_fields button_mem_off_screen) (simp add: button_mem_def)
  moreover have "0x3000 + of_nat k \<noteq> 0x4000 + w_needs_repaint" if "k < 8" for k
    using of_nat_addr_inj [of k "0x1A28"] that by (auto simp: w_needs_repaint_def algebra_simps)
  ultimately show ?thesis
    using CGDrawWindowList_button [of wnd_screen "0x4000" 2 3 20 18 "[0x41]" button_mem "0x3000" 0 0] behind_screen
    by (simp add: button_mem_fields kWndFlagButton_def)
qed

section \<open>The background\<close>

text \<open>
  Remark. \<open>CGDrawBackground\<close> paints the first \<open>f_Height\<close> dots of every line and nothing else: with the resolution as the boot loader
  stores it, the whole visible screen.
\<close>

theorem CGDrawBackground_fills:
  assumes "screen_ok g" "unat (f_Height g) \<le> unat (f_PixelPerLine g)"
  shows "draws g (\<lambda>r c old. if c < unat (f_Height g) then RGB 0x45 0x00 0x06 else old) m (CGDrawBackground g m)"
proof -
  have "fits g 0 0 (unat (f_Width g)) (unat (f_Height g))" using assms by (simp add: fits_def)
  from CGDrawInRegion_rectangle [OF this, of "RGB 0x45 0x00 0x06" m]
  have "draws g (\<lambda>r c old. if in_rect 0 0 (unat (f_Width g)) (unat (f_Height g)) r c then RGB 0x45 0x00 0x06 else old) m
      (CGDrawBackground g m)" by (simp add: CGDrawBackground_def)
  then show ?thesis by (rule draws_cong) (simp add: in_rect_def visible_def)
qed

theorem CGDrawBackground_fills_witness:
  "draws small_screen (\<lambda>r c old. if c < 16 then RGB 0x45 0x00 0x06 else old) small_text (CGDrawBackground small_screen small_text)"
  using CGDrawBackground_fills [of small_screen small_text]
  by (simp add: small_screen_def screen_ok_def screen_bytes_def)

section \<open>Windows that move\<close>

text \<open>
  The horizontal position is compared with \<open>f_Width\<close>, the number of lines: a window to the right of that column is moved
  back to it although the screen is wider.
\<close>

lemma wnd_clip_x_moves:
  assumes "uint (f_Width g) + 1 < sint (load32 m (w + w_x))"
  shows "load32 (wnd_clip_x g w m) (w + w_x) = f_Width g"
  using assms by (simp add: wnd_clip_x_def Let_def load32_store32_same)

text \<open>Two windows that do not overlap: what moving the child changes.\<close>

lemma store32_wnd_other:
  assumes "disjoint_ranges w sizeof_ML_WINDOW_STRUCT c sizeof_ML_WINDOW_STRUCT" "o4 + 4 \<le> sizeof_ML_WINDOW_STRUCT"
  shows "same_wnd w m (store32 m (c + of_nat o4) v)"
  unfolding same_wnd_def
proof (intro allI impI store32_apply_other notI)
  fix k :: nat
  assume k: "k < 2600" "in_range (w + of_nat k) (c + of_nat o4) 4"
  then have "in_range (w + of_nat k) c sizeof_ML_WINDOW_STRUCT"
    using in_range_sub [of "w + of_nat k" c o4 4 sizeof_ML_WINDOW_STRUCT] assms(2) by (simp add: sizeof_ML_WINDOW_STRUCT_def)
  then show False using disjoint_ranges_not_in [OF assms(1), of k] k(1) by (simp add: sizeof_ML_WINDOW_STRUCT_def)
qed

lemma wnd_move_child_effect:
  assumes "disjoint_ranges w sizeof_ML_WINDOW_STRUCT c sizeof_ML_WINDOW_STRUCT"
  shows "same_wnd w m (wnd_move_child w c m)"
    and "load32 (wnd_move_child w c m) (c + w_x) = load32 m (c + w_x) + load32 m (w + w_x)"
    and "load32 (wnd_move_child w c m) (c + w_y) = load32 m (c + w_y) + (load32 m (w + w_y) + FLATCONTROLS_HEIGHT)"
    and "load32 (wnd_move_child w c m) (c + w_type) = load32 m (c + w_type)"
    and "wnd_move_child w c m (c + w_needs_repaint) = m (c + w_needs_repaint)"
proof -
  define m1 where "m1 = store32 m (c + w_x) (load32 m (c + w_x) + load32 m (w + w_x))"
  have e: "wnd_move_child w c m = store32 m1 (c + w_y) (load32 m1 (c + w_y) + (load32 m1 (w + w_y) + FLATCONTROLS_HEIGHT))"
    by (simp add: wnd_move_child_def Let_def m1_def)
  have s1: "same_wnd w m m1"
    using store32_wnd_other [OF assms, of 520] by (simp add: m1_def w_x_def sizeof_ML_WINDOW_STRUCT_def)
  have s2: "same_wnd w m1 (wnd_move_child w c m)"
    using store32_wnd_other [OF assms, of 524] by (simp add: e w_y_def sizeof_ML_WINDOW_STRUCT_def)
  show "same_wnd w m (wnd_move_child w c m)" by (rule same_wnd_trans [OF s1 s2])
  have y: "load32 m1 (c + w_y) = load32 m (c + w_y)" "load32 m1 (c + w_type) = load32 m (c + w_type)"
    using load32_store32_off [of 524 520 m c] load32_store32_off [of 512 520 m c] by (simp_all add: m1_def wnd_offsets)
  show "load32 (wnd_move_child w c m) (c + w_y) = load32 m (c + w_y) + (load32 m (w + w_y) + FLATCONTROLS_HEIGHT)"
    using same_wnd_fields(3) [OF s1] by (simp add: e y load32_store32_same)
  show "load32 (wnd_move_child w c m) (c + w_x) = load32 m (c + w_x) + load32 m (w + w_x)"
    using load32_store32_off [of 520 524 m1 c] by (simp add: e w_x_def w_y_def) (simp add: m1_def w_x_def load32_store32_same)
  show "load32 (wnd_move_child w c m) (c + w_type) = load32 m (c + w_type)"
    using load32_store32_off [of 512 524 m1 c] y by (simp add: e wnd_offsets)
  show "wnd_move_child w c m (c + w_needs_repaint) = m (c + w_needs_repaint)"
    using in_range_off [of 2600 520 4 c] in_range_off [of 2600 524 4 c] by (simp add: e m1_def wnd_offsets store32_apply_other)
qed

text \<open>
  Remark. Every pass over the children of a window adds the window's position to the child's own position, which is already on the screen after
  the first pass: a child that is not drawn itself drifts by the position of its parent (and the height of the title bar) with
  each drawing of the parent.
\<close>

theorem children_drift:
  assumes apart: "disjoint_ranges w sizeof_ML_WINDOW_STRUCT c sizeof_ML_WINDOW_STRUCT"
    and child: "load64 m (w + w_child_count) = 1" "load64 m (w + w_child_elements) = c" "c \<noteq> null"
    and quiet: "m (c + w_needs_repaint) = 0"
  shows "\<exists>m'. CGDrawWindowList_loop g fc fcc (WndChildren w 0) m = Some (Inr (m', 0))
    \<and> load32 m' (c + w_x) = load32 m (c + w_x) + load32 m (w + w_x)
    \<and> load32 m' (c + w_y) = load32 m (c + w_y) + (load32 m (w + w_y) + FLATCONTROLS_HEIGHT)"
proof -
  let ?m1 = "wnd_move_child w c m"
  note eff = wnd_move_child_effect [OF apart, of m]
  have cnt: "load64 ?m1 (w + w_child_count) = 1" using same_wnd_fields(6) [OF eff(1)] child(1) by simp
  have elem: "load64 ?m1 (w + w_child_elements) = c"
    using same_wnd_load(2) [OF eff(1), of 544] child(2) by (simp add: w_child_elements_def)
  have "wnd_skipped c ?m1" using eff(5) quiet by (simp add: wnd_skipped_def)
  then have l: "CGDrawWindowList_loop g fc fcc (WndList (w + w_child_elements) 0 1 0) ?m1 = Some (Inr (?m1, 0))"
    using elem by (simp add: CGDrawWindowList_loop.simps [of _ _ _ "WndList (w + w_child_elements) 0 1 0"]
        CGDrawWindowList_loop.simps [of _ _ _ "WndList (w + w_child_elements) 1 1 0"])
  have n: "CGDrawWindowList_loop g fc fcc (WndChildren w 1) ?m1 = Some (Inr (?m1, 0))"
    using cnt by (simp add: CGDrawWindowList_loop.simps [of _ _ _ "WndChildren w 1"])
  have "CGDrawWindowList_loop g fc fcc (WndChildren w 0) m = Some (Inr (?m1, 0))"
    using child l n by (simp add: CGDrawWindowList_loop.simps [of _ _ _ "WndChildren w 0"] Let_def)
  then show ?thesis using eff by blast
qed

definition family_mem :: mem where
  "family_mem = (\<lambda>_. 0)(0x4218 := 1, 0x4221 := 0x60, 0x4208 := 20, 0x420C := 10, 0x6208 := 5)"

theorem children_drift_witness:
  "\<exists>m'. CGDrawWindowList_loop wnd_screen 0 0 (WndChildren 0x4000 0) family_mem = Some (Inr (m', 0))
    \<and> load32 m' (0x6000 + w_x) = 25 \<and> load32 m' (0x6000 + w_y) = 34"
proof -
  have "load64 family_mem (0x4000 + w_child_count) = 1" "load64 family_mem (0x4000 + w_child_elements) = 0x6000"
      "load32 family_mem (0x4000 + w_x) = 20" "load32 family_mem (0x4000 + w_y) = 10"
      "load32 family_mem (0x6000 + w_x) = 5" "load32 family_mem (0x6000 + w_y) = 0" "family_mem (0x6000 + w_needs_repaint) = 0"
    by (simp_all add: family_mem_def wnd_offsets load32_def load64_def eval_simps)
  moreover have "disjoint_ranges 0x4000 sizeof_ML_WINDOW_STRUCT 0x6000 sizeof_ML_WINDOW_STRUCT"
    by (simp add: disjoint_ranges_def sizeof_ML_WINDOW_STRUCT_def)
  ultimately show ?thesis
    using children_drift [of "0x4000" "0x6000" family_mem wnd_screen 0 0] by (simp add: FLATCONTROLS_HEIGHT_def)
qed

text \<open>Destroying a live window releases its block and reports success; the display it points to stays allocated.\<close>

lemma CGDestroyWindow_releases:
  assumes "heap_live st w"
  shows "CGDestroyWindow w st = Inr (heap_released w st, True)" "\<not> heap_live (heap_released w st) w"
proof -
  have "\<not> mm_is_valid_heap w (heap_released w st)"
    by (simp add: mm_is_valid_heap_def Let_def get_hib_released get_hib_clear kKernelHeapMagic_def)
  then show "CGDestroyWindow w st = Inr (heap_released w st, True)"
    using assms by (simp add: CGDestroyWindow_def operator_delete_def mm_delete_heap_live) (simp add: heap_live_def)
qed (rule heap_released_not_live)

end
