(* ===== verification/Guid_Variant.thy ===== *)
theory Guid_Variant
  imports Kernel_Strings
begin

text \<open>
  Two small value classes: identifiers, \<^verbatim>\<open>src/GUIDWizard.cc\<close> with \<^verbatim>\<open>CFKit/GUIDWrapper.h\<close>, and variants,
  \<^verbatim>\<open>src/Variant.cc\<close>. An identifier is a union in memory: its fields take 16 bytes, but the array of bytes is declared
  with 16-bit elements, so the union has 32.
\<close>

section \<open>Identifiers\<close>

definition sizeof_GUIDSequence :: nat where "sizeof_GUIDSequence = 32"
definition kUUIDAsciiBegin :: u32 where "kUUIDAsciiBegin = 47"

text \<open>The fields; the sequence is a list of 32-bit numbers at \<open>uuidSeq\<close>.\<close>

definition guid_fields :: "addr \<Rightarrow> addr \<Rightarrow> mem \<Rightarrow> mem" where
  "guid_fields seq uuidSeq m =
     (let m = store32 m seq (load32 m uuidSeq);
          m = store16 m (seq + 4) (ucast (load32 m (uuidSeq + 4)));
          m = store16 m (seq + 6) (ucast (load32 m (uuidSeq + 8)))
      in fold (\<lambda>i m. m(seq + 8 + of_nat i := ucast (load32 m (uuidSeq + 12 + 4 * of_nat i)))) [0..<8] m)"

definition cf_make_sequence :: "addr \<Rightarrow> mm_state \<Rightarrow> (abort + mm_state \<times> addr) option" where
  "cf_make_sequence uuidSeq st =
     ebind (operator_new (of_nat sizeof_GUIDSequence) st) (\<lambda>(st1, seq).
     ebind (Some (MUST_PASS (debug_build st1) (seq \<noteq> null))) (\<lambda>_.
       if seq = null then Some (Inl NullAccess)
       else Some (Inr (st1\<lparr>memory := guid_fields seq uuidSeq (store_bytes (memory st1) seq (replicate sizeof_GUIDSequence 0))\<rparr>, seq))))"

text \<open>The characters of the text: the three loops read the same memory as three arrays; the last nine are never set.\<close>

definition guid_char :: "mem \<Rightarrow> addr \<Rightarrow> nat \<Rightarrow> u8" where
  "guid_char m seq index =
     (if index < 24 then ucast (ucast (load16 m (seq + 2 * of_nat index)) + kUUIDAsciiBegin)
      else ucast (load32 m (seq + 4 * of_nat index) + kUUIDAsciiBegin))"

definition guid_text :: "mem \<Rightarrow> addr \<Rightarrow> addr \<Rightarrow> mem" where
  "guid_text m seq buf = fold (\<lambda>i m. m(buf + of_nat i := guid_char m seq i)) [0..<28] m"

definition cf_try_guid_to_string :: "addr \<Rightarrow> addr \<Rightarrow> mm_state \<Rightarrow> (abort + mm_state \<times> KString ErrorOr) option" where
  "cf_try_guid_to_string buf seq st =
     ebind (StringBuilder_Construct buf (st\<lparr>memory := guid_text (memory st) seq buf\<rparr>)) (\<lambda>(st1, view).
       Some (Inr (st1, if ErrorOr_bool view then view else ErrorOr_error (- 1))))"

section \<open>Variants\<close>

datatype VariantKind = kString | kBlob | kNull | kJson | kXML

record Variant =
  fPtr :: addr
  fKind :: VariantKind

definition Variant_string :: "addr \<Rightarrow> Variant" where "Variant_string stringView = \<lparr>fPtr = stringView, fKind = kString\<rparr>"
definition Variant_json :: "addr \<Rightarrow> Variant" where "Variant_json json = \<lparr>fPtr = json, fKind = kJson\<rparr>"
definition Variant_null :: Variant where "Variant_null = \<lparr>fPtr = null, fKind = kNull\<rparr>"
definition Variant_blob :: "addr \<Rightarrow> Variant" where "Variant_blob ptr = \<lparr>fPtr = ptr, fKind = kBlob\<rparr>"

definition Variant_ToString :: "Variant \<Rightarrow> string" where
  "Variant_ToString v =
     (case fKind v of
        kXML \<Rightarrow> ''Class:{XML}'' | kJson \<Rightarrow> ''Class:{Json}'' | kString \<Rightarrow> ''Class:{String}'' | kBlob \<Rightarrow> ''Class:{Blob}''
      | kNull \<Rightarrow> ''Class:{Null}'')"

definition Variant_Leak :: "Variant \<Rightarrow> addr" where "Variant_Leak v = fPtr v"

section \<open>What an identifier holds\<close>

lemma fold_bytes:
  assumes "n < 2 ^ 64" and "\<And>i m. i < n \<Longrightarrow> (\<And>x. \<not> in_range x a n \<Longrightarrow> m x = m0 x) \<Longrightarrow> F i m = G i"
  shows "fold (\<lambda>i m. m(a + of_nat i := F i m)) [0..<n] m0 x = (if in_range x a n then G (unat (x - a)) else m0 x)"
proof -
  have "fold (\<lambda>i m. m(a + of_nat i := F i m)) [0..<k] m0 x = (if in_range x a k then G (unat (x - a)) else m0 x)" if "k \<le> n" for k x
    using that
  proof (induction k arbitrary: x)
    case 0
    show ?case by (simp add: in_range_def)
  next
    case (Suc k)
    define M where "M = fold (\<lambda>i m. m(a + of_nat i := F i m)) [0..<k] m0"
    have IH: "M y = (if in_range y a k then G (unat (y - a)) else m0 y)" for y
      unfolding M_def using Suc.prems by (intro Suc.IH) simp
    have "M y = m0 y" if "\<not> in_range y a n" for y
      using IH [of y] Suc.prems that by (auto simp: in_range_def)
    then have "F k M = G k" using Suc.prems by (intro assms(2)) auto
    moreover have "x = a + of_nat k \<longleftrightarrow> unat (x - a) = k"
      using Suc.prems assms(1) by (auto simp: unat_of_nat_addr)
    moreover have e: "fold (\<lambda>i m. m(a + of_nat i := F i m)) [0..<Suc k] m0 = M(a + of_nat k := F k M)"
      by (simp add: M_def del: fun_upd_apply)
    ultimately show ?case unfolding e using IH [of x] by (auto simp: in_range_def less_Suc_eq)
  qed
  then show ?thesis by simp
qed

lemma guid_source:
  assumes "disjoint_ranges uuidSeq 44 seq 32" "\<And>x. \<not> in_range x seq 32 \<Longrightarrow> m' x = m x" "k < 11"
  shows "load32 m' (uuidSeq + of_nat (4 * k)) = load32 m (uuidSeq + of_nat (4 * k))"
proof (rule load_frame(2))
  fix i :: nat
  assume "i < 4"
  then have "\<not> in_range (uuidSeq + of_nat (4 * k + i)) seq 32"
    using assms(1,3) by (intro disjoint_ranges_not_in [of _ 44]) simp_all
  then have "m' (uuidSeq + of_nat (4 * k + i)) = m (uuidSeq + of_nat (4 * k + i))" by (rule assms(2))
  then show "m' (uuidSeq + of_nat (4 * k) + of_nat i) = m (uuidSeq + of_nat (4 * k) + of_nat i)" by (simp add: add.assoc)
qed

text \<open>
  An identifier made of eleven numbers holds the first in 32 bits, the next two cut to 16 bits and the other eight cut to 8 bits
  each.
\<close>

lemma cf_make_sequence_holds:
  assumes new: "operator_new 32 st = Some (Inr (st1, seq))" "seq \<noteq> null" and apart: "disjoint_ranges uuidSeq 44 seq 32"
  shows "\<exists>st2. cf_make_sequence uuidSeq st = Some (Inr (st2, seq))
    \<and> load32 (memory st2) seq = load32 (memory st1) uuidSeq
    \<and> load16 (memory st2) (seq + 4) = ucast (load32 (memory st1) (uuidSeq + 4))
    \<and> load16 (memory st2) (seq + 6) = ucast (load32 (memory st1) (uuidSeq + 8))
    \<and> (\<forall>i < 8. memory st2 (seq + 8 + of_nat i) = ucast (load32 (memory st1) (uuidSeq + 12 + 4 * of_nat i)))"
proof -
  define m0 where "m0 = store_bytes (memory st1) seq (replicate 32 0)"
  define m1 where "m1 = store32 m0 seq (load32 m0 uuidSeq)"
  define m2 where "m2 = store16 m1 (seq + 4) (ucast (load32 m1 (uuidSeq + 4)))"
  define m3 where "m3 = store16 m2 (seq + 6) (ucast (load32 m2 (uuidSeq + 8)))"
  define m4 where "m4 = fold (\<lambda>i m. m(seq + 8 + of_nat i := ucast (load32 m (uuidSeq + 12 + 4 * of_nat i)))) [0..<8] m3"
  have sub: "\<not> in_range x (seq + of_nat k) n" if "\<not> in_range x seq 32" "k + n \<le> 32" for x k n
    using in_range_sub [of x seq k n 32] that by auto
  have f0: "m0 x = memory st1 x" if "\<not> in_range x seq 32" for x using that by (simp add: m0_def store_bytes_apply)
  have f1: "m1 x = memory st1 x" if "\<not> in_range x seq 32" for x
    using f0 [OF that] sub [OF that, of 0 4] by (simp add: m1_def store32_apply_other)
  have f2: "m2 x = memory st1 x" if "\<not> in_range x seq 32" for x
    using f1 [OF that] sub [OF that, of 4 2] by (simp add: m2_def store16_apply_other)
  have f3: "m3 x = memory st1 x" if "\<not> in_range x seq 32" for x
    using f2 [OF that] sub [OF that, of 6 2] by (simp add: m3_def store16_apply_other)
  have src: "load32 m0 uuidSeq = load32 (memory st1) uuidSeq" "load32 m1 (uuidSeq + 4) = load32 (memory st1) (uuidSeq + 4)"
      "load32 m2 (uuidSeq + 8) = load32 (memory st1) (uuidSeq + 8)"
    using guid_source [OF apart, of m0 "memory st1" 0] guid_source [OF apart, of m1 "memory st1" 1]
      guid_source [OF apart, of m2 "memory st1" 2] f0 f1 f2 by simp_all
  let ?G = "\<lambda>i. ucast (load32 (memory st1) (uuidSeq + 12 + 4 * of_nat i))"
  have m4: "m4 x = (if in_range x (seq + 8) 8 then ?G (unat (x - (seq + 8))) else m3 x)" for x
    unfolding m4_def
  proof (rule fold_bytes)
    fix i :: nat and m
    assume i: "i < 8" and m: "\<And>x. \<not> in_range x (seq + 8) 8 \<Longrightarrow> m x = m3 x"
    have "m x = memory st1 x" if "\<not> in_range x seq 32" for x
      using f3 [OF that] m [of x] sub [OF that, of 8 8] by simp
    with guid_source [OF apart, of m "memory st1" "3 + i"] i show "ucast (load32 m (uuidSeq + 12 + 4 * of_nat i)) = ?G i"
      by (simp add: algebra_simps)
  qed simp
  then have tail: "m4 (seq + 8 + of_nat i) = ?G i" if "i < 8" for i
    using that by (simp add: m4 in_range_def unat_of_nat_addr)
  have head: "m4 (seq + of_nat k) = m3 (seq + of_nat k)" if "k < 8" for k
    using m4 [of "seq + of_nat k"] in_range_off [of k 8 8 seq] that by simp
  have low3: "m3 (seq + of_nat k) = m2 (seq + of_nat k)" if "k < 6" for k
    using in_range_off [of k 6 2 seq] that by (simp add: m3_def store16_apply_other)
  have low2: "m2 (seq + of_nat k) = m1 (seq + of_nat k)" if "k < 4" for k
    using in_range_off [of k 4 2 seq] that by (simp add: m2_def store16_apply_other)
  have "load32 m4 seq = load32 m1 seq" using head low3 low2 by (intro load_frame(2)) simp
  moreover have "load16 m4 (seq + 4) = load16 m2 (seq + 4)"
    using head [of "4 + _"] low3 [of "4 + _"] by (intro load_frame(1)) (simp add: add.assoc)
  moreover have "load16 m4 (seq + 6) = load16 m3 (seq + 6)"
    using head [of "6 + _"] by (intro load_frame(1)) (simp add: add.assoc)
  moreover have "load32 m1 seq = load32 (memory st1) uuidSeq" by (simp add: m1_def load32_store32_same src)
  moreover have "load16 m2 (seq + 4) = ucast (load32 (memory st1) (uuidSeq + 4))" by (simp add: m2_def load16_store16_same src)
  moreover have "load16 m3 (seq + 6) = ucast (load32 (memory st1) (uuidSeq + 8))" by (simp add: m3_def load16_store16_same src)
  moreover have "guid_fields seq uuidSeq m0 = m4" unfolding guid_fields_def Let_def m4_def m3_def m2_def m1_def ..
  then have "cf_make_sequence uuidSeq st = Some (Inr (st1\<lparr>memory := m4\<rparr>, seq))"
    using new by (simp add: cf_make_sequence_def sizeof_GUIDSequence_def m0_def MUST_PASS_eq)
  ultimately show ?thesis using tail by (intro exI [of _ "st1\<lparr>memory := m4\<rparr>"]) simp
qed

text \<open>
  The text of an identifier reads behind the union: its characters 16 to 27 depend on the memory that follows the 32 bytes
  of the identifier, and all fields together only fill its first eight characters.
\<close>

lemma guid_char_outside:
  assumes "16 \<le> i" "i < 28"
  shows "\<exists>k n. 32 \<le> k \<and> (\<forall>m m'. (\<forall>j < n. m (seq + of_nat (k + j)) = m' (seq + of_nat (k + j))) \<longrightarrow> guid_char m seq i = guid_char m' seq i)"
proof (cases "i < 24")
  case True
  have "guid_char m seq i = guid_char m' seq i" if "\<forall>j < 2. m (seq + of_nat (2 * i + j)) = m' (seq + of_nat (2 * i + j))" for m m'
  proof -
    have "load16 m (seq + 2 * of_nat i) = load16 m' (seq + 2 * of_nat i)"
      using that by (intro load_frame(1)) (simp add: add.assoc)
    then show ?thesis using True by (simp add: guid_char_def)
  qed
  then show ?thesis using assms by (intro exI [of _ "2 * i"] exI [of _ 2]) auto
next
  case False
  have "guid_char m seq i = guid_char m' seq i" if "\<forall>j < 4. m (seq + of_nat (4 * i + j)) = m' (seq + of_nat (4 * i + j))" for m m'
  proof -
    have "load32 m (seq + 4 * of_nat i) = load32 m' (seq + 4 * of_nat i)"
      using that by (intro load_frame(2)) (simp add: add.assoc)
    then show ?thesis using False by (simp add: guid_char_def)
  qed
  then show ?thesis using assms by (intro exI [of _ "4 * i"] exI [of _ 4]) auto
qed

end
