(* ===== verification/Spec2Isabelle.thy ===== *)
theory Spec2Isabelle
  imports Ipc_Network File_Mgr Json_Reader User_Account Kernel_Services Code_Loader Interrupts Debug_Output Devices
    Boot_Main Boot_Numbers Boot_Text Kernel_Start Cxx_Abi Device_Objects Ahci Windows Guid_Variant
begin

text \<open>
  \<^bold>\<open>The ZKA kernel.\<close> The program is the kernel of the ZKA operating system
  (\<^verbatim>\<open>src/dev/ZKAKit\<close>), freestanding C++ for AMD64 and other machines. The development
  models the AMD64 build, with and without \<open>__DEBUG__\<close>, from the byte-addressed memory up to the
  file system and the process scheduler.

  \<^bold>\<open>Conventions.\<close> Memory is a function from 64-bit addresses to bytes, and multi-byte accesses are
  little endian and wrap around. Machine integers are words of their width; signed reading is written
  \<open>sint\<close>. State is passed explicitly, in one record per component. A fallible operation returns
  \<open>abort + 'a\<close>: \<open>Stop\<close> is a kernel stop with its code, \<open>NullAccess\<close>, \<open>OutOfBounds\<close>,
  \<open>DanglingAccess\<close>, \<open>SignedOverflow\<close> and \<open>DivisionByZero\<close> are operations the language leaves undefined. A loop whose end the code does not
  guarantee is a \<open>partial_function (option)\<close>, so that \<open>None\<close> means that it does not return; where a
  property says that something is returned it states the value \<open>Some\<close>. Output to the console is
  left out, except for the messages of a kernel stop.

  \<^bold>\<open>Theories, bottom up.\<close>

  \<^item> \<open>ZKA_Prelude\<close>: types, memory with its load and store lemmas, the sequencing operator \<open>ebind\<close>, and the
    locale \<open>field_layout\<close> of structures laid out in memory (what reading a field after writing another gives).
  \<^item> \<open>Kernel_Errors\<close> (\<^verbatim>\<open>Stop.cc\<close>, \<^verbatim>\<open>LPC.cc\<close>): error codes, \<open>ke_stop\<close>, \<open>MUST_PASS\<close>.
  \<^item> \<open>Rt_Utils\<close> (\<^verbatim>\<open>Utils.cc\<close>): the string and memory routines; what copying, moving and filling
    do to memory, including the fill that covers four times its length.
  \<^item> \<open>Crc32\<close> (\<^verbatim>\<open>Crc32.cc\<close>): the table-driven checksum agrees with the bitwise definition of
    CRC-32C on seven-bit data.
  \<^item> \<open>Paging\<close> (\<^verbatim>\<open>HalPagingMgrAMD64.cc\<close>): the entry \<open>mm_map_page\<close> changes, and that its
    walk never reads the upper levels.
  \<^item> \<open>Page_Memory\<close> (\<^verbatim>\<open>BitMapMgr.cc\<close>, \<^verbatim>\<open>PageMgr.cc\<close>, \<^verbatim>\<open>Pmm.cc\<close>): all
    outcomes of an allocation, its termination, freeing, and the aliasing of fresh allocations.
  \<^item> \<open>Kernel_Heap\<close> (\<^verbatim>\<open>Heap.cc\<close>, \<^verbatim>\<open>New+Delete.cc\<close>): the block an allocation writes, allocation
    then freeing then freeing again, protection by checksum, and exhaustion.
  \<^item> \<open>Kernel_Strings\<close> (\<^verbatim>\<open>KString.cc\<close>): the operators of \<open>KString\<close> and \<open>StringBuilder\<close>.
  \<^item> \<open>ATA_PIO\<close> (\<^verbatim>\<open>ATA-PIO.cc\<close>): the driver over a device with port reads and writes; what is written is read back.
  \<^item> \<open>Drive_Mgr\<close> (\<^verbatim>\<open>DriveMgr.cc\<close>, \<^verbatim>\<open>NeFS+IO.cc\<close>): drive traits, the mount point, classification of the main drive.
  \<^item> \<open>NeFS_Layout\<close>, \<open>NeFS\<close>, \<open>NeFS_Forks\<close> (\<^verbatim>\<open>NeFS.h\<close>, \<^verbatim>\<open>NeFS.cc\<close>): the on-disk
    structures and the parser. \<open>NeFS_Create\<close> proves the creation of a catalog once inside the locale \<open>nefs_drive\<close> of
    drives that return what was written; \<open>NeFS_Correct\<close> states the properties: a created catalog is found,
    a found catalog is in the directory, and searching refines the look-up in the abstract list of catalogs.
  \<^item> \<open>Hardware_Threads\<close> (\<^verbatim>\<open>HardwareThreadScheduler.cc\<close>, \<^verbatim>\<open>Array.h\<close>): threads, and
    what a successful switch registers.
  \<^item> \<open>User_Process\<close> (\<^verbatim>\<open>UserProcessScheduler.cc\<close>, \<^verbatim>\<open>UserProcessTeam.cc\<close>): processes,
    their memory lists, spawn, exit, removal and run, on top of heap and threads. \<open>Process_Correct\<close> has the
    step relation of all operations and the invariant that the process count is the number of live members of the
    team, the outcomes of spawning, and the effects of exit and run.
  \<^item> \<open>File_Mgr\<close> (\<^verbatim>\<open>FileMgr.cc\<close>, \<^verbatim>\<open>NeFS+FileMgr.cc\<close>, \<^verbatim>\<open>FileMgr.h\<close>): the file manager on top of the
    parser and streams on top of the manager; what is created can be opened when the manager has a parser, which its
    constructor does not give it; what modes and sizes the streams pass on.
  \<^item> \<open>Ipc_Network\<close> (\<^verbatim>\<open>IPC.cc\<close>, \<^verbatim>\<open>IP.cc\<close>, \<^verbatim>\<open>NetworkDevice.cc\<close>): messages between processes; the
    delivery of a message, and the rejection of every message the kernel constructs together with the end of the current process.
  \<^item> \<open>Json_Reader\<close> (\<^verbatim>\<open>Json.h\<close>): reading the text of an object gives its members back, for any number of members.
  \<^item> \<open>User_Account\<close> (\<^verbatim>\<open>User.cc\<close>): passwords, none of which is accepted.
  \<^item> \<open>Kernel_Services\<close> (\<^verbatim>\<open>Semaphore.cc\<close>, \<^verbatim>\<open>Timer.cc\<close>, \<^verbatim>\<open>ThreadLocalStorage.cc\<close>,
    \<^verbatim>\<open>IndexableProperty.cc\<close>, \<^verbatim>\<open>MutableArray.h\<close>): mutual exclusion over every sequence of requests, a
    timer that ends in an overflow only, and the index that overwrites the name it is given.

  \<^item> \<open>Code_Loader\<close> (\<^verbatim>\<open>PEFCodeMgr.cc\<close>, \<^verbatim>\<open>CodeMgr.cc\<close>, \<^verbatim>\<open>IPEFDLLObject.cc\<close>): the loader of PEF containers
    from memory and from a path, its symbols, processes created from a routine, and shared libraries; which containers are
    accepted, and which of these paths never succeed.
  \<^item> \<open>Interrupts\<close> (\<^verbatim>\<open>HalCoreInterruptHandlerAMD64.cc\<close>, \<^verbatim>\<open>HalDescriptorLoader.cc\<close>,
    \<^verbatim>\<open>HalKernelMain.cc\<close>): fault handlers on top of the processes, the scheduler's interrupt, the dispatch of system
    calls, the interrupt table and the start of the platform.
  \<^item> \<open>Debug_Output\<close> (\<^verbatim>\<open>HalDebugOutput.cc\<close>, \<^verbatim>\<open>DebugOutput.h\<close>): the serial line and the printing of
    numbers, which can be read back.
  \<^item> \<open>Devices\<close> (\<^verbatim>\<open>PCI/\<close>, \<^verbatim>\<open>ACPIFactoryInterface.cc\<close>, \<^verbatim>\<open>HalTimerAMD64.cc\<close>,
    \<^verbatim>\<open>HalCoreScheduler.cc\<close>): configuration space, the iterator over devices, firmware tables, the high precision
    timer and the probe of processors.
  \<^item> \<open>Kernel_Start\<close> (\<^verbatim>\<open>KernelMain.cc\<close>): the installer of the file system, which needs a parser.
  \<^item> \<open>Boot_Support\<close>, \<open>Boot_Numbers\<close>, \<open>Boot_Disk\<close> (\<^verbatim>\<open>src/dev/ZBAKit\<close>): the boot loader, a program of its
    own: its string and memory routines, the loader of PE images (the sections are in place afterwards), reading files through
    the firmware, numbers, its ATA driver and the formatter. A disk is formatted at most once, and the kernel's drive manager
    recognises a disk formatted by the boot loader. \<open>Boot_Text\<close> (\<^verbatim>\<open>BootTextWriter.cc\<close>): its text output. \<open>Boot_Main\<close>
    (\<^verbatim>\<open>BootMain.cc\<close>, \<^verbatim>\<open>BootFileReader.cc\<close>): the graphics mode and the screen that is handed over, readers of
    files, and loading the kernel; what happens when a file is missing.
  \<^item> \<open>Cxx_Abi\<close> (\<^verbatim>\<open>CxxAbi-AMD64.cc\<close>): destructors run in the reverse order of their registration.
  \<^item> \<open>Device_Objects\<close> (\<^verbatim>\<open>DeviceMgr.h\<close>, \<^verbatim>\<open>src/Storage\<close>): device objects and the storage interfaces.
  \<^item> \<open>Ahci\<close> (\<^verbatim>\<open>AHCI-DMA.cc\<close>, \<^verbatim>\<open>Modules/AHCI/AHCI.h\<close>): the driver prepares command structures in memory that
    a reference controller fetches and executes: reads of up to sixteen sectors deliver the data, the set-up of a port makes it ready,
    and a read through the drive manager asks for the wrong number of sectors.
  \<^item> \<open>Framebuffer\<close> (\<^verbatim>\<open>Modules/FB\<close>): the drawing macros and the text routines, judged on the dots of the screen.
  \<^item> \<open>Windows\<close> (\<^verbatim>\<open>Modules/FB/KWindow.h\<close>): windows on the heap and their drawing; the picture of a button, and why children drift.
  \<^item> \<open>Guid_Variant\<close> (\<^verbatim>\<open>GUIDWizard.cc\<close>, \<^verbatim>\<open>Variant.cc\<close>): identifiers and variants.

  \<^bold>\<open>Code that is not modelled but called.\<close> The disk behind the drive callbacks, the ports of the controllers, device
    registers and the firmware's services are arguments, with the documented behaviour (what was written to a disk is read, a
    file is delivered in order) as the assumption of a locale or as a concrete instance in the properties. \<open>rtl_init_dll\<close> is
    an argument of \<open>Spawn\<close>; its own model is in \<open>Code_Loader\<close>.

  \<^bold>\<open>Not modelled.\<close> The NVMe declarations (the file for ATA with direct memory access holds no routine), the layers for other
    processors, the UEFI declarations, the boot loader's \<open>Main\<close> as one sequence (its steps are modelled),
    the system-call library, and \<open>hal_real_init\<close>, whose steps are modelled each for itself.
\<close>

end
